(* ===== verification/Prelude.thy ===== *)
theory Prelude
  imports Main "HOL-Library.AList"
begin

text \<open>
  What every component of the development shares.

  \<^item> Exceptions as values: the exception classes the services throw (\<open>exn\<close>).
  \<^item> Asynchronous handlers. An \<open>async\<close> method of the source runs without interruption
    between two \<open>await\<close>s and gives up the event loop at each of them. The type
    \<open>('s, 'a) prog\<close> is such a method: \<open>Return\<close>, \<open>Throw\<close>, or one atomic \<open>Step\<close> (a
    single SQL statement, one database transaction, one change of in-memory service state
    or one call to an outside system) that updates the shared state and continues with a
    program that may depend on the state it saw.
    \<open>bind\<close> is \<open>await\<close>, \<open>tryCatch\<close> is \<open>try/catch\<close>.
  \<^item> Two semantics: \<open>run\<close> executes one handler with nobody else active; \<open>reachable\<close>
    interleaves any number of handlers at their atomic steps, and \<open>advance\<close> computes one such
    step.
  \<^item> Reasoning: \<open>guar\<close> (every atomic step of a program satisfies a relation), \<open>rg\<close>
    (rely/guarantee with a postcondition), and the locale \<open>step_invariant\<close> that lifts an
    invariant of the atomic steps to every reachable state of every interleaving.
  \<^item> Tables: SQL tables as lists of rows, with the statements the services use.
\<close>

section \<open>Collections of facts\<close>

named_theorems table_simps "rewriting facts about table statements"
named_theorems guar_simps "rewriting facts about guarantees of programs"
named_theorems service_defs "definitions of the small private methods that proofs unfold"

section \<open>Exceptions\<close>

text \<open>
  The body of a Nest exception: none, a message string, or an object with a machine code
  in its \<open>error\<close> member.
\<close>

datatype body = NoBody | Msg string | Code string

text \<open>The details object of an \<open>InsufficientResources\<close> rejection.\<close>

record resource_details =
  rd_resource :: string
  rd_availableMb :: int
  rd_requiredMb :: int
  rd_totalMb :: int

datatype exn =
    BadRequestException body
  | UnauthorizedException body
  | ForbiddenException body
  | NotFoundException body
  | ConflictException body
  | InsufficientResources string resource_details
  | TooManyRequests body
  | InternalServerErrorException body
  | ServiceUnavailableException body
  | RconUnavailableError string
  | PlainError string
  | PostgresError string

section \<open>Asynchronous programs\<close>

datatype (dead 's, 'a) prog =
    Return 'a
  | Throw exn
  | Step "'s \<Rightarrow> 's" "'s \<Rightarrow> ('s, 'a) prog"

primrec bind :: "('s, 'a) prog \<Rightarrow> ('a \<Rightarrow> ('s, 'b) prog) \<Rightarrow> ('s, 'b) prog" where
  "bind (Return x) f = f x"
| "bind (Throw e) f = Throw e"
| "bind (Step u k) f = Step u (\<lambda>s. bind (k s) f)"

primrec tryCatch :: "('s, 'a) prog \<Rightarrow> (exn \<Rightarrow> ('s, 'a) prog) \<Rightarrow> ('s, 'a) prog" where
  "tryCatch (Return x) h = Return x"
| "tryCatch (Throw e) h = h e"
| "tryCatch (Step u k) h = Step u (\<lambda>s. tryCatch (k s) h)"

lemma bind_cong [fundef_cong]: "p = p' \<Longrightarrow> (\<And>x. f x = g x) \<Longrightarrow> bind p f = bind p' g"
  by (metis ext)

text \<open>
  \<open>try { ... } catch { ... }\<close> whose continuation after a normal result is outside the
  \<open>try\<close>: the two outcomes are told apart by a sum.
\<close>

primrec attempt :: "('s, 'a) prog \<Rightarrow> ('s, exn + 'a) prog" where
  "attempt (Return x) = Return (Inr x)"
| "attempt (Throw e) = Return (Inl e)"
| "attempt (Step u k) = Step u (\<lambda>s. attempt (k s))"

text \<open>The elementary steps: read, update, update with a result, fail with a given test.\<close>

definition get :: "('s \<Rightarrow> 'a) \<Rightarrow> ('s, 'a) prog" where
  "get f = Step (\<lambda>s. s) (\<lambda>s. Return (f s))"

definition modify :: "('s \<Rightarrow> 's) \<Rightarrow> ('s, unit) prog" where
  "modify f = Step f (\<lambda>s. Return ())"

text \<open>
  One SQL statement or one transaction: the function gives the outcome and the new state.
  An exception inside a transaction rolls it back, so the state changes only with \<open>Inr\<close>.
\<close>

definition atomically :: "('s \<Rightarrow> exn + 'a \<times> 's) \<Rightarrow> ('s, 'a) prog" where
  "atomically f =
     Step (\<lambda>s. case f s of Inl e \<Rightarrow> s | Inr (x, s') \<Rightarrow> s')
          (\<lambda>s. case f s of Inl e \<Rightarrow> Throw e | Inr (x, s') \<Rightarrow> Return x)"

definition liftE :: "exn + 'a \<Rightarrow> ('s, 'a) prog" where
  "liftE r = (case r of Inl e \<Rightarrow> Throw e | Inr x \<Rightarrow> Return x)"

fun seqE :: "exn + 'a \<Rightarrow> ('a \<Rightarrow> exn + 'b) \<Rightarrow> exn + 'b" where
  "seqE (Inl e) f = Inl e"
| "seqE (Inr x) f = f x"

definition guardE :: "bool \<Rightarrow> exn \<Rightarrow> exn + unit" where
  "guardE b e = (if b then Inr () else Inl e)"

lemma liftE_simps [simp]: "liftE (Inl e) = Throw e" "liftE (Inr x) = Return x"
  by (simp_all add: liftE_def)

lemma guardE_simps [simp]:
  "guardE True e = Inr ()" "guardE False e = Inl e"
  "guardE b e = Inr u \<longleftrightarrow> b" "guardE b e = Inl e' \<longleftrightarrow> \<not> b \<and> e' = e"
  by (auto simp: guardE_def)

lemma seqE_Inr_iff: "seqE r f = Inr y \<longleftrightarrow> (\<exists>x. r = Inr x \<and> f x = Inr y)"
  by (cases r) auto

lemma seqE_Inl_iff: "seqE r f = Inl e \<longleftrightarrow> r = Inl e \<or> (\<exists>x. r = Inr x \<and> f x = Inl e)"
  by (cases r) auto

lemma bind_Return [simp]: "bind p Return = p"
  by (induction p) auto

lemma bind_assoc: "bind (bind p f) g = bind p (\<lambda>x. bind (f x) g)"
  by (induction p) auto

lemma bind_attempt:
  "bind (attempt p) (\<lambda>r. case r of Inl e \<Rightarrow> h e | Inr x \<Rightarrow> Return x) = tryCatch p h"
  by (induction p) auto

section \<open>Running one handler alone\<close>

primrec run :: "('s, 'a) prog \<Rightarrow> 's \<Rightarrow> (exn + 'a) \<times> 's" where
  "run (Return x) = (\<lambda>s. (Inr x, s))"
| "run (Throw e) = (\<lambda>s. (Inl e, s))"
| "run (Step u k) = (\<lambda>s. run (k s) (u s))"

lemma run_bind:
  "run (bind p f) s = (case run p s of (Inl e, s') \<Rightarrow> (Inl e, s') | (Inr x, s') \<Rightarrow> run (f x) s')"
  by (induction p arbitrary: s) auto

lemma run_bind_Inr:
  "run (bind p f) s = (Inr y, t) \<longleftrightarrow> (\<exists>x s'. run p s = (Inr x, s') \<and> run (f x) s' = (Inr y, t))"
  by (auto simp: run_bind split: prod.splits sum.splits)

lemma run_tryCatch:
  "run (tryCatch p h) s = (case run p s of (Inl e, s') \<Rightarrow> run (h e) s' | (Inr x, s') \<Rightarrow> (Inr x, s'))"
  by (induction p arbitrary: s) auto

lemma run_attempt:
  "run (attempt p) s = (case run p s of (r, s') \<Rightarrow> (Inr r, s'))"
  by (induction p arbitrary: s) auto

lemma run_get [simp]: "run (get f) s = (Inr (f s), s)"
  by (simp add: get_def)

lemma run_modify [simp]: "run (modify f) s = (Inr (), f s)"
  by (simp add: modify_def)

lemma run_atomically:
  "run (atomically f) s = (case f s of Inl e \<Rightarrow> (Inl e, s) | Inr (x, s') \<Rightarrow> (Inr x, s'))"
  by (auto simp: atomically_def split: sum.splits)

lemma run_atomically_Inr: "run (atomically f) s = (Inr x, t) \<longleftrightarrow> f s = Inr (x, t)"
  by (auto simp: run_atomically split: sum.splits prod.splits)

lemma run_liftE: "run (liftE r) s = (r, s)"
  by (cases r) auto

lemmas run_simps = run_bind run_tryCatch run_attempt run_atomically run_liftE


section \<open>Guarantees of the atomic steps\<close>

text \<open>
  \<open>guar G p\<close>: whatever the other handlers do between the steps of \<open>p\<close>, each atomic step of
  \<open>p\<close> takes the state it finds to a \<open>G\<close>-related one.
\<close>

primrec guar :: "('s \<Rightarrow> 's \<Rightarrow> bool) \<Rightarrow> ('s, 'a) prog \<Rightarrow> bool" where
  "guar G (Return x) = True"
| "guar G (Throw e) = True"
| "guar G (Step u k) = (\<forall>s. G s (u s) \<and> guar G (k s))"

lemma guar_bindI: "guar G p \<Longrightarrow> (\<And>x. guar G (f x)) \<Longrightarrow> guar G (bind p f)"
  by (induction p) auto

lemma guar_tryCatchI: "guar G p \<Longrightarrow> (\<And>e. guar G (h e)) \<Longrightarrow> guar G (tryCatch p h)"
  by (induction p) auto

lemma guar_attempt [guar_simps]: "guar G (attempt p) = guar G p"
  by (induction p) auto

lemma guar_get [guar_simps]: "guar G (get f) = (\<forall>s. G s s)"
  by (simp add: get_def)

lemma guar_modify [guar_simps]: "guar G (modify f) = (\<forall>s. G s (f s))"
  by (simp add: modify_def)

lemma guar_liftE [guar_simps]: "guar G (liftE r)"
  by (cases r) auto

lemma guar_atomicallyI:
  assumes "\<And>s. G s s" and "\<And>s x s'. f s = Inr (x, s') \<Longrightarrow> G s s'"
  shows "guar G (atomically f)"
  using assms by (auto simp: atomically_def split: sum.splits)

lemma guar_mono: "guar G p \<Longrightarrow> (\<And>s s'. G s s' \<Longrightarrow> H s s') \<Longrightarrow> guar H p"
  by (induction p) auto

lemmas guar_intros = guar_bindI guar_tryCatchI

lemma guar_run:
  assumes "guar G p" and "\<And>s. G s s" and "\<And>s t u. G s t \<Longrightarrow> G t u \<Longrightarrow> G s u"
  shows "G s (snd (run p s))"
  using assms(1)
proof (induction p arbitrary: s)
  case (Step u k)
  then have "G s (u s)" and "G (u s) (snd (run (k s) (u s)))" by auto
  then show ?case by (auto intro: assms(3))
qed (auto intro: assms(2))

text \<open>
  \<open>yields P p\<close>: every value \<open>p\<close> can return, whatever it reads, satisfies \<open>P\<close>. With it a
  guarantee of the continuation may depend on what was returned.
\<close>

primrec yields :: "('a \<Rightarrow> bool) \<Rightarrow> ('s, 'a) prog \<Rightarrow> bool" where
  "yields P (Return x) = P x"
| "yields P (Throw e) = True"
| "yields P (Step u k) = (\<forall>s. yields P (k s))"

lemma yields_bindI: "yields P p \<Longrightarrow> (\<And>x. P x \<Longrightarrow> yields Q (f x)) \<Longrightarrow> yields Q (bind p f)"
  by (induction p) auto

lemma yields_True [simp]: "yields (\<lambda>_. True) p"
  by (induction p) auto

lemma yields_run: "yields P p \<Longrightarrow> run p s = (Inr x, s') \<Longrightarrow> P x"
  by (induction p arbitrary: s) auto

lemma guar_bind_yieldsI:
  "guar G p \<Longrightarrow> yields P p \<Longrightarrow> (\<And>x. P x \<Longrightarrow> guar G (f x)) \<Longrightarrow> guar G (bind p f)"
  by (induction p) auto

text \<open>\<open>ends_within n p\<close>: \<open>p\<close> ends after at most \<open>n\<close> atomic steps, whatever happens between them.\<close>

fun ends_within :: "nat \<Rightarrow> ('s, 'a) prog \<Rightarrow> bool" where
  "ends_within n (Return x) = True"
| "ends_within n (Throw e) = True"
| "ends_within 0 (Step u k) = False"
| "ends_within (Suc n) (Step u k) = (\<forall>s. ends_within n (k s))"

lemma ends_within_mono: "ends_within m p \<Longrightarrow> m \<le> n \<Longrightarrow> ends_within n p"
proof (induction m p arbitrary: n rule: ends_within.induct)
  case (4 m u k)
  then show ?case by (cases n) auto
qed auto

lemma ends_within_bind: "ends_within m p \<Longrightarrow> (\<And>x. ends_within n (f x)) \<Longrightarrow> ends_within (m + n) (bind p f)"
proof (induction m p rule: ends_within.induct)
  case (1 m x)
  then show ?case using ends_within_mono [of n "f x" "m + n"] by simp
qed auto

lemma ends_within_attempt [simp]: "ends_within n (attempt p) = ends_within n p"
  by (induction n p rule: ends_within.induct) auto

text \<open>
  \<open>rg R G Q p s\<close>: started in \<open>s\<close>, with other handlers free to make \<open>R\<close>-steps before each
  atomic step of \<open>p\<close>, every step of \<open>p\<close> is a \<open>G\<close>-step and the outcome satisfies \<open>Q\<close> in the
  state right after the last step of \<open>p\<close>.
\<close>

primrec rg :: "('s \<Rightarrow> 's \<Rightarrow> bool) \<Rightarrow> ('s \<Rightarrow> 's \<Rightarrow> bool) \<Rightarrow> (exn + 'a \<Rightarrow> 's \<Rightarrow> bool)
    \<Rightarrow> ('s, 'a) prog \<Rightarrow> 's \<Rightarrow> bool" where
  "rg R G Q (Return x) = (\<lambda>s. Q (Inr x) s)"
| "rg R G Q (Throw e) = (\<lambda>s. Q (Inl e) s)"
| "rg R G Q (Step u k) = (\<lambda>s. \<forall>s'. R s s' \<longrightarrow> G s' (u s') \<and> rg R G Q (k s') (u s'))"

lemma rg_bind:
  "rg R G Q (bind p f) s =
   rg R G (\<lambda>r s. case r of Inl e \<Rightarrow> Q (Inl e) s | Inr x \<Rightarrow> rg R G Q (f x) s) p s"
  by (induction p arbitrary: s) auto

lemma rg_tryCatch:
  "rg R G Q (tryCatch p h) s =
   rg R G (\<lambda>r s. case r of Inl e \<Rightarrow> rg R G Q (h e) s | Inr x \<Rightarrow> Q (Inr x) s) p s"
  by (induction p arbitrary: s) auto

lemma rg_attempt:
  "rg R G Q (attempt p) s = rg R G (\<lambda>r s. Q (Inr r) s) p s"
  by (induction p arbitrary: s) auto

lemma rg_get: "rg R G Q (get f) s = (\<forall>s'. R s s' \<longrightarrow> G s' s' \<and> Q (Inr (f s')) s')"
  by (simp add: get_def)

lemma rg_modify: "rg R G Q (modify f) s = (\<forall>s'. R s s' \<longrightarrow> G s' (f s') \<and> Q (Inr ()) (f s'))"
  by (simp add: modify_def)

lemma rg_liftE: "rg R G Q (liftE r) s = Q r s"
  by (cases r) auto

lemma rg_atomically:
  "rg R G Q (atomically f) s =
   (\<forall>s'. R s s' \<longrightarrow> (case f s' of Inl e \<Rightarrow> G s' s' \<and> Q (Inl e) s'
                              | Inr (x, s'') \<Rightarrow> G s' s'' \<and> Q (Inr x) s''))"
  by (auto simp: atomically_def split: sum.splits prod.splits)

lemmas rg_simps = rg_bind rg_tryCatch rg_attempt rg_get rg_modify rg_liftE rg_atomically

lemma rg_mono:
  "rg R G Q p s \<Longrightarrow> (\<And>s s'. G s s' \<Longrightarrow> G' s s') \<Longrightarrow> (\<And>r s. Q r s \<Longrightarrow> Q' r s) \<Longrightarrow> rg R G' Q' p s"
  by (induction p arbitrary: s) auto

text \<open>
  The rule for a first phase \<open>p\<close> known by its guarantee and by what it returns, while a
  condition \<open>I\<close> is kept both by it and by the environment.
\<close>

lemma rg_bind_guarI:
  assumes "guar H p" and "yields P p" and "I s" and "\<And>s s'. H s s' \<Longrightarrow> G s s'"
    and "\<And>s s'. R s s' \<Longrightarrow> I s \<Longrightarrow> I s'" and "\<And>s s'. H s s' \<Longrightarrow> I s \<Longrightarrow> I s'"
    and "\<And>x s. P x \<Longrightarrow> I s \<Longrightarrow> rg R G Q (f x) s" and "\<And>e s. I s \<Longrightarrow> Q (Inl e) s"
  shows "rg R G Q (bind p f) s"
  using assms(1-3)
proof (induction p arbitrary: s)
  case (Step u k)
  have "G s' (u s') \<and> rg R G Q (bind (k s') f) (u s')" if "R s s'" for s'
  proof -
    from Step.prems(1) have h: "H s' (u s')" by simp
    have "I (u s')" using assms(6) [OF h assms(5) [OF that Step.prems(3)]] .
    then have "rg R G Q (bind (k s') f) (u s')" using Step by (intro Step.IH) auto
    with h assms(4) show ?thesis by blast
  qed
  then show ?case by simp
qed (use assms(7,8) in auto)

lemma rg_guarI: "guar H p \<Longrightarrow> (\<And>s s'. H s s' \<Longrightarrow> G s s') \<Longrightarrow> (\<And>r s. Q r s) \<Longrightarrow> rg R G Q p s"
  by (induction p arbitrary: s) auto

lemma guar_conj: "guar G p \<Longrightarrow> guar H p \<Longrightarrow> guar (\<lambda>s s'. G s s' \<and> H s s') p"
  by (induction p) auto

text \<open>The run of one handler alone is the special case of an idle environment.\<close>

lemma rg_run: "rg (=) (\<lambda>_ _. True) Q p s = (case run p s of (r, s') \<Rightarrow> Q r s')"
  by (induction p arbitrary: s) auto

section \<open>Interleaving\<close>

text \<open>Drop the result: handlers of different result types can then share one pool.\<close>

definition void :: "('s, 'a) prog \<Rightarrow> ('s, unit) prog" where
  "void p = bind p (\<lambda>_. Return ())"

lemma guar_void [guar_simps]: "guar G (void p) = guar G p"
  by (induction p) (auto simp: void_def)

text \<open>
  The configurations of the event loop: the shared state and the pool of handlers in
  flight. At any moment a new request may start a handler, one pending handler makes one
  atomic step, the environment acts, or the process is restarted and loses its handlers.
\<close>

inductive reachable :: "(('s, 'a) prog \<Rightarrow> bool) \<Rightarrow> ('s \<Rightarrow> 's \<Rightarrow> bool) \<Rightarrow> 's \<Rightarrow> 's \<times> ('s, 'a) prog list \<Rightarrow> bool"
  for client :: "('s, 'a) prog \<Rightarrow> bool" and env :: "'s \<Rightarrow> 's \<Rightarrow> bool" and s0 :: 's where
  reach_init: "reachable client env s0 (s0, [])"
| reach_spawn: "reachable client env s0 (s, ts) \<Longrightarrow> client p \<Longrightarrow> reachable client env s0 (s, ts @ [p])"
| reach_step: "reachable client env s0 (s, ts) \<Longrightarrow> i < length ts \<Longrightarrow> ts ! i = Step u k \<Longrightarrow>
    reachable client env s0 (u s, ts[i := k s])"
| reach_env: "reachable client env s0 (s, ts) \<Longrightarrow> env s s' \<Longrightarrow> reachable client env s0 (s', ts)"
| reach_restart: "reachable client env s0 (s, ts) \<Longrightarrow> reachable client env s0 (s, [])"

lemma reachable_one: "client p \<Longrightarrow> reachable client env s0 (s0, [p])"
  using reach_spawn [where ts = "[]" and client = client and s = s0] reach_init [of client env s0] by simp

lemma reachable_two: "client p \<Longrightarrow> client q \<Longrightarrow> reachable client env s0 (s0, [p, q])"
  using reach_spawn [OF reachable_one, where client = client and s0 = s0] by simp

text \<open>One atomic step of the handler at a position of the pool, if it is still running.\<close>

fun advance :: "nat \<Rightarrow> 's \<times> ('s, 'a) prog list \<Rightarrow> 's \<times> ('s, 'a) prog list" where
  "advance i (s, ts) =
     (if i < length ts then (case ts ! i of Step u k \<Rightarrow> (u s, ts[i := k s]) | _ \<Rightarrow> (s, ts)) else (s, ts))"

lemma reachable_advance: "reachable client env s0 c \<Longrightarrow> reachable client env s0 (advance i c)"
  by (cases c) (auto split: prog.splits intro: reach_step)

lemma reachable_schedule:
  "reachable client env s0 c \<Longrightarrow> reachable client env s0 (foldl (\<lambda>c i. advance i c) c is)"
  by (induction "is" arbitrary: c) (auto simp: reachable_advance)

text \<open>
  The contract between a service and the event loop: the service promises a guarantee of
  the atomic steps of each of its handlers; an invariant kept by that guarantee and by the
  environment then holds in every reachable state, whatever is interleaved with what.
\<close>

locale step_invariant =
  fixes client :: "('s, 'a) prog \<Rightarrow> bool"
    and env :: "'s \<Rightarrow> 's \<Rightarrow> bool"
    and G :: "'s \<Rightarrow> 's \<Rightarrow> bool"
    and inv :: "'s \<Rightarrow> bool"
  assumes client_guar: "client p \<Longrightarrow> guar G p"
    and G_inv: "G s s' \<Longrightarrow> inv s \<Longrightarrow> inv s'"
    and env_inv: "env s s' \<Longrightarrow> inv s \<Longrightarrow> inv s'"
begin

lemma reachable_pool_guar:
  assumes "reachable client env s0 c"
  shows "\<forall>p \<in> set (snd c). guar G p"
  using assms
proof (induction rule: reachable.induct)
  case (reach_spawn s ts p)
  then show ?case by (auto dest: client_guar)
next
  case (reach_step s ts i u k)
  then have "guar G (Step u k)" by (metis nth_mem snd_conv)
  moreover have "set (ts[i := k s]) \<subseteq> insert (k s) (set ts)" by (rule set_update_subset_insert)
  ultimately show ?case using reach_step.IH by auto
qed auto

lemma reachable_inv:
  assumes "reachable client env s0 c" and "inv s0"
  shows "inv (fst c)"
  using assms
proof (induction rule: reachable.induct)
  case (reach_step s ts i u k)
  from reachable_pool_guar [OF reach_step.hyps(1)] reach_step.hyps(2,3)
  have "guar G (Step u k)" by (metis nth_mem snd_conv)
  then have "G s (u s)" by simp
  with reach_step show ?case by (auto dest: G_inv)
qed (auto dest: env_inv)

text \<open>Every step of a handler taken from a reachable configuration is a guarantee step.\<close>

lemma reachable_step_G:
  assumes "reachable client env s0 (s, ts)" and "i < length ts" and "ts ! i = Step u k"
  shows "G s (u s)"
proof -
  from reachable_pool_guar [OF assms(1)] assms(2,3) have "guar G (Step u k)"
    by (metis nth_mem snd_conv)
  then show ?thesis by simp
qed

lemma advance_G:
  assumes "reachable client env s0 c" and "\<And>s. G s s"
  shows "G (fst c) (fst (advance i c))"
  using assms by (cases c) (auto split: prog.splits intro: reachable_step_G)

end

text \<open>
  A credential that can be used once. Using it is one atomic operation that needs the
  credential to be live and (in a well-formed state \<open>wf\<close>) ends its life, and no step of any
  handler revives it; then after one success every later use fails, whatever happens in
  between. \<open>'p\<close> is what else a use depends on.
\<close>

locale single_use = step_invariant client env G "\<lambda>s. \<not> live s"
  for client :: "('s, 'a) prog \<Rightarrow> bool" and env :: "'s \<Rightarrow> 's \<Rightarrow> bool" and G :: "'s \<Rightarrow> 's \<Rightarrow> bool"
    and live :: "'s \<Rightarrow> bool" +
  fixes wf :: "'p \<Rightarrow> 's \<Rightarrow> bool"
    and consume :: "'p \<Rightarrow> 's \<Rightarrow> exn + 'b \<times> 's"
  assumes consume_needs: "consume p s = Inr x \<Longrightarrow> live s"
    and consume_spends: "wf p s \<Longrightarrow> consume p s = Inr (y, s') \<Longrightarrow> \<not> live s'"
begin

lemma consumed_once:
  assumes "wf p s" and "consume p s = Inr (y, s')" and "reachable client env s' c"
  shows "\<exists>e. consume q (fst c) = Inl e"
proof -
  have "\<not> live (fst c)" using reachable_inv [OF assms(3)] consume_spends [OF assms(1,2)] by blast
  then show ?thesis using consume_needs by (cases "consume q (fst c)") auto
qed

end

section \<open>Tables\<close>

text \<open>
  A table is the list of its rows. \<open>SELECT ... WHERE P LIMIT 1\<close> is \<open>List.find P\<close>, a plain
  \<open>SELECT\<close> is \<open>filter P\<close>; \<open>UPDATE\<close> and \<open>DELETE\<close> are:
\<close>

definition update_where :: "('r \<Rightarrow> bool) \<Rightarrow> ('r \<Rightarrow> 'r) \<Rightarrow> 'r list \<Rightarrow> 'r list" where
  "update_where P f t = map (\<lambda>r. if P r then f r else r) t"

definition delete_where :: "('r \<Rightarrow> bool) \<Rightarrow> 'r list \<Rightarrow> 'r list" where
  "delete_where P t = filter (\<lambda>r. \<not> P r) t"

lemma update_where_Nil [simp]: "update_where P f [] = []"
  and update_where_Cons [simp]:
    "update_where P f (r # t) = (if P r then f r else r) # update_where P f t"
  by (simp_all add: update_where_def)

lemma delete_where_Nil [simp]: "delete_where P [] = []"
  and delete_where_Cons [simp]:
    "delete_where P (r # t) = (if P r then delete_where P t else r # delete_where P t)"
  by (simp_all add: delete_where_def)

lemma set_delete_where [simp, table_simps]: "set (delete_where P t) = {r \<in> set t. \<not> P r}"
  by (auto simp: delete_where_def)

lemma set_update_where [table_simps]:
  "set (update_where P f t) = {r \<in> set t. \<not> P r} \<union> f ` {r \<in> set t. P r}"
  by (auto simp: update_where_def)

lemma length_update_where [simp]: "length (update_where P f t) = length t"
  by (simp add: update_where_def)

lemma update_where_none: "(\<And>r. r \<in> set t \<Longrightarrow> \<not> P r) \<Longrightarrow> update_where P f t = t"
  by (induction t) auto

lemma delete_where_none: "(\<And>r. r \<in> set t \<Longrightarrow> \<not> P r) \<Longrightarrow> delete_where P t = t"
  by (induction t) auto

lemma map_update_where:
  "(\<And>r. P r \<Longrightarrow> g (f r) = g r) \<Longrightarrow> map g (update_where P f t) = map g t"
  by (induction t) auto

lemma map_delete_where_subset: "set (map g (delete_where P t)) \<subseteq> set (map g t)"
  by auto

lemma distinct_map_delete_where: "distinct (map g t) \<Longrightarrow> distinct (map g (delete_where P t))"
  by (induction t) auto

lemma find_update_where:
  assumes "\<And>r. P r \<Longrightarrow> Q (f r) = Q r"
  shows "List.find Q (update_where P f t) = map_option (\<lambda>r. if P r then f r else r) (List.find Q t)"
  using assms by (induction t) auto

lemma find_delete_where:
  "(\<And>r. Q r \<Longrightarrow> \<not> P r) \<Longrightarrow> List.find Q (delete_where P t) = List.find Q t"
  by (induction t) auto

lemma find_Some_mem: "List.find P t = Some r \<Longrightarrow> r \<in> set t \<and> P r"
  by (induction t) (auto split: if_splits)

lemma find_None_iff2: "List.find P t = None \<longleftrightarrow> (\<forall>r \<in> set t. \<not> P r)"
  by (induction t) auto

lemma find_append: "List.find P (xs @ ys) = (case List.find P xs of None \<Rightarrow> List.find P ys | Some r \<Rightarrow> Some r)"
  by (induction xs) auto

text \<open>On a table with a key column, the row found by its key is the only one with it.\<close>

lemma distinct_key_unique:
  "distinct (map g t) \<Longrightarrow> r \<in> set t \<Longrightarrow> r' \<in> set t \<Longrightarrow> g r = g r' \<Longrightarrow> r = r'"
  by (auto simp: distinct_map inj_on_def)

lemma find_key_Some:
  assumes "distinct (map g t)" and "r \<in> set t"
  shows "List.find (\<lambda>x. g x = g r) t = Some r"
proof -
  from assms(2) obtain r' where r': "List.find (\<lambda>x. g x = g r) t = Some r'"
    by (cases "List.find (\<lambda>x. g x = g r) t") (auto simp: find_None_iff2)
  then have "r' \<in> set t" and "g r' = g r" by (auto dest: find_Some_mem)
  with assms have "r' = r" by (auto dest: distinct_key_unique)
  with r' show ?thesis by simp
qed

lemma find_key_and:
  assumes "distinct (map g t)"
  shows "List.find (\<lambda>r. g r = k \<and> P r) t =
    (case List.find (\<lambda>r. g r = k) t of None \<Rightarrow> None | Some r \<Rightarrow> if P r then Some r else None)"
  using assms
proof (induction t)
  case (Cons x t)
  show ?case
  proof (cases "g x = k")
    case True
    have "g y \<noteq> k" if "y \<in> set t" for y using Cons.prems True that by (auto simp: image_iff)
    then have "List.find (\<lambda>r. g r = k \<and> P r) t = None" by (auto simp: find_None_iff2)
    with True show ?thesis by auto
  next
    case False
    with Cons show ?thesis by auto
  qed
qed simp

end
