(* ===== verification/JsRegex.thy ===== *)
theory JsRegex
  imports Prelude
begin

text \<open>
  The regular expressions of the source (all of them anchored with \<open>^\<close> and \<open>$\<close>, without
  back-references and look-around) as an executable matcher by Brzozowski derivatives, with
  the proof that it decides the language of the expression.
\<close>

datatype rx =
    RZero
  | REps
  | RCls "char \<Rightarrow> bool"
  | RCat rx rx
  | RAlt rx rx
  | RStar rx

inductive_set star_lang :: "string set \<Rightarrow> string set" for L :: "string set" where
  star_Nil: "[] \<in> star_lang L"
| star_app: "xs \<in> L \<Longrightarrow> ys \<in> star_lang L \<Longrightarrow> xs @ ys \<in> star_lang L"

primrec lang :: "rx \<Rightarrow> string set" where
  "lang RZero = {}"
| "lang REps = {[]}"
| "lang (RCls P) = {[c] | c. P c}"
| "lang (RCat r q) = {xs @ ys | xs ys. xs \<in> lang r \<and> ys \<in> lang q}"
| "lang (RAlt r q) = lang r \<union> lang q"
| "lang (RStar r) = star_lang (lang r)"

primrec nullable :: "rx \<Rightarrow> bool" where
  "nullable RZero = False"
| "nullable REps = True"
| "nullable (RCls P) = False"
| "nullable (RCat r q) = (nullable r \<and> nullable q)"
| "nullable (RAlt r q) = (nullable r \<or> nullable q)"
| "nullable (RStar r) = True"

text \<open>Constructors that drop empty alternatives keep the derivatives small.\<close>

fun mkAlt :: "rx \<Rightarrow> rx \<Rightarrow> rx" where
  "mkAlt RZero q = q"
| "mkAlt r RZero = r"
| "mkAlt r q = RAlt r q"

fun mkCat :: "rx \<Rightarrow> rx \<Rightarrow> rx" where
  "mkCat RZero q = RZero"
| "mkCat REps q = q"
| "mkCat r q = RCat r q"

primrec deriv :: "char \<Rightarrow> rx \<Rightarrow> rx" where
  "deriv c RZero = RZero"
| "deriv c REps = RZero"
| "deriv c (RCls P) = (if P c then REps else RZero)"
| "deriv c (RCat r q) =
     (if nullable r then mkAlt (mkCat (deriv c r) q) (deriv c q) else mkCat (deriv c r) q)"
| "deriv c (RAlt r q) = mkAlt (deriv c r) (deriv c q)"
| "deriv c (RStar r) = mkCat (deriv c r) (RStar r)"

primrec matches :: "rx \<Rightarrow> string \<Rightarrow> bool" where
  "matches r [] = nullable r"
| "matches r (c # cs) = matches (deriv c r) cs"

section \<open>Derived forms\<close>

abbreviation rplus :: "rx \<Rightarrow> rx" where
  "rplus r \<equiv> RCat r (RStar r)"

abbreviation ropt :: "rx \<Rightarrow> rx" where
  "ropt r \<equiv> RAlt REps r"

primrec rlit :: "string \<Rightarrow> rx" where
  "rlit [] = REps"
| "rlit (c # cs) = RCat (RCls (\<lambda>x. x = c)) (rlit cs)"

primrec rtimes :: "nat \<Rightarrow> rx \<Rightarrow> rx" where
  "rtimes 0 r = REps"
| "rtimes (Suc n) r = RCat r (rtimes n r)"

primrec rupto :: "nat \<Rightarrow> rx \<Rightarrow> rx" where
  "rupto 0 r = REps"
| "rupto (Suc n) r = ropt (RCat r (rupto n r))"

definition rbetween :: "nat \<Rightarrow> nat \<Rightarrow> rx \<Rightarrow> rx" where
  "rbetween m n r = RCat (rtimes m r) (rupto (n - m) r)"

section \<open>The matcher decides the language\<close>

lemma nullable_lang: "nullable r \<longleftrightarrow> [] \<in> lang r"
  by (induction r) (auto intro: star_Nil)

lemma lang_mkAlt [simp]: "lang (mkAlt r q) = lang r \<union> lang q"
  by (cases "(r, q)" rule: mkAlt.cases) auto

lemma lang_mkCat [simp]: "lang (mkCat r q) = lang (RCat r q)"
  by (cases "(r, q)" rule: mkCat.cases) auto

lemma star_lang_Cons:
  "c # cs \<in> star_lang L \<longleftrightarrow> (\<exists>xs ys. cs = xs @ ys \<and> c # xs \<in> L \<and> ys \<in> star_lang L)"
  (is "?lhs \<longleftrightarrow> ?rhs")
proof
  show "?lhs \<Longrightarrow> ?rhs"
  proof (induction "c # cs" rule: star_lang.induct)
    case (star_app xs ys)
    then show ?case by (cases xs) auto
  qed
next
  assume ?rhs
  then show ?lhs by (metis append_Cons star_app)
qed

lemma lang_deriv: "lang (deriv c r) = {cs. c # cs \<in> lang r}"
proof (induction r)
  case (RCat r q)
  have "c # cs \<in> lang (RCat r q) \<longleftrightarrow>
      (\<exists>xs ys. cs = xs @ ys \<and> c # xs \<in> lang r \<and> ys \<in> lang q) \<or> [] \<in> lang r \<and> c # cs \<in> lang q" for cs
    by (auto simp: Cons_eq_append_conv)
  then show ?case using RCat.IH by (auto simp: nullable_lang)
next
  case (RStar r)
  then show ?case by (auto simp: star_lang_Cons)
qed auto

theorem matches_lang: "matches r s \<longleftrightarrow> s \<in> lang r"
  by (induction s arbitrary: r) (auto simp: nullable_lang lang_deriv)

text \<open>Shapes that the components reason about.\<close>

lemma star_cls: "s \<in> star_lang {[c] | c. P c} \<longleftrightarrow> list_all P s"
proof
  show "s \<in> star_lang {[c] | c. P c} \<Longrightarrow> list_all P s"
    by (induction rule: star_lang.induct) auto
  show "list_all P s \<Longrightarrow> s \<in> star_lang {[c] | c. P c}"
  proof (induction s)
    case (Cons c s)
    then have "[c] @ s \<in> star_lang {[c] | c. P c}" by (intro star_app) auto
    then show ?case by simp
  qed (simp add: star_Nil)
qed

lemma lang_cls_cat: "s \<in> lang (RCat (RCls P) q) \<longleftrightarrow> (\<exists>c t. s = c # t \<and> P c \<and> t \<in> lang q)"
  by auto (metis append_Cons append_Nil)

lemma lang_rtimes_cls: "s \<in> lang (rtimes n (RCls P)) \<longleftrightarrow> length s = n \<and> list_all P s"
proof (induction n arbitrary: s)
  case (Suc n)
  show ?case unfolding rtimes.simps lang_cls_cat Suc.IH by (cases s) auto
qed auto

lemma lang_rupto_cls: "s \<in> lang (rupto n (RCls P)) \<longleftrightarrow> length s \<le> n \<and> list_all P s"
proof (induction n arbitrary: s)
  case (Suc n)
  have "s \<in> lang (rupto (Suc n) (RCls P)) \<longleftrightarrow> s = [] \<or> s \<in> lang (RCat (RCls P) (rupto n (RCls P)))"
    unfolding rupto.simps lang.simps(5) by (simp del: lang.simps(4))
  then show ?case unfolding lang_cls_cat Suc.IH by (cases s) auto
qed auto

lemma matches_rbetween_cls:
  assumes "m \<le> n"
  shows "matches (rbetween m n (RCls P)) s \<longleftrightarrow> m \<le> length s \<and> length s \<le> n \<and> list_all P s"
proof
  assume "matches (rbetween m n (RCls P)) s"
  then show "m \<le> length s \<and> length s \<le> n \<and> list_all P s"
    using assms by (auto simp: matches_lang rbetween_def lang_rtimes_cls lang_rupto_cls)
next
  assume "m \<le> length s \<and> length s \<le> n \<and> list_all P s"
  then have "take m s \<in> lang (rtimes m (RCls P))" "drop m s \<in> lang (rupto (n - m) (RCls P))"
    by (auto simp: lang_rtimes_cls lang_rupto_cls list_all_iff dest: in_set_takeD in_set_dropD)
  then show "matches (rbetween m n (RCls P)) s"
    unfolding matches_lang rbetween_def lang.simps
    by (metis (mono_tags, lifting) append_take_drop_id mem_Collect_eq)
qed

lemma matches_rtimes_cls: "matches (rtimes n (RCls P)) s \<longleftrightarrow> length s = n \<and> list_all P s"
  by (simp add: matches_lang lang_rtimes_cls)

lemma matches_rplus_cls: "matches (rplus (RCls P)) s \<longleftrightarrow> s \<noteq> [] \<and> list_all P s"
proof (cases s)
  case (Cons c cs)
  then show ?thesis by (auto simp: matches_lang star_cls) (metis append_Cons append_Nil)
qed (simp add: matches_lang)

end
