(* ===== verification/JsString.thy ===== *)
theory JsString
  imports JsRegex
begin

text \<open>
  The string operations the source uses. A JavaScript string is a \<open>string\<close> (a list of
  \<open>char\<close>): each character stands for one UTF-16 code unit below 256 (ASCII and Latin-1),
  so \<open>length\<close> is the source's \<open>.length\<close>, while \<open>Buffer.byteLength(s, 'utf8')\<close> counts two
  bytes for a code unit from 128 on.
\<close>

abbreviation code :: "char \<Rightarrow> int" where
  "code c \<equiv> of_char c"

text \<open>\<open>String.prototype.trim\<close>: white space and line terminators below 256.\<close>

definition is_ws :: "char \<Rightarrow> bool" where
  "is_ws c \<longleftrightarrow> code c \<in> {9, 10, 11, 12, 13, 32, 160}"

definition trim :: "string \<Rightarrow> string" where
  "trim s = rev (dropWhile is_ws (rev (dropWhile is_ws s)))"

text \<open>\<open>String.prototype.toLowerCase\<close> on Latin-1.\<close>

definition lower_char :: "char \<Rightarrow> char" where
  "lower_char c =
     (if 65 \<le> code c \<and> code c \<le> 90 \<or> 192 \<le> code c \<and> code c \<le> 222 \<and> code c \<noteq> 215
      then char_of (code c + 32) else c)"

definition toLowerCase :: "string \<Rightarrow> string" where
  "toLowerCase = map lower_char"

text \<open>\<open>Buffer.byteLength(s, 'utf8')\<close>.\<close>

definition byteLength :: "string \<Rightarrow> nat" where
  "byteLength s = sum_list (map (\<lambda>c. if code c < 128 then 1 else 2) s)"

definition startsWith :: "string \<Rightarrow> string \<Rightarrow> bool" where
  "startsWith s p \<longleftrightarrow> take (length p) s = p"

definition endsWith :: "string \<Rightarrow> string \<Rightarrow> bool" where
  "endsWith s p \<longleftrightarrow> length p \<le> length s \<and> drop (length s - length p) s = p"

text \<open>\<open>s.split(sep)\<close> for a one-character separator: never the empty list.\<close>

fun split_on :: "char \<Rightarrow> string \<Rightarrow> string list" where
  "split_on d [] = [[]]"
| "split_on d (c # cs) =
     (if c = d then [] # split_on d cs
      else case split_on d cs of [] \<Rightarrow> [[c]] | w # ws \<Rightarrow> (c # w) # ws)"

text \<open>\<open>s.split(/[...]+/)\<close>: a run of separators separates once.\<close>

fun split_runs :: "(char \<Rightarrow> bool) \<Rightarrow> string \<Rightarrow> string list" where
  "split_runs P [] = [[]]"
| "split_runs P (c # cs) =
     (if P c then (case cs of
          [] \<Rightarrow> [[], []]
        | d # _ \<Rightarrow> if P d then split_runs P cs else [] # split_runs P cs)
      else case split_runs P cs of [] \<Rightarrow> [[c]] | w # ws \<Rightarrow> (c # w) # ws)"

text \<open>\<open>`${n}`\<close> for an integer.\<close>

function show_nat :: "int \<Rightarrow> string" where
  "show_nat n = (if n < 10 then [char_of (48 + n)] else show_nat (n div 10) @ [char_of (48 + n mod 10)])"
  by pat_completeness auto
termination
  by (relation "measure nat") auto

declare show_nat.simps [simp del]

definition show_int :: "int \<Rightarrow> string" where
  "show_int i = (if i < 0 then CHR ''-'' # show_nat (- i) else show_nat i)"

section \<open>Character classes\<close>

definition is_digit :: "char \<Rightarrow> bool" where
  "is_digit c \<longleftrightarrow> 48 \<le> code c \<and> code c \<le> 57"

definition is_lower :: "char \<Rightarrow> bool" where
  "is_lower c \<longleftrightarrow> 97 \<le> code c \<and> code c \<le> 122"

definition is_upper :: "char \<Rightarrow> bool" where
  "is_upper c \<longleftrightarrow> 65 \<le> code c \<and> code c \<le> 90"

definition is_hex_lower :: "char \<Rightarrow> bool" where
  "is_hex_lower c \<longleftrightarrow> is_digit c \<or> 97 \<le> code c \<and> code c \<le> 102"

text \<open>\<open>[0-9a-f]\<close> with the \<open>i\<close> flag.\<close>

definition is_hex :: "char \<Rightarrow> bool" where
  "is_hex c \<longleftrightarrow> is_hex_lower c \<or> 65 \<le> code c \<and> code c \<le> 70"

definition is_alnum :: "char \<Rightarrow> bool" where
  "is_alnum c \<longleftrightarrow> is_digit c \<or> is_lower c \<or> is_upper c"

text \<open>\<open>[A-Za-z0-9_-]\<close>, the base64url alphabet.\<close>

definition is_base64url :: "char \<Rightarrow> bool" where
  "is_base64url c \<longleftrightarrow> is_alnum c \<or> c = CHR ''_'' \<or> c = CHR ''-''"

lemmas char_class_defs = is_digit_def is_lower_def is_upper_def is_hex_lower_def is_hex_def
  is_alnum_def is_base64url_def is_ws_def

section \<open>Facts\<close>

lemma length_toLowerCase [simp]: "length (toLowerCase s) = length s"
  by (simp add: toLowerCase_def)

lemma lower_char_idem [simp]: "lower_char (lower_char c) = lower_char c"
proof (cases "65 \<le> code c \<and> code c \<le> 90 \<or> 192 \<le> code c \<and> code c \<le> 222 \<and> code c \<noteq> 215")
  case True
  then have "code (char_of (code c + 32) :: char) = code c + 32" by auto
  with True show ?thesis by (auto simp: lower_char_def)
next
  case False
  then have "lower_char c = c" unfolding lower_char_def by (rule if_not_P)
  then show ?thesis by simp
qed

lemma toLowerCase_idem [simp]: "toLowerCase (toLowerCase s) = toLowerCase s"
  by (simp add: toLowerCase_def)

lemma dropWhile_id: "(s = [] \<or> \<not> P (hd s)) \<Longrightarrow> dropWhile P s = s"
  by (cases s) auto

lemma dropWhile_hd: "dropWhile P s = [] \<or> \<not> P (hd (dropWhile P s))"
  by (induction s) auto

lemma dropWhile_idem: "dropWhile P (dropWhile P s) = dropWhile P s"
  using dropWhile_hd [of P s] by (rule dropWhile_id)

text \<open>A trimmed string has no white space at either end, and trimming it again changes nothing.\<close>

lemma trim_last: "trim s = [] \<or> \<not> is_ws (last (trim s))"
proof -
  have "dropWhile is_ws (rev (dropWhile is_ws s)) = [] \<or>
      \<not> is_ws (hd (dropWhile is_ws (rev (dropWhile is_ws s))))" by (rule dropWhile_hd)
  then show ?thesis by (auto simp: trim_def last_rev)
qed

lemma rev_dropWhile_rev_prefix: "\<exists>zs. xs = rev (dropWhile P (rev xs)) @ zs"
proof -
  have "rev xs = takeWhile P (rev xs) @ dropWhile P (rev xs)" by simp
  then have "rev (rev xs) = rev (dropWhile P (rev xs)) @ rev (takeWhile P (rev xs))"
    by (metis rev_append)
  then show ?thesis by (metis rev_rev_ident)
qed

lemma trim_hd: "trim s = [] \<or> \<not> is_ws (hd (trim s))"
proof -
  let ?t = "dropWhile is_ws s"
  obtain zs where "?t = rev (dropWhile is_ws (rev ?t)) @ zs"
    using rev_dropWhile_rev_prefix by blast
  then have "trim s = [] \<or> hd (trim s) = hd ?t" unfolding trim_def by (metis hd_append2)
  moreover have "?t = [] \<or> \<not> is_ws (hd ?t)" by (rule dropWhile_hd)
  moreover have "trim s = []" if "?t = []" unfolding trim_def that by simp
  ultimately show ?thesis by metis
qed

lemma trim_fixed: "(s = [] \<or> \<not> is_ws (hd s) \<and> \<not> is_ws (last s)) \<Longrightarrow> trim s = s"
  by (auto simp: trim_def dropWhile_id hd_rev)

lemma trim_idem [simp]: "trim (trim s) = trim s"
  by (rule trim_fixed) (use trim_hd [of s] trim_last [of s] in auto)

lemma byteLength_ge: "length s \<le> byteLength s"
  by (induction s) (auto simp: byteLength_def)

lemma byteLength_le: "byteLength s \<le> 2 * length s"
  by (induction s) (auto simp: byteLength_def)

lemma byteLength_ascii: "list_all (\<lambda>c. code c < 128) s \<Longrightarrow> byteLength s = length s"
  by (induction s) (auto simp: byteLength_def)

lemma split_on_nonempty [simp]: "split_on d s \<noteq> []"
  by (cases s) (auto split: list.splits)

lemma startsWith_append [simp]: "startsWith (p @ s) p"
  by (simp add: startsWith_def)

lemma startsWith_iff: "startsWith s p \<longleftrightarrow> (\<exists>t. s = p @ t)"
  by (auto simp: startsWith_def) (metis append_take_drop_id)

end
