(* ===== verification/JsNumber.thy ===== *)
theory JsNumber
  imports JsString Complex_Main
begin

text \<open>
  JavaScript numbers (IEEE-754 binary64) where the source depends on them: configuration
  values read with \<open>Number(...)\<close>, byte counts multiplied to totals, and the memory ratio.
  A finite number is its exact rational value (the two zeros are one), so arithmetic is
  exact rational arithmetic followed by \<open>to_double\<close>, rounding to the nearest double with
  ties to even.
\<close>

datatype jsnum = NaN | PosInfinity | NegInfinity | Num rat

section \<open>Rounding to a double\<close>

function ilog2 :: "int \<Rightarrow> nat" where
  "ilog2 n = (if n < 2 then 0 else Suc (ilog2 (n div 2)))"
  by pat_completeness auto
termination
  by (relation "measure nat") auto

declare ilog2.simps [simp del]

definition pow2 :: "int \<Rightarrow> rat" where
  "pow2 e = (if 0 \<le> e then of_int (2 ^ nat e) else 1 / of_int (2 ^ nat (- e)))"

text \<open>The exponent \<open>e\<close> with \<open>pow2 e \<le> x < pow2 (e + 1)\<close>, for positive \<open>x\<close>.\<close>

definition exponent :: "rat \<Rightarrow> int" where
  "exponent x =
     (if 1 \<le> x then int (ilog2 \<lfloor>x\<rfloor>)
      else let m = \<lceil>1 / x\<rceil> in if m = 1 then 0 else - int (Suc (ilog2 (m - 1))))"

definition round_half_even :: "rat \<Rightarrow> int" where
  "round_half_even r =
     (let f = \<lfloor>r\<rfloor>; d = r - of_int f
      in if d < 1 / 2 then f else if 1 / 2 < d then f + 1 else if even f then f else f + 1)"

text \<open>The unit in the last place; subnormal numbers share the smallest one.\<close>

definition ulp_exp :: "rat \<Rightarrow> int" where
  "ulp_exp x = max (exponent x - 52) (- 1074)"

definition round_pos :: "rat \<Rightarrow> rat" where
  "round_pos x = of_int (round_half_even (x / pow2 (ulp_exp x))) * pow2 (ulp_exp x)"

definition to_double :: "rat \<Rightarrow> jsnum" where
  "to_double x =
     (if x = 0 then Num 0
      else let m = round_pos \<bar>x\<bar>
           in if 1024 \<le> exponent m then (if 0 < x then PosInfinity else NegInfinity)
              else Num (if 0 < x then m else - m))"

section \<open>Arithmetic and tests\<close>

fun js_mul :: "jsnum \<Rightarrow> jsnum \<Rightarrow> jsnum" where
  "js_mul (Num a) (Num b) = to_double (a * b)"
| "js_mul NaN _ = NaN"
| "js_mul _ NaN = NaN"
| "js_mul PosInfinity (Num b) = (if b = 0 then NaN else if 0 < b then PosInfinity else NegInfinity)"
| "js_mul NegInfinity (Num b) = (if b = 0 then NaN else if 0 < b then NegInfinity else PosInfinity)"
| "js_mul (Num a) PosInfinity = (if a = 0 then NaN else if 0 < a then PosInfinity else NegInfinity)"
| "js_mul (Num a) NegInfinity = (if a = 0 then NaN else if 0 < a then NegInfinity else PosInfinity)"
| "js_mul PosInfinity PosInfinity = PosInfinity"
| "js_mul PosInfinity NegInfinity = NegInfinity"
| "js_mul NegInfinity PosInfinity = NegInfinity"
| "js_mul NegInfinity NegInfinity = PosInfinity"

fun isFinite :: "jsnum \<Rightarrow> bool" where
  "isFinite (Num a) = True"
| "isFinite _ = False"

fun isInteger :: "jsnum \<Rightarrow> bool" where
  "isInteger (Num a) = (of_int \<lfloor>a\<rfloor> = a)"
| "isInteger _ = False"

definition MAX_SAFE_INTEGER :: int where
  "MAX_SAFE_INTEGER = 2 ^ 53 - 1"

fun isSafeInteger :: "jsnum \<Rightarrow> bool" where
  "isSafeInteger (Num a) = (of_int \<lfloor>a\<rfloor> = a \<and> \<bar>a\<bar> \<le> of_int MAX_SAFE_INTEGER)"
| "isSafeInteger _ = False"

text \<open>The comparisons of the source are all against finite constants.\<close>

fun js_lt :: "jsnum \<Rightarrow> rat \<Rightarrow> bool" where
  "js_lt (Num a) b = (a < b)"
| "js_lt NegInfinity b = True"
| "js_lt _ b = False"

fun js_gt :: "jsnum \<Rightarrow> rat \<Rightarrow> bool" where
  "js_gt (Num a) b = (b < a)"
| "js_gt PosInfinity b = True"
| "js_gt _ b = False"

definition js_le :: "jsnum \<Rightarrow> rat \<Rightarrow> bool" where
  "js_le x b \<longleftrightarrow> js_lt x b \<or> x = Num b"

text \<open>\<open>Math.floor\<close> of a finite number.\<close>

fun js_floor :: "jsnum \<Rightarrow> int" where
  "js_floor (Num a) = \<lfloor>a\<rfloor>"
| "js_floor _ = 0"

section \<open>The conversion \<open>Number(string)\<close>\<close>

fun digits_value :: "int \<Rightarrow> string \<Rightarrow> int" where
  "digits_value acc [] = acc"
| "digits_value acc (c # cs) = digits_value (10 * acc + (code c - 48)) cs"

definition hex_digit :: "char \<Rightarrow> int" where
  "hex_digit c = (if is_digit c then code c - 48 else code (lower_char c) - 87)"

fun radix_value :: "int \<Rightarrow> int \<Rightarrow> string \<Rightarrow> int" where
  "radix_value b acc [] = acc"
| "radix_value b acc (c # cs) = radix_value b (b * acc + hex_digit c) cs"

text \<open>\<open>0x\<close>, \<open>0o\<close> and \<open>0b\<close> literals: no sign, at least one digit.\<close>

definition radix_digit :: "int \<Rightarrow> char \<Rightarrow> bool" where
  "radix_digit b c \<longleftrightarrow> is_hex c \<and> hex_digit c < b"

definition parse_radix :: "int \<Rightarrow> string \<Rightarrow> jsnum" where
  "parse_radix b ds =
     (if ds \<noteq> [] \<and> list_all (radix_digit b) ds then to_double (of_int (radix_value b 0 ds)) else NaN)"

text \<open>The exponent part: absent, or \<open>e\<close> with an optional sign and at least one digit.\<close>

fun parse_exp :: "string \<Rightarrow> int option" where
  "parse_exp [] = Some 0"
| "parse_exp (c # cs) =
     (if lower_char c = CHR ''e'' then
        (let (sgn, ds) = (case cs of
             [] \<Rightarrow> (1, [])
           | d # ds \<Rightarrow> if d = CHR ''+'' then (1, ds) else if d = CHR ''-'' then (- 1, ds) else (1, cs))
         in if ds \<noteq> [] \<and> list_all is_digit ds then Some (sgn * digits_value 0 ds) else None)
      else None)"

definition pow10 :: "int \<Rightarrow> rat" where
  "pow10 e = (if 0 \<le> e then of_int (10 ^ nat e) else 1 / of_int (10 ^ nat (- e)))"

text \<open>An unsigned decimal literal: integer part, fraction, exponent.\<close>

definition parse_decimal :: "string \<Rightarrow> rat option" where
  "parse_decimal s =
     (let ip = takeWhile is_digit s; rest = dropWhile is_digit s;
          (fp, tail) = (case rest of
              [] \<Rightarrow> ([], [])
            | c # cs \<Rightarrow> if c = CHR ''.'' then (takeWhile is_digit cs, dropWhile is_digit cs) else ([], rest))
      in if ip = [] \<and> fp = [] then None
         else case parse_exp tail of
           None \<Rightarrow> None
         | Some e \<Rightarrow> Some (of_int (digits_value 0 (ip @ fp)) * pow10 (e - int (length fp))))"

definition parse_signed :: "string \<Rightarrow> jsnum" where
  "parse_signed s =
     (let (neg, u) = (case s of
          [] \<Rightarrow> (False, [])
        | c # cs \<Rightarrow> if c = CHR ''-'' then (True, cs) else if c = CHR ''+'' then (False, cs) else (False, s))
      in if u = ''Infinity'' then (if neg then NegInfinity else PosInfinity)
         else case parse_decimal u of
           None \<Rightarrow> NaN
         | Some v \<Rightarrow> to_double (if neg then - v else v))"

definition js_Number :: "string \<Rightarrow> jsnum" where
  "js_Number raw =
     (let s = trim raw
      in if s = [] then Num 0
         else case s of
           c # d # ds \<Rightarrow>
             (if c = CHR ''0'' \<and> lower_char d = CHR ''x'' then parse_radix 16 ds
              else if c = CHR ''0'' \<and> lower_char d = CHR ''o'' then parse_radix 8 ds
              else if c = CHR ''0'' \<and> lower_char d = CHR ''b'' then parse_radix 2 ds
              else parse_signed s)
         | _ \<Rightarrow> parse_signed s)"

section \<open>Facts about rounding\<close>

lemma pow2_pos [simp]: "0 < pow2 e"
  by (simp add: pow2_def)

lemma pow2_nonneg_inv: "e \<le> 0 \<Longrightarrow> 1 / pow2 e = of_int (2 ^ nat (- e))"
  by (auto simp: pow2_def)

lemma pow2_Suc: "pow2 (e + 1) = 2 * pow2 e"
proof (cases "0 \<le> e")
  case True
  then have "nat (e + 1) = Suc (nat e)" by simp
  with True show ?thesis by (simp add: pow2_def)
next
  case False
  then have "nat (- e) = Suc (nat (- (e + 1)))" by simp
  with False show ?thesis by (auto simp: pow2_def)
qed

lemma round_half_even_le: "r \<le> of_int n \<Longrightarrow> round_half_even r \<le> n"
proof -
  assume r: "r \<le> of_int n"
  then have f: "\<lfloor>r\<rfloor> \<le> n" by (simp add: floor_le_iff)
  show ?thesis
  proof (cases "\<lfloor>r\<rfloor> = n")
    case True
    with r have "r = of_int n" by (metis floor_le_iff of_int_floor_le order_antisym order_refl)
    then show ?thesis by (simp add: round_half_even_def)
  next
    case False
    with f show ?thesis by (auto simp: round_half_even_def Let_def)
  qed
qed

lemma round_half_even_of_int [simp]: "round_half_even (of_int n) = n"
  by (simp add: round_half_even_def)

lemma round_half_even_nonneg: "0 \<le> r \<Longrightarrow> 0 \<le> round_half_even r"
  by (auto simp: round_half_even_def Let_def)

lemma ilog2_le: "0 < n \<Longrightarrow> 2 ^ ilog2 n \<le> n"
proof (induction n rule: ilog2.induct)
  case (1 n)
  show ?case
  proof (cases "n < 2")
    case False
    then have "2 ^ ilog2 (n div 2) \<le> n div 2" using "1.IH" by simp
    with False show ?thesis by (simp add: ilog2.simps [of n])
  qed (use "1.prems" in \<open>simp add: ilog2.simps [of n]\<close>)
qed

lemma ilog2_gt: "n < 2 * 2 ^ ilog2 n"
proof (induction n rule: ilog2.induct)
  case (1 n)
  show ?case
  proof (cases "n < 2")
    case False
    then have "n div 2 < 2 * 2 ^ ilog2 (n div 2)" using "1.IH" by simp
    with False show ?thesis by (simp add: ilog2.simps [of n])
  qed (simp add: ilog2.simps [of n])
qed

lemma pow2_ge_53: "53 \<le> e \<Longrightarrow> 2 ^ 53 \<le> pow2 e"
  using power_increasing [of 53 "nat e" "2 :: rat"] by (simp add: pow2_def)

lemma exponent_lower: "0 < x \<Longrightarrow> pow2 (exponent x) \<le> x"
proof -
  assume x0: "0 < x"
  show ?thesis
  proof (cases "1 \<le> x")
    case True
    then have "(0 :: int) < \<lfloor>x\<rfloor>" by simp
    then have "2 ^ ilog2 \<lfloor>x\<rfloor> \<le> \<lfloor>x\<rfloor>" by (rule ilog2_le)
    then have "rat_of_int (2 ^ ilog2 \<lfloor>x\<rfloor>) \<le> x" by (simp add: le_floor_iff)
    with True show ?thesis by (simp add: exponent_def pow2_def)
  next
    case False
    let ?m = "\<lceil>1 / x\<rceil>"
    have m: "1 / x \<le> of_int ?m" by simp
    show ?thesis
    proof (cases "?m = 1")
      case True
      with m False x0 show ?thesis by (simp add: divide_le_eq)
    next
      case neq: False
      let ?k = "Suc (ilog2 (?m - 1))"
      have "?m \<le> 2 ^ ?k" using ilog2_gt [of "?m - 1"] by simp
      then have "rat_of_int ?m \<le> of_int (2 ^ ?k)" unfolding of_int_le_iff .
      with m have "1 / x \<le> of_int (2 ^ ?k)" by (rule order_trans)
      then have "1 / of_int (2 ^ ?k) \<le> x" using x0 by (simp add: field_simps)
      with False neq show ?thesis by (simp add: exponent_def pow2_def Let_def nat_add_distrib)
    qed
  qed
qed

text \<open>A number below \<open>2 ^ 53\<close> has an ulp of at most one.\<close>

lemma ulp_exp_nonpos: "0 < x \<Longrightarrow> x < 2 ^ 53 \<Longrightarrow> ulp_exp x \<le> 0"
  using exponent_lower [of x] pow2_ge_53 [of "exponent x"] by (force simp: ulp_exp_def)

text \<open>
  Rounding a positive number that does not exceed an integer below \<open>2 ^ 53\<close> does not
  exceed that integer either: integers of that size are doubles.
\<close>

lemma round_pos_le_int:
  assumes "0 < x" and "x \<le> of_int n" and "n < 2 ^ 53"
  shows "round_pos x \<le> of_int n"
proof -
  let ?q = "ulp_exp x"
  have "rat_of_int n < of_int (2 ^ 53)" using assms(3) unfolding of_int_less_iff .
  with assms(2) have "x < 2 ^ 53" by simp
  with assms(1) have q: "?q \<le> 0" by (rule ulp_exp_nonpos)
  let ?k = "2 ^ nat (- ?q) :: int"
  have k: "x / pow2 ?q = x * of_int ?k"
    using pow2_nonneg_inv [OF q] by (metis times_divide_eq_right mult.right_neutral)
  have "x * of_int ?k \<le> of_int (n * ?k)" using assms(2) by (simp add: mult_right_mono)
  then have "round_half_even (x / pow2 ?q) \<le> n * ?k" unfolding k by (rule round_half_even_le)
  then have "rat_of_int (round_half_even (x / pow2 ?q)) \<le> of_int (n * ?k)" unfolding of_int_le_iff .
  then have "round_pos x \<le> of_int (n * ?k) * pow2 ?q"
    unfolding round_pos_def by (intro mult_right_mono) (auto simp: less_imp_le)
  also have "\<dots> = of_int n" using pow2_nonneg_inv [OF q] pow2_pos [of ?q] by (simp add: field_simps)
  finally show ?thesis .
qed

text \<open>
  The product of a safe non-negative integer and a ratio in \<open>(0, 1]\<close>, computed in doubles
  and floored, never exceeds the integer.
\<close>

lemma floor_js_mul_ratio_le:
  assumes "0 \<le> n" and "n \<le> MAX_SAFE_INTEGER" and "0 < r" and "r \<le> 1"
  shows "js_floor (js_mul (Num (of_int n)) (Num r)) \<le> n"
proof (cases "n = 0")
  case False
  with assms have n: "0 < rat_of_int n" by simp
  then have x: "0 < of_int n * r" using assms(3) by simp
  have le: "of_int n * r \<le> of_int n" using assms(4) n by simp
  have n53: "n < 2 ^ 53" using assms(2) by (simp add: MAX_SAFE_INTEGER_def)
  have "round_pos (of_int n * r) \<le> of_int n" by (rule round_pos_le_int [OF x le n53])
  then show ?thesis using x n assms(1) by (auto simp: to_double_def Let_def floor_le_iff)
qed (simp add: to_double_def)

end
