(* ===== verification/Schema.thy ===== *)
theory Schema
  imports JsNumber
begin

text \<open>
  The data model of \<open>src/db/schema.ts\<close>: the enums as datatypes, the tables as records, the
  unique, foreign-key and check constraints as predicates, and the shared state (\<open>world\<close>)
  the handlers work on: the tables, the database clock, the log of the calls made to the
  Docker daemon, and the in-memory maps of the authentication services.

  Timestamps are microseconds, PostgreSQL's resolution. \<open>getTime\<close> is what the driver hands
  to JavaScript (milliseconds); a \<open>Date\<close> written to a column has zero microseconds.
\<close>

section \<open>Enums\<close>

datatype role = ADMIN | MOD | USER

datatype server_provider = VANILLA | PAPER | PURPUR | FABRIC | FORGE

datatype server_status = STOPPED | CREATING | STARTING | RUNNING | STOPPING | ERROR

datatype server_difficulty = PEACEFUL | EASY | NORMAL | HARD

datatype server_gamemode = SURVIVAL | CREATIVE | ADVENTURE | SPECTATOR

datatype access_type = OPEN | REQUEST | PRIVATE

datatype server_access_status = PENDING | APPROVED

datatype mod_permission = SERVER_LIFECYCLE | SERVER_CONFIG | PLUGIN_MANAGEMENT
  | WHITELIST_MANAGEMENT | USER_MANAGEMENT | FILE_MANAGER

datatype user_status = ACTIVE | U_PENDING | BANNED

section \<open>Rows\<close>

type_synonym timestamp = int

definition getTime :: "timestamp \<Rightarrow> int" where
  "getTime t = t div 1000"

definition ofDate :: "int \<Rightarrow> timestamp" where
  "ofDate ms = ms * 1000"

lemma getTime_ofDate [simp]: "getTime (ofDate ms) = ms"
  by (simp add: getTime_def ofDate_def)

record user =
  u_id :: string
  u_email :: string
  u_username :: string
  u_passwordHash :: "string option"
  u_googleId :: "string option"
  u_githubId :: "string option"
  u_role :: role
  u_status :: user_status
  u_totpSecret :: "string option"
  u_totpEnabled :: bool
  u_totpBackupCodes :: "string option"
  u_tempPasswordHash :: "string option"
  u_tempPasswordExpiresAt :: "timestamp option"
  u_mustChangePassword :: bool
  u_minecraftUUID :: "string option"
  u_minecraftName :: "string option"
  u_minecraftVerified :: bool
  u_createdAt :: timestamp
  u_updatedAt :: timestamp

record refresh_token =
  rt_id :: string
  rt_tokenIdHash :: string
  rt_userId :: string
  rt_expiresAt :: timestamp
  rt_createdAt :: timestamp

record oauth_challenge =
  oc_id :: string
  oc_provider :: string
  oc_challengeHash :: string
  oc_expiresAt :: timestamp
  oc_createdAt :: timestamp

record setup_state =
  ss_initialAdminCreated :: bool
  ss_createdAt :: timestamp
  ss_updatedAt :: timestamp

record server =
  sv_id :: string
  sv_name :: string
  sv_provider :: server_provider
  sv_version :: string
  sv_port :: int
  sv_containerId :: "string option"
  sv_status :: server_status
  sv_maxPlayers :: int
  sv_difficulty :: server_difficulty
  sv_gamemode :: server_gamemode
  sv_pvp :: bool
  sv_memoryLimitMb :: int
  sv_motd :: "string option"
  sv_levelSeed :: "string option"
  sv_onlineMode :: bool
  sv_viewDistance :: int
  sv_allowFlight :: bool
  sv_worldPath :: "string option"
  sv_rconPassword :: "string option"
  sv_ownerId :: string
  sv_accessType :: access_type
  sv_createdAt :: timestamp
  sv_updatedAt :: timestamp

record server_access =
  sa_id :: string
  sa_userId :: string
  sa_serverId :: string
  sa_status :: server_access_status
  sa_createdAt :: timestamp
  sa_approvedAt :: "timestamp option"

record mod_permission_row =
  mp_id :: string
  mp_userId :: string
  mp_permission :: mod_permission
  mp_serverId :: "string option"
  mp_createdAt :: timestamp

section \<open>The shared state\<close>

text \<open>Calls that reach the Docker daemon, in the order they are made.\<close>

datatype docker_call =
    DCreate string
  | DStart string
  | DStop string int
  | DRemove string
  | DInspect string
  | DList string
  | DInfo
  | DExec string "string list"

record two_factor_failure =
  tf_failures :: int
  tf_firstFailureAt :: int
  tf_lockedUntil :: "int option"

record failure_entry =
  fe_failures :: int
  fe_firstFailureAt :: int
  fe_lastFailureAt :: int

record world =
  users :: "user list"
  refreshTokens :: "refresh_token list"
  oauthChallenges :: "oauth_challenge list"
  setupState :: "setup_state option"
  servers :: "server list"
  serverAccess :: "server_access list"
  modPermissions :: "mod_permission_row list"
  clock :: timestamp
  dockerLog :: "docker_call list"
  twoFactorFailures :: "(string \<times> two_factor_failure) list"
  pairFailures :: "(string \<times> failure_entry) list"
  accountFailures :: "(string \<times> failure_entry) list"
  bootstrapToken :: "string option"

text \<open>\<open>Date.now()\<close> and SQL's \<open>now()\<close>.\<close>

definition dateNow :: "world \<Rightarrow> int" where
  "dateNow w = getTime (clock w)"

section \<open>Constraints\<close>

primrec somes :: "('r \<Rightarrow> 'v option) \<Rightarrow> 'r list \<Rightarrow> 'v list" where
  "somes f [] = []"
| "somes f (r # t) = (case f r of None \<Rightarrow> somes f t | Some v \<Rightarrow> v # somes f t)"

text \<open>A unique column that may be null constrains only the rows where it is set.\<close>

definition users_unique :: "user list \<Rightarrow> bool" where
  "users_unique t \<longleftrightarrow> distinct (map u_id t) \<and> distinct (map u_email t) \<and> distinct (map u_username t)
     \<and> distinct (somes u_googleId t) \<and> distinct (somes u_githubId t) \<and> distinct (somes u_minecraftUUID t)"

definition refreshTokens_unique :: "refresh_token list \<Rightarrow> bool" where
  "refreshTokens_unique t \<longleftrightarrow> distinct (map rt_id t) \<and> distinct (map rt_tokenIdHash t)"

definition oauthChallenges_unique :: "oauth_challenge list \<Rightarrow> bool" where
  "oauthChallenges_unique t \<longleftrightarrow> distinct (map oc_id t) \<and> distinct (map oc_challengeHash t)"

definition servers_unique :: "server list \<Rightarrow> bool" where
  "servers_unique t \<longleftrightarrow> distinct (map sv_id t) \<and> distinct (map sv_port t)
     \<and> distinct (somes sv_containerId t)"

definition serverAccess_unique :: "server_access list \<Rightarrow> bool" where
  "serverAccess_unique t \<longleftrightarrow> distinct (map sa_id t)
     \<and> distinct (map (\<lambda>r. (sa_userId r, sa_serverId r)) t)"

text \<open>
  The partial unique index for global grants (\<open>serverId IS NULL\<close>) and the unique
  constraint for scoped ones together: no two rows agree on user, permission and scope.
\<close>

definition modPermissions_unique :: "mod_permission_row list \<Rightarrow> bool" where
  "modPermissions_unique t \<longleftrightarrow> distinct (map mp_id t)
     \<and> distinct (map (\<lambda>r. (mp_userId r, mp_permission r, mp_serverId r)) t)"

text \<open>The check constraint \<open>server_access_status_approved_at_total_check\<close>.\<close>

definition access_check :: "server_access \<Rightarrow> bool" where
  "access_check r \<longleftrightarrow> (sa_status r = PENDING \<and> sa_approvedAt r = None)
     \<or> (sa_status r = APPROVED \<and> sa_approvedAt r \<noteq> None)"

text \<open>
  The lengths of the \<open>varchar\<close> columns of \<open>users\<close>: a longer value is refused with \<open>22001\<close>. The other
  text columns are \<open>text\<close>, without a length.
\<close>

definition varchar_ok :: "user \<Rightarrow> bool" where
  "varchar_ok u \<longleftrightarrow> length (u_email u) \<le> 254 \<and> length (u_username u) \<le> 32"

text \<open>The check constraint \<open>oauth_challenges_provider_check\<close>.\<close>

definition challenge_check :: "oauth_challenge \<Rightarrow> bool" where
  "challenge_check c \<longleftrightarrow> oc_provider c = ''google''"

definition user_exists :: "world \<Rightarrow> string \<Rightarrow> bool" where
  "user_exists w uid \<longleftrightarrow> (\<exists>u \<in> set (users w). u_id u = uid)"

definition server_exists :: "world \<Rightarrow> string \<Rightarrow> bool" where
  "server_exists w sid \<longleftrightarrow> (\<exists>r \<in> set (servers w). sv_id r = sid)"

definition refs_ok :: "world \<Rightarrow> bool" where
  "refs_ok w \<longleftrightarrow>
     (\<forall>t \<in> set (refreshTokens w). user_exists w (rt_userId t))
   \<and> (\<forall>r \<in> set (servers w). user_exists w (sv_ownerId r))
   \<and> (\<forall>a \<in> set (serverAccess w). user_exists w (sa_userId a) \<and> server_exists w (sa_serverId a))
   \<and> (\<forall>p \<in> set (modPermissions w). user_exists w (mp_userId p)
        \<and> (case mp_serverId p of None \<Rightarrow> True | Some sid \<Rightarrow> server_exists w sid))"

text \<open>Everything the schema declares about a database state.\<close>

definition db_ok :: "world \<Rightarrow> bool" where
  "db_ok w \<longleftrightarrow> users_unique (users w) \<and> refreshTokens_unique (refreshTokens w)
     \<and> oauthChallenges_unique (oauthChallenges w) \<and> servers_unique (servers w)
     \<and> serverAccess_unique (serverAccess w) \<and> modPermissions_unique (modPermissions w)
     \<and> list_all access_check (serverAccess w) \<and> list_all varchar_ok (users w)
     \<and> list_all challenge_check (oauthChallenges w) \<and> refs_ok w"

text \<open>Foreign keys with \<open>onDelete: 'cascade'\<close>: deleting servers removes what refers to them.\<close>

definition delete_servers :: "(server \<Rightarrow> bool) \<Rightarrow> world \<Rightarrow> world" where
  "delete_servers P w =
     (let gone = (\<lambda>sid. list_ex (\<lambda>r. P r \<and> sv_id r = sid) (servers w))
      in w\<lparr>servers := delete_where P (servers w),
           serverAccess := delete_where (\<lambda>a. gone (sa_serverId a)) (serverAccess w),
           modPermissions := delete_where (\<lambda>p. case mp_serverId p of None \<Rightarrow> False | Some sid \<Rightarrow> gone sid)
             (modPermissions w)\<rparr>)"

section \<open>Facts about unique columns\<close>

lemma somes_append [simp]: "somes f (xs @ ys) = somes f xs @ somes f ys"
  by (induction xs) (auto split: option.splits)

lemma set_somes [simp]: "set (somes f t) = {v. \<exists>r \<in> set t. f r = Some v}"
  by (induction t) (auto split: option.splits)

lemma somes_update_where:
  "(\<And>r. P r \<Longrightarrow> g (f r) = g r) \<Longrightarrow> somes g (update_where P f t) = somes g t"
  by (induction t) (auto split: option.splits)

lemma distinct_somes_delete_where: "distinct (somes f t) \<Longrightarrow> distinct (somes f (delete_where P t))"
  by (induction t) (auto split: option.splits)

lemma servers_unique_delete [simp]: "servers_unique t \<Longrightarrow> servers_unique (delete_where P t)"
  by (simp add: servers_unique_def distinct_map_delete_where distinct_somes_delete_where)

lemma serverAccess_unique_delete [simp]:
  "serverAccess_unique t \<Longrightarrow> serverAccess_unique (delete_where P t)"
  by (simp add: serverAccess_unique_def distinct_map_delete_where)

lemma modPermissions_unique_delete [simp]:
  "modPermissions_unique t \<Longrightarrow> modPermissions_unique (delete_where P t)"
  by (simp add: modPermissions_unique_def distinct_map_delete_where)

lemma refreshTokens_unique_delete [simp]:
  "refreshTokens_unique t \<Longrightarrow> refreshTokens_unique (delete_where P t)"
  by (simp add: refreshTokens_unique_def distinct_map_delete_where)

lemma oauthChallenges_unique_delete [simp]:
  "oauthChallenges_unique t \<Longrightarrow> oauthChallenges_unique (delete_where P t)"
  by (simp add: oauthChallenges_unique_def distinct_map_delete_where)

lemma access_check_delete [simp]:
  "list_all access_check t \<Longrightarrow> list_all access_check (delete_where P t)"
  by (auto simp: list_all_iff)

lemma challenge_check_delete [simp]:
  "list_all challenge_check t \<Longrightarrow> list_all challenge_check (delete_where P t)"
  by (auto simp: list_all_iff)

lemma delete_servers_fields [simp]:
  "users (delete_servers P w) = users w" "refreshTokens (delete_servers P w) = refreshTokens w"
  "oauthChallenges (delete_servers P w) = oauthChallenges w" "setupState (delete_servers P w) = setupState w"
  "servers (delete_servers P w) = delete_where P (servers w)" "clock (delete_servers P w) = clock w"
  "dockerLog (delete_servers P w) = dockerLog w"
  "twoFactorFailures (delete_servers P w) = twoFactorFailures w"
  "pairFailures (delete_servers P w) = pairFailures w"
  "accountFailures (delete_servers P w) = accountFailures w"
  "bootstrapToken (delete_servers P w) = bootstrapToken w"
  by (simp_all add: delete_servers_def Let_def)

lemma delete_servers_keeps_db_ok:
  assumes "db_ok w"
  shows "db_ok (delete_servers P w)"
proof -
  have "refs_ok (delete_servers P w)"
    using assms unfolding db_ok_def refs_ok_def user_exists_def server_exists_def
    by (fastforce simp: delete_servers_def Let_def list_ex_iff split: option.splits)
  with assms show ?thesis by (simp add: db_ok_def delete_servers_def Let_def)
qed

text \<open>The constraints speak of the tables only.\<close>

lemma db_ok_cong:
  assumes "users w' = users w" and "refreshTokens w' = refreshTokens w"
    and "oauthChallenges w' = oauthChallenges w" and "servers w' = servers w"
    and "serverAccess w' = serverAccess w" and "modPermissions w' = modPermissions w"
  shows "db_ok w' = db_ok w"
proof -
  have "user_exists w' = user_exists w" and "server_exists w' = server_exists w"
    using assms by (auto simp: user_exists_def server_exists_def fun_eq_iff)
  with assms show ?thesis by (simp add: db_ok_def refs_ok_def cong: option.case_cong)
qed

lemma db_ok_other_state [simp]:
  "db_ok (w\<lparr>dockerLog := l\<rparr>) = db_ok w" "db_ok (w\<lparr>clock := c\<rparr>) = db_ok w"
  "db_ok (w\<lparr>setupState := s\<rparr>) = db_ok w" "db_ok (w\<lparr>twoFactorFailures := f\<rparr>) = db_ok w"
  "db_ok (w\<lparr>pairFailures := p\<rparr>) = db_ok w" "db_ok (w\<lparr>accountFailures := p\<rparr>) = db_ok w"
  "db_ok (w\<lparr>bootstrapToken := b\<rparr>) = db_ok w"
  by (rule db_ok_cong; simp)+

end
