(* ===== verification/DockerService.thy ===== *)
theory DockerService
  imports Schema
begin

text \<open>
  \<open>src/docker/docker.service.ts\<close>: the boundary to the Docker daemon. The daemon (through
  the Dockerode client), \<open>fs.statfs\<close> and \<open>os.freemem\<close> are outside the sources: they are the
  fields of the parameter record \<open>dockerode\<close>, arbitrary functions that say how they answer
  the calls of one handler. What the service does with the answers is modelled in full:
  validation of the configuration, the container specification, and the classification of
  failures. Each call that reaches the daemon is one atomic step that appends to
  \<open>dockerLog\<close>.
\<close>

section \<open>Answers of the outside world\<close>

text \<open>
  A rejected promise: an object with optional \<open>code\<close> and \<open>statusCode\<close> members (anything else
  has neither), or an exception of the service itself.
\<close>

datatype cause = Cause "string option" "int option" | Thrown exn

record inspect_info =
  ii_Id :: string
  ii_Name :: string
  ii_Image :: "string option"
  ii_Status :: "string option"
  ii_Running :: "bool option"
  ii_StartedAt :: "string option"
  ii_FinishedAt :: "string option"
  ii_ExitCode :: "int option"
  ii_OOMKilled :: "bool option"
  ii_RestartCount :: "int option"

record container_summary =
  su_Id :: "string option"
  su_State :: "string option"

record docker_info =
  di_MemTotal :: "jsnum option"
  di_NCPU :: "jsnum option"

record statfs =
  st_bsize :: "jsnum option"
  st_blocks :: "jsnum option"
  st_bavail :: "jsnum option"

record container_config =
  cc_name :: string
  cc_Image :: string
  cc_ExposedPorts :: "string list"
  cc_Env :: "string list"
  cc_Labels :: "(string \<times> string) list"
  cc_Binds :: "string list"
  cc_Memory :: int
  cc_NanoCpus :: int
  cc_PidsLimit :: int
  cc_PortBindings :: "(string \<times> string) list"
  cc_Privileged :: bool
  cc_CapAdd :: "string list"
  cc_NetworkMode :: string
  cc_RestartPolicy :: string

record dockerode =
  dk_ping :: "cause + unit"
  dk_create :: "container_config \<Rightarrow> cause + string"
  dk_start :: "string \<Rightarrow> cause + unit"
  dk_stop :: "string \<Rightarrow> int \<Rightarrow> cause + unit"
  dk_remove :: "string \<Rightarrow> cause + unit"
  dk_inspect :: "string \<Rightarrow> cause + inspect_info"
  dk_list :: "string \<Rightarrow> cause + container_summary list"
  dk_info :: "cause + docker_info option"
  dk_exec :: "string \<Rightarrow> string list \<Rightarrow> cause + unit"
  dk_execStart :: "string \<Rightarrow> string list \<Rightarrow> cause + unit"
  dk_drain :: "string \<Rightarrow> string list \<Rightarrow> cause + unit"
  dk_execInspect :: "string \<Rightarrow> string list \<Rightarrow> cause + bool option \<times> int option"
  fs_statfs :: "string \<Rightarrow> statfs option"
  os_freemem :: "jsnum option"

text \<open>One call to the daemon: it is logged, and the answer is the environment's.\<close>

definition dcall :: "docker_call \<Rightarrow> 'r \<Rightarrow> (world, 'r) prog" where
  "dcall c r = Step (\<lambda>w. w\<lparr>dockerLog := dockerLog w @ [c]\<rparr>) (\<lambda>_. Return r)"

section \<open>Constants\<close>

definition DEFAULT_MINECRAFT_IMAGE :: string where
  "DEFAULT_MINECRAFT_IMAGE = ''itzg/minecraft-server:2026.8.2@sha256:efa878ddb49cf5251b2e5f2ad71b08fd2f7236c1f7907433f6697258b31d2ce4''"

definition MIN_MEMORY_MB :: int where "MIN_MEMORY_MB = 512"

definition CONTAINER_PORT :: string where "CONTAINER_PORT = ''25565/tcp''"

definition STOP_TIMEOUT_SECONDS :: int where "STOP_TIMEOUT_SECONDS = 30"

definition MAX_STOP_TIMEOUT_SECONDS :: int where "MAX_STOP_TIMEOUT_SECONDS = 55"

definition DOCKER_REQUEST_TIMEOUT_MS :: int where "DOCKER_REQUEST_TIMEOUT_MS = 60000"

definition RCON_MAX_ARG_COUNT :: nat where "RCON_MAX_ARG_COUNT = 2"

definition RCON_MAX_TOTAL_BYTES :: nat where "RCON_MAX_TOTAL_BYTES = 256"

definition DAEMON_UNREACHABLE_CODES :: "string list" where
  "DAEMON_UNREACHABLE_CODES = [''ECONNREFUSED'', ''ECONNRESET'', ''ENOENT'', ''ENOTFOUND'',
     ''EAI_AGAIN'', ''EPIPE'', ''ETIMEDOUT'', ''ECONNABORTED'', ''ENETUNREACH'', ''EHOSTUNREACH'',
     ''EACCES'', ''EPERM'']"

text \<open>\<open>/^[a-zA-Z0-9][a-zA-Z0-9_.-]{0,63}$/\<close>\<close>

definition CONTAINER_NAME_PATTERN :: rx where
  "CONTAINER_NAME_PATTERN = RCat (RCls is_alnum)
     (rupto 63 (RCls (\<lambda>c. is_alnum c \<or> c = CHR ''_'' \<or> c = CHR ''.'' \<or> c = CHR ''-'')))"

text \<open>
  The image reference: \<open>name:tag\<close> with an optional sha256 digest, letters in either case
  (the \<open>i\<close> flag).
\<close>

definition IMAGE_PATTERN :: rx where
  "IMAGE_PATTERN =
     RCat (rplus (RCls is_alnum))
    (RCat (RStar (RCat (RCls (\<lambda>c. c \<in> {CHR ''.'', CHR ''_'', CHR ''/'', CHR ''-''})) (rplus (RCls is_alnum))))
    (RCat (RCls (\<lambda>c. c = CHR '':''))
    (RCat (RCls is_alnum)
    (RCat (RStar (RCls (\<lambda>c. is_alnum c \<or> c \<in> {CHR ''.'', CHR ''_'', CHR ''-''})))
          (ropt (RCat (RCls (\<lambda>c. c = CHR ''@'')) (RCat (RCls (\<lambda>c. lower_char c = CHR ''s''))
                (RCat (RCls (\<lambda>c. lower_char c = CHR ''h'')) (RCat (RCls (\<lambda>c. lower_char c = CHR ''a''))
                (RCat (rlit ''256:'') (rtimes 64 (RCls is_hex))))))))))))"

section \<open>Classification of failures\<close>

fun isDaemonUnreachable :: "cause \<Rightarrow> bool" where
  "isDaemonUnreachable (Cause (Some c) None) = (c \<in> set DAEMON_UNREACHABLE_CODES)"
| "isDaemonUnreachable _ = False"

fun isDockerError :: "cause \<Rightarrow> bool" where
  "isDockerError (Thrown (RconUnavailableError m)) = False"
| "isDockerError (Thrown (PlainError m)) = False"
| "isDockerError (Thrown (PostgresError c)) = False"
| "isDockerError (Thrown e) = True"
| "isDockerError (Cause c (Some st)) = True"
| "isDockerError (Cause c None) = (case c of None \<Rightarrow> False | Some x \<Rightarrow> x \<in> set DAEMON_UNREACHABLE_CODES)"

fun isStatusCode :: "cause \<Rightarrow> int \<Rightarrow> bool" where
  "isStatusCode (Cause c (Some st)) n = (st = n)"
| "isStatusCode _ n = False"

fun statusCodeOf :: "cause \<Rightarrow> int option" where
  "statusCodeOf (Cause c st) = st"
| "statusCodeOf (Thrown e) = None"

definition handleDockerError :: "cause \<Rightarrow> string \<Rightarrow> exn" where
  "handleDockerError cs ctx =
     (if isDaemonUnreachable cs then ServiceUnavailableException (Msg ''Docker daemon unreachable'')
      else case statusCodeOf cs of
        None \<Rightarrow> InternalServerErrorException (Msg (''Docker operation failed: '' @ ctx))
      | Some st \<Rightarrow>
          if st = 404 then NotFoundException (Msg (ctx @ '' not found''))
          else if st = 409 then ConflictException (Msg (ctx @ '' conflicts with existing state''))
          else if st = 400 \<or> st = 406 \<or> st = 422 then BadRequestException (Msg (ctx @ '' rejected by Docker''))
          else if st = 502 \<or> st = 503 \<or> st = 504
            then ServiceUnavailableException (Msg ''Docker daemon unreachable'')
          else InternalServerErrorException (Msg (''Docker operation failed: '' @ ctx)))"

section \<open>Configuration\<close>

type_synonym config = "string \<Rightarrow> string option"

text \<open>\<open>configService.get(key, default)\<close>; numeric defaults stay numbers under \<open>Number(...)\<close>.\<close>

definition cfg_get :: "config \<Rightarrow> string \<Rightarrow> string \<Rightarrow> string" where
  "cfg_get cfg key dflt = (case cfg key of None \<Rightarrow> dflt | Some v \<Rightarrow> v)"

definition cfg_number :: "config \<Rightarrow> string \<Rightarrow> jsnum \<Rightarrow> jsnum" where
  "cfg_number cfg key dflt = (case cfg key of None \<Rightarrow> dflt | Some v \<Rightarrow> js_Number v)"

record docker_config =
  dc_mcDataPath :: string
  dc_mcDataBindSource :: string
  dc_network :: string
  dc_image :: string
  dc_cpuNanoCpus :: int
  dc_pidsLimit :: int
  dc_portMin :: int
  dc_portMax :: int

definition is_path_sep :: "char \<Rightarrow> bool" where
  "is_path_sep c \<longleftrightarrow> c = CHR 0x5C \<or> c = CHR ''/''"

definition has_dot_segment :: "string \<Rightarrow> bool" where
  "has_dot_segment s \<longleftrightarrow> list_ex (\<lambda>seg. seg = ''.'' \<or> seg = ''..'') (split_runs is_path_sep s)"

text \<open>\<open>path.resolve\<close> of an absolute POSIX path without dot segments: single slashes, none trailing.\<close>

definition path_resolve :: "string \<Rightarrow> string" where
  "path_resolve s =
     (case filter (\<lambda>seg. seg \<noteq> []) (split_on (CHR ''/'') s) of
        [] \<Rightarrow> ''/''
      | segs \<Rightarrow> concat (map (\<lambda>seg. CHR ''/'' # seg) segs))"

definition readDataPath :: "config \<Rightarrow> exn + string" where
  "readDataPath cfg =
     (let raw = cfg_get cfg ''MC_DATA_PATH'' ''/mc-data''
      in seqE (guardE (raw = trim raw) (BadRequestException (Msg ''MC_DATA_PATH must not have surrounding whitespace''))) (\<lambda>_.
         seqE (guardE (trim raw \<noteq> []) (BadRequestException (Msg ''MC_DATA_PATH is not configured''))) (\<lambda>_.
         seqE (guardE (startsWith (trim raw) ''/'') (BadRequestException (Msg ''MC_DATA_PATH must be an absolute path''))) (\<lambda>_.
         seqE (guardE (\<not> has_dot_segment (trim raw)) (BadRequestException (Msg ''MC_DATA_PATH must not contain . or .. segments''))) (\<lambda>_.
         Inr (trim raw))))))"

definition readBindSource :: "config \<Rightarrow> string \<Rightarrow> exn + string" where
  "readBindSource cfg mcDataPath =
     (let raw = cfg_get cfg ''MC_DATA_BIND_SOURCE'' mcDataPath
      in seqE (guardE (raw = trim raw) (BadRequestException (Msg ''MC_DATA_BIND_SOURCE must not have surrounding whitespace''))) (\<lambda>_.
         seqE (guardE (trim raw \<noteq> []) (BadRequestException (Msg ''MC_DATA_BIND_SOURCE is not configured''))) (\<lambda>_.
         seqE (guardE (\<not> has_dot_segment (trim raw)) (BadRequestException (Msg ''MC_DATA_BIND_SOURCE must not contain . or .. segments''))) (\<lambda>_.
         Inr (trim raw)))))"

definition readNetwork :: "config \<Rightarrow> exn + string" where
  "readNetwork cfg =
     (let network = trim (cfg_get cfg ''DOCKER_NETWORK'' ''minepanel_network'')
      in seqE (guardE (network \<noteq> []) (BadRequestException (Msg ''DOCKER_NETWORK is not configured''))) (\<lambda>_.
         seqE (guardE (\<not> (network = ''host'' \<or> network = ''none'' \<or> startsWith network ''container:''))
           (BadRequestException (Msg ''DOCKER_NETWORK must be a named network''))) (\<lambda>_.
         Inr network)))"

definition readDockerConfig :: "config \<Rightarrow> exn + docker_config" where
  "readDockerConfig cfg =
     seqE (readDataPath cfg) (\<lambda>mcDataPath.
     seqE (readBindSource cfg mcDataPath) (\<lambda>mcDataBindSource.
     seqE (readNetwork cfg) (\<lambda>network.
     let rawImage = cfg_get cfg ''MINECRAFT_IMAGE'' DEFAULT_MINECRAFT_IMAGE;
         image = trim rawImage;
         cpu = cfg_number cfg ''MC_CPU_NANO_CPUS'' (Num 2000000000);
         pids = cfg_number cfg ''MC_PIDS_LIMIT'' (Num 512);
         portMin = cfg_number cfg ''MC_PORT_MIN'' (Num 25565);
         portMax = cfg_number cfg ''MC_PORT_MAX'' (Num 25665)
     in seqE (guardE (\<not> (endsWith image '':latest'' \<or> \<not> matches IMAGE_PATTERN image))
           (BadRequestException (Msg ''MINECRAFT_IMAGE must be a versioned tagged image reference''))) (\<lambda>_.
        seqE (guardE (\<not> (\<not> isSafeInteger cpu \<or> js_lt cpu 100000000 \<or> js_gt cpu 64000000000
              \<or> \<not> isSafeInteger pids \<or> js_lt pids 128 \<or> js_gt pids 32768))
           (BadRequestException (Msg ''MC_CPU_NANO_CPUS must be 100000000-64000000000 and MC_PIDS_LIMIT 128-32768''))) (\<lambda>_.
        seqE (guardE (rawImage = trim rawImage)
           (BadRequestException (Msg ''MINECRAFT_IMAGE must not have surrounding whitespace''))) (\<lambda>_.
        seqE (guardE (\<not> (\<not> isInteger portMin \<or> \<not> isInteger portMax \<or> js_lt portMin 1 \<or> js_gt portMax 65535
              \<or> js_floor portMax < js_floor portMin))
           (BadRequestException (Msg ''Invalid MC_PORT_MIN/MC_PORT_MAX configuration''))) (\<lambda>_.
        Inr \<lparr>dc_mcDataPath = path_resolve mcDataPath, dc_mcDataBindSource = mcDataBindSource,
             dc_network = network, dc_image = image, dc_cpuNanoCpus = js_floor cpu,
             dc_pidsLimit = js_floor pids, dc_portMin = js_floor portMin, dc_portMax = js_floor portMax\<rparr>)))))))"

section \<open>The container specification\<close>

definition validateServerForCreate :: "server \<Rightarrow> docker_config \<Rightarrow> exn + unit" where
  "validateServerForCreate server config =
     seqE (guardE (\<not> (sv_port server < dc_portMin config \<or> dc_portMax config < sv_port server))
       (BadRequestException (Msg (''Port '' @ show_int (sv_port server) @ '' is outside the allowed range ''
          @ show_int (dc_portMin config) @ ''-'' @ show_int (dc_portMax config))))) (\<lambda>_.
     seqE (guardE (MIN_MEMORY_MB \<le> sv_memoryLimitMb server)
       (BadRequestException (Msg ''Memory limit must be at least 512 MB''))) (\<lambda>_.
     guardE (sv_version server \<noteq> [] \<and> trim (sv_version server) \<noteq> [])
       (BadRequestException (Msg ''Server version is required''))))"

text \<open>\<open>base.replace(/[\\/]+$/, '')\<close>\<close>

definition strip_trailing_seps :: "string \<Rightarrow> string" where
  "strip_trailing_seps s = rev (dropWhile is_path_sep (rev s))"

definition resolveDataDir :: "string \<Rightarrow> string \<Rightarrow> exn + string" where
  "resolveDataDir mcDataBindSource serverId =
     seqE (guardE (matches CONTAINER_NAME_PATTERN serverId) (BadRequestException (Msg ''Invalid server id''))) (\<lambda>_.
     Inr (strip_trailing_seps mcDataBindSource @ ''/'' @ serverId))"

definition is_crlf :: "char \<Rightarrow> bool" where
  "is_crlf c \<longleftrightarrow> code c = 13 \<or> code c = 10"

text \<open>\<open>s.replace(/[\r\n]+/g, ' ')\<close>\<close>

fun collapse_crlf :: "string \<Rightarrow> string" where
  "collapse_crlf [] = []"
| "collapse_crlf (c # cs) =
     (if is_crlf c then (case cs of
          [] \<Rightarrow> '' ''
        | d # _ \<Rightarrow> if is_crlf d then collapse_crlf cs else CHR '' '' # collapse_crlf cs)
      else c # collapse_crlf cs)"

fun provider_name :: "server_provider \<Rightarrow> string" where
  "provider_name VANILLA = ''VANILLA''"
| "provider_name PAPER = ''PAPER''"
| "provider_name PURPUR = ''PURPUR''"
| "provider_name FABRIC = ''FABRIC''"
| "provider_name FORGE = ''FORGE''"

fun difficulty_name :: "server_difficulty \<Rightarrow> string" where
  "difficulty_name PEACEFUL = ''PEACEFUL''"
| "difficulty_name EASY = ''EASY''"
| "difficulty_name NORMAL = ''NORMAL''"
| "difficulty_name HARD = ''HARD''"

fun gamemode_name :: "server_gamemode \<Rightarrow> string" where
  "gamemode_name SURVIVAL = ''SURVIVAL''"
| "gamemode_name CREATIVE = ''CREATIVE''"
| "gamemode_name ADVENTURE = ''ADVENTURE''"
| "gamemode_name SPECTATOR = ''SPECTATOR''"

definition env_bool :: "bool \<Rightarrow> string" where
  "env_bool b = (if b then ''TRUE'' else ''FALSE'')"

text \<open>A nullable text column is truthy when it is set and not empty.\<close>

definition env_text :: "string \<Rightarrow> string option \<Rightarrow> string list" where
  "env_text key v = (case v of None \<Rightarrow> [] | Some s \<Rightarrow> if s = [] then [] else [key @ ''='' @ collapse_crlf s])"

definition buildEnv :: "server \<Rightarrow> string list" where
  "buildEnv server =
     [''EULA=TRUE'', ''ENABLE_RCON=TRUE'', ''TYPE='' @ provider_name (sv_provider server),
      ''VERSION='' @ sv_version server, ''MEMORY='' @ show_int (sv_memoryLimitMb server) @ ''M'']
     @ (if sv_maxPlayers server \<noteq> 0 then [''MAX_PLAYERS='' @ show_int (sv_maxPlayers server)] else [])
     @ [''DIFFICULTY='' @ toLowerCase (difficulty_name (sv_difficulty server))]
     @ [''MODE='' @ toLowerCase (gamemode_name (sv_gamemode server))]
     @ [''ONLINE_MODE='' @ env_bool (sv_onlineMode server)]
     @ (if sv_viewDistance server \<noteq> 0 then [''VIEW_DISTANCE='' @ show_int (sv_viewDistance server)] else [])
     @ [''ALLOW_FLIGHT='' @ env_bool (sv_allowFlight server)]
     @ [''PVP='' @ env_bool (sv_pvp server)]
     @ env_text ''MOTD'' (sv_motd server)
     @ env_text ''SEED'' (sv_levelSeed server)"

definition containerSpec :: "config \<Rightarrow> server \<Rightarrow> exn + container_config" where
  "containerSpec cfg server =
     seqE (readDockerConfig cfg) (\<lambda>dockerConfig.
     seqE (validateServerForCreate server dockerConfig) (\<lambda>_.
     seqE (resolveDataDir (dc_mcDataBindSource dockerConfig) (sv_id server)) (\<lambda>dataDir.
     Inr \<lparr>cc_name = ''mc-'' @ sv_id server, cc_Image = dc_image dockerConfig,
          cc_ExposedPorts = [CONTAINER_PORT], cc_Env = buildEnv server,
          cc_Labels = [(''minepanel.server-id'', sv_id server), (''minepanel.managed'', ''true'')],
          cc_Binds = [dataDir @ '':/data''],
          cc_Memory = sv_memoryLimitMb server * 1024 * 1024,
          cc_NanoCpus = dc_cpuNanoCpus dockerConfig, cc_PidsLimit = dc_pidsLimit dockerConfig,
          cc_PortBindings = [(CONTAINER_PORT, show_int (sv_port server))],
          cc_Privileged = False, cc_CapAdd = [], cc_NetworkMode = dc_network dockerConfig,
          cc_RestartPolicy = ''unless-stopped''\<rparr>)))"

section \<open>Operations\<close>

definition ping :: "dockerode \<Rightarrow> bool" where
  "ping dk = (case dk_ping dk of Inl _ \<Rightarrow> False | Inr _ \<Rightarrow> True)"

definition createContainer :: "dockerode \<Rightarrow> config \<Rightarrow> server \<Rightarrow> (world, string) prog" where
  "createContainer dk cfg server =
     bind (liftE (containerSpec cfg server)) (\<lambda>spec.
     bind (dcall (DCreate (cc_name spec)) (dk_create dk spec)) (\<lambda>r.
     case r of
       Inr cid \<Rightarrow> Return cid
     | Inl error \<Rightarrow>
         if isStatusCode error 404 then Throw (NotFoundException (Msg ''Docker image or network not found''))
         else Throw (handleDockerError error ''container'')))"

definition startContainer :: "dockerode \<Rightarrow> string \<Rightarrow> (world, unit) prog" where
  "startContainer dk cid =
     bind (dcall (DStart cid) (dk_start dk cid)) (\<lambda>r.
     case r of
       Inr _ \<Rightarrow> Return ()
     | Inl error \<Rightarrow> if isStatusCode error 304 then Return () else Throw (handleDockerError error ''container''))"

datatype stop_result = Stopped | AlreadyStopped

definition stopContainer :: "dockerode \<Rightarrow> string \<Rightarrow> jsnum \<Rightarrow> (world, stop_result) prog" where
  "stopContainer dk cid timeout =
     (if \<not> isInteger timeout \<or> js_lt timeout 0 \<or> js_gt timeout (of_int MAX_STOP_TIMEOUT_SECONDS)
      then Throw (BadRequestException (Msg ''Invalid stop timeout''))
      else bind (dcall (DStop cid (js_floor timeout)) (dk_stop dk cid (js_floor timeout))) (\<lambda>r.
        case r of
          Inr _ \<Rightarrow> Return Stopped
        | Inl error \<Rightarrow> if isStatusCode error 304 then Return AlreadyStopped
            else Throw (handleDockerError error ''container'')))"

definition removeContainer :: "dockerode \<Rightarrow> string \<Rightarrow> (world, unit) prog" where
  "removeContainer dk cid =
     bind (dcall (DRemove cid) (dk_remove dk cid)) (\<lambda>r.
     case r of
       Inr _ \<Rightarrow> Return ()
     | Inl error \<Rightarrow> if isStatusCode error 404 then Return () else Throw (handleDockerError error ''container''))"

text \<open>\<open>/[\0\r\n]/.test(arg)\<close>\<close>

definition has_control :: "string \<Rightarrow> bool" where
  "has_control s \<longleftrightarrow> list_ex (\<lambda>c. code c = 0 \<or> code c = 13 \<or> code c = 10) s"

fun rcon_args_ok :: "nat \<Rightarrow> string list \<Rightarrow> bool" where
  "rcon_args_ok tot [] = True"
| "rcon_args_ok tot (arg # args) =
     (if arg = [] then False
      else if has_control arg then False
      else let tot' = tot + byteLength arg
           in if RCON_MAX_TOTAL_BYTES < tot' then False else rcon_args_ok tot' args)"

definition validateRconCommand :: "string list \<Rightarrow> exn + unit" where
  "validateRconCommand command =
     (if command = [] then Inl (RconUnavailableError ''RCON command rejected'')
      else if RCON_MAX_ARG_COUNT < length command then Inl (RconUnavailableError ''RCON command rejected'')
      else if rcon_args_ok 0 command then Inr ()
      else Inl (RconUnavailableError ''RCON command rejected''))"

text \<open>What a failed exec phase is rethrown as.\<close>

definition rconFailure :: "cause \<Rightarrow> exn" where
  "rconFailure error =
     (if isDockerError error then handleDockerError error ''container'' else RconUnavailableError ''RCON unavailable'')"

definition rconOutcome :: "dockerode \<Rightarrow> string \<Rightarrow> string list \<Rightarrow> cause + unit" where
  "rconOutcome dk cid command =
     (case dk_exec dk cid (''rcon-cli'' # command) of
        Inl e \<Rightarrow> Inl e
      | Inr _ \<Rightarrow>
     (case dk_execStart dk cid (''rcon-cli'' # command) of
        Inl e \<Rightarrow> Inl e
      | Inr _ \<Rightarrow>
     (case dk_drain dk cid (''rcon-cli'' # command) of
        Inl e \<Rightarrow> Inl e
      | Inr _ \<Rightarrow>
     (case dk_execInspect dk cid (''rcon-cli'' # command) of
        Inl e \<Rightarrow> Inl e
      | Inr (running, exitCode) \<Rightarrow>
          if running \<noteq> Some False \<or> exitCode \<noteq> Some 0
          then Inl (Thrown (RconUnavailableError ''RCON unavailable'')) else Inr ()))))"

definition executeRconCommand :: "dockerode \<Rightarrow> string \<Rightarrow> string list \<Rightarrow> (world, unit) prog" where
  "executeRconCommand dk cid command =
     bind (liftE (validateRconCommand command)) (\<lambda>_.
     bind (dcall (DExec cid (''rcon-cli'' # command)) (rconOutcome dk cid command)) (\<lambda>r.
     case r of Inr _ \<Rightarrow> Return () | Inl error \<Rightarrow> Throw (rconFailure error)))"

datatype lookup_result = Absent | Unavailable | Found string bool

definition lookupOutcome :: "cause + container_summary list \<Rightarrow> lookup_result" where
  "lookupOutcome r =
     (case r of
        Inl error \<Rightarrow> Unavailable
      | Inr [] \<Rightarrow> Absent
      | Inr (container # _) \<Rightarrow>
          (case su_Id container of
             None \<Rightarrow> Absent
           | Some cid \<Rightarrow> if cid = [] then Absent else Found cid (su_State container = Some ''running'')))"

definition findManagedContainer :: "dockerode \<Rightarrow> string \<Rightarrow> (world, lookup_result) prog" where
  "findManagedContainer dk serverId =
     bind (dcall (DList serverId) (dk_list dk serverId)) (\<lambda>r. Return (lookupOutcome r))"

record container_state =
  cs_id :: string
  cs_name :: string
  cs_image :: string
  cs_status :: string
  cs_running :: bool
  cs_restartCount :: int
  cs_startedAt :: string
  cs_finishedAt :: string
  cs_exitCode :: int
  cs_oomKilled :: bool

definition orElse :: "'a option \<Rightarrow> 'a \<Rightarrow> 'a" where
  "orElse x0 d = (case x0 of None \<Rightarrow> d | Some x \<Rightarrow> x)"

definition inspectState :: "inspect_info \<Rightarrow> container_state" where
  "inspectState info = \<lparr>cs_id = ii_Id info, cs_name = ii_Name info, cs_image = orElse (ii_Image info) '''',
     cs_status = orElse (ii_Status info) '''', cs_running = orElse (ii_Running info) False,
     cs_restartCount = orElse (ii_RestartCount info) 0, cs_startedAt = orElse (ii_StartedAt info) '''',
     cs_finishedAt = orElse (ii_FinishedAt info) '''', cs_exitCode = orElse (ii_ExitCode info) 0,
     cs_oomKilled = orElse (ii_OOMKilled info) False\<rparr>"

definition inspectContainer :: "dockerode \<Rightarrow> string \<Rightarrow> (world, container_state) prog" where
  "inspectContainer dk cid =
     bind (dcall (DInspect cid) (dk_inspect dk cid)) (\<lambda>r.
     case r of
       Inr info \<Rightarrow> Return (inspectState info)
     | Inl error \<Rightarrow> Throw (handleDockerError error ''container''))"

section \<open>Host resources\<close>

type_synonym host_info = "int option \<times> int option"
type_synonym disk_info = "int option \<times> int option"

text \<open>\<open>isFiniteInteger(value) && value > 0\<close>, as the integer it is.\<close>

fun positive_integer :: "jsnum option \<Rightarrow> int option" where
  "positive_integer (Some (Num a)) = (if of_int \<lfloor>a\<rfloor> = a \<and> 0 < a then Some \<lfloor>a\<rfloor> else None)"
| "positive_integer _ = None"

definition toMb :: "jsnum option \<Rightarrow> int option" where
  "toMb value = map_option (\<lambda>n. n div (1024 * 1024)) (positive_integer value)"

text \<open>\<open>getHostInfo\<close>: total memory in megabytes and the number of CPUs.\<close>

definition hostInfoOf :: "docker_info option \<Rightarrow> host_info" where
  "hostInfoOf info =
     (case info of
        None \<Rightarrow> (None, None)
      | Some i \<Rightarrow> (toMb (di_MemTotal i), positive_integer (di_NCPU i)))"

definition getHostInfo :: "dockerode \<Rightarrow> (world, host_info) prog" where
  "getHostInfo dk =
     bind (dcall DInfo (dk_info dk)) (\<lambda>r.
     case r of
       Inr info \<Rightarrow> Return (hostInfoOf info)
     | Inl error \<Rightarrow> Throw (handleDockerError error ''host''))"

definition getHostFreeMemoryMb :: "dockerode \<Rightarrow> int option" where
  "getHostFreeMemoryMb dk =
     (case os_freemem dk of
        Some (Num a) \<Rightarrow>
          if of_int \<lfloor>a\<rfloor> = a \<and> 0 \<le> a \<and> a \<le> of_int MAX_SAFE_INTEGER then Some (\<lfloor>a\<rfloor> div (1024 * 1024)) else None
      | _ \<Rightarrow> None)"

fun valid_statfs_field :: "jsnum option \<Rightarrow> jsnum option" where
  "valid_statfs_field (Some (Num a)) = (if of_int \<lfloor>a\<rfloor> = a \<and> 0 \<le> a then Some (Num a) else None)"
| "valid_statfs_field _ = None"

text \<open>\<open>Math.floor(total / 1024 / 1024)\<close>; dividing a double by a power of two is exact.\<close>

fun bytes_to_mb :: "jsnum \<Rightarrow> int option" where
  "bytes_to_mb (Num a) = Some \<lfloor>a / (1024 * 1024)\<rfloor>"
| "bytes_to_mb _ = None"

definition diskInfoOf :: "statfs option \<Rightarrow> disk_info" where
  "diskInfoOf r =
     (case r of
        None \<Rightarrow> (None, None)
      | Some stats \<Rightarrow>
          (case (valid_statfs_field (st_bsize stats), valid_statfs_field (st_blocks stats), valid_statfs_field (st_bavail stats)) of
             (Some (Num bsize), Some (Num blocks), Some (Num bavail)) \<Rightarrow>
               if bsize \<le> 0 \<or> blocks < bavail then (None, None)
               else (case (bytes_to_mb (js_mul (Num blocks) (Num bsize)), bytes_to_mb (js_mul (Num bavail) (Num bsize))) of
                       (Some tot, Some free) \<Rightarrow> (Some tot, Some free)
                     | _ \<Rightarrow> (None, None))
           | _ \<Rightarrow> (None, None)))"

definition getHostDiskInfo :: "dockerode \<Rightarrow> config \<Rightarrow> exn + disk_info" where
  "getHostDiskInfo dk cfg =
     seqE (readDockerConfig cfg) (\<lambda>config. Inr (diskInfoOf (fs_statfs dk (dc_mcDataPath config))))"

end
