(* ===== verification/ServersService.thy ===== *)
theory ServersService
  imports DockerService "HOL-Library.Char_ord" "HOL-Library.List_Lexorder" "HOL-Library.Product_Lexorder"
begin

text \<open>
  \<open>src/servers/servers.service.ts\<close> and \<open>public-server.ts\<close>: the life cycle of the game
  servers. Every method of the service is a program over \<open>world\<close>; the private methods that
  are one SQL statement or one transaction are functions \<open>world \<Rightarrow> exn + 'a \<times> world\<close> run by
  \<open>atomically\<close>. The transactions that take the lifecycle advisory lock are one atomic step.
\<close>

section \<open>Data\<close>

record principal =
  p_id :: string
  p_role :: role

record create_server_dto =
  cd_name :: string
  cd_provider :: server_provider
  cd_version :: string
  cd_port :: int
  cd_maxPlayers :: "int option"
  cd_difficulty :: "server_difficulty option"
  cd_gamemode :: "server_gamemode option"
  cd_pvp :: "bool option"
  cd_memoryLimitMb :: "int option"
  cd_motd :: "string option"
  cd_levelSeed :: "string option"
  cd_onlineMode :: "bool option"
  cd_viewDistance :: "int option"
  cd_accessType :: "access_type option"
  cd_allowFlight :: "bool option"

record list_query =
  q_limit :: nat
  q_offset :: nat

record public_server =
  ps_id :: string
  ps_name :: string
  ps_provider :: server_provider
  ps_version :: string
  ps_port :: int
  ps_status :: server_status
  ps_maxPlayers :: int
  ps_difficulty :: server_difficulty
  ps_gamemode :: server_gamemode
  ps_pvp :: bool
  ps_memoryLimitMb :: int
  ps_motd :: "string option"
  ps_levelSeed :: "string option"
  ps_onlineMode :: bool
  ps_viewDistance :: int
  ps_allowFlight :: bool
  ps_ownerId :: string
  ps_accessType :: access_type
  ps_createdAt :: timestamp
  ps_updatedAt :: timestamp

definition toPublicServer :: "server \<Rightarrow> public_server" where
  "toPublicServer r = \<lparr>ps_id = sv_id r, ps_name = sv_name r, ps_provider = sv_provider r,
     ps_version = sv_version r, ps_port = sv_port r, ps_status = sv_status r,
     ps_maxPlayers = sv_maxPlayers r, ps_difficulty = sv_difficulty r, ps_gamemode = sv_gamemode r,
     ps_pvp = sv_pvp r, ps_memoryLimitMb = sv_memoryLimitMb r, ps_motd = sv_motd r,
     ps_levelSeed = sv_levelSeed r, ps_onlineMode = sv_onlineMode r, ps_viewDistance = sv_viewDistance r,
     ps_allowFlight = sv_allowFlight r, ps_ownerId = sv_ownerId r, ps_accessType = sv_accessType r,
     ps_createdAt = sv_createdAt r, ps_updatedAt = sv_updatedAt r\<rparr>"

text \<open>A container id that JavaScript takes for true: set and not the empty string.\<close>

fun truthy :: "string option \<Rightarrow> string option" where
  "truthy (Some (c # cs)) = Some (c # cs)"
| "truthy _ = None"

lemma truthy_if: "truthy (Some x) = (if x = [] then None else Some x)"
  by (cases x) simp_all

lemma truthy_Some: "truthy x = Some c \<Longrightarrow> x = Some c \<and> c \<noteq> []"
  by (cases x rule: truthy.cases) auto

section \<open>Statements on the servers table\<close>

definition sel_visible :: "principal \<Rightarrow> world \<Rightarrow> server \<Rightarrow> bool" where
  "sel_visible pr w r \<longleftrightarrow>
     sv_status r \<noteq> CREATING
   \<and> (p_role pr = ADMIN \<or> sv_accessType r = OPEN
      \<or> list_ex (\<lambda>a. sa_userId a = p_id pr \<and> sa_serverId a = sv_id r \<and> sa_status a = APPROVED)
          (serverAccess w))"

text \<open>\<open>UPDATE servers SET ... WHERE ... RETURNING *\<close>, with the unique constraints checked.\<close>

definition update_servers :: "(server \<Rightarrow> bool) \<Rightarrow> (world \<Rightarrow> server \<Rightarrow> server) \<Rightarrow> world
    \<Rightarrow> exn + server list \<times> world" where
  "update_servers P f w =
     (let t = update_where P (f w) (servers w)
      in if servers_unique t then Inr (map (f w) (filter P (servers w)), w\<lparr>servers := t\<rparr>)
         else Inl (PostgresError ''23505''))"

definition first_row :: "'r list \<Rightarrow> 'r option" where
  "first_row rows = (case rows of [] \<Rightarrow> None | r # _ \<Rightarrow> Some r)"

definition cid_matches :: "string option \<Rightarrow> server \<Rightarrow> bool" where
  "cid_matches expectedContainerId r \<longleftrightarrow> sv_containerId r = truthy expectedContainerId"

definition cas_row :: "string \<Rightarrow> server_status \<Rightarrow> string option \<Rightarrow> server \<Rightarrow> bool" where
  "cas_row sid expectedStatus expectedContainerId r \<longleftrightarrow>
     sv_id r = sid \<and> sv_status r = expectedStatus \<and> cid_matches expectedContainerId r"

definition set_lifecycle :: "server_status \<Rightarrow> string option option \<Rightarrow> world \<Rightarrow> server \<Rightarrow> server" where
  "set_lifecycle nextStatus newContainerId w r =
     r\<lparr>sv_status := nextStatus, sv_updatedAt := clock w,
       sv_containerId := (case newContainerId of None \<Rightarrow> sv_containerId r | Some c \<Rightarrow> c)\<rparr>"

definition transitionInTx :: "string \<Rightarrow> server_status \<Rightarrow> server_status \<Rightarrow> string option
    \<Rightarrow> string option option \<Rightarrow> world \<Rightarrow> exn + server option \<times> world" where
  "transitionInTx sid expectedStatus nextStatus expectedContainerId newContainerId w =
     seqE (update_servers (cas_row sid expectedStatus expectedContainerId)
            (set_lifecycle nextStatus newContainerId) w)
       (\<lambda>(rows, w'). Inr (first_row rows, w'))"

definition transition :: "string \<Rightarrow> server_status \<Rightarrow> server_status \<Rightarrow> string option
    \<Rightarrow> string option option \<Rightarrow> (world, server option) prog" where
  "transition sid expectedStatus nextStatus expectedContainerId newContainerId =
     atomically (transitionInTx sid expectedStatus nextStatus expectedContainerId newContainerId)"

definition claimContainerId :: "string \<Rightarrow> string \<Rightarrow> (world, server option) prog" where
  "claimContainerId serverId containerId =
     atomically (\<lambda>w. seqE (update_servers
         (\<lambda>r. sv_id r = serverId \<and> sv_status r = CREATING \<and> sv_containerId r = None)
         (\<lambda>w r. r\<lparr>sv_containerId := Some containerId, sv_updatedAt := clock w\<rparr>) w)
       (\<lambda>(rows, w'). Inr (first_row rows, w')))"

definition delete_server_in :: "string \<Rightarrow> server_status \<Rightarrow> (world, unit) prog" where
  "delete_server_in sid status = modify (delete_servers (\<lambda>r. sv_id r = sid \<and> sv_status r = status))"

text \<open>\<open>SELECT coalesce(sum(memory_limit_mb), 0) ...\<close>\<close>

definition getCurrentAllocationMb :: "string option \<Rightarrow> bool \<Rightarrow> world \<Rightarrow> int" where
  "getCurrentAllocationMb excludeServerId includeStopped w =
     sum_list (map sv_memoryLimitMb
       (filter (\<lambda>r. (includeStopped \<or> sv_status r \<noteq> STOPPED)
                  \<and> (case truthy excludeServerId of None \<Rightarrow> True | Some x \<Rightarrow> sv_id r \<noteq> x)) (servers w)))"

section \<open>Host resources\<close>

record resource_config =
  rc_minFreeDiskMb :: int
  rc_maxMemoryRatio :: rat

definition hostUnavailable :: exn where
  "hostUnavailable = ServiceUnavailableException (Msg ''Host resource information unavailable'')"

definition parseResourceConfig :: "config \<Rightarrow> exn + resource_config" where
  "parseResourceConfig cfg =
     (let minFreeDiskMb = js_Number (cfg_get cfg ''MIN_FREE_DISK_MB'' ''2048'');
          maxMemoryRatio = js_Number (cfg_get cfg ''MAX_MEMORY_RATIO'' ''0.9'')
      in case (minFreeDiskMb, maxMemoryRatio) of
           (Num d, Num ratio) \<Rightarrow>
             if \<not> isSafeInteger (Num d) \<or> d \<le> 0 \<or> ratio \<le> 0 \<or> 1 < ratio then Inl hostUnavailable
             else Inr \<lparr>rc_minFreeDiskMb = js_floor (Num d), rc_maxMemoryRatio = ratio\<rparr>
         | _ \<Rightarrow> Inl hostUnavailable)"

definition checkDisk :: "disk_info \<Rightarrow> int \<Rightarrow> string \<Rightarrow> exn + unit" where
  "checkDisk diskInfo minFreeDiskMb message =
     (case diskInfo of
        (Some totalDiskMb, Some freeDiskMb) \<Rightarrow>
          guardE (minFreeDiskMb \<le> freeDiskMb)
            (InsufficientResources message \<lparr>rd_resource = ''disk'', rd_availableMb = freeDiskMb,
               rd_requiredMb = minFreeDiskMb, rd_totalMb = totalDiskMb\<rparr>)
      | _ \<Rightarrow> Inl hostUnavailable)"

text \<open>\<open>Math.floor(totalRamMb * maxMemoryRatio)\<close>, the product in double precision.\<close>

definition allocatableMb :: "int \<Rightarrow> rat \<Rightarrow> int" where
  "allocatableMb totalRamMb maxMemoryRatio = js_floor (js_mul (Num (of_int totalRamMb)) (Num maxMemoryRatio))"

definition checkMemoryAdmission :: "host_info \<Rightarrow> rat \<Rightarrow> int \<Rightarrow> int \<Rightarrow> string \<Rightarrow> exn + unit" where
  "checkMemoryAdmission hostInfo maxMemoryRatio requestedMb currentAllocationMb message =
     (case hostInfo of
        (Some totalRamMb, Some cpuCount) \<Rightarrow>
          (let availableMb = max (allocatableMb totalRamMb maxMemoryRatio - currentAllocationMb) 0
           in guardE (requestedMb \<le> availableMb)
                (InsufficientResources message \<lparr>rd_resource = ''memory'', rd_availableMb = availableMb,
                   rd_requiredMb = requestedMb, rd_totalMb = totalRamMb\<rparr>))
      | _ \<Rightarrow> Inl hostUnavailable)"

text \<open>
  \<open>Promise.all([getHostInfo(), getHostDiskInfo()])\<close>. Both calls are made; a rejection of the
  second (an invalid configuration, known before any reply) is the one that is reported.
\<close>

definition hostResources :: "dockerode \<Rightarrow> config \<Rightarrow> (world, host_info \<times> disk_info) prog" where
  "hostResources dk cfg =
     bind (attempt (getHostInfo dk)) (\<lambda>host.
     bind (liftE (getHostDiskInfo dk cfg)) (\<lambda>disk.
     bind (liftE host) (\<lambda>h. Return (h, disk))))"

section \<open>Stopping a container gracefully\<close>

definition stopConfigUnavailable :: exn where
  "stopConfigUnavailable = ServiceUnavailableException (Msg ''Graceful shutdown configuration unavailable'')"

definition parseStopWarnSeconds :: "config \<Rightarrow> exn + int" where
  "parseStopWarnSeconds cfg =
     (let raw = cfg_get cfg ''STOP_WARN_SECONDS'' ''30''
      in if \<not> matches (rplus (RCls is_digit)) raw then Inl stopConfigUnavailable
         else let v = js_Number raw
              in if \<not> isSafeInteger v \<or> js_gt v 300 then Inl stopConfigUnavailable
                 else Inr (js_floor v))"

definition sleep :: "int \<Rightarrow> (world, unit) prog" where
  "sleep ms = get (\<lambda>_. ())"

text \<open>The warning sent to the players; its first character is the section sign, U+00A7.\<close>

definition closing_message :: "int \<Rightarrow> string" where
  "closing_message warnSeconds = CHR 0xA7 # ''cServer closing in '' @ show_int warnSeconds @ '' seconds...''"

definition rconPhase :: "dockerode \<Rightarrow> string \<Rightarrow> int \<Rightarrow> (world, unit) prog" where
  "rconPhase dk containerId warnSeconds =
     bind (executeRconCommand dk containerId [''say'', closing_message warnSeconds]) (\<lambda>_.
     bind (if 0 < warnSeconds then sleep (warnSeconds * 1000) else Return ()) (\<lambda>_.
     bind (executeRconCommand dk containerId [''save-all'']) (\<lambda>_.
     sleep 3000)))"

definition gracefulStopContainer :: "dockerode \<Rightarrow> string \<Rightarrow> int \<Rightarrow> (world, unit) prog" where
  "gracefulStopContainer dk containerId warnSeconds =
     bind (attempt (rconPhase dk containerId warnSeconds)) (\<lambda>r.
     bind (stopContainer dk containerId (case r of Inl _ \<Rightarrow> Num 10 | Inr _ \<Rightarrow> Num 15)) (\<lambda>_.
     Return ()))"

section \<open>Reading\<close>

definition loadVisibleServer :: "string \<Rightarrow> principal \<Rightarrow> (world, server) prog" where
  "loadVisibleServer sid pr =
     bind (get (\<lambda>w. List.find (\<lambda>r. sv_id r = sid \<and> sel_visible pr w r) (servers w))) (\<lambda>row.
     case row of None \<Rightarrow> Throw (NotFoundException (Msg ''Server not found'')) | Some r \<Rightarrow> Return r)"

definition getServer :: "string \<Rightarrow> principal \<Rightarrow> (world, public_server) prog" where
  "getServer sid pr = bind (loadVisibleServer sid pr) (\<lambda>row. Return (toPublicServer row))"

text \<open>\<open>ORDER BY created_at, id LIMIT ... OFFSET ...\<close>\<close>

definition page :: "list_query \<Rightarrow> (server \<Rightarrow> bool) \<Rightarrow> server list \<Rightarrow> server list" where
  "page q P t = take (q_limit q) (drop (q_offset q)
     (sort_key (\<lambda>r. (sv_createdAt r, sv_id r)) (filter P t)))"

definition listServers :: "list_query \<Rightarrow> principal \<Rightarrow> (world, public_server list \<times> nat) prog" where
  "listServers q pr =
     bind (get (\<lambda>w. page q (sel_visible pr w) (servers w))) (\<lambda>rows.
     bind (get (\<lambda>w. length (filter (sel_visible pr w) (servers w)))) (\<lambda>tot.
     Return (map toPublicServer rows, tot)))"

record requestable_server =
  rq_id :: string
  rq_name :: string
  rq_accessType :: access_type
  rq_requestStatus :: "server_access_status option"

definition hasAccessState :: "principal \<Rightarrow> server_access_status \<Rightarrow> world \<Rightarrow> server \<Rightarrow> bool" where
  "hasAccessState pr st w r \<longleftrightarrow>
     list_ex (\<lambda>a. sa_serverId a = sv_id r \<and> sa_userId a = p_id pr \<and> sa_status a = st) (serverAccess w)"

definition sel_requestable :: "principal \<Rightarrow> world \<Rightarrow> server \<Rightarrow> bool" where
  "sel_requestable pr w r \<longleftrightarrow>
     sv_accessType r = REQUEST \<and> sv_status r \<noteq> CREATING \<and> \<not> hasAccessState pr APPROVED w r"

definition toRequestable :: "principal \<Rightarrow> world \<Rightarrow> server \<Rightarrow> requestable_server" where
  "toRequestable pr w r = \<lparr>rq_id = sv_id r, rq_name = sv_name r, rq_accessType = REQUEST,
     rq_requestStatus = (if hasAccessState pr PENDING w r then Some PENDING else None)\<rparr>"

definition listRequestableServers :: "list_query \<Rightarrow> principal \<Rightarrow> (world, requestable_server list \<times> nat) prog" where
  "listRequestableServers q pr =
     bind (get (\<lambda>w. map (toRequestable pr w) (page q (sel_requestable pr w) (servers w)))) (\<lambda>data.
     bind (get (\<lambda>w. length (filter (sel_requestable pr w) (servers w)))) (\<lambda>tot.
     Return (data, tot)))"

section \<open>Creating\<close>

definition new_server :: "string \<Rightarrow> create_server_dto \<Rightarrow> principal \<Rightarrow> timestamp \<Rightarrow> server" where
  "new_server sid dto pr now = \<lparr>sv_id = sid, sv_name = cd_name dto, sv_provider = cd_provider dto,
     sv_version = cd_version dto, sv_port = cd_port dto, sv_containerId = None, sv_status = CREATING,
     sv_maxPlayers = orElse (cd_maxPlayers dto) 20, sv_difficulty = orElse (cd_difficulty dto) NORMAL,
     sv_gamemode = orElse (cd_gamemode dto) SURVIVAL, sv_pvp = orElse (cd_pvp dto) True,
     sv_memoryLimitMb = orElse (cd_memoryLimitMb dto) 2048, sv_motd = cd_motd dto,
     sv_levelSeed = cd_levelSeed dto, sv_onlineMode = orElse (cd_onlineMode dto) True,
     sv_viewDistance = orElse (cd_viewDistance dto) 10, sv_allowFlight = orElse (cd_allowFlight dto) False,
     sv_worldPath = None, sv_rconPassword = None, sv_ownerId = p_id pr,
     sv_accessType = orElse (cd_accessType dto) OPEN, sv_createdAt = now, sv_updatedAt = now\<rparr>"

definition insert_server :: "server \<Rightarrow> world \<Rightarrow> exn + server \<times> world" where
  "insert_server row w =
     (if \<not> servers_unique (servers w @ [row]) then Inl (PostgresError ''23505'')
      else if \<not> user_exists w (sv_ownerId row) then Inl (PostgresError ''23503'')
      else Inr (row, w\<lparr>servers := servers w @ [row]\<rparr>))"

definition createTx :: "string \<Rightarrow> create_server_dto \<Rightarrow> principal \<Rightarrow> host_info \<Rightarrow> rat \<Rightarrow> world
    \<Rightarrow> exn + server \<times> world" where
  "createTx sid dto pr hostInfo maxMemoryRatio w =
     seqE (checkMemoryAdmission hostInfo maxMemoryRatio (orElse (cd_memoryLimitMb dto) 2048)
            (getCurrentAllocationMb None True w) ''Insufficient memory to create server'') (\<lambda>_.
     insert_server (new_server sid dto pr (clock w)) w)"

definition compensateCreateFailure :: "dockerode \<Rightarrow> string \<Rightarrow> (world, unit) prog" where
  "compensateCreateFailure dk serverId =
     bind (findManagedContainer dk serverId) (\<lambda>lookup.
     case lookup of
       Unavailable \<Rightarrow> Return ()
     | Found cid running \<Rightarrow>
         void (atomically (update_servers (\<lambda>r. sv_id r = serverId \<and> sv_status r = CREATING)
           (set_lifecycle ERROR (Some (Some cid)))))
     | Absent \<Rightarrow> delete_server_in serverId CREATING)"

definition createServer :: "dockerode \<Rightarrow> config \<Rightarrow> string \<Rightarrow> create_server_dto \<Rightarrow> principal
    \<Rightarrow> (world, public_server) prog" where
  "createServer dk cfg newId dto pr =
     bind (liftE (parseResourceConfig cfg)) (\<lambda>config.
     bind (hostResources dk cfg) (\<lambda>(hostInfo, diskInfo).
     bind (liftE (checkDisk diskInfo (rc_minFreeDiskMb config) ''Insufficient disk space to create server'')) (\<lambda>_.
     bind (atomically (createTx newId dto pr hostInfo (rc_maxMemoryRatio config))) (\<lambda>created.
     bind (tryCatch (createContainer dk cfg created) (\<lambda>error.
       bind (compensateCreateFailure dk (sv_id created)) (\<lambda>_. Throw error))) (\<lambda>containerId.
     bind (claimContainerId (sv_id created) containerId) (\<lambda>persisted.
     if persisted = None then
       bind (compensateCreateFailure dk (sv_id created)) (\<lambda>_.
         Throw (InternalServerErrorException (Msg ''Failed to persist container id'')))
     else
     bind (tryCatch (startContainer dk containerId) (\<lambda>error.
       bind (transition (sv_id created) CREATING ERROR (Some containerId) None) (\<lambda>_. Throw error))) (\<lambda>_.
     bind (transition (sv_id created) CREATING RUNNING (Some containerId) None) (\<lambda>running.
     case running of
       None \<Rightarrow> Throw (InternalServerErrorException (Msg ''Failed to finalize running server state''))
     | Some r \<Rightarrow> Return (toPublicServer r)))))))))"

section \<open>Starting, stopping, restarting, deleting\<close>

definition startClaimTx :: "string \<Rightarrow> server_status \<Rightarrow> string \<Rightarrow> int \<Rightarrow> host_info \<Rightarrow> rat \<Rightarrow> string \<Rightarrow> world
    \<Rightarrow> exn + server option \<times> world" where
  "startClaimTx sid fromStatus containerId memoryLimitMb hostInfo maxMemoryRatio message w =
     seqE (checkMemoryAdmission hostInfo maxMemoryRatio memoryLimitMb
            (getCurrentAllocationMb (Some sid) False w) message) (\<lambda>_.
     transitionInTx sid fromStatus STARTING (Some containerId) None w)"

text \<open>Start the container and settle the row: the common tail of start and restart.\<close>

definition startAndFinalize :: "dockerode \<Rightarrow> string \<Rightarrow> string \<Rightarrow> (world, public_server) prog" where
  "startAndFinalize dk sid containerId =
     bind (tryCatch (startContainer dk containerId) (\<lambda>error.
       bind (case error of
               ServiceUnavailableException _ \<Rightarrow> transition sid STARTING ERROR (Some containerId) None
             | _ \<Rightarrow> transition sid STARTING STOPPED (Some containerId) None) (\<lambda>_. Throw error))) (\<lambda>_.
     bind (transition sid STARTING RUNNING (Some containerId) None) (\<lambda>running.
     case running of
       None \<Rightarrow> bind (transition sid STARTING ERROR (Some containerId) None) (\<lambda>_.
         Throw (InternalServerErrorException (Msg ''Failed to finalize running server state'')))
     | Some r \<Rightarrow> Return (toPublicServer r)))"

definition startServer :: "dockerode \<Rightarrow> config \<Rightarrow> string \<Rightarrow> principal \<Rightarrow> (world, public_server) prog" where
  "startServer dk cfg sid pr =
     bind (loadVisibleServer sid pr) (\<lambda>row.
     if sv_status row \<noteq> STOPPED then Throw (ConflictException (Msg ''Server is not in STOPPED state''))
     else case truthy (sv_containerId row) of
       None \<Rightarrow> Throw (ConflictException (Msg ''Server container is not provisioned''))
     | Some containerId \<Rightarrow>
     bind (liftE (parseResourceConfig cfg)) (\<lambda>config.
     bind (hostResources dk cfg) (\<lambda>(hostInfo, diskInfo).
     bind (liftE (checkDisk diskInfo (rc_minFreeDiskMb config) ''Insufficient disk space to start server'')) (\<lambda>_.
     bind (atomically (startClaimTx sid STOPPED containerId (sv_memoryLimitMb row) hostInfo
             (rc_maxMemoryRatio config) ''Insufficient memory to start server'')) (\<lambda>started.
     if started = None then Throw (ConflictException (Msg ''Server is not in STOPPED state''))
     else startAndFinalize dk sid containerId)))))"

text \<open>The catch block of the stop phase, the same in \<open>stopServer\<close> and \<open>restartServer\<close>.\<close>

definition settleStopFailure :: "string \<Rightarrow> string \<Rightarrow> exn \<Rightarrow> (world, unit) prog" where
  "settleStopFailure sid containerId error =
     bind (case error of
             ServiceUnavailableException _ \<Rightarrow> transition sid STOPPING ERROR (Some containerId) None
           | NotFoundException _ \<Rightarrow> transition sid STOPPING STOPPED (Some containerId) None
           | _ \<Rightarrow> transition sid STOPPING RUNNING (Some containerId) None) (\<lambda>_. Throw error)"

text \<open>The common head of stop and restart, up to the stopped container; it hands on the row it loaded.\<close>

definition stopPhase :: "dockerode \<Rightarrow> config \<Rightarrow> string \<Rightarrow> principal \<Rightarrow> (world, server \<times> string) prog" where
  "stopPhase dk cfg sid pr =
     bind (loadVisibleServer sid pr) (\<lambda>row.
     if sv_status row \<noteq> RUNNING then Throw (ConflictException (Msg ''Server is not in RUNNING state''))
     else case truthy (sv_containerId row) of
       None \<Rightarrow> Throw (InternalServerErrorException (Msg ''Running server has no container id''))
     | Some containerId \<Rightarrow>
     bind (liftE (parseStopWarnSeconds cfg)) (\<lambda>warnSeconds.
     bind (transition sid RUNNING STOPPING (Some containerId) None) (\<lambda>stopping.
     if stopping = None then Throw (ConflictException (Msg ''Server is not in RUNNING state''))
     else
     bind (tryCatch (gracefulStopContainer dk containerId warnSeconds)
             (settleStopFailure sid containerId)) (\<lambda>_.
     Return (row, containerId)))))"

definition stopServer :: "dockerode \<Rightarrow> config \<Rightarrow> string \<Rightarrow> principal \<Rightarrow> (world, public_server) prog" where
  "stopServer dk cfg sid pr =
     bind (stopPhase dk cfg sid pr) (\<lambda>(row, containerId).
     bind (transition sid STOPPING STOPPED (Some containerId) None) (\<lambda>stopped.
     case stopped of
       None \<Rightarrow> Throw (InternalServerErrorException (Msg ''Failed to finalize stopped server state''))
     | Some r \<Rightarrow> Return (toPublicServer r)))"

definition restartClaim :: "dockerode \<Rightarrow> config \<Rightarrow> string \<Rightarrow> server \<Rightarrow> string \<Rightarrow> (world, public_server) prog" where
  "restartClaim dk cfg sid row containerId =
     bind (liftE (parseResourceConfig cfg)) (\<lambda>config.
     bind (hostResources dk cfg) (\<lambda>(hostInfo, diskInfo).
     bind (liftE (checkDisk diskInfo (rc_minFreeDiskMb config) ''Insufficient disk space to restart server'')) (\<lambda>_.
     bind (atomically (startClaimTx sid STOPPING containerId (sv_memoryLimitMb row) hostInfo
             (rc_maxMemoryRatio config) ''Insufficient memory to restart server'')) (\<lambda>starting.
     if starting = None then Throw (ConflictException (Msg ''Server is not in STOPPED state''))
     else startAndFinalize dk sid containerId))))"

definition restartServer :: "dockerode \<Rightarrow> config \<Rightarrow> string \<Rightarrow> principal \<Rightarrow> (world, public_server) prog" where
  "restartServer dk cfg sid pr =
     bind (stopPhase dk cfg sid pr) (\<lambda>(row, containerId).
     tryCatch (restartClaim dk cfg sid row containerId) (\<lambda>error.
       bind (transition sid STOPPING STOPPED (Some containerId) None) (\<lambda>_. Throw error)))"

definition resolveDeleteRemoveFailure :: "dockerode \<Rightarrow> string \<Rightarrow> string \<Rightarrow> (world, bool) prog" where
  "resolveDeleteRemoveFailure dk sid containerId =
     tryCatch
       (bind (inspectContainer dk containerId) (\<lambda>state.
        if cs_running state then
          bind (transition sid STOPPING ERROR (Some containerId) None) (\<lambda>_. Return False)
        else bind (delete_server_in sid STOPPING) (\<lambda>_. Return True)))
       (\<lambda>inspectError. case inspectError of
          NotFoundException _ \<Rightarrow> bind (delete_server_in sid STOPPING) (\<lambda>_. Return True)
        | _ \<Rightarrow> bind (transition sid STOPPING ERROR (Some containerId) None) (\<lambda>_. Return False))"

definition deleteServer :: "dockerode \<Rightarrow> string \<Rightarrow> principal \<Rightarrow> (world, unit) prog" where
  "deleteServer dk sid pr =
     bind (loadVisibleServer sid pr) (\<lambda>row.
     if sv_status row \<noteq> STOPPED then Throw (ConflictException (Msg ''Server is not in STOPPED state''))
     else
     bind (transition sid STOPPED STOPPING (sv_containerId row) None) (\<lambda>deleting.
     case deleting of
       None \<Rightarrow> Throw (ConflictException (Msg ''Server is not in STOPPED state''))
     | Some d \<Rightarrow>
     bind (case truthy (sv_containerId d) of
             None \<Rightarrow> Return ()
           | Some containerId \<Rightarrow>
               tryCatch (removeContainer dk containerId) (\<lambda>error.
                 bind (resolveDeleteRemoveFailure dk sid containerId) (\<lambda>removed.
                 if \<not> removed then Throw error else Return ()))) (\<lambda>_.
     delete_server_in sid STOPPING)))"

section \<open>Reconciliation at startup\<close>

datatype reconciliation_outcome = OState server_status "string option" | OUnavailable | OUnchanged

definition status_of_running :: "bool \<Rightarrow> server_status" where
  "status_of_running running = (if running then RUNNING else STOPPED)"

definition reconcileLookup :: "dockerode \<Rightarrow> server \<Rightarrow> (world, reconciliation_outcome) prog" where
  "reconcileLookup dk row =
     bind (findManagedContainer dk (sv_id row)) (\<lambda>lookup.
     Return (case lookup of
       Unavailable \<Rightarrow> OUnavailable
     | Found cid running \<Rightarrow> OState (status_of_running running) (Some cid)
     | Absent \<Rightarrow> OState STOPPED None))"

definition reconcileRow :: "dockerode \<Rightarrow> server \<Rightarrow> (world, reconciliation_outcome) prog" where
  "reconcileRow dk row =
     (case truthy (sv_containerId row) of
        None \<Rightarrow> reconcileLookup dk row
      | Some containerId \<Rightarrow>
          bind (attempt (inspectContainer dk containerId)) (\<lambda>r.
          case r of
            Inr state \<Rightarrow> Return (OState (status_of_running (cs_running state)) (Some (cs_id state)))
          | Inl (ServiceUnavailableException _) \<Rightarrow> Return OUnavailable
          | Inl (NotFoundException _) \<Rightarrow> reconcileLookup dk row
          | Inl _ \<Rightarrow> Return OUnchanged))"

primrec reconcileRows :: "dockerode \<Rightarrow> server list \<Rightarrow> (world, (server \<times> reconciliation_outcome) list) prog" where
  "reconcileRows dk [] = Return []"
| "reconcileRows dk (row # rows) =
     bind (reconcileRow dk row) (\<lambda>outcome.
     bind (reconcileRows dk rows) (\<lambda>rest. Return ((row, outcome) # rest)))"

text \<open>
  The guarded update of one row. The snapshot check compares the stored timestamp, floored
  to milliseconds, with the one that was read.
\<close>

definition snapshot_row :: "server \<Rightarrow> server \<Rightarrow> bool" where
  "snapshot_row row r \<longleftrightarrow> cas_row (sv_id row) (sv_status row) (sv_containerId row) r
     \<and> getTime (sv_updatedAt r) = getTime (sv_updatedAt row)"

definition applyOutcome :: "server \<times> reconciliation_outcome \<Rightarrow> (world, unit) prog" where
  "applyOutcome ro = (case ro of (row, outcome) \<Rightarrow>
     (case outcome of
        OState status cid \<Rightarrow>
          if sv_status row = status \<and> sv_containerId row = cid then Return ()
          else void (atomically (update_servers (snapshot_row row) (set_lifecycle status (Some cid))))
      | _ \<Rightarrow> Return ()))"

text \<open>\<open>Promise.all\<close>: every update is issued, the first rejection is reported.\<close>

primrec applyOutcomes :: "(server \<times> reconciliation_outcome) list \<Rightarrow> (world, unit) prog" where
  "applyOutcomes [] = Return ()"
| "applyOutcomes (ro # ros) =
     bind (attempt (applyOutcome ro)) (\<lambda>r.
     bind (attempt (applyOutcomes ros)) (\<lambda>rest.
     liftE (seqE r (\<lambda>_. rest))))"

definition onModuleInit :: "dockerode \<Rightarrow> (world, unit) prog" where
  "onModuleInit dk =
     bind (get (\<lambda>w. filter (\<lambda>r. sv_status r \<noteq> STOPPED) (servers w))) (\<lambda>rows.
     bind (reconcileRows dk rows) (\<lambda>outcomes.
     if list_ex (\<lambda>(row, outcome). outcome = OUnavailable) outcomes then Return ()
     else applyOutcomes outcomes))"

section \<open>Programs that change no table\<close>

text \<open>
  A guarantee that allows appending to the log of Docker calls is kept by every method of
  \<open>DockerService\<close> and by the phases made of them.
\<close>

definition log_closed :: "(world \<Rightarrow> world \<Rightarrow> bool) \<Rightarrow> bool" where
  "log_closed G \<longleftrightarrow> (\<forall>w l. G w (w\<lparr>dockerLog := l\<rparr>))"

lemma log_closed_refl [guar_simps]: "log_closed G \<Longrightarrow> G w w"
  unfolding log_closed_def by (metis world.surjective world.update_convs(9))

lemma log_closed_conj: "log_closed G \<Longrightarrow> log_closed H \<Longrightarrow> log_closed (\<lambda>w w'. G w w' \<and> H w w')"
  by (simp add: log_closed_def)

lemma guar_dcall [guar_simps]: "log_closed G \<Longrightarrow> guar G (dcall c r)"
  by (simp add: dcall_def log_closed_def)

lemma guar_docker_ops [guar_simps]:
  assumes "log_closed G"
  shows "guar G (createContainer dk cfg r)"
    and "guar G (startContainer dk cid)"
    and "guar G (stopContainer dk cid t)"
    and "guar G (removeContainer dk cid)"
    and "guar G (executeRconCommand dk cid cmd)"
    and "guar G (findManagedContainer dk sid)"
    and "guar G (inspectContainer dk cid)"
    and "guar G (getHostInfo dk)"
  unfolding createContainer_def startContainer_def stopContainer_def removeContainer_def
    executeRconCommand_def findManagedContainer_def inspectContainer_def getHostInfo_def
  using assms by (auto intro!: guar_intros simp: guar_simps split: sum.splits)

lemma guar_hostResources [guar_simps]: "log_closed G \<Longrightarrow> guar G (hostResources dk cfg)"
  unfolding hostResources_def by (auto intro!: guar_intros simp: guar_simps)

lemma guar_gracefulStop [guar_simps]: "log_closed G \<Longrightarrow> guar G (gracefulStopContainer dk cid n)"
  unfolding gracefulStopContainer_def rconPhase_def sleep_def
  by (auto intro!: guar_intros simp: guar_simps)

lemma guar_reconcileRow [guar_simps]: "log_closed G \<Longrightarrow> guar G (reconcileRow dk row)"
  unfolding reconcileRow_def reconcileLookup_def
  by (auto intro!: guar_intros simp: guar_simps split: option.splits sum.splits exn.splits)

lemma guar_loadVisibleServer [guar_simps]: "log_closed G \<Longrightarrow> guar G (loadVisibleServer sid pr)"
  unfolding loadVisibleServer_def by (auto intro!: guar_intros simp: guar_simps split: option.splits)

lemma guar_server_reads [guar_simps]:
  assumes "log_closed G"
  shows "guar G (getServer sid pr)" and "guar G (listServers q pr)" and "guar G (listRequestableServers q pr)"
  unfolding getServer_def listServers_def listRequestableServers_def
  using assms by (auto intro!: guar_intros simp: guar_simps)

lemma first_row_mem: "first_row rows = Some r \<Longrightarrow> r \<in> set rows"
  by (cases rows) (auto simp: first_row_def)

text \<open>What the reads of the host return.\<close>

lemma yields_hostResources:
  "yields (\<lambda>(h, d). (\<exists>info. dk_info dk = Inr info \<and> h = hostInfoOf info) \<and> getHostDiskInfo dk cfg = Inr d)
     (hostResources dk cfg)"
  unfolding hostResources_def getHostInfo_def dcall_def
  by (cases "getHostDiskInfo dk cfg") (auto split: sum.splits)

end
