(* ===== verification/Samples.thy ===== *)
theory Samples
  imports ServersService
begin

text \<open>
  Concrete rows, configurations and daemon answers on which the properties of the
  components are instantiated.
\<close>

definition sample_user :: "string \<Rightarrow> role \<Rightarrow> user" where
  "sample_user uid rl = \<lparr>u_id = uid, u_email = uid @ ''@example.org'', u_username = uid,
     u_passwordHash = Some ''hash'', u_googleId = None, u_githubId = None, u_role = rl,
     u_status = ACTIVE, u_totpSecret = None, u_totpEnabled = False, u_totpBackupCodes = None,
     u_tempPasswordHash = None, u_tempPasswordExpiresAt = None, u_mustChangePassword = False,
     u_minecraftUUID = None, u_minecraftName = None, u_minecraftVerified = False,
     u_createdAt = 0, u_updatedAt = 0\<rparr>"

definition sample_server :: "string \<Rightarrow> int \<Rightarrow> server_status \<Rightarrow> string option \<Rightarrow> access_type \<Rightarrow> server" where
  "sample_server sid port st cid acc = \<lparr>sv_id = sid, sv_name = ''srv'', sv_provider = PAPER,
     sv_version = ''1.21.1'', sv_port = port, sv_containerId = cid, sv_status = st,
     sv_maxPlayers = 20, sv_difficulty = NORMAL, sv_gamemode = SURVIVAL, sv_pvp = True,
     sv_memoryLimitMb = 2048, sv_motd = None, sv_levelSeed = None, sv_onlineMode = True,
     sv_viewDistance = 10, sv_allowFlight = False, sv_worldPath = None, sv_rconPassword = None,
     sv_ownerId = ''root'', sv_accessType = acc, sv_createdAt = 0, sv_updatedAt = 0\<rparr>"

definition empty_world :: world where
  "empty_world = \<lparr>users = [], refreshTokens = [], oauthChallenges = [], setupState = None,
     servers = [], serverAccess = [], modPermissions = [], clock = 0, dockerLog = [],
     twoFactorFailures = [], pairFailures = [], accountFailures = [], bootstrapToken = None\<rparr>"

text \<open>An administrator, a member, one stopped, one running and one failed server.\<close>

definition sample_world :: world where
  "sample_world = empty_world\<lparr>users := [sample_user ''root'' ADMIN, sample_user ''bob'' USER],
     servers := [sample_server ''s1'' 25565 STOPPED (Some ''c1'') OPEN,
                 sample_server ''s2'' 25566 RUNNING (Some ''c2'') REQUEST,
                 sample_server ''s3'' 25567 ERROR (Some ''c3'') PRIVATE]\<rparr>"

definition root_principal :: principal where
  "root_principal = \<lparr>p_id = ''root'', p_role = ADMIN\<rparr>"

definition bob_principal :: principal where
  "bob_principal = \<lparr>p_id = ''bob'', p_role = USER\<rparr>"

definition no_config :: config where
  "no_config = (\<lambda>_. None)"

text \<open>A daemon that does what it is asked, on a host with 16 GB of memory and a large disk.\<close>

definition willing_dockerode :: dockerode where
  "willing_dockerode = \<lparr>dk_ping = Inr (), dk_create = (\<lambda>_. Inr ''cnew''), dk_start = (\<lambda>_. Inr ()),
     dk_stop = (\<lambda>_ _. Inr ()), dk_remove = (\<lambda>_. Inr ()),
     dk_inspect = (\<lambda>c. Inl (Cause None (Some 404))), dk_list = (\<lambda>_. Inr []),
     dk_info = Inr (Some \<lparr>di_MemTotal = Some (Num 17179869184), di_NCPU = Some (Num 8)\<rparr>),
     dk_exec = (\<lambda>_ _. Inr ()), dk_execStart = (\<lambda>_ _. Inr ()), dk_drain = (\<lambda>_ _. Inr ()),
     dk_execInspect = (\<lambda>_ _. Inr (Some False, Some 0)),
     fs_statfs = (\<lambda>_. Some \<lparr>st_bsize = Some (Num 4096), st_blocks = Some (Num 10000000),
       st_bavail = Some (Num 5000000)\<rparr>),
     os_freemem = Some (Num 8589934592)\<rparr>"

lemma sample_world_db_ok: "db_ok sample_world"
  by code_simp

end
