(* ===== verification/Lifecycle.thy ===== *)
theory Lifecycle
  imports Samples
begin

text \<open>
  The life cycle of a server row as a state machine, and the proof that every atomic step of
  every method of \<open>ServersService\<close> follows it, under any interleaving of any number of
  calls. The same guarantee carries the schema's constraints.
\<close>

section \<open>The state machine\<close>

text \<open>The edges a request may take, and the ones the reconciliation at startup may take.\<close>

fun request_edge :: "server_status \<Rightarrow> server_status \<Rightarrow> bool" where
  "request_edge CREATING st = (st \<in> {CREATING, ERROR, RUNNING})"
| "request_edge STOPPED st = (st \<in> {STARTING, STOPPING})"
| "request_edge STARTING st = (st \<in> {RUNNING, STOPPED, ERROR})"
| "request_edge RUNNING st = (st = STOPPING)"
| "request_edge STOPPING st = (st \<in> {STARTING, RUNNING, STOPPED, ERROR})"
| "request_edge ERROR st = False"

definition boot_edge :: "server_status \<Rightarrow> server_status \<Rightarrow> bool" where
  "boot_edge a b \<longleftrightarrow> a \<noteq> STOPPED \<and> b \<in> {RUNNING, STOPPED}"

text \<open>Everything in a row but its status, container and time stamp.\<close>

definition same_server :: "server \<Rightarrow> server \<Rightarrow> bool" where
  "same_server r r' \<longleftrightarrow> r' = r\<lparr>sv_status := sv_status r', sv_containerId := sv_containerId r',
     sv_updatedAt := sv_updatedAt r'\<rparr>"

definition lifecycle_step :: "(server_status \<Rightarrow> server_status \<Rightarrow> bool) \<Rightarrow> world \<Rightarrow> world \<Rightarrow> bool" where
  "lifecycle_step E w w' \<longleftrightarrow>
     (\<forall>r' \<in> set (servers w').
        (\<exists>r \<in> set (servers w). r = r' \<or> same_server r r' \<and> E (sv_status r) (sv_status r'))
      \<or> sv_status r' = CREATING \<and> sv_containerId r' = None \<and> (\<forall>r \<in> set (servers w). sv_id r \<noteq> sv_id r'))
   \<and> (\<forall>r \<in> set (servers w).
        (\<exists>r' \<in> set (servers w'). sv_id r' = sv_id r) \<or> sv_status r \<in> {CREATING, STOPPING})
   \<and> set (serverAccess w') \<subseteq> set (serverAccess w) \<and> set (modPermissions w') \<subseteq> set (modPermissions w)
   \<and> users w' = users w \<and> refreshTokens w' = refreshTokens w
   \<and> oauthChallenges w' = oauthChallenges w \<and> setupState w' = setupState w"

definition lifecycle_guar :: "(server_status \<Rightarrow> server_status \<Rightarrow> bool) \<Rightarrow> world \<Rightarrow> world \<Rightarrow> bool" where
  "lifecycle_guar E w w' \<longleftrightarrow> lifecycle_step E w w' \<and> (db_ok w \<longrightarrow> db_ok w')"

lemma same_server_id: "same_server r r' \<Longrightarrow> sv_id r' = sv_id r"
  by (cases r; cases r') (simp add: same_server_def)

lemma same_server_owner: "same_server r r' \<Longrightarrow> sv_ownerId r' = sv_ownerId r"
  by (cases r; cases r') (simp add: same_server_def)

lemma same_server_memory: "same_server r r' \<Longrightarrow> sv_memoryLimitMb r' = sv_memoryLimitMb r"
  by (cases r; cases r') (simp add: same_server_def)

lemma same_server_refl [simp]: "same_server r r"
  by (simp add: same_server_def)

lemma same_server_set_lifecycle [simp]: "same_server r (set_lifecycle st c w r)"
  by (simp add: same_server_def set_lifecycle_def)

lemma set_lifecycle_status [simp]: "sv_status (set_lifecycle st c w r) = st"
  by (simp add: set_lifecycle_def)

lemma lifecycle_guar_refl [simp]: "lifecycle_guar E w w"
  by (auto simp: lifecycle_guar_def lifecycle_step_def)

lemma lifecycle_guar_dockerLog [simp]: "lifecycle_guar E w (w\<lparr>dockerLog := l\<rparr>)"
  by (auto simp: lifecycle_guar_def lifecycle_step_def)

lemma lifecycle_guar_mono:
  "lifecycle_guar E w w' \<Longrightarrow> (\<And>a b. E a b \<Longrightarrow> E' a b) \<Longrightarrow> lifecycle_guar E' w w'"
  unfolding lifecycle_guar_def lifecycle_step_def by blast

lemma lifecycle_step_origin:
  "lifecycle_step E w w' \<Longrightarrow> r' \<in> set (servers w') \<Longrightarrow>
     (\<exists>r \<in> set (servers w). r = r' \<or> same_server r r' \<and> E (sv_status r) (sv_status r'))
   \<or> sv_status r' = CREATING \<and> sv_containerId r' = None \<and> (\<forall>r \<in> set (servers w). sv_id r \<noteq> sv_id r')"
  by (simp add: lifecycle_step_def)

lemma lifecycle_step_survives:
  "lifecycle_step E w w' \<Longrightarrow> r \<in> set (servers w) \<Longrightarrow> sv_status r \<notin> {CREATING, STOPPING} \<Longrightarrow>
   \<exists>r' \<in> set (servers w'). sv_id r' = sv_id r"
  by (simp add: lifecycle_step_def) blast

section \<open>Statements\<close>

text \<open>An update that keeps identities and owners keeps the references.\<close>

lemma db_ok_update_servers:
  assumes "db_ok w" and "servers_unique (update_where P f (servers w))" and "\<And>r. same_server r (f r)"
  shows "db_ok (w\<lparr>servers := update_where P f (servers w)\<rparr>)"
proof -
  have ids: "(\<exists>r \<in> set (update_where P f (servers w)). sv_id r = x) \<longleftrightarrow> (\<exists>r \<in> set (servers w). sv_id r = x)" for x
    using same_server_id [OF assms(3)] by (auto simp: set_update_where)
  have owners: "\<forall>r \<in> set (update_where P f (servers w)). \<exists>r0 \<in> set (servers w). sv_ownerId r = sv_ownerId r0"
    using same_server_owner [OF assms(3)] by (auto simp: set_update_where)
  from assms(1,2) ids owners show ?thesis
    unfolding db_ok_def refs_ok_def user_exists_def server_exists_def
    by (fastforce split: option.splits)
qed

lemma guar_update_servers:
  assumes "update_servers P f w = Inr (rows, w')"
    and "\<And>r. same_server r (f w r)" and "\<And>r. P r \<Longrightarrow> E (sv_status r) (sv_status (f w r))"
  shows "lifecycle_guar E w w'"
proof -
  let ?t = "update_where P (f w) (servers w)"
  from assms(1) have u: "servers_unique ?t" and w': "w' = w\<lparr>servers := ?t\<rparr>"
    by (auto simp: update_servers_def Let_def split: if_splits)
  have "\<exists>r' \<in> set ?t. sv_id r' = sv_id r" if "r \<in> set (servers w)" for r
    using that same_server_id [OF assms(2)] by (cases "P r") (auto simp: set_update_where)
  moreover have "\<exists>r \<in> set (servers w). r = r' \<or> same_server r r' \<and> E (sv_status r) (sv_status r')"
    if "r' \<in> set ?t" for r'
    using that assms(2,3) by (auto simp: set_update_where)
  ultimately have "lifecycle_step E w w'" by (simp add: lifecycle_step_def w')
  with db_ok_update_servers [OF _ u assms(2)] show ?thesis by (auto simp: lifecycle_guar_def w')
qed

lemma guar_transitionInTx:
  assumes "transitionInTx sid a b cid new w = Inr (x, w')" and "E a b"
  shows "lifecycle_guar E w w'"
  using assms
  by (auto simp: transitionInTx_def seqE_Inr_iff cas_row_def
      intro!: guar_update_servers [where P = "cas_row sid a cid" and f = "set_lifecycle b new"])

lemma guar_transition: "E a b \<Longrightarrow> guar (lifecycle_guar E) (transition sid a b cid new)"
  unfolding transition_def by (rule guar_atomicallyI) (auto intro: guar_transitionInTx)

lemma guar_claimContainerId:
  assumes "E CREATING CREATING"
  shows "guar (lifecycle_guar E) (claimContainerId sid cid)"
  unfolding claimContainerId_def
  by (rule guar_atomicallyI)
    (auto simp: seqE_Inr_iff same_server_def assms elim!: guar_update_servers)

lemma guar_delete_server_in:
  assumes "st \<in> {CREATING, STOPPING}"
  shows "guar (lifecycle_guar E) (delete_server_in sid st)"
proof -
  have "lifecycle_step E w (delete_servers (\<lambda>r. sv_id r = sid \<and> sv_status r = st) w)" for w
    using assms unfolding lifecycle_step_def
    by (auto simp: delete_servers_def Let_def)
  then show ?thesis
    by (simp add: delete_server_in_def guar_simps lifecycle_guar_def delete_servers_keeps_db_ok)
qed

lemma db_ok_insert_server:
  assumes "db_ok w" and "servers_unique (servers w @ [r])" and "user_exists w (sv_ownerId r)"
  shows "db_ok (w\<lparr>servers := servers w @ [r]\<rparr>)"
  using assms unfolding db_ok_def refs_ok_def user_exists_def server_exists_def
  by (fastforce split: option.splits)

lemma guar_createTx:
  assumes "createTx sid dto pr h ratio w = Inr (x, w')"
  shows "lifecycle_guar E w w'"
proof -
  let ?r = "new_server sid dto pr (clock w)"
  from assms have u: "servers_unique (servers w @ [?r])" and o: "user_exists w (sv_ownerId ?r)"
    and w': "w' = w\<lparr>servers := servers w @ [?r]\<rparr>"
    by (auto simp: createTx_def seqE_Inr_iff insert_server_def split: if_splits)
  have "distinct (map sv_id (servers w @ [?r]))" using u by (simp only: servers_unique_def)
  then have "sv_id ?r \<notin> sv_id ` set (servers w)" by simp
  then have "\<forall>r \<in> set (servers w). sv_id r \<noteq> sv_id ?r" by (metis image_eqI)
  then have "lifecycle_step E w w'" by (auto simp: lifecycle_step_def w' new_server_def)
  with db_ok_insert_server [OF _ u o] show ?thesis by (auto simp: lifecycle_guar_def w')
qed

lemma log_closed_lifecycle [simp]: "log_closed (lifecycle_guar E)"
  by (simp add: log_closed_def)

section \<open>Methods\<close>

lemmas request_guar_intros =
  guar_intros guar_transition guar_claimContainerId guar_delete_server_in

lemma guar_startAndFinalize: "guar (lifecycle_guar request_edge) (startAndFinalize dk sid cid)"
  unfolding startAndFinalize_def
  by (auto intro!: request_guar_intros simp: guar_simps split: exn.splits option.splits)

lemma guar_startClaim:
  "request_edge a STARTING \<Longrightarrow>
   guar (lifecycle_guar request_edge) (atomically (startClaimTx sid a cid m h ratio msg))"
  by (rule guar_atomicallyI) (auto simp: startClaimTx_def seqE_Inr_iff intro: guar_transitionInTx)

lemma guar_startServer: "guar (lifecycle_guar request_edge) (startServer dk cfg sid pr)"
  unfolding startServer_def
  by (auto intro!: guar_intros guar_startClaim guar_startAndFinalize simp: guar_simps split: option.splits)

lemma guar_stopPhase: "guar (lifecycle_guar request_edge) (stopPhase dk cfg sid pr)"
  unfolding stopPhase_def settleStopFailure_def
  by (auto intro!: request_guar_intros simp: guar_simps split: option.splits exn.splits)

lemma guar_stopServer: "guar (lifecycle_guar request_edge) (stopServer dk cfg sid pr)"
  unfolding stopServer_def
  by (auto intro!: request_guar_intros guar_stopPhase simp: guar_simps split: option.splits)

lemma guar_restartServer: "guar (lifecycle_guar request_edge) (restartServer dk cfg sid pr)"
  unfolding restartServer_def restartClaim_def
  by (auto intro!: request_guar_intros guar_stopPhase guar_startClaim guar_startAndFinalize
      simp: guar_simps split: option.splits)

lemma guar_deleteServer: "guar (lifecycle_guar request_edge) (deleteServer dk sid pr)"
  unfolding deleteServer_def resolveDeleteRemoveFailure_def
  by (auto intro!: request_guar_intros simp: guar_simps split: option.splits exn.splits)

lemma guar_compensateCreateFailure:
  "guar (lifecycle_guar request_edge) (compensateCreateFailure dk sid)"
  unfolding compensateCreateFailure_def
  by (auto intro!: request_guar_intros guar_atomicallyI simp: guar_simps
      elim!: guar_update_servers split: lookup_result.splits)

lemma guar_createServer: "guar (lifecycle_guar request_edge) (createServer dk cfg sid dto pr)"
  unfolding createServer_def
  by (auto intro!: request_guar_intros guar_atomicallyI guar_compensateCreateFailure
      intro: guar_createTx simp: guar_simps split: option.splits)

section \<open>Reconciliation\<close>

text \<open>What the reconciliation of a row can answer.\<close>

definition settled :: "reconciliation_outcome \<Rightarrow> bool" where
  "settled oc \<longleftrightarrow> (case oc of OState st c \<Rightarrow> st \<in> {RUNNING, STOPPED} | _ \<Rightarrow> True)"

lemma yields_reconcileRow: "yields settled (reconcileRow dk row)"
  unfolding reconcileRow_def reconcileLookup_def
  by (auto intro!: yields_bindI [where P = "\<lambda>_. True"]
      simp: settled_def status_of_running_def split: option.splits sum.splits exn.splits lookup_result.splits)

lemma yields_reconcileRows:
  "yields (\<lambda>ros. map fst ros = rows \<and> (\<forall>ro \<in> set ros. settled (snd ro))) (reconcileRows dk rows)"
proof (induction rows)
  case (Cons row rows)
  show ?case by (auto intro!: yields_bindI [OF yields_reconcileRow] yields_bindI [OF Cons.IH])
qed simp

lemma guar_reconcileRows [guar_simps]: "guar (lifecycle_guar E) (reconcileRows dk rows)"
proof (induction rows)
  case (Cons row rows)
  then show ?case by (auto intro!: guar_intros simp: guar_simps)
qed simp

lemma guar_applyOutcome:
  assumes "sv_status (fst ro) \<noteq> STOPPED" and "settled (snd ro)"
  shows "guar (lifecycle_guar boot_edge) (applyOutcome ro)"
proof -
  have "lifecycle_guar boot_edge w w'"
    if "update_servers (snapshot_row row) (set_lifecycle st c) w = Inr (x, w')"
      "sv_status row \<noteq> STOPPED" "st \<in> {RUNNING, STOPPED}" for row st c w w' x
    using that(1) by (rule guar_update_servers)
      (use that(2,3) in \<open>auto simp: boot_edge_def snapshot_row_def cas_row_def\<close>)
  then show ?thesis using assms
    by (auto simp: applyOutcome_def settled_def guar_simps intro!: guar_atomicallyI
        split: prod.splits reconciliation_outcome.splits)
qed

lemma guar_applyOutcomes:
  "(\<forall>ro \<in> set ros. sv_status (fst ro) \<noteq> STOPPED \<and> settled (snd ro)) \<Longrightarrow>
   guar (lifecycle_guar boot_edge) (applyOutcomes ros)"
  by (induction ros) (auto intro!: guar_intros guar_applyOutcome simp: guar_simps)

lemma guar_onModuleInit: "guar (lifecycle_guar boot_edge) (onModuleInit dk)"
proof -
  let ?rows = "\<lambda>w. filter (\<lambda>r. sv_status r \<noteq> STOPPED) (servers w)"
  have "guar (lifecycle_guar boot_edge) (bind (reconcileRows dk (?rows w)) (\<lambda>outcomes.
     if list_ex (\<lambda>(row, outcome). outcome = OUnavailable) outcomes then Return ()
     else applyOutcomes outcomes))" for w
  proof (rule guar_bind_yieldsI [OF guar_reconcileRows yields_reconcileRows])
    fix ros assume ros: "map fst ros = ?rows w \<and> (\<forall>ro \<in> set ros. settled (snd ro))"
    have "sv_status (fst ro) \<noteq> STOPPED" if "ro \<in> set ros" for ro
    proof -
      from that have "fst ro \<in> set (map fst ros)" by simp
      with ros have "fst ro \<in> set (?rows w)" by argo
      then show ?thesis by simp
    qed
    with ros show "guar (lifecycle_guar boot_edge)
        (if list_ex (\<lambda>(row, outcome). outcome = OUnavailable) ros then Return () else applyOutcomes ros)"
      by (auto intro!: guar_applyOutcomes)
  qed
  then show ?thesis unfolding onModuleInit_def get_def by simp blast
qed

section \<open>All methods together\<close>

definition edge :: "server_status \<Rightarrow> server_status \<Rightarrow> bool" where
  "edge a b \<longleftrightarrow> request_edge a b \<or> boot_edge a b"

text \<open>The handlers of the service, each with any arguments and any answers of the daemon.\<close>

inductive servers_request :: "(world, unit) prog \<Rightarrow> bool" where
  "servers_request (void (createServer dk cfg newId dto pr))"
| "servers_request (void (startServer dk cfg sid pr))"
| "servers_request (void (stopServer dk cfg sid pr))"
| "servers_request (void (restartServer dk cfg sid pr))"
| "servers_request (void (deleteServer dk sid pr))"
| "servers_request (void (getServer sid pr))"
| "servers_request (void (listServers q pr))"
| "servers_request (void (listRequestableServers q pr))"

inductive servers_handler :: "(world, unit) prog \<Rightarrow> bool" where
  "servers_request p \<Longrightarrow> servers_handler p"
| "servers_handler (onModuleInit dk)"

text \<open>What happens between the steps of the handlers: time passes.\<close>

definition tick :: "world \<Rightarrow> world \<Rightarrow> bool" where
  "tick w w' \<longleftrightarrow> (\<exists>c. clock w \<le> c \<and> w' = w\<lparr>clock := c\<rparr>)"

lemma guar_servers_request: "servers_request p \<Longrightarrow> guar (lifecycle_guar request_edge) p"
  by (induction rule: servers_request.induct)
    (simp_all add: guar_simps guar_createServer guar_startServer guar_stopServer
      guar_restartServer guar_deleteServer)

lemma guar_servers_handler: "servers_handler p \<Longrightarrow> guar (lifecycle_guar edge) p"
  by (induction rule: servers_handler.induct)
    (auto elim!: guar_mono lifecycle_guar_mono simp: edge_def
      dest!: guar_servers_request intro: guar_mono [OF guar_onModuleInit])

lemma tick_db_ok: "tick w w' \<Longrightarrow> db_ok w' = db_ok w"
  by (auto simp: tick_def)

interpretation life: step_invariant servers_handler tick "lifecycle_guar edge" db_ok
  by unfold_locales (auto simp: guar_servers_handler lifecycle_guar_def tick_db_ok)

text \<open>A row with a given status.\<close>

definition has_status :: "string \<Rightarrow> server_status \<Rightarrow> world \<Rightarrow> bool" where
  "has_status sid st w \<longleftrightarrow> (\<exists>r \<in> set (servers w). sv_id r = sid \<and> sv_status r = st)"

lemma servers_distinct_ids: "db_ok w \<Longrightarrow> distinct (map sv_id (servers w))"
  by (simp add: db_ok_def servers_unique_def)

lemma request_keeps_error:
  assumes "lifecycle_guar request_edge w w'" and "db_ok w \<and> has_status sid ERROR w"
  shows "db_ok w' \<and> has_status sid ERROR w'"
proof -
  from assms(2) obtain r where r: "r \<in> set (servers w)" "sv_id r = sid" "sv_status r = ERROR"
    by (auto simp: has_status_def)
  have step: "lifecycle_step request_edge w w'" using assms(1) by (simp add: lifecycle_guar_def)
  from lifecycle_step_survives [OF this r(1)] r
  obtain r' where r': "r' \<in> set (servers w')" "sv_id r' = sid" by auto
  from lifecycle_step_origin [OF step r'(1)] r r'
  obtain r0 where r0: "r0 \<in> set (servers w)"
    "r0 = r' \<or> same_server r0 r' \<and> request_edge (sv_status r0) (sv_status r')"
    by metis
  then have "sv_id r0 = sv_id r" using r r' by (auto dest: same_server_id)
  then have "r0 = r"
    using distinct_key_unique [OF servers_distinct_ids, of w r0 r] assms(2) r(1) r0(1) by blast
  then have "r' = r" using r0 r by auto
  then show ?thesis using assms r' r by (auto simp: lifecycle_guar_def has_status_def)
qed

interpretation failed: step_invariant servers_request tick "lifecycle_guar request_edge"
    "\<lambda>w. db_ok w \<and> has_status sid ERROR w" for sid
proof unfold_locales
  show "servers_request p \<Longrightarrow> guar (lifecycle_guar request_edge) p" for p
    by (rule guar_servers_request)
  show "lifecycle_guar request_edge s s' \<Longrightarrow> db_ok s \<and> has_status sid ERROR s \<Longrightarrow>
      db_ok s' \<and> has_status sid ERROR s'" for s s'
    by (rule request_keeps_error)
  show "tick s s' \<Longrightarrow> db_ok s \<and> has_status sid ERROR s \<Longrightarrow> db_ok s' \<and> has_status sid ERROR s'" for s s'
    by (auto simp: tick_def has_status_def)
qed

lemma sample_world_has_s3: "has_status ''s3'' ERROR sample_world"
  by code_simp

section \<open>Properties\<close>

text \<open>
  C1. Every atomic step of every method of the service, taken from any state reachable by
  interleaving any calls (with any daemon answers, restarts of the process and the
  reconciliation at startup), follows the life cycle: a row changes status only along an
  edge of the machine and keeps every other attribute but container and time stamp, rows are
  inserted only as \<open>CREATING\<close> with a fresh id, rows disappear only from \<open>CREATING\<close> or
  \<open>STOPPING\<close>, and no access row or grant is added. And when the constraints of the schema hold
  in the state the run began with, they hold before and after the step.
\<close>

theorem lifecycle_edges_only:
  assumes "reachable servers_handler tick w0 c"
  shows "lifecycle_step edge (fst c) (fst (advance i c))
    \<and> (db_ok w0 \<longrightarrow> db_ok (fst c) \<and> db_ok (fst (advance i c)))"
proof -
  have "lifecycle_step edge (fst c) (fst (advance i c))"
    using life.advance_G [OF assms lifecycle_guar_refl] by (simp add: lifecycle_guar_def)
  with life.reachable_inv [OF assms] life.reachable_inv [OF reachable_advance [OF assms]] show ?thesis by simp
qed

theorem lifecycle_edges_only_witness:
  "let c = advance 0 (sample_world, [void (deleteServer willing_dockerode ''s1'' root_principal)])
   in has_status ''s1'' STOPPED (fst c) \<and> has_status ''s1'' STOPPING (fst (advance 0 c))
      \<and> lifecycle_step edge (fst c) (fst (advance 0 c)) \<and> db_ok (fst (advance 0 c))"
proof -
  let ?c0 = "(sample_world, [void (deleteServer willing_dockerode ''s1'' root_principal)])"
  have "reachable servers_handler tick sample_world ?c0"
    by (intro reachable_one servers_handler.intros(1) servers_request.intros(5))
  then have r: "reachable servers_handler tick sample_world (advance 0 ?c0)" by (rule reachable_advance)
  have "has_status ''s1'' STOPPED (fst (advance 0 ?c0))" by code_simp
  moreover have "has_status ''s1'' STOPPING (fst (advance 0 (advance 0 ?c0)))" by code_simp
  ultimately show ?thesis using lifecycle_edges_only [OF r] sample_world_db_ok unfolding Let_def by blast
qed

text \<open>
  A server in \<open>ERROR\<close> stays there, whatever requests are interleaved: no request starts,
  stops or deletes it. Only the reconciliation at the next startup leaves the state.
\<close>

theorem failed_until_restart:
  assumes "reachable servers_request tick w0 c" and "db_ok w0" and "has_status sid ERROR w0"
  shows "has_status sid ERROR (fst c)"
  using failed.reachable_inv [OF assms(1), of sid] assms(2,3) by simp

theorem failed_until_restart_witness:
  "has_status ''s3'' ERROR (fst (foldl (\<lambda>c i. advance i c)
     (sample_world, [void (deleteServer willing_dockerode ''s3'' root_principal)]) [0, 0, 0]))"
proof -
  have "reachable servers_request tick sample_world
      (sample_world, [void (deleteServer willing_dockerode ''s3'' root_principal)])"
    by (intro reachable_one servers_request.intros(5))
  from failed_until_restart [OF reachable_schedule [OF this] sample_world_db_ok sample_world_has_s3]
  show ?thesis .
qed

end
