(* ===== verification/Admission.thy ===== *)
theory Admission
  imports Lifecycle
begin

text \<open>
  Memory admission of \<open>ServersService\<close>: no create, start or restart claims memory beyond the
  configured share of the host's memory, whatever other requests do between its steps.
\<close>

section \<open>The limit and the claims\<close>

text \<open>The memory committed to servers that are not stopped.\<close>

definition committedMb :: "world \<Rightarrow> int" where
  "committedMb w = sum_list (map sv_memoryLimitMb (filter (\<lambda>r. sv_status r \<noteq> STOPPED) (servers w)))"

text \<open>The limit a handler admits against; none when the host cannot be read or the configuration is invalid.\<close>

definition memoryLimit :: "dockerode \<Rightarrow> config \<Rightarrow> int option" where
  "memoryLimit dk cfg =
     (case (parseResourceConfig cfg, dk_info dk) of
        (Inr rc, Inr info) \<Rightarrow>
          (case hostInfoOf info of
             (Some totalRamMb, Some cpuCount) \<Rightarrow> Some (allocatableMb totalRamMb (rc_maxMemoryRatio rc))
           | _ \<Rightarrow> None)
      | _ \<Rightarrow> None)"

text \<open>A step that puts a server into \<open>CREATING\<close> or \<open>STARTING\<close> claims memory.\<close>

definition claims :: "world \<Rightarrow> world \<Rightarrow> bool" where
  "claims w w' \<longleftrightarrow> (\<exists>r' \<in> set (servers w'). sv_status r' \<in> {CREATING, STARTING}
     \<and> \<not> (\<exists>r \<in> set (servers w). sv_id r = sv_id r' \<and> sv_status r = sv_status r'))"

definition memory_ok :: "world \<Rightarrow> bool" where
  "memory_ok w \<longleftrightarrow> (\<forall>r \<in> set (servers w). 0 < sv_memoryLimitMb r)"

definition admission_guar :: "int option \<Rightarrow> world \<Rightarrow> world \<Rightarrow> bool" where
  "admission_guar bound w w' \<longleftrightarrow>
     (claims w w' \<and> db_ok w \<and> memory_ok w \<longrightarrow> (\<exists>l. bound = Some l \<and> committedMb w' \<le> l))"

text \<open>
  What a handler relies on: the database keeps its constraints, and the memory limit of the
  row it works on does not change (no method of the program updates it).
\<close>

definition memory_of :: "string \<Rightarrow> int \<Rightarrow> world \<Rightarrow> bool" where
  "memory_of sid m w \<longleftrightarrow> (\<forall>r \<in> set (servers w). sv_id r = sid \<longrightarrow> sv_memoryLimitMb r = m)"

definition steady :: "string \<Rightarrow> world \<Rightarrow> world \<Rightarrow> bool" where
  "steady sid w w' \<longleftrightarrow> db_ok w' \<and> memory_ok w' \<and> (\<forall>m. memory_of sid m w \<longrightarrow> memory_of sid m w')"

section \<open>Sums\<close>

lemma sum_filter_split:
  "sum_list (map f (filter P t)) = sum_list (map f (filter (\<lambda>x. P x \<and> Q x) t))
     + (sum_list (map f (filter (\<lambda>x. P x \<and> \<not> Q x) t)) :: int)"
  by (induction t) auto

lemma sum_filter_le:
  "(\<And>x. x \<in> set t \<Longrightarrow> 0 \<le> f x) \<Longrightarrow> sum_list (map f (filter P t)) \<le> (sum_list (map f t) :: int)"
  by (induction t) (auto intro: add_increasing)

text \<open>The committed memory is that of the other servers plus the row's own, if it counts.\<close>

lemma sum_filter_key:
  assumes "distinct (map g t)" and "r \<in> set t"
  shows "sum_list (map f (filter (\<lambda>x. P x \<and> g x = g r) t)) = (if P r then f r else (0 :: int))"
  using assms
proof (induction t)
  case (Cons x t)
  have none: "filter (\<lambda>y. P y \<and> g y = g r) t = []" if "x = r"
    using Cons.prems that by (auto simp: filter_empty_conv image_iff)
  show ?case using Cons none by (auto simp: image_iff)
qed simp

section \<open>The two admission transactions\<close>

lemma admitted:
  assumes "checkMemoryAdmission h ratio req cur msg = Inr u" and "0 < req"
  shows "\<exists>tot cpu. h = (Some tot, Some cpu) \<and> cur + req \<le> allocatableMb tot ratio"
  using assms
  by (auto simp: checkMemoryAdmission_def Let_def max_def split: option.splits prod.splits if_splits)

lemma createTx_committed:
  assumes "createTx sid dto pr h ratio w = Inr (r, w')" and "memory_ok w"
    and "0 < orElse (cd_memoryLimitMb dto) 2048"
  shows "\<exists>tot cpu. h = (Some tot, Some cpu) \<and> committedMb w' \<le> allocatableMb tot ratio"
proof -
  let ?m = "orElse (cd_memoryLimitMb dto) 2048"
  from assms(1) have adm: "checkMemoryAdmission h ratio ?m (getCurrentAllocationMb None True w)
      ''Insufficient memory to create server'' = Inr ()"
    and w': "w' = w\<lparr>servers := servers w @ [new_server sid dto pr (clock w)]\<rparr>"
    by (auto simp: createTx_def seqE_Inr_iff insert_server_def split: if_splits)
  from admitted [OF adm assms(3)] obtain tot cpu where h: "h = (Some tot, Some cpu)"
    and le: "getCurrentAllocationMb None True w + ?m \<le> allocatableMb tot ratio" by auto
  have "committedMb w \<le> getCurrentAllocationMb None True w"
    using assms(2) sum_filter_le [of "servers w" sv_memoryLimitMb "\<lambda>r. sv_status r \<noteq> STOPPED"]
    by (simp add: committedMb_def getCurrentAllocationMb_def memory_ok_def order_less_imp_le)
  then have "committedMb w' \<le> allocatableMb tot ratio"
    using le by (simp add: committedMb_def w' new_server_def)
  with h show ?thesis by simp
qed

text \<open>
  A claim that moves the row to \<open>STARTING\<close>: the other servers are counted by the query, the
  row itself by the memory limit that was read when it was loaded.
\<close>

lemma committed_split:
  assumes "distinct (map sv_id (servers w))" and "r \<in> set (servers w)" and "sv_id r = c # cs"
  shows "committedMb w = getCurrentAllocationMb (Some (c # cs)) False w
           + (if sv_status r \<noteq> STOPPED then sv_memoryLimitMb r else 0)"
  using sum_filter_split [of sv_memoryLimitMb "\<lambda>r. sv_status r \<noteq> STOPPED" "servers w" "\<lambda>x. sv_id x = sv_id r"]
    sum_filter_key [OF assms(1,2), of sv_memoryLimitMb "\<lambda>r. sv_status r \<noteq> STOPPED"] assms(3)
  by (simp add: committedMb_def getCurrentAllocationMb_def)

lemma allocation_others:
  assumes "\<And>r. P r \<Longrightarrow> sv_id r = c # cs" and "\<And>r. sv_id (f r) = sv_id r"
  shows "getCurrentAllocationMb (Some (c # cs)) False (w\<lparr>servers := update_where P f (servers w)\<rparr>)
         = getCurrentAllocationMb (Some (c # cs)) False w"
proof -
  have "sum_list (map sv_memoryLimitMb (filter (\<lambda>r. sv_status r \<noteq> STOPPED \<and> sv_id r \<noteq> c # cs) (update_where P f t)))
      = sum_list (map sv_memoryLimitMb (filter (\<lambda>r. sv_status r \<noteq> STOPPED \<and> sv_id r \<noteq> c # cs) t))" for t
    using assms by (induction t) auto
  then show ?thesis by (simp add: getCurrentAllocationMb_def)
qed

lemma startClaimTx_committed:
  assumes tx: "startClaimTx sid a cid m h ratio msg w = Inr (Some r', w')"
    and ok: "db_ok w" "memory_of sid m w" and "0 < m" and sid: "sid \<noteq> []"
  shows "\<exists>tot cpu. h = (Some tot, Some cpu) \<and> committedMb w' \<le> allocatableMb tot ratio"
proof -
  obtain c cs where s: "sid = c # cs" using sid by (cases sid) auto
  let ?P = "cas_row sid a (Some cid)" and ?f = "set_lifecycle STARTING None w"
  from tx have adm: "checkMemoryAdmission h ratio m (getCurrentAllocationMb (Some sid) False w) msg = Inr ()"
    and t: "transitionInTx sid a STARTING (Some cid) None w = Inr (Some r', w')"
    by (auto simp: startClaimTx_def seqE_Inr_iff)
  from t have w': "w' = w\<lparr>servers := update_where ?P ?f (servers w)\<rparr>"
    and u: "servers_unique (servers w')" and hit: "first_row (map ?f (filter ?P (servers w))) = Some r'"
    by (auto simp: transitionInTx_def seqE_Inr_iff update_servers_def Let_def split: if_splits)
  from hit have "r' \<in> set (map ?f (filter ?P (servers w)))"
    by (rule first_row_mem)
  then obtain r where r: "r \<in> set (servers w)" "?P r" "r' = ?f r" by auto
  then have r': "r' \<in> set (servers w')" "sv_id r' = c # cs" "sv_status r' = STARTING" "sv_memoryLimitMb r' = m"
    using ok(2) s by (auto simp: w' set_update_where set_lifecycle_def cas_row_def memory_of_def)
  from admitted [OF adm assms(4)] obtain tot cpu where h: "h = (Some tot, Some cpu)"
    and le: "getCurrentAllocationMb (Some sid) False w + m \<le> allocatableMb tot ratio" by auto
  have "getCurrentAllocationMb (Some sid) False w' = getCurrentAllocationMb (Some sid) False w"
    unfolding s w' by (rule allocation_others) (auto simp: cas_row_def s set_lifecycle_def)
  moreover have "committedMb w' = getCurrentAllocationMb (Some sid) False w' + m"
    using committed_split [of w' r' c cs] u r' s by (simp add: servers_unique_def)
  ultimately show ?thesis using h le by simp
qed

section \<open>Steps that claim nothing\<close>

lemma not_claims_same: "servers w' = servers w \<Longrightarrow> \<not> claims w w'"
  by (auto simp: claims_def)

lemma admission_refl [simp]: "admission_guar b w w"
  by (simp add: admission_guar_def not_claims_same)

lemma admission_dockerLog [simp]: "admission_guar b w (w\<lparr>dockerLog := l\<rparr>)"
  by (simp add: admission_guar_def not_claims_same)

lemma log_closed_admission [simp]: "log_closed (admission_guar b)"
  by (simp add: log_closed_def)

lemma admission_update_servers:
  assumes "update_servers P f w = Inr (rows, w')"
    and "\<And>r. P r \<Longrightarrow> sv_id (f w r) = sv_id r \<and> (sv_status (f w r) \<in> {CREATING, STARTING} \<longrightarrow> sv_status (f w r) = sv_status r)"
  shows "admission_guar b w w'"
proof -
  from assms(1) have "servers w' = update_where P (f w) (servers w)"
    by (auto simp: update_servers_def Let_def split: if_splits)
  then have "\<not> claims w w'" using assms(2) by (auto simp: claims_def set_update_where)
  then show ?thesis by (simp add: admission_guar_def)
qed

lemma admission_transition:
  "c \<notin> {CREATING, STARTING} \<Longrightarrow> guar (admission_guar b) (transition sid a c cid None)"
  unfolding transition_def
  by (rule guar_atomicallyI)
    (auto simp: transitionInTx_def seqE_Inr_iff set_lifecycle_def elim!: admission_update_servers)

lemma admission_claimContainerId: "guar (admission_guar b) (claimContainerId sid cid)"
  unfolding claimContainerId_def
  by (rule guar_atomicallyI) (auto simp: seqE_Inr_iff elim!: admission_update_servers)

lemma admission_delete_server_in: "guar (admission_guar b) (delete_server_in sid st)"
proof -
  have "\<not> claims w (delete_servers P w)" for w P by (auto simp: claims_def)
  then show ?thesis by (simp add: delete_server_in_def guar_simps admission_guar_def)
qed

lemmas admission_intros = guar_intros admission_transition admission_claimContainerId admission_delete_server_in

lemma admission_compensate: "guar (admission_guar b) (compensateCreateFailure dk sid)"
  unfolding compensateCreateFailure_def
  by (auto intro!: admission_intros guar_atomicallyI simp: guar_simps set_lifecycle_def
      elim!: admission_update_servers split: lookup_result.splits)

lemma admission_startAndFinalize: "guar (admission_guar b) (startAndFinalize dk sid cid)"
  unfolding startAndFinalize_def
  by (auto intro!: admission_intros simp: guar_simps split: exn.splits option.splits)

lemma admission_settleStopFailure: "guar (admission_guar b) (settleStopFailure sid cid e)"
  unfolding settleStopFailure_def by (auto intro!: admission_intros split: exn.splits)

section \<open>The three claiming methods\<close>

lemma memoryLimit_Some:
  "parseResourceConfig cfg = Inr rc \<Longrightarrow> dk_info dk = Inr info \<Longrightarrow> hostInfoOf info = (Some tot, Some cpu) \<Longrightarrow>
   memoryLimit dk cfg = Some (allocatableMb tot (rc_maxMemoryRatio rc))"
  by (simp add: memoryLimit_def)

lemma admission_createServer:
  assumes "0 < orElse (cd_memoryLimitMb dto) 2048"
  shows "guar (admission_guar (memoryLimit dk cfg)) (createServer dk cfg sid dto pr)"
proof -
  have tx: "guar (admission_guar (memoryLimit dk cfg)) (atomically (createTx sid dto pr (hostInfoOf info) (rc_maxMemoryRatio rc)))"
    if "parseResourceConfig cfg = Inr rc" "dk_info dk = Inr info" for rc info
    by (rule guar_atomicallyI, simp)
      (auto simp: admission_guar_def dest!: createTx_committed [OF _ _ assms] memoryLimit_Some [OF that])
  show ?thesis
  proof (cases "parseResourceConfig cfg")
    case (Inr rc)
    show ?thesis unfolding createServer_def Inr liftE_simps bind.simps
      by (rule guar_bind_yieldsI [OF _ yields_hostResources])
        (auto intro!: tx [OF Inr] admission_intros admission_compensate simp: guar_simps split: option.splits)
  qed (simp add: createServer_def)
qed

definition memory_kept :: "string \<Rightarrow> int option \<Rightarrow> world \<Rightarrow> world \<Rightarrow> bool" where
  "memory_kept sid b w w' \<longleftrightarrow> admission_guar b w w' \<and> (\<forall>m. memory_of sid m w \<longrightarrow> memory_of sid m w')"

lemma log_closed_memory_kept [simp]: "log_closed (memory_kept sid b)"
  using log_closed_admission by (simp add: log_closed_def memory_kept_def memory_of_def)

lemma memory_kept_transition:
  assumes "c \<notin> {CREATING, STARTING}"
  shows "guar (memory_kept sid b) (transition sid' a c cid None)"
proof -
  have "guar (\<lambda>w w'. \<forall>m. memory_of sid m w \<longrightarrow> memory_of sid m w') (transition sid' a c cid None)"
    unfolding transition_def
    by (rule guar_atomicallyI)
      (auto simp: transitionInTx_def update_servers_def Let_def seqE_Inr_iff memory_of_def
        set_update_where set_lifecycle_def split: if_splits)
  from guar_conj [OF admission_transition [OF assms] this] show ?thesis
    by (simp add: memory_kept_def [abs_def])
qed

lemma memory_kept_admission: "memory_kept sid b w w' \<Longrightarrow> admission_guar b w w'"
  by (simp add: memory_kept_def)

text \<open>The loading phase: the row that is returned carries the memory limit of its server.\<close>

lemma loaded_row:
  assumes "List.find (\<lambda>r. sv_id r = sid \<and> P r) (servers w) = Some r" and "db_ok w" and "memory_ok w"
  shows "memory_of sid (sv_memoryLimitMb r) w \<and> 0 < sv_memoryLimitMb r"
proof -
  from find_Some_mem [OF assms(1)] have r: "r \<in> set (servers w)" "sv_id r = sid" by auto
  have "sv_memoryLimitMb r' = sv_memoryLimitMb r" if "r' \<in> set (servers w)" "sv_id r' = sid" for r'
    using distinct_key_unique [OF servers_distinct_ids [OF assms(2)] that(1) r(1)] that(2) r(2) by simp
  then show ?thesis using r(1) assms(3) unfolding memory_of_def memory_ok_def by blast
qed

lemma rg_claim:
  assumes "parseResourceConfig cfg = Inr rc" and "dk_info dk = Inr info" and "memory_of sid m s" and "0 < m" and "sid \<noteq> []"
    and "\<And>x s. rg (steady sid) (admission_guar (memoryLimit dk cfg)) (\<lambda>_ _. True) (k x) s"
  shows "rg (steady sid) (admission_guar (memoryLimit dk cfg)) (\<lambda>_ _. True)
     (bind (atomically (startClaimTx sid a cid m (hostInfoOf info) (rc_maxMemoryRatio rc) msg)) k) s"
proof -
  have "admission_guar (memoryLimit dk cfg) w w'"
    if tx: "startClaimTx sid a cid m (hostInfoOf info) (rc_maxMemoryRatio rc) msg w = Inr (x, w')"
      and w: "steady sid s w" for w x w'
  proof (cases x)
    case None
    with tx have "\<not> claims w w'"
      by (auto simp: startClaimTx_def transitionInTx_def update_servers_def Let_def seqE_Inr_iff
          first_row_def filter_empty_conv update_where_none claims_def split: if_splits list.splits)
    then show ?thesis by (simp add: admission_guar_def)
  next
    case (Some r')
    have "db_ok w" "memory_of sid m w" using w assms(3) by (auto simp: steady_def)
    from startClaimTx_committed [OF tx [unfolded Some] this assms(4,5)] show ?thesis
      by (auto simp: admission_guar_def dest!: memoryLimit_Some [OF assms(1,2)])
  qed
  with assms(6) show ?thesis by (auto simp: rg_bind rg_atomically split: sum.splits)
qed

text \<open>From the read of the host to the end: the part that start and restart share.\<close>

lemma rg_claim_phase:
  assumes "memory_of sid (sv_memoryLimitMb row) s" and "0 < sv_memoryLimitMb row" and "sid \<noteq> []"
  shows "rg (steady sid) (admission_guar (memoryLimit dk cfg)) (\<lambda>_ _. True)
     (bind (liftE (parseResourceConfig cfg)) (\<lambda>config.
      bind (hostResources dk cfg) (\<lambda>(hostInfo, diskInfo).
      bind (liftE (checkDisk diskInfo (rc_minFreeDiskMb config) dmsg)) (\<lambda>_.
      bind (atomically (startClaimTx sid a cid (sv_memoryLimitMb row) hostInfo (rc_maxMemoryRatio config) msg)) (\<lambda>started.
      if started = None then Throw e else startAndFinalize dk sid cid))))) s"
proof (cases "parseResourceConfig cfg")
  case (Inr rc)
  have tail: "rg (steady sid) (admission_guar (memoryLimit dk cfg)) (\<lambda>_ _. True)
      (if started = None then Throw e else startAndFinalize dk sid cid) s" for started s
    by (auto intro: rg_guarI [OF admission_startAndFinalize])
  show ?thesis unfolding Inr liftE_simps bind.simps
  proof (rule rg_bind_guarI [where H = "memory_kept sid (memoryLimit dk cfg)" and
        I = "memory_of sid (sv_memoryLimitMb row)", OF _ yields_hostResources])
    fix x s assume "case x of (h, d) \<Rightarrow> (\<exists>info. dk_info dk = Inr info \<and> h = hostInfoOf info) \<and> getHostDiskInfo dk cfg = Inr d"
      and "memory_of sid (sv_memoryLimitMb row) s"
    then show "rg (steady sid) (admission_guar (memoryLimit dk cfg)) (\<lambda>_ _. True)
       (case x of (hostInfo, diskInfo) \<Rightarrow>
          bind (liftE (checkDisk diskInfo (rc_minFreeDiskMb rc) dmsg)) (\<lambda>_.
          bind (atomically (startClaimTx sid a cid (sv_memoryLimitMb row) hostInfo (rc_maxMemoryRatio rc) msg)) (\<lambda>started.
          if started = None then Throw e else startAndFinalize dk sid cid))) s"
      by (auto simp: rg_bind [where p = "liftE _"] rg_liftE split: sum.splits
          intro!: rg_claim [OF Inr] tail assms(2,3))
  qed (auto simp: guar_simps memory_kept_def steady_def assms(1))
qed simp

lemma rg_startServer:
  assumes "sid \<noteq> []"
  shows "rg (steady sid) (admission_guar (memoryLimit dk cfg)) (\<lambda>_ _. True) (startServer dk cfg sid pr) w"
  unfolding startServer_def loadVisibleServer_def bind_assoc
  by (auto simp: rg_bind [where p = "get _"] rg_get steady_def split: option.splits
      dest: loaded_row intro!: rg_claim_phase [OF _ _ assms])

lemma memory_kept_settle: "guar (memory_kept sid b) (settleStopFailure sid' cid e)"
  unfolding settleStopFailure_def
  by (auto intro!: guar_intros memory_kept_transition split: exn.splits)

text \<open>What is left of the stop phase once the row is loaded.\<close>

definition stopRest :: "dockerode \<Rightarrow> config \<Rightarrow> string \<Rightarrow> server \<Rightarrow> (world, server \<times> string) prog" where
  "stopRest dk cfg sid row =
    (if sv_status row \<noteq> RUNNING then Throw (ConflictException (Msg ''Server is not in RUNNING state''))
     else case truthy (sv_containerId row) of
       None \<Rightarrow> Throw (InternalServerErrorException (Msg ''Running server has no container id''))
     | Some containerId \<Rightarrow>
     bind (liftE (parseStopWarnSeconds cfg)) (\<lambda>warnSeconds.
     bind (transition sid RUNNING STOPPING (Some containerId) None) (\<lambda>stopping.
     if stopping = None then Throw (ConflictException (Msg ''Server is not in RUNNING state''))
     else
     bind (tryCatch (gracefulStopContainer dk containerId warnSeconds)
             (settleStopFailure sid containerId)) (\<lambda>_.
     Return (row, containerId)))))"

lemma stopPhase_eq: "stopPhase dk cfg sid pr = bind (loadVisibleServer sid pr) (stopRest dk cfg sid)"
  by (simp add: stopPhase_def stopRest_def [abs_def])

lemma stopRest_guar: "guar (memory_kept sid b) (stopRest dk cfg sid row)"
  unfolding stopRest_def
  by (auto intro!: guar_intros memory_kept_transition memory_kept_settle simp: guar_simps split: option.splits)

lemma stopRest_yields: "yields (\<lambda>x. fst x = row) (stopRest dk cfg sid row)"
  unfolding stopRest_def
  by (auto intro!: yields_bindI [where P = "\<lambda>_. True"] split: option.splits)

lemma rg_restartClaim:
  assumes "memory_of sid (sv_memoryLimitMb row) s" and "0 < sv_memoryLimitMb row" and "sid \<noteq> []"
  shows "rg (steady sid) (admission_guar (memoryLimit dk cfg)) (\<lambda>_ _. True)
     (tryCatch (restartClaim dk cfg sid row cid) (\<lambda>error.
       bind (transition sid STOPPING STOPPED (Some cid) None) (\<lambda>_. Throw error))) s"
  unfolding rg_tryCatch restartClaim_def
  by (rule rg_mono [OF rg_claim_phase [OF assms]])
    (auto split: sum.splits intro!: rg_guarI [where H = "admission_guar (memoryLimit dk cfg)"]
      admission_intros)

lemma rg_restartServer:
  assumes "sid \<noteq> []"
  shows "rg (steady sid) (admission_guar (memoryLimit dk cfg)) (\<lambda>_ _. True) (restartServer dk cfg sid pr) w"
proof -
  have "rg (steady sid) (admission_guar (memoryLimit dk cfg)) (\<lambda>_ _. True)
      (bind (stopRest dk cfg sid row) (\<lambda>(row, cid). tryCatch (restartClaim dk cfg sid row cid) (\<lambda>error.
       bind (transition sid STOPPING STOPPED (Some cid) None) (\<lambda>_. Throw error)))) s"
    if "memory_of sid (sv_memoryLimitMb row) s" "0 < sv_memoryLimitMb row" for row s
    by (rule rg_bind_guarI [where H = "memory_kept sid (memoryLimit dk cfg)" and
          I = "memory_of sid (sv_memoryLimitMb row)", OF stopRest_guar stopRest_yields])
      (use that assms in \<open>auto simp: memory_kept_def steady_def intro!: rg_restartClaim\<close>)
  then show ?thesis
    unfolding restartServer_def stopPhase_eq loadVisibleServer_def bind_assoc
    by (auto simp: rg_bind [where p = "get _"] rg_get steady_def split: option.splits dest: loaded_row)
qed

text \<open>The limit never exceeds the memory of the host.\<close>

lemma memoryLimit_le_total:
  assumes "parseResourceConfig cfg = Inr rc" and "0 \<le> tot" and "tot \<le> MAX_SAFE_INTEGER"
  shows "allocatableMb tot (rc_maxMemoryRatio rc) \<le> tot"
proof -
  from assms(1) have "0 < rc_maxMemoryRatio rc" "rc_maxMemoryRatio rc \<le> 1"
    by (auto simp: parseResourceConfig_def Let_def split: jsnum.splits if_splits)
  then show ?thesis unfolding allocatableMb_def by (rule floor_js_mul_ratio_le [OF assms(2,3)])
qed

section \<open>Properties\<close>

text \<open>
  C2. Memory admission. Whatever the other requests do between the steps of a create, start or
  restart (as long as the constraints hold and nobody changes the memory limit of the
  server), the step that puts a server into \<open>CREATING\<close> or \<open>STARTING\<close> is taken only when the
  daemon reported the host and the configuration is valid, and leaves the memory committed
  to all servers that are not stopped within the configured share of the host's memory.
\<close>

theorem memory_admission:
  assumes "sid \<noteq> []" and "0 < orElse (cd_memoryLimitMb dto) 2048"
  shows "guar (admission_guar (memoryLimit dk cfg)) (createServer dk cfg newId dto pr)
       \<and> rg (steady sid) (admission_guar (memoryLimit dk cfg)) (\<lambda>_ _. True) (startServer dk cfg sid pr) w
       \<and> rg (steady sid) (admission_guar (memoryLimit dk cfg)) (\<lambda>_ _. True) (restartServer dk cfg sid pr) w"
  by (simp add: admission_createServer [OF assms(2)] rg_startServer [OF assms(1)] rg_restartServer [OF assms(1)])

definition sample_dto :: create_server_dto where
  "sample_dto = \<lparr>cd_name = ''new'', cd_provider = VANILLA, cd_version = ''1.21.1'', cd_port = 25570,
     cd_maxPlayers = None, cd_difficulty = None, cd_gamemode = None, cd_pvp = None,
     cd_memoryLimitMb = Some 4096, cd_motd = None, cd_levelSeed = None, cd_onlineMode = None,
     cd_viewDistance = None, cd_accessType = None, cd_allowFlight = None\<rparr>"

theorem memory_admission_witness:
  "memoryLimit willing_dockerode no_config = Some 14745
   \<and> guar (admission_guar (Some 14745)) (createServer willing_dockerode no_config ''s9'' sample_dto root_principal)
   \<and> rg (steady ''s1'') (admission_guar (Some 14745)) (\<lambda>_ _. True)
       (startServer willing_dockerode no_config ''s1'' root_principal) sample_world"
proof -
  have l: "memoryLimit willing_dockerode no_config = Some 14745" by code_simp
  have "0 < orElse (cd_memoryLimitMb sample_dto) 2048" by code_simp
  from memory_admission [OF _ this, of "''s1''" willing_dockerode no_config "''s9''" root_principal sample_world] l
  show ?thesis by simp
qed

text \<open>
  The admission limit is never more than the memory the daemon reported, although the
  product with the ratio is computed, and rounded, in double precision.
\<close>

theorem memory_limit_within_host:
  assumes "memoryLimit dk cfg = Some l" and "dk_info dk = Inr (Some info)"
    and "positive_integer (di_MemTotal info) = Some bytes" and "bytes \<le> MAX_SAFE_INTEGER"
  shows "l * (1024 * 1024) \<le> bytes"
proof -
  let ?mb = "bytes div (1024 * 1024)"
  have pos: "0 < bytes" using assms(3) by (cases "di_MemTotal info" rule: positive_integer.cases) (auto split: if_splits)
  from assms obtain rc where rc: "parseResourceConfig cfg = Inr rc"
    and l: "l = allocatableMb ?mb (rc_maxMemoryRatio rc)"
    by (auto simp: memoryLimit_def hostInfoOf_def toMb_def split: sum.splits option.splits prod.splits)
  have "?mb \<le> bytes" using pos by (simp add: int_div_less_self order_less_imp_le)
  then have "l \<le> ?mb" unfolding l using pos assms(4) by (intro memoryLimit_le_total [OF rc]) auto
  then have "l * 1048576 \<le> bytes div 1048576 * 1048576" by simp
  also have "\<dots> \<le> bytes" using div_mult_mod_eq [of bytes 1048576] by (metis add.commute add_increasing pos_mod_sign zero_less_numeral order_refl)
  finally show ?thesis by simp
qed

theorem memory_limit_within_host_witness: "(14745 :: int) * (1024 * 1024) \<le> 17179869184"
proof (rule memory_limit_within_host)
  show "memoryLimit willing_dockerode no_config = Some 14745" by code_simp
  show "dk_info willing_dockerode = Inr (Some \<lparr>di_MemTotal = Some (Num 17179869184), di_NCPU = Some (Num 8)\<rparr>)"
    by (simp add: willing_dockerode_def)
qed code_simp+

end
