(* ===== verification/ServersOutcomes.thy ===== *)
theory ServersOutcomes
  imports Admission
begin

text \<open>
  What each method of \<open>ServersService\<close> does when it runs alone: for every branch, the answer
  to the caller and the final state of the row, by the answers of the daemon.
\<close>

section \<open>Looking up and replacing one row\<close>

definition row_of :: "string \<Rightarrow> world \<Rightarrow> server option" where
  "row_of sid w = List.find (\<lambda>r. sv_id r = sid) (servers w)"

definition with_status :: "string \<Rightarrow> server_status \<Rightarrow> world \<Rightarrow> world" where
  "with_status sid st w = w\<lparr>servers := update_where (\<lambda>r. sv_id r = sid) (set_lifecycle st None w) (servers w)\<rparr>"

definition logged :: "docker_call list \<Rightarrow> world \<Rightarrow> world" where
  "logged cs w = w\<lparr>dockerLog := dockerLog w @ cs\<rparr>"

lemma row_of_mem: "row_of sid w = Some r \<Longrightarrow> r \<in> set (servers w) \<and> sv_id r = sid"
  by (auto simp: row_of_def dest: find_Some_mem)

lemma row_of_logged [simp]: "row_of sid (logged cs w) = row_of sid w"
  by (simp add: row_of_def logged_def)

lemma db_ok_logged [simp]: "db_ok (logged cs w) = db_ok w"
  by (simp add: logged_def)

lemma with_status_logged: "with_status sid st (logged cs w) = logged cs (with_status sid st w)"
proof -
  have "set_lifecycle st None (logged cs w) = set_lifecycle st None w"
    by (auto simp: set_lifecycle_def logged_def)
  then show ?thesis by (simp add: with_status_def logged_def)
qed

lemma logged_logged [simp]: "logged ds (logged cs w) = logged (cs @ ds) w"
  by (simp add: logged_def)

lemma row_of_with_status [simp]:
  "row_of sid (with_status sid st w) = map_option (set_lifecycle st None w) (row_of sid w)"
proof -
  have "List.find (\<lambda>r. sv_id r = sid) (update_where (\<lambda>r. sv_id r = sid) (set_lifecycle st None w) t)
      = map_option (set_lifecycle st None w) (List.find (\<lambda>r. sv_id r = sid) t)" for t
    by (induction t) (auto simp: set_lifecycle_def)
  then show ?thesis by (simp add: row_of_def with_status_def)
qed

lemma row_of_with_status_other [simp]:
  "sid' \<noteq> sid \<Longrightarrow> row_of sid' (with_status sid st w) = row_of sid' w"
proof -
  assume "sid' \<noteq> sid"
  then have "List.find (\<lambda>r. sv_id r = sid') (update_where (\<lambda>r. sv_id r = sid) (set_lifecycle st None w) t)
      = List.find (\<lambda>r. sv_id r = sid') t" for t
    by (induction t) (auto simp: set_lifecycle_def)
  then show ?thesis by (simp add: row_of_def with_status_def)
qed

lemma with_status_with_status [simp]: "with_status sid st (with_status sid st' w) = with_status sid st w"
proof -
  have "update_where (\<lambda>r. sv_id r = sid) (set_lifecycle st None (with_status sid st' w))
          (update_where (\<lambda>r. sv_id r = sid) (set_lifecycle st' None w) t)
      = update_where (\<lambda>r. sv_id r = sid) (set_lifecycle st None w) t" for t
    by (induction t) (auto simp: set_lifecycle_def with_status_def)
  then show ?thesis by (simp add: with_status_def)
qed

lemma servers_unique_with_status:
  "servers_unique (servers w) \<Longrightarrow> servers_unique (servers (with_status sid st w))"
  by (simp add: with_status_def servers_unique_def map_update_where somes_update_where set_lifecycle_def)

lemma db_ok_servers_unique: "db_ok w \<Longrightarrow> servers_unique (servers w)"
  by (simp add: db_ok_def)

lemma db_ok_with_status [simp]: "db_ok w \<Longrightarrow> db_ok (with_status sid st w)"
  using db_ok_update_servers [of w "\<lambda>r. sv_id r = sid" "set_lifecycle st None w"]
    servers_unique_with_status [OF db_ok_servers_unique, of w sid st]
  by (simp add: with_status_def)

section \<open>The compare-and-set transition\<close>

lemma run_transition:
  assumes "db_ok w" and "row_of sid w = Some r"
  shows "run (transition sid a b cid None) w =
    (if sv_status r = a \<and> sv_containerId r = truthy cid
     then (Inr (Some (set_lifecycle b None w r)), with_status sid b w) else (Inr None, w))"
proof -
  from row_of_mem [OF assms(2)] have r: "r \<in> set (servers w)" "sv_id r = sid" by auto
  have key: "x = r" if "x \<in> set (servers w)" "sv_id x = sid" for x
    using distinct_key_unique [OF servers_distinct_ids [OF assms(1)] that(1) r(1)] that(2) r(2) by simp
  let ?P = "cas_row sid a cid" and ?f = "set_lifecycle b None w"
  show ?thesis
  proof (cases "sv_status r = a \<and> sv_containerId r = truthy cid")
    case True
    have P: "?P x \<longleftrightarrow> sv_id x = sid" if "x \<in> set (servers w)" for x
      using key [OF that] True r by (auto simp: cas_row_def cid_matches_def)
    have t: "update_where ?P ?f (servers w) = servers (with_status sid b w)"
      by (simp add: with_status_def update_where_def P)
    have f: "first_row (map ?f (filter ?P (servers w))) = Some (?f r)"
    proof -
      have "r \<in> set (filter ?P (servers w))" using r P by simp
      then obtain x xs where x: "filter ?P (servers w) = x # xs"
        by (cases "filter ?P (servers w)") auto
      then have "x \<in> set (filter ?P (servers w))" by simp
      then have "x = r" using key [of x] P [of x] by auto
      with x show ?thesis by (simp add: first_row_def)
    qed
    show ?thesis using True assms(1) servers_unique_with_status [OF db_ok_servers_unique, of w sid b]
      by (simp add: transition_def run_atomically transitionInTx_def update_servers_def t f)
        (simp add: with_status_def)
  next
    case False
    have P: "\<not> ?P x" if "x \<in> set (servers w)" for x
      using key [OF that] False by (auto simp: cas_row_def cid_matches_def)
    then have "filter ?P (servers w) = []" by (simp add: filter_empty_conv)
    moreover have "update_where ?P ?f (servers w) = servers w" using P by (rule update_where_none)
    ultimately show ?thesis using False db_ok_servers_unique [OF assms(1)]
      by (simp add: transition_def run_atomically transitionInTx_def update_servers_def first_row_def)
  qed
qed

section \<open>Calls of the daemon\<close>

text \<open>How the service reads the daemon's answers to start, stop, remove and inspect.\<close>

definition started :: "dockerode \<Rightarrow> string \<Rightarrow> exn + unit" where
  "started dk cid = (case dk_start dk cid of
     Inr _ \<Rightarrow> Inr ()
   | Inl e \<Rightarrow> if isStatusCode e 304 then Inr () else Inl (handleDockerError e ''container''))"

definition stopped :: "dockerode \<Rightarrow> string \<Rightarrow> int \<Rightarrow> exn + unit" where
  "stopped dk cid t = (case dk_stop dk cid t of
     Inr _ \<Rightarrow> Inr ()
   | Inl e \<Rightarrow> if isStatusCode e 304 then Inr () else Inl (handleDockerError e ''container''))"

definition removed :: "dockerode \<Rightarrow> string \<Rightarrow> exn + unit" where
  "removed dk cid = (case dk_remove dk cid of
     Inr _ \<Rightarrow> Inr ()
   | Inl e \<Rightarrow> if isStatusCode e 404 then Inr () else Inl (handleDockerError e ''container''))"

definition inspected :: "dockerode \<Rightarrow> string \<Rightarrow> exn + container_state" where
  "inspected dk cid = (case dk_inspect dk cid of
     Inr info \<Rightarrow> Inr (inspectState info) | Inl e \<Rightarrow> Inl (handleDockerError e ''container''))"

lemma run_dcall: "run (dcall c r) w = (Inr r, logged [c] w)"
  by (simp add: dcall_def logged_def)

lemma run_startContainer: "run (startContainer dk cid) w = (started dk cid, logged [DStart cid] w)"
  by (auto simp: startContainer_def run_bind run_dcall started_def split: sum.splits)

lemma run_removeContainer: "run (removeContainer dk cid) w = (removed dk cid, logged [DRemove cid] w)"
  by (auto simp: removeContainer_def run_bind run_dcall removed_def split: sum.splits)

lemma run_inspectContainer: "run (inspectContainer dk cid) w = (inspected dk cid, logged [DInspect cid] w)"
  by (auto simp: inspectContainer_def run_bind run_dcall inspected_def split: sum.splits)

lemma run_stopContainer:
  assumes "0 \<le> t" and "t \<le> MAX_STOP_TIMEOUT_SECONDS"
  shows "run (stopContainer dk cid (Num (of_int t))) w =
    (case stopped dk cid t of Inl e \<Rightarrow> Inl e
       | Inr _ \<Rightarrow> Inr (case dk_stop dk cid t of Inl _ \<Rightarrow> AlreadyStopped | Inr _ \<Rightarrow> Stopped), logged [DStop cid t] w)"
  using assms
  by (auto simp: stopContainer_def run_bind run_dcall stopped_def MAX_STOP_TIMEOUT_SECONDS_def split: sum.splits)

text \<open>One RCON command: whether it succeeds, and the call it makes.\<close>

definition rconOk :: "dockerode \<Rightarrow> string \<Rightarrow> string list \<Rightarrow> bool" where
  "rconOk dk cid cmd \<longleftrightarrow> validateRconCommand cmd = Inr () \<and> rconOutcome dk cid cmd = Inr ()"

definition rconCall :: "string \<Rightarrow> string list \<Rightarrow> docker_call list" where
  "rconCall cid cmd = (case validateRconCommand cmd of Inl _ \<Rightarrow> [] | Inr _ \<Rightarrow> [DExec cid (''rcon-cli'' # cmd)])"

text \<open>The warning phase: delivered when both commands succeed.\<close>

definition warned :: "dockerode \<Rightarrow> string \<Rightarrow> int \<Rightarrow> bool" where
  "warned dk cid n \<longleftrightarrow> rconOk dk cid [''say'', closing_message n] \<and> rconOk dk cid [''save-all'']"

definition grace :: "dockerode \<Rightarrow> string \<Rightarrow> int \<Rightarrow> int" where
  "grace dk cid n = (if warned dk cid n then 15 else 10)"

definition stopCalls :: "dockerode \<Rightarrow> string \<Rightarrow> int \<Rightarrow> docker_call list" where
  "stopCalls dk cid n = rconCall cid [''say'', closing_message n]
     @ (if rconOk dk cid [''say'', closing_message n] then rconCall cid [''save-all''] else [])
     @ [DStop cid (grace dk cid n)]"

lemma logged_Nil [simp]: "logged [] w = w"
  by (simp add: logged_def)

lemma run_rcon:
  "\<exists>e. run (executeRconCommand dk cid cmd) w =
     (if rconOk dk cid cmd then Inr () else Inl e, logged (rconCall cid cmd) w)"
  by (cases "validateRconCommand cmd"; cases "rconOutcome dk cid cmd")
    (auto simp: executeRconCommand_def run_bind run_dcall rconOk_def rconCall_def)

lemma run_rconPhase:
  "\<exists>e. run (rconPhase dk cid n) w =
     (if warned dk cid n then Inr () else Inl e,
      logged (rconCall cid [''say'', closing_message n]
        @ (if rconOk dk cid [''say'', closing_message n] then rconCall cid [''save-all''] else [])) w)"
proof -
  obtain e1 where 1: "run (executeRconCommand dk cid [''say'', closing_message n]) w =
      (if rconOk dk cid [''say'', closing_message n] then Inr () else Inl e1,
       logged (rconCall cid [''say'', closing_message n]) w)" using run_rcon by blast
  obtain e2 where 2: "run (executeRconCommand dk cid [''save-all''])
        (logged (rconCall cid [''say'', closing_message n]) w) =
      (if rconOk dk cid [''save-all''] then Inr () else Inl e2,
       logged (rconCall cid [''save-all'']) (logged (rconCall cid [''say'', closing_message n]) w))"
    using run_rcon by blast
  show ?thesis by (auto simp: rconPhase_def run_bind 1 2 sleep_def warned_def)
qed

lemma run_gracefulStop:
  "run (gracefulStopContainer dk cid n) w = (stopped dk cid (grace dk cid n), logged (stopCalls dk cid n) w)"
proof -
  obtain e where e: "run (rconPhase dk cid n) w = (if warned dk cid n then Inr () else Inl e,
      logged (rconCall cid [''say'', closing_message n]
        @ (if rconOk dk cid [''say'', closing_message n] then rconCall cid [''save-all''] else [])) w)"
    using run_rconPhase by blast
  have stop: "t \<in> {10, 15} \<Longrightarrow> run (stopContainer dk cid (Num (of_int t))) w =
    (case stopped dk cid t of Inl e \<Rightarrow> Inl e
       | Inr _ \<Rightarrow> Inr (case dk_stop dk cid t of Inl _ \<Rightarrow> AlreadyStopped | Inr _ \<Rightarrow> Stopped), logged [DStop cid t] w)" for t w
    by (rule run_stopContainer) (auto simp: MAX_STOP_TIMEOUT_SECONDS_def)
  from stop [of 10] stop [of 15] show ?thesis
    by (auto simp: gracefulStopContainer_def run_bind run_attempt e stopCalls_def grace_def split: sum.splits)
qed

section \<open>Start\<close>

lemma sel_visible_logged [simp]: "sel_visible pr (logged cs w) = sel_visible pr w"
  by (auto simp: sel_visible_def logged_def fun_eq_iff)

lemma run_loadVisibleServer:
  assumes "db_ok w"
  shows "run (loadVisibleServer sid pr) w =
    (case row_of sid w of
       Some r \<Rightarrow> if sel_visible pr w r then (Inr r, w) else (Inl (NotFoundException (Msg ''Server not found'')), w)
     | None \<Rightarrow> (Inl (NotFoundException (Msg ''Server not found'')), w))"
  using find_key_and [OF servers_distinct_ids [OF assms], of sid "sel_visible pr w"]
  by (auto simp: loadVisibleServer_def run_bind row_of_def split: option.splits)

fun unavailable :: "exn \<Rightarrow> bool" where
  "unavailable (ServiceUnavailableException b) = True"
| "unavailable e = False"

text \<open>The state a row settles in after the daemon answered to a start.\<close>

definition settle_start :: "dockerode \<Rightarrow> string \<Rightarrow> server_status" where
  "settle_start dk cid = (case started dk cid of
     Inr _ \<Rightarrow> RUNNING | Inl e \<Rightarrow> if unavailable e then ERROR else STOPPED)"

lemma run_startAndFinalize:
  assumes "db_ok w" and "row_of sid w = Some r" and "sv_status r = STARTING"
    and "sv_containerId r = Some cid" and "cid \<noteq> []"
  shows "run (startAndFinalize dk sid cid) w =
    (case started dk cid of Inl e \<Rightarrow> Inl e | Inr _ \<Rightarrow> Inr (toPublicServer (set_lifecycle RUNNING None w r)),
     logged [DStart cid] (with_status sid (settle_start dk cid) w))"
proof -
  obtain c cs where cid: "cid = c # cs" using assms(5) by (cases cid) auto
  have set_logged: "set_lifecycle st None (logged l w) = set_lifecycle st None w" for st l
    by (auto simp: set_lifecycle_def logged_def)
  show ?thesis
    using assms(1-4)
    by (cases "started dk cid"; cases "projl (started dk cid)")
      (auto simp: startAndFinalize_def run_bind run_tryCatch run_startContainer settle_start_def
        run_transition [where r = r] cid with_status_logged set_logged)
qed

section \<open>Admission as one check\<close>

definition hostRead :: "dockerode \<Rightarrow> exn + host_info" where
  "hostRead dk = (case dk_info dk of Inr info \<Rightarrow> Inr (hostInfoOf info) | Inl e \<Rightarrow> Inl (handleDockerError e ''host''))"

definition admit :: "dockerode \<Rightarrow> config \<Rightarrow> string \<Rightarrow> string \<Rightarrow> string \<Rightarrow> int \<Rightarrow> world \<Rightarrow> exn + unit" where
  "admit dk cfg dmsg msg sid m w =
     seqE (parseResourceConfig cfg) (\<lambda>rc.
     seqE (getHostDiskInfo dk cfg) (\<lambda>d.
     seqE (hostRead dk) (\<lambda>h.
     seqE (checkDisk d (rc_minFreeDiskMb rc) dmsg) (\<lambda>_.
     checkMemoryAdmission h (rc_maxMemoryRatio rc) m (getCurrentAllocationMb (Some sid) False w) msg))))"

definition hostCalls :: "config \<Rightarrow> docker_call list" where
  "hostCalls cfg = (case parseResourceConfig cfg of Inl _ \<Rightarrow> [] | Inr _ \<Rightarrow> [DInfo])"

lemma run_hostResources:
  "run (hostResources dk cfg) w =
     (seqE (getHostDiskInfo dk cfg) (\<lambda>d. seqE (hostRead dk) (\<lambda>h. Inr (h, d))), logged [DInfo] w)"
  by (cases "getHostDiskInfo dk cfg"; cases "dk_info dk")
    (auto simp: hostResources_def getHostInfo_def run_bind run_attempt run_dcall hostRead_def)

lemma allocation_logged [simp]: "getCurrentAllocationMb x b (logged cs w) = getCurrentAllocationMb x b w"
  by (simp add: getCurrentAllocationMb_def logged_def)

lemma run_claim:
  "run (bind (liftE (parseResourceConfig cfg)) (\<lambda>config.
        bind (hostResources dk cfg) (\<lambda>(hostInfo, diskInfo).
        bind (liftE (checkDisk diskInfo (rc_minFreeDiskMb config) dmsg)) (\<lambda>_.
        bind (atomically (startClaimTx sid a cid m hostInfo (rc_maxMemoryRatio config) msg)) k)))) w =
   (case admit dk cfg dmsg msg sid m w of
      Inl e \<Rightarrow> (Inl e, logged (hostCalls cfg) w)
    | Inr _ \<Rightarrow> run (bind (transition sid a STARTING (Some cid) None) k) (logged (hostCalls cfg) w))"
proof (cases "parseResourceConfig cfg")
  case (Inr rc)
  show ?thesis
  proof (cases "getHostDiskInfo dk cfg")
    case d: (Inr d)
    show ?thesis
    proof (cases "hostRead dk")
      case h: (Inr h)
      show ?thesis
        by (cases "checkDisk d (rc_minFreeDiskMb rc) dmsg";
            cases "checkMemoryAdmission h (rc_maxMemoryRatio rc) m (getCurrentAllocationMb (Some sid) False w) msg")
          (simp_all add: admit_def Inr d h hostCalls_def run_bind run_hostResources
            startClaimTx_def transition_def run_atomically)
    qed (simp add: admit_def Inr d hostCalls_def run_bind run_hostResources)
  qed (simp add: admit_def Inr hostCalls_def run_bind run_hostResources)
qed (simp add: admit_def hostCalls_def)

section \<open>Specifications of the methods\<close>

text \<open>
  The methods without their intermediate states: guards, then one final status. Each is
  proved equal to the run of the corresponding method of the source.
\<close>

definition notFound :: exn where
  "notFound = NotFoundException (Msg ''Server not found'')"

definition onVisible :: "string \<Rightarrow> principal \<Rightarrow> (server \<Rightarrow> world \<Rightarrow> (exn + 'a) \<times> world) \<Rightarrow> world
    \<Rightarrow> (exn + 'a) \<times> world" where
  "onVisible sid pr f w = (case row_of sid w of
     None \<Rightarrow> (Inl notFound, w)
   | Some r \<Rightarrow> if sel_visible pr w r then f r w else (Inl notFound, w))"

definition startSpec :: "dockerode \<Rightarrow> config \<Rightarrow> string \<Rightarrow> principal \<Rightarrow> world \<Rightarrow> (exn + public_server) \<times> world" where
  "startSpec dk cfg sid pr = onVisible sid pr (\<lambda>r w.
     if sv_status r \<noteq> STOPPED then (Inl (ConflictException (Msg ''Server is not in STOPPED state'')), w)
     else case truthy (sv_containerId r) of
       None \<Rightarrow> (Inl (ConflictException (Msg ''Server container is not provisioned'')), w)
     | Some cid \<Rightarrow>
         (case admit dk cfg ''Insufficient disk space to start server'' ''Insufficient memory to start server''
                 sid (sv_memoryLimitMb r) w of
            Inl e \<Rightarrow> (Inl e, logged (hostCalls cfg) w)
          | Inr _ \<Rightarrow>
              (case started dk cid of Inl e \<Rightarrow> Inl e | Inr _ \<Rightarrow> Inr (toPublicServer (set_lifecycle RUNNING None w r)),
               logged (hostCalls cfg @ [DStart cid]) (with_status sid (settle_start dk cid) w))))"

text \<open>The state a row settles in after the daemon answered to a stop.\<close>

definition settle_stop_failure :: "exn \<Rightarrow> server_status" where
  "settle_stop_failure e = (case e of
     ServiceUnavailableException _ \<Rightarrow> ERROR | NotFoundException _ \<Rightarrow> STOPPED | _ \<Rightarrow> RUNNING)"

definition onRunning :: "config \<Rightarrow> (server \<Rightarrow> string \<Rightarrow> int \<Rightarrow> world \<Rightarrow> (exn + 'a) \<times> world)
    \<Rightarrow> server \<Rightarrow> world \<Rightarrow> (exn + 'a) \<times> world" where
  "onRunning cfg f r w =
    (if sv_status r \<noteq> RUNNING then (Inl (ConflictException (Msg ''Server is not in RUNNING state'')), w)
     else case truthy (sv_containerId r) of
       None \<Rightarrow> (Inl (InternalServerErrorException (Msg ''Running server has no container id'')), w)
     | Some cid \<Rightarrow> (case parseStopWarnSeconds cfg of Inl e \<Rightarrow> (Inl e, w) | Inr n \<Rightarrow> f r cid n w))"

definition stopSpec :: "dockerode \<Rightarrow> config \<Rightarrow> string \<Rightarrow> principal \<Rightarrow> world \<Rightarrow> (exn + public_server) \<times> world" where
  "stopSpec dk cfg sid pr = onVisible sid pr (onRunning cfg (\<lambda>r cid n w.
     case stopped dk cid (grace dk cid n) of
       Inl e \<Rightarrow> (Inl e, logged (stopCalls dk cid n) (with_status sid (settle_stop_failure e) w))
     | Inr _ \<Rightarrow> (Inr (toPublicServer (set_lifecycle STOPPED None w r)),
                 logged (stopCalls dk cid n) (with_status sid STOPPED w))))"

definition restartSpec :: "dockerode \<Rightarrow> config \<Rightarrow> string \<Rightarrow> principal \<Rightarrow> world \<Rightarrow> (exn + public_server) \<times> world" where
  "restartSpec dk cfg sid pr = onVisible sid pr (onRunning cfg (\<lambda>r cid n w.
     case stopped dk cid (grace dk cid n) of
       Inl e \<Rightarrow> (Inl e, logged (stopCalls dk cid n) (with_status sid (settle_stop_failure e) w))
     | Inr _ \<Rightarrow>
         (case admit dk cfg ''Insufficient disk space to restart server'' ''Insufficient memory to restart server''
                 sid (sv_memoryLimitMb r) w of
            Inl e \<Rightarrow> (Inl e, logged (stopCalls dk cid n @ hostCalls cfg) (with_status sid STOPPED w))
          | Inr _ \<Rightarrow>
              (case started dk cid of Inl e \<Rightarrow> Inl e | Inr _ \<Rightarrow> Inr (toPublicServer (set_lifecycle RUNNING None w r)),
               logged (stopCalls dk cid n @ hostCalls cfg @ [DStart cid]) (with_status sid (settle_start dk cid) w)))))"

text \<open>The row is deleted, and with it what refers to the server.\<close>

definition without_server :: "string \<Rightarrow> world \<Rightarrow> world" where
  "without_server sid w = delete_servers (\<lambda>r. sv_id r = sid) w"

definition deleteSpec :: "dockerode \<Rightarrow> string \<Rightarrow> principal \<Rightarrow> world \<Rightarrow> (exn + unit) \<times> world" where
  "deleteSpec dk sid pr = onVisible sid pr (\<lambda>r w.
     if sv_status r \<noteq> STOPPED then (Inl (ConflictException (Msg ''Server is not in STOPPED state'')), w)
     else if sv_containerId r = Some [] then (Inl (ConflictException (Msg ''Server is not in STOPPED state'')), w)
     else case sv_containerId r of
       None \<Rightarrow> (Inr (), without_server sid w)
     | Some cid \<Rightarrow>
         (case removed dk cid of
            Inr _ \<Rightarrow> (Inr (), logged [DRemove cid] (without_server sid w))
          | Inl e \<Rightarrow>
              (case inspected dk cid of
                 Inr st \<Rightarrow> if cs_running st
                           then (Inl e, logged [DRemove cid, DInspect cid] (with_status sid ERROR w))
                           else (Inr (), logged [DRemove cid, DInspect cid] (without_server sid w))
               | Inl (NotFoundException _) \<Rightarrow> (Inr (), logged [DRemove cid, DInspect cid] (without_server sid w))
               | Inl _ \<Rightarrow> (Inl e, logged [DRemove cid, DInspect cid] (with_status sid ERROR w)))))"

section \<open>Every method meets its specification\<close>

lemma truthy_nonempty [simp]: "c \<noteq> [] \<Longrightarrow> truthy (Some c) = Some c"
  by (cases c) auto

lemma set_lifecycle_world [simp]:
  "set_lifecycle st c (logged cs w) = set_lifecycle st c w"
  "set_lifecycle st c (with_status sid st' w) = set_lifecycle st c w"
  by (auto simp: set_lifecycle_def logged_def with_status_def)

lemma set_lifecycle_set_lifecycle [simp]:
  "set_lifecycle st None w (set_lifecycle st' None w r) = set_lifecycle st None w r"
  by (simp add: set_lifecycle_def)

lemma set_lifecycle_containerId [simp]: "sv_containerId (set_lifecycle st None w r) = sv_containerId r"
  by (simp add: set_lifecycle_def)

lemma run_on_visible:
  assumes "db_ok w" and "\<And>r. row_of sid w = Some r \<Longrightarrow> sel_visible pr w r \<Longrightarrow> run (f r) w = g r w"
  shows "run (bind (loadVisibleServer sid pr) f) w = onVisible sid pr g w"
  using assms by (auto simp: run_bind run_loadVisibleServer onVisible_def notFound_def split: option.splits)

text \<open>The claim and the start of the container, from a row that can be claimed.\<close>

lemma run_claim_start:
  assumes "db_ok w" and "row_of sid w = Some r" and "sv_status r = a" and "sv_containerId r = Some cid" and "cid \<noteq> []"
  shows "run (bind (liftE (parseResourceConfig cfg)) (\<lambda>config.
        bind (hostResources dk cfg) (\<lambda>(hostInfo, diskInfo).
        bind (liftE (checkDisk diskInfo (rc_minFreeDiskMb config) dmsg)) (\<lambda>_.
        bind (atomically (startClaimTx sid a cid m hostInfo (rc_maxMemoryRatio config) msg)) (\<lambda>started.
        if started = None then Throw e0 else startAndFinalize dk sid cid))))) w =
   (case admit dk cfg dmsg msg sid m w of
      Inl e \<Rightarrow> (Inl e, logged (hostCalls cfg) w)
    | Inr _ \<Rightarrow>
        (case started dk cid of Inl e \<Rightarrow> Inl e | Inr _ \<Rightarrow> Inr (toPublicServer (set_lifecycle RUNNING None w r)),
         logged (hostCalls cfg @ [DStart cid]) (with_status sid (settle_start dk cid) w)))"
  unfolding run_claim using assms
  by (auto simp: run_bind run_transition [where r = r] with_status_logged
      run_startAndFinalize [where r = "set_lifecycle STARTING None w r"] split: sum.splits)

lemma run_startServer:
  assumes "db_ok w"
  shows "run (startServer dk cfg sid pr) w = startSpec dk cfg sid pr w"
  unfolding startServer_def startSpec_def
  by (rule run_on_visible [OF assms])
    (use assms in \<open>auto simp: run_claim_start split: option.splits dest!: truthy_Some\<close>)

lemma run_settleStopFailure:
  assumes "db_ok w" and "row_of sid w = Some r" and "sv_status r = STOPPING" and "sv_containerId r = Some cid" and "cid \<noteq> []"
  shows "run (settleStopFailure sid cid e) w = (Inl e, with_status sid (settle_stop_failure e) w)"
  using assms
  by (cases e) (simp_all add: settleStopFailure_def settle_stop_failure_def run_bind run_transition [where r = r])

text \<open>The stop phase ends with the row in \<open>STOPPING\<close> and the container stopped, or with an error.\<close>

lemma run_stopPhase:
  assumes "db_ok w"
  shows "run (stopPhase dk cfg sid pr) w = onVisible sid pr (onRunning cfg (\<lambda>r cid n w.
     case stopped dk cid (grace dk cid n) of
       Inl e \<Rightarrow> (Inl e, logged (stopCalls dk cid n) (with_status sid (settle_stop_failure e) w))
     | Inr _ \<Rightarrow> (Inr (r, cid), logged (stopCalls dk cid n) (with_status sid STOPPING w)))) w"
  unfolding stopPhase_def
proof (rule run_on_visible [OF assms])
  fix r assume r: "row_of sid w = Some r"
  let ?w = "\<lambda>l. logged l (with_status sid STOPPING w)"
  have settle: "run (settleStopFailure sid cid e) (?w l) = (Inl e, logged l (with_status sid (settle_stop_failure e) w))"
    if "sv_containerId r = Some cid" "cid \<noteq> []" for e cid l
    using run_settleStopFailure [of "?w l" sid "set_lifecycle STOPPING None w r" cid e] assms r that
    by (simp add: with_status_logged)
  show "run (if sv_status r \<noteq> RUNNING then Throw (ConflictException (Msg ''Server is not in RUNNING state''))
     else case truthy (sv_containerId r) of
       None \<Rightarrow> Throw (InternalServerErrorException (Msg ''Running server has no container id''))
     | Some containerId \<Rightarrow>
     bind (liftE (parseStopWarnSeconds cfg)) (\<lambda>warnSeconds.
     bind (transition sid RUNNING STOPPING (Some containerId) None) (\<lambda>stopping.
     if stopping = None then Throw (ConflictException (Msg ''Server is not in RUNNING state''))
     else
     bind (tryCatch (gracefulStopContainer dk containerId warnSeconds)
             (settleStopFailure sid containerId)) (\<lambda>_.
     Return (r, containerId))))) w =
    onRunning cfg (\<lambda>r cid n w.
     case stopped dk cid (grace dk cid n) of
       Inl e \<Rightarrow> (Inl e, logged (stopCalls dk cid n) (with_status sid (settle_stop_failure e) w))
     | Inr _ \<Rightarrow> (Inr (r, cid), logged (stopCalls dk cid n) (with_status sid STOPPING w))) r w"
    using assms r
    by (auto simp: onRunning_def run_bind run_liftE run_tryCatch run_transition [where r = r] run_gracefulStop
        settle split: option.splits sum.splits dest!: truthy_Some)
qed

lemma stopping_row:
  "row_of sid w = Some r \<Longrightarrow> row_of sid (logged l (with_status sid STOPPING w)) = Some (set_lifecycle STOPPING None w r)"
  by simp

lemma run_stopServer:
  assumes "db_ok w"
  shows "run (stopServer dk cfg sid pr) w = stopSpec dk cfg sid pr w"
proof -
  have fin: "run (transition sid STOPPING STOPPED (Some cid) None) (logged l (with_status sid STOPPING w))
      = (Inr (Some (set_lifecycle STOPPED None w r)), logged l (with_status sid STOPPED w))"
    if "row_of sid w = Some r" "sv_containerId r = Some cid" "cid \<noteq> []" for r cid l
    using run_transition [of "logged l (with_status sid STOPPING w)" sid, OF _ stopping_row] assms that
    by (simp add: with_status_logged)
  show ?thesis
    by (auto simp: stopServer_def stopSpec_def run_bind run_stopPhase [OF assms] onVisible_def onRunning_def fin
        split: option.splits sum.splits dest!: truthy_Some)
qed

lemma admit_stopping:
  assumes "db_ok w" and "sid \<noteq> []"
  shows "admit dk cfg dmsg msg sid m (logged l (with_status sid st w)) = admit dk cfg dmsg msg sid m w"
proof -
  obtain c cs where s: "sid = c # cs" using assms(2) by (cases sid) auto
  have "getCurrentAllocationMb (Some sid) False (with_status sid st w) = getCurrentAllocationMb (Some sid) False w"
    unfolding s with_status_def by (rule allocation_others) (auto simp: set_lifecycle_def)
  then show ?thesis by (simp add: admit_def)
qed

lemma run_restartServer:
  assumes "db_ok w" and "sid \<noteq> []"
  shows "run (restartServer dk cfg sid pr) w = restartSpec dk cfg sid pr w"
proof -
  let ?w = "\<lambda>l. logged l (with_status sid STOPPING w)"
  have miss: "run (transition sid STOPPING STOPPED (Some cid) None) (logged l (with_status sid st w))
      = (Inr (if st = STOPPING then Some (set_lifecycle STOPPED None w r) else None),
         logged l (with_status sid (if st = STOPPING then STOPPED else st) w))"
    if "row_of sid w = Some r" "sv_containerId r = Some cid" "cid \<noteq> []" for r cid l st
    using run_transition [of "logged l (with_status sid st w)" sid "set_lifecycle st None w r"] assms that
    by (simp add: with_status_logged)
  have settled: "settle_start dk cid \<noteq> STOPPING" for cid
    by (auto simp: settle_start_def split: sum.splits)
  have claim: "run (restartClaim dk cfg sid r cid) (?w l) =
     (case admit dk cfg ''Insufficient disk space to restart server'' ''Insufficient memory to restart server''
             sid (sv_memoryLimitMb r) w of
        Inl e \<Rightarrow> (Inl e, ?w (l @ hostCalls cfg))
      | Inr _ \<Rightarrow>
          (case started dk cid of Inl e \<Rightarrow> Inl e | Inr _ \<Rightarrow> Inr (toPublicServer (set_lifecycle RUNNING None w r)),
           logged (l @ hostCalls cfg @ [DStart cid]) (with_status sid (settle_start dk cid) w)))"
    if r: "row_of sid w = Some r" "sv_containerId r = Some cid" "cid \<noteq> []" for r cid l
    unfolding restartClaim_def
    using run_claim_start [of "?w l" sid "set_lifecycle STOPPING None w r" STOPPING cid] assms r
    by (simp add: admit_stopping [OF assms] with_status_logged split: sum.splits)
  show ?thesis
    by (auto simp: restartServer_def restartSpec_def run_bind run_tryCatch run_stopPhase [OF assms(1)] onVisible_def
        onRunning_def claim miss settled split: option.splits sum.splits dest!: truthy_Some)
qed

lemma delete_stopping:
  "delete_servers (\<lambda>r. sv_id r = sid \<and> sv_status r = STOPPING) (with_status sid STOPPING w) = without_server sid w"
proof -
  have t: "delete_where (\<lambda>r. sv_id r = sid \<and> sv_status r = STOPPING)
        (update_where (\<lambda>r. sv_id r = sid) (set_lifecycle STOPPING None w) t) = delete_where (\<lambda>r. sv_id r = sid) t" for t
    by (induction t) (auto simp: set_lifecycle_def)
  have ex: "list_ex (\<lambda>r. sv_id r = sid \<and> sv_status r = STOPPING \<and> sv_id r = x)
        (update_where (\<lambda>r. sv_id r = sid) (set_lifecycle STOPPING None w) t)
      \<longleftrightarrow> list_ex (\<lambda>r. sv_id r = sid \<and> sv_id r = x) t" for x t
    by (induction t) (auto simp: set_lifecycle_def)
  show ?thesis by (simp add: without_server_def delete_servers_def with_status_def t ex cong: option.case_cong)
qed

lemma delete_again:
  "delete_servers (\<lambda>r. sv_id r = sid \<and> sv_status r = st) (without_server sid w) = without_server sid w"
proof -
  let ?w = "without_server sid w" and ?P = "\<lambda>r. sv_id r = sid \<and> sv_status r = st"
  have none: "\<not> list_ex (\<lambda>r. sv_id r = sid \<and> sv_status r = st \<and> sv_id r = x) (servers ?w)" for x
    by (auto simp: without_server_def list_ex_iff)
  have "delete_where ?P (servers ?w) = servers ?w"
    by (rule delete_where_none) (auto simp: without_server_def)
  then show ?thesis
    by (simp add: delete_servers_def [of _ ?w] none Let_def delete_where_def option.case_eq_if)
qed

lemma delete_servers_logged: "delete_servers P (logged l w) = logged l (delete_servers P w)"
  by (simp add: delete_servers_def logged_def Let_def)

lemma run_delete_server_in: "run (delete_server_in sid st) w = (Inr (), delete_servers (\<lambda>r. sv_id r = sid \<and> sv_status r = st) w)"
  by (simp add: delete_server_in_def)

lemmas delete_simps = run_delete_server_in delete_servers_logged delete_stopping delete_again

lemma run_resolveDeleteRemoveFailure:
  assumes "db_ok w" and "row_of sid w = Some r" and "sv_containerId r = Some cid" and "cid \<noteq> []"
  shows "run (resolveDeleteRemoveFailure dk sid cid) (logged l (with_status sid STOPPING w)) =
    (case inspected dk cid of
       Inr st \<Rightarrow> if cs_running st then (Inr False, logged (l @ [DInspect cid]) (with_status sid ERROR w))
                 else (Inr True, logged (l @ [DInspect cid]) (without_server sid w))
     | Inl (NotFoundException _) \<Rightarrow> (Inr True, logged (l @ [DInspect cid]) (without_server sid w))
     | Inl _ \<Rightarrow> (Inr False, logged (l @ [DInspect cid]) (with_status sid ERROR w)))"
proof -
  have err: "run (transition sid STOPPING ERROR (Some cid) None) (logged l (with_status sid STOPPING w))
      = (Inr (Some (set_lifecycle ERROR None w r)), logged l (with_status sid ERROR w))" for l
    using run_transition [of "logged l (with_status sid STOPPING w)" sid, OF _ stopping_row [OF assms(2)]] assms
    by (simp add: with_status_logged)
  show ?thesis
    by (cases "inspected dk cid"; cases "projl (inspected dk cid)")
      (auto simp: resolveDeleteRemoveFailure_def run_tryCatch run_bind run_inspectContainer err delete_simps)
qed

lemma run_deleteServer:
  assumes "db_ok w"
  shows "run (deleteServer dk sid pr) w = deleteSpec dk sid pr w"
  unfolding deleteServer_def deleteSpec_def
proof (rule run_on_visible [OF assms])
  fix r assume r: "row_of sid w = Some r"
  show "run (if sv_status r \<noteq> STOPPED then Throw (ConflictException (Msg ''Server is not in STOPPED state''))
     else
     bind (transition sid STOPPED STOPPING (sv_containerId r) None) (\<lambda>deleting.
     case deleting of
       None \<Rightarrow> Throw (ConflictException (Msg ''Server is not in STOPPED state''))
     | Some d \<Rightarrow>
     bind (case truthy (sv_containerId d) of
             None \<Rightarrow> Return ()
           | Some containerId \<Rightarrow>
               tryCatch (removeContainer dk containerId) (\<lambda>error.
                 bind (resolveDeleteRemoveFailure dk sid containerId) (\<lambda>removed.
                 if \<not> removed then Throw error else Return ()))) (\<lambda>_.
     delete_server_in sid STOPPING))) w =
    (if sv_status r \<noteq> STOPPED then (Inl (ConflictException (Msg ''Server is not in STOPPED state'')), w)
     else if sv_containerId r = Some [] then (Inl (ConflictException (Msg ''Server is not in STOPPED state'')), w)
     else case sv_containerId r of
       None \<Rightarrow> (Inr (), without_server sid w)
     | Some cid \<Rightarrow>
         (case removed dk cid of
            Inr _ \<Rightarrow> (Inr (), logged [DRemove cid] (without_server sid w))
          | Inl e \<Rightarrow>
              (case inspected dk cid of
                 Inr st \<Rightarrow> if cs_running st
                           then (Inl e, logged [DRemove cid, DInspect cid] (with_status sid ERROR w))
                           else (Inr (), logged [DRemove cid, DInspect cid] (without_server sid w))
               | Inl (NotFoundException _) \<Rightarrow> (Inr (), logged [DRemove cid, DInspect cid] (without_server sid w))
               | Inl _ \<Rightarrow> (Inl e, logged [DRemove cid, DInspect cid] (with_status sid ERROR w)))))"
  proof (cases "sv_containerId r" rule: truthy.cases)
    case (1 c cs)
    then show ?thesis
      by (cases "removed dk (c # cs)"; cases "inspected dk (c # cs)"; cases "projl (inspected dk (c # cs))")
        (auto simp: run_bind run_tryCatch run_transition [OF assms r] run_removeContainer delete_simps
          run_resolveDeleteRemoveFailure [OF assms r])
  qed (auto simp: run_bind run_transition [OF assms r] delete_simps)
qed

section \<open>Properties of start, stop, restart and delete\<close>

text \<open>
  C9. Start. On every branch (hidden or absent server, wrong state, no container, refused
  admission, each kind of answer of the daemon) the method returns the answer of its
  specification and leaves the row in the specified state: \<open>RUNNING\<close> when the container was
  started (or was running already), \<open>ERROR\<close> when the daemon became unreachable, \<open>STOPPED\<close> when
  it refused; every refusal before the claim changes no table and starts no container.
\<close>

theorem start_meets_spec:
  assumes "db_ok w"
  shows "run (startServer dk cfg sid pr) w = startSpec dk cfg sid pr w"
  using assms by (rule run_startServer)

lemma sample_start: "map_option sv_status (row_of ''s1'' (snd (startSpec willing_dockerode no_config ''s1'' root_principal sample_world))) = Some RUNNING"
  by code_simp

theorem start_meets_spec_witness:
  "map_option sv_status (row_of ''s1'' (snd (run (startServer willing_dockerode no_config ''s1'' root_principal) sample_world)))
   = Some RUNNING"
  unfolding start_meets_spec [OF sample_world_db_ok] by (rule sample_start)

text \<open>
  C10. Stop. The players are warned and the world saved over RCON if possible; whatever comes
  of that, the container is stopped through the daemon with 15 or 10 seconds of grace, and
  the row settles by the daemon's answer: \<open>STOPPED\<close>, \<open>ERROR\<close> when the daemon became unreachable,
  \<open>STOPPED\<close> when the container is gone, back to \<open>RUNNING\<close> when the daemon refused.
\<close>

theorem stop_meets_spec:
  assumes "db_ok w"
  shows "run (stopServer dk cfg sid pr) w = stopSpec dk cfg sid pr w"
  using assms by (rule run_stopServer)

lemma sample_stop: "map_option sv_status (row_of ''s2'' (snd (stopSpec willing_dockerode no_config ''s2'' root_principal sample_world))) = Some STOPPED"
  by code_simp

theorem stop_meets_spec_witness:
  "map_option sv_status (row_of ''s2'' (snd (run (stopServer willing_dockerode no_config ''s2'' root_principal) sample_world)))
   = Some STOPPED"
  unfolding stop_meets_spec [OF sample_world_db_ok] by (rule sample_stop)

text \<open>
  C11. Restart is stop followed by start: a failed stop settles as in stop, a refused admission
  leaves the server \<open>STOPPED\<close>, otherwise the row settles by the daemon's answer to the start:
  \<open>STOPPED\<close> when the daemon rejects it, and \<open>ERROR\<close> when the daemon cannot be reached, because the
  start may have been accepted (the documentation says \<open>STOPPED\<close> for both).
\<close>

theorem restart_meets_spec:
  assumes "db_ok w" and "sid \<noteq> []"
  shows "run (restartServer dk cfg sid pr) w = restartSpec dk cfg sid pr w"
  using assms by (rule run_restartServer)

lemma sample_restart: "map_option sv_status (row_of ''s2'' (snd (restartSpec willing_dockerode no_config ''s2'' root_principal sample_world))) = Some RUNNING"
  by code_simp

theorem restart_meets_spec_witness:
  "map_option sv_status (row_of ''s2'' (snd (run (restartServer willing_dockerode no_config ''s2'' root_principal) sample_world)))
   = Some RUNNING"
  unfolding restart_meets_spec [OF sample_world_db_ok list.distinct(2)] by (rule sample_restart)

text \<open>
  C12. Delete. A stopped server is deleted with everything that refers to it once its container
  was removed, is gone, or could not be removed but was found not running; when the
  container still runs or cannot be inspected the row is kept as \<open>ERROR\<close> and the failure
  reported.
\<close>

theorem delete_meets_spec:
  assumes "db_ok w"
  shows "run (deleteServer dk sid pr) w = deleteSpec dk sid pr w"
  using assms by (rule run_deleteServer)

lemma sample_delete: "row_of ''s1'' (snd (deleteSpec willing_dockerode ''s1'' root_principal sample_world)) = None"
  by code_simp

theorem delete_meets_spec_witness:
  "row_of ''s1'' (snd (run (deleteServer willing_dockerode ''s1'' root_principal) sample_world)) = None"
  unfolding delete_meets_spec [OF sample_world_db_ok] by (rule sample_delete)

definition at_rest :: "string \<Rightarrow> world \<Rightarrow> bool" where
  "at_rest sid w \<longleftrightarrow> (case row_of sid w of None \<Rightarrow> True | Some r \<Rightarrow> sv_status r \<in> {STOPPED, RUNNING, ERROR})"

lemma at_rest_logged [simp]: "at_rest sid (logged l w) = at_rest sid w"
  by (simp add: at_rest_def)

lemma at_rest_with_status [simp]: "st \<in> {STOPPED, RUNNING, ERROR} \<Longrightarrow> at_rest sid (with_status sid st w)"
  by (auto simp: at_rest_def split: option.splits)

lemma at_rest_without_server [simp]: "at_rest sid (without_server sid w)"
  by (auto simp: at_rest_def row_of_def without_server_def split: option.splits dest: find_Some_mem)

lemma at_rest_settled [simp]:
  "at_rest sid (with_status sid (settle_start dk cid) w)"
  "at_rest sid (with_status sid (settle_stop_failure e) w)"
  by (auto simp: settle_start_def settle_stop_failure_def split: sum.splits exn.splits)

text \<open>
  No method leaves a server in a transitional state: run alone on a server that was not in
  one, start, stop, restart and delete leave it \<open>STOPPED\<close>, \<open>RUNNING\<close> or \<open>ERROR\<close>, or deleted.
\<close>

theorem methods_leave_servers_at_rest:
  assumes "db_ok w" and "at_rest sid w" and "sid \<noteq> []"
  shows "at_rest sid (snd (run (startServer dk cfg sid pr) w)) \<and> at_rest sid (snd (run (stopServer dk cfg sid pr) w))
       \<and> at_rest sid (snd (run (restartServer dk cfg sid pr) w)) \<and> at_rest sid (snd (run (deleteServer dk sid pr) w))"
  unfolding run_startServer [OF assms(1)] run_stopServer [OF assms(1)] run_restartServer [OF assms(1,3)]
    run_deleteServer [OF assms(1)]
  using assms(2)
  by (auto simp: startSpec_def stopSpec_def restartSpec_def deleteSpec_def onVisible_def onRunning_def
      split: option.splits sum.splits exn.splits)

theorem methods_leave_servers_at_rest_witness:
  "at_rest ''s2'' (snd (run (restartServer willing_dockerode no_config ''s2'' root_principal) sample_world))"
proof -
  have "at_rest ''s2'' sample_world" by code_simp
  from methods_leave_servers_at_rest [OF sample_world_db_ok this] show ?thesis by blast
qed

section \<open>A lost delete\<close>

text \<open>A daemon that refuses to start containers.\<close>

definition refusing_dockerode :: dockerode where
  "refusing_dockerode = willing_dockerode\<lparr>dk_start := (\<lambda>_. Inl (Cause None (Some 500)))\<rparr>"

definition returned :: "('s, 'a) prog \<Rightarrow> bool" where
  "returned p = (case p of Return _ \<Rightarrow> True | _ \<Rightarrow> False)"

text \<open>
  A restart whose start was refused has settled the row as \<open>STOPPED\<close>; before its outer \<open>catch\<close>
  runs, a delete claims the row; the \<open>catch\<close> then moves the claimed row back to \<open>STOPPED\<close>.
\<close>

definition race :: "world \<times> (world, unit) prog list" where
  "race = foldl (\<lambda>c i. advance i c)
     (sample_world, [void (restartServer refusing_dockerode no_config ''s2'' root_principal),
                     void (deleteServer willing_dockerode ''s2'' root_principal)])
     (replicate 11 0 @ [1, 1, 0, 1, 1])"

lemma race_reachable: "reachable servers_handler tick sample_world race"
  unfolding race_def
  by (intro reachable_schedule reachable_two servers_handler.intros(1) servers_request.intros(4,5))


end
