(* ===== verification/ServerAccessService.thy ===== *)
theory ServerAccessService
  imports Lifecycle
begin

text \<open>
  \<open>src/servers/server-access.service.ts\<close> and \<open>server-access.ts\<close>: requesting, approving and
  revoking access to a server. Each private method is one SQL statement; the two retry loops
  are bounded by \<open>MAX_RACE_RETRIES\<close>. The ids of inserted rows (\<open>crypto.randomUUID()\<close>) are
  arguments, one for each attempt.
\<close>

section \<open>Projections\<close>

record my_access_request =
  ma_status :: server_access_status
  ma_requestedAt :: timestamp
  ma_approvedAt :: "timestamp option"

record access_request =
  ar_userId :: string
  ar_username :: string
  ar_email :: string
  ar_status :: server_access_status
  ar_requestedAt :: timestamp
  ar_approvedAt :: "timestamp option"

definition toMyAccessRequest :: "server_access \<Rightarrow> my_access_request" where
  "toMyAccessRequest row = \<lparr>ma_status = sa_status row, ma_requestedAt = sa_createdAt row,
     ma_approvedAt = sa_approvedAt row\<rparr>"

definition access_projection :: "user \<Rightarrow> server_access \<Rightarrow> access_request" where
  "access_projection u row = \<lparr>ar_userId = u_id u, ar_username = u_username u, ar_email = u_email u,
     ar_status = sa_status row, ar_requestedAt = sa_createdAt row, ar_approvedAt = sa_approvedAt row\<rparr>"

definition MAX_RACE_RETRIES :: nat where "MAX_RACE_RETRIES = 1"

section \<open>Statements\<close>

definition access_key :: "string \<Rightarrow> string \<Rightarrow> server_access \<Rightarrow> bool" where
  "access_key serverId userId a \<longleftrightarrow> sa_serverId a = serverId \<and> sa_userId a = userId"

text \<open>\<open>INSERT ... ON CONFLICT DO NOTHING RETURNING *\<close>, with the foreign keys checked.\<close>

definition insert_access :: "server_access \<Rightarrow> world \<Rightarrow> exn + server_access option \<times> world" where
  "insert_access row w =
     (if \<not> serverAccess_unique (serverAccess w @ [row]) then Inr (None, w)
      else if \<not> (user_exists w (sa_userId row) \<and> server_exists w (sa_serverId row)) then Inl (PostgresError ''23503'')
      else if \<not> access_check row then Inl (PostgresError ''23514'')
      else Inr (Some row, w\<lparr>serverAccess := serverAccess w @ [row]\<rparr>))"

definition tryInsertPending :: "string \<Rightarrow> string \<Rightarrow> string \<Rightarrow> (world, server_access option) prog" where
  "tryInsertPending newId serverId userId = atomically (\<lambda>w. insert_access
     \<lparr>sa_id = newId, sa_userId = userId, sa_serverId = serverId, sa_status = PENDING,
      sa_createdAt = clock w, sa_approvedAt = None\<rparr> w)"

definition tryInsertApproved :: "string \<Rightarrow> string \<Rightarrow> string \<Rightarrow> (world, server_access option) prog" where
  "tryInsertApproved newId serverId userId = atomically (\<lambda>w. insert_access
     \<lparr>sa_id = newId, sa_userId = userId, sa_serverId = serverId, sa_status = APPROVED,
      sa_createdAt = clock w, sa_approvedAt = Some (clock w)\<rparr> w)"

definition approved_row :: "world \<Rightarrow> server_access \<Rightarrow> server_access" where
  "approved_row w a = a\<lparr>sa_status := APPROVED, sa_approvedAt := Some (clock w)\<rparr>"

definition approve_pending :: "string \<Rightarrow> string \<Rightarrow> world \<Rightarrow> exn + server_access option \<times> world" where
  "approve_pending serverId userId w =
     (let P = (\<lambda>a. access_key serverId userId a \<and> sa_status a = PENDING)
      in Inr (first_row (map (approved_row w) (filter P (serverAccess w))),
              w\<lparr>serverAccess := update_where P (approved_row w) (serverAccess w)\<rparr>))"

definition tryApprovePending :: "string \<Rightarrow> string \<Rightarrow> (world, server_access option) prog" where
  "tryApprovePending serverId userId = atomically (approve_pending serverId userId)"

definition findAccess :: "string \<Rightarrow> string \<Rightarrow> (world, server_access option) prog" where
  "findAccess serverId userId = get (\<lambda>w. List.find (access_key serverId userId) (serverAccess w))"

definition loadRequestableServer :: "string \<Rightarrow> (world, server) prog" where
  "loadRequestableServer serverId =
     bind (get (\<lambda>w. List.find (\<lambda>r. sv_id r = serverId \<and> sv_status r \<noteq> CREATING) (servers w))) (\<lambda>row.
     case row of None \<Rightarrow> Throw (NotFoundException (Msg ''Server not found'')) | Some r \<Rightarrow> Return r)"

definition loadServerForAdmin :: "string \<Rightarrow> (world, server) prog" where
  "loadServerForAdmin serverId =
     bind (get (\<lambda>w. List.find (\<lambda>r. sv_id r = serverId \<and> sv_status r \<noteq> CREATING) (servers w))) (\<lambda>row.
     case row of None \<Rightarrow> Throw (NotFoundException (Msg ''Server not found'')) | Some r \<Rightarrow> Return r)"

definition loadTargetUser :: "string \<Rightarrow> (world, user) prog" where
  "loadTargetUser userId =
     bind (get (\<lambda>w. List.find (\<lambda>u. u_id u = userId) (users w))) (\<lambda>row.
     case row of None \<Rightarrow> Throw (NotFoundException (Msg ''User not found'')) | Some u \<Rightarrow> Return u)"

section \<open>The retry loops\<close>

function upsertPendingWithRetry :: "(nat \<Rightarrow> string) \<Rightarrow> string \<Rightarrow> string \<Rightarrow> nat \<Rightarrow> (world, server_access) prog" where
  "upsertPendingWithRetry ids serverId userId attemptNo =
     bind (tryInsertPending (ids attemptNo) serverId userId) (\<lambda>inserted.
     case inserted of
       Some row \<Rightarrow> Return row
     | None \<Rightarrow>
     bind (findAccess serverId userId) (\<lambda>existing.
     case existing of
       Some e \<Rightarrow>
         if sa_status e = PENDING then Throw (ConflictException (Msg ''Access request already pending''))
         else Throw (ConflictException (Msg ''Server access already approved''))
     | None \<Rightarrow>
     if MAX_RACE_RETRIES \<le> attemptNo then
       bind (attempt (loadRequestableServer serverId)) (\<lambda>server.
       case server of
         Inr s \<Rightarrow>
           if sv_accessType s \<noteq> REQUEST then Throw (NotFoundException (Msg ''Server not found''))
           else Throw (ConflictException (Msg ''Access request state changed, please retry''))
       | Inl _ \<Rightarrow> Throw (NotFoundException (Msg ''Server not found'')))
     else
       bind (loadRequestableServer serverId) (\<lambda>server.
       if sv_accessType server \<noteq> REQUEST then Throw (NotFoundException (Msg ''Server not found''))
       else upsertPendingWithRetry ids serverId userId (attemptNo + 1))))"
  by pat_completeness auto

termination
  by (relation "measure (\<lambda>(ids, serverId, userId, attemptNo). MAX_RACE_RETRIES - attemptNo)") auto

function approveWithRetry :: "(nat \<Rightarrow> string) \<Rightarrow> access_type \<Rightarrow> string \<Rightarrow> string \<Rightarrow> nat \<Rightarrow> (world, server_access) prog" where
  "approveWithRetry ids serverAccessType serverId userId attemptNo =
     bind (tryApprovePending serverId userId) (\<lambda>approved.
     case approved of
       Some row \<Rightarrow> Return row
     | None \<Rightarrow>
     bind (findAccess serverId userId) (\<lambda>existing.
     case existing of
       Some e \<Rightarrow>
         if sa_status e = APPROVED then Throw (ConflictException (Msg ''Server access already approved''))
         else if MAX_RACE_RETRIES \<le> attemptNo then Throw (ConflictException (Msg ''Access request still pending''))
         else approveWithRetry ids serverAccessType serverId userId (attemptNo + 1)
     | None \<Rightarrow>
     if serverAccessType = REQUEST then Throw (NotFoundException (Msg ''Access request not found''))
     else
     bind (tryInsertApproved (ids attemptNo) serverId userId) (\<lambda>inserted.
     case inserted of
       Some row \<Rightarrow> Return row
     | None \<Rightarrow>
     if MAX_RACE_RETRIES \<le> attemptNo then
       bind (findAccess serverId userId) (\<lambda>existing.
       case existing of
         Some e \<Rightarrow>
           (case sa_status e of
              APPROVED \<Rightarrow> Throw (ConflictException (Msg ''Server access already approved''))
            | PENDING \<Rightarrow> Throw (ConflictException (Msg ''Access request still pending'')))
       | None \<Rightarrow> Throw (NotFoundException (Msg ''Access request not found'')))
     else approveWithRetry ids serverAccessType serverId userId (attemptNo + 1))))"
  by pat_completeness auto

termination
  by (relation "measure (\<lambda>(ids, t, serverId, userId, attemptNo). MAX_RACE_RETRIES - attemptNo)") auto

declare upsertPendingWithRetry.simps [simp del] approveWithRetry.simps [simp del]

section \<open>Operations\<close>

definition requestAccess :: "(nat \<Rightarrow> string) \<Rightarrow> string \<Rightarrow> principal \<Rightarrow> (world, my_access_request) prog" where
  "requestAccess ids serverId pr =
     (if p_role pr = ADMIN then Throw (ConflictException (Msg ''Admins already have access to all servers''))
      else
      bind (loadRequestableServer serverId) (\<lambda>server.
      if sv_accessType server = OPEN then Throw (ConflictException (Msg ''Server access is already open''))
      else if sv_accessType server = PRIVATE then Throw (NotFoundException (Msg ''Server not found''))
      else
      bind (upsertPendingWithRetry ids serverId (p_id pr) 0) (\<lambda>row.
      Return (toMyAccessRequest row))))"

definition getMyAccessRequest :: "string \<Rightarrow> principal \<Rightarrow> (world, my_access_request) prog" where
  "getMyAccessRequest serverId pr =
     bind (loadRequestableServer serverId) (\<lambda>server.
     if sv_accessType server = OPEN then Throw (NotFoundException (Msg ''Access request not found''))
     else if sv_accessType server = PRIVATE then Throw (NotFoundException (Msg ''Server not found''))
     else
     bind (findAccess serverId (p_id pr)) (\<lambda>row.
     case row of
       None \<Rightarrow> Throw (NotFoundException (Msg ''Access request not found''))
     | Some a \<Rightarrow> Return (toMyAccessRequest a)))"

text \<open>The join of \<open>server_access\<close> with \<open>users\<close>, ordered by request time and id.\<close>

definition pending_requests :: "string \<Rightarrow> world \<Rightarrow> access_request list" where
  "pending_requests serverId w =
     concat (map (\<lambda>a. map (\<lambda>u. access_projection u a) (filter (\<lambda>u. u_id u = sa_userId a) (users w)))
       (sort_key (\<lambda>a. (sa_createdAt a, sa_id a))
         (filter (\<lambda>a. sa_serverId a = serverId \<and> sa_status a = PENDING) (serverAccess w))))"

definition listAccessRequests :: "string \<Rightarrow> (world, access_request list) prog" where
  "listAccessRequests serverId =
     bind (loadServerForAdmin serverId) (\<lambda>server.
     if sv_accessType server \<noteq> REQUEST
     then Throw (ConflictException (Msg ''Server does not use request-based access''))
     else get (pending_requests serverId))"

definition approveAccess :: "(nat \<Rightarrow> string) \<Rightarrow> string \<Rightarrow> string \<Rightarrow> (world, access_request) prog" where
  "approveAccess ids serverId targetUserId =
     bind (loadServerForAdmin serverId) (\<lambda>server.
     bind (loadTargetUser targetUserId) (\<lambda>targetUser.
     if u_role targetUser = ADMIN then Throw (BadRequestException (Msg ''Cannot assign access to an admin''))
     else if sv_accessType server = OPEN then Throw (ConflictException (Msg ''Server access is already open''))
     else
     bind (approveWithRetry ids (sv_accessType server) serverId targetUserId 0) (\<lambda>row.
     Return (access_projection targetUser row))))"

definition revokeAccess :: "string \<Rightarrow> string \<Rightarrow> (world, unit) prog" where
  "revokeAccess serverId targetUserId =
     bind (loadServerForAdmin serverId) (\<lambda>_.
     atomically (\<lambda>w.
       if list_ex (access_key serverId targetUserId) (serverAccess w)
       then Inr ((), w\<lparr>serverAccess := delete_where (access_key serverId targetUserId) (serverAccess w)\<rparr>)
       else Inl (NotFoundException (Msg ''Access request not found''))))"

section \<open>The guarantee of the atomic steps\<close>

text \<open>
  A step changes no table but \<open>server_access\<close>; a row of the new table was there before, or is
  a first row for its user and server, or is a pending row that was approved.
\<close>

definition access_step :: "world \<Rightarrow> world \<Rightarrow> bool" where
  "access_step w w' \<longleftrightarrow> w' = w\<lparr>serverAccess := serverAccess w'\<rparr>
     \<and> (\<forall>a' \<in> set (serverAccess w').
          a' \<in> set (serverAccess w)
        \<or> (\<forall>a \<in> set (serverAccess w). \<not> access_key (sa_serverId a') (sa_userId a') a)
        \<or> (\<exists>a \<in> set (serverAccess w). sa_status a = PENDING \<and> a' = approved_row w a))"

definition access_guar :: "world \<Rightarrow> world \<Rightarrow> bool" where
  "access_guar w w' \<longleftrightarrow> access_step w w' \<and> (db_ok w \<longrightarrow> db_ok w')"

lemma access_guar_refl [simp]: "access_guar w w"
  by (simp add: access_guar_def access_step_def)

lemma db_ok_serverAccess:
  assumes "db_ok w" and "serverAccess_unique t" and "list_all access_check t"
    and "\<forall>a \<in> set t. user_exists w (sa_userId a) \<and> server_exists w (sa_serverId a)"
  shows "db_ok (w\<lparr>serverAccess := t\<rparr>)"
proof -
  have "user_exists (w\<lparr>serverAccess := t\<rparr>) = user_exists w" "server_exists (w\<lparr>serverAccess := t\<rparr>) = server_exists w"
    by (auto simp: user_exists_def server_exists_def fun_eq_iff)
  with assms show ?thesis by (simp add: db_ok_def refs_ok_def cong: option.case_cong)
qed

lemma access_ok:
  assumes "db_ok w"
  shows "serverAccess_unique (serverAccess w)" and "list_all access_check (serverAccess w)"
    and "\<forall>a \<in> set (serverAccess w). user_exists w (sa_userId a) \<and> server_exists w (sa_serverId a)"
  using assms by (simp_all add: db_ok_def refs_ok_def)

lemma unique_append_key:
  assumes "serverAccess_unique (t @ [row])"
  shows "\<forall>a \<in> set t. \<not> access_key (sa_serverId row) (sa_userId row) a"
  using assms by (auto simp: serverAccess_unique_def access_key_def image_iff)

lemma insert_access_guar:
  assumes "insert_access row w = Inr (x, w')"
  shows "access_guar w w'"
proof (cases x)
  case (Some r)
  with assms have u: "serverAccess_unique (serverAccess w @ [row])" and c: "access_check row"
    and fk: "user_exists w (sa_userId row)" "server_exists w (sa_serverId row)"
    and w': "w' = w\<lparr>serverAccess := serverAccess w @ [row]\<rparr>"
    by (auto simp: insert_access_def split: if_splits)
  have "access_step w w'" using unique_append_key [OF u] by (auto simp: access_step_def w')
  moreover have "db_ok w'" if "db_ok w"
    unfolding w' by (rule db_ok_serverAccess [OF that u]) (use access_ok [OF that] c fk in auto)
  ultimately show ?thesis by (simp add: access_guar_def)
qed (use assms in \<open>auto simp: insert_access_def split: if_splits\<close>)

lemma approve_pending_guar:
  assumes "approve_pending sid uid w = Inr (x, w')"
  shows "access_guar w w'"
proof -
  let ?P = "\<lambda>a. access_key sid uid a \<and> sa_status a = PENDING"
  let ?t = "update_where ?P (approved_row w) (serverAccess w)"
  from assms have w': "w' = w\<lparr>serverAccess := ?t\<rparr>" by (simp add: approve_pending_def Let_def)
  have "access_step w w'" by (auto simp: access_step_def w' set_update_where)
  moreover have "db_ok w'" if "db_ok w"
    unfolding w'
  proof (rule db_ok_serverAccess [OF that])
    show "serverAccess_unique ?t"
      using access_ok(1) [OF that] by (simp add: serverAccess_unique_def map_update_where approved_row_def)
    show "list_all access_check ?t"
      using access_ok(2) [OF that] by (auto simp: list_all_iff set_update_where approved_row_def access_check_def)
    show "\<forall>a \<in> set ?t. user_exists w (sa_userId a) \<and> server_exists w (sa_serverId a)"
      using access_ok(3) [OF that] by (auto simp: set_update_where approved_row_def)
  qed
  ultimately show ?thesis by (simp add: access_guar_def)
qed

lemma guar_access_statements [guar_simps]:
  "guar access_guar (tryInsertPending i sid uid)"
  "guar access_guar (tryInsertApproved i sid uid)"
  "guar access_guar (tryApprovePending sid uid)"
  "guar access_guar (findAccess sid uid)"
  "guar access_guar (loadRequestableServer sid)"
  "guar access_guar (loadServerForAdmin sid)"
  "guar access_guar (loadTargetUser uid)"
  unfolding tryInsertPending_def tryInsertApproved_def tryApprovePending_def findAccess_def
    loadRequestableServer_def loadServerForAdmin_def loadTargetUser_def
  by (auto intro!: guar_intros guar_atomicallyI intro: insert_access_guar approve_pending_guar
      simp: guar_simps split: option.splits)

lemma guar_upsertPendingWithRetry [guar_simps]: "guar access_guar (upsertPendingWithRetry ids sid uid n)"
proof (induction ids sid uid n rule: upsertPendingWithRetry.induct)
  case (1 ids sid uid n)
  then show ?case
    by (subst upsertPendingWithRetry.simps) (auto intro!: guar_intros simp: guar_simps split: option.splits sum.splits)
qed

lemma guar_approveWithRetry [guar_simps]: "guar access_guar (approveWithRetry ids t sid uid n)"
proof (induction ids t sid uid n rule: approveWithRetry.induct)
  case (1 ids t sid uid n)
  then show ?case
    by (subst approveWithRetry.simps)
      (auto intro!: guar_intros simp: guar_simps split: option.splits server_access_status.splits)
qed

lemma revoke_guar:
  "access_guar w (w\<lparr>serverAccess := delete_where P (serverAccess w)\<rparr>)"
proof -
  have "db_ok (w\<lparr>serverAccess := delete_where P (serverAccess w)\<rparr>)" if "db_ok w"
    by (rule db_ok_serverAccess [OF that]) (use access_ok [OF that] in auto)
  then show ?thesis by (simp add: access_guar_def access_step_def)
qed

lemma guar_access_methods [guar_simps]:
  "guar access_guar (requestAccess ids sid pr)"
  "guar access_guar (getMyAccessRequest sid pr)"
  "guar access_guar (listAccessRequests sid)"
  "guar access_guar (approveAccess ids sid uid)"
  "guar access_guar (revokeAccess sid uid)"
  unfolding requestAccess_def getMyAccessRequest_def listAccessRequests_def approveAccess_def revokeAccess_def
  by (auto intro!: guar_intros guar_atomicallyI revoke_guar simp: guar_simps split: option.splits if_splits)

section \<open>What the methods report\<close>

definition access_row :: "server_access_status \<Rightarrow> string \<Rightarrow> string \<Rightarrow> server_access \<Rightarrow> world \<Rightarrow> bool" where
  "access_row st sid uid a w \<longleftrightarrow> a \<in> set (serverAccess w) \<and> access_key sid uid a \<and> sa_status a = st"

definition reports :: "server_access_status \<Rightarrow> string \<Rightarrow> string \<Rightarrow> exn + server_access \<Rightarrow> world \<Rightarrow> bool" where
  "reports st sid uid r w \<longleftrightarrow> (case r of Inl _ \<Rightarrow> True | Inr a \<Rightarrow> access_row st sid uid a w)"

lemma reports_Inl [simp]: "reports st sid uid (Inl e) w"
  by (simp add: reports_def)

lemma reports_Inr [simp]: "reports st sid uid (Inr a) w = access_row st sid uid a w"
  by (simp add: reports_def)

lemma insert_access_row:
  "insert_access row w = Inr (Some a, w') \<Longrightarrow> a = row \<and> row \<in> set (serverAccess w')"
  by (auto simp: insert_access_def split: if_splits)

lemma approve_pending_row:
  assumes "approve_pending sid uid w = Inr (Some a, w')"
  shows "access_row APPROVED sid uid a w'"
proof -
  let ?P = "\<lambda>a. access_key sid uid a \<and> sa_status a = PENDING"
  from assms have "first_row (map (approved_row w) (filter ?P (serverAccess w))) = Some a"
    and w': "w' = w\<lparr>serverAccess := update_where ?P (approved_row w) (serverAccess w)\<rparr>"
    by (auto simp: approve_pending_def Let_def)
  from first_row_mem [OF this(1)] obtain b where "b \<in> set (serverAccess w)" "?P b" "a = approved_row w b" by auto
  then show ?thesis by (auto simp: access_row_def w' set_update_where approved_row_def access_key_def)
qed

abbreviation anything :: "world \<Rightarrow> world \<Rightarrow> bool" where
  "anything \<equiv> \<lambda>_ _. True"

lemma rg_statements:
  "rg anything anything (\<lambda>r w. case r of Inr (Some a) \<Rightarrow> access_row PENDING sid uid a w | _ \<Rightarrow> True) (tryInsertPending i sid uid) w"
  "rg anything anything (\<lambda>r w. case r of Inr (Some a) \<Rightarrow> access_row APPROVED sid uid a w | _ \<Rightarrow> True) (tryInsertApproved i sid uid) w"
  "rg anything anything (\<lambda>r w. case r of Inr (Some a) \<Rightarrow> access_row APPROVED sid uid a w | _ \<Rightarrow> True) (tryApprovePending sid uid) w"
  unfolding tryInsertPending_def tryInsertApproved_def tryApprovePending_def rg_atomically
  by (auto split: sum.splits option.splits dest: insert_access_row approve_pending_row
      simp: access_row_def access_key_def)

lemma rg_any: "(\<And>r w. Q r w) \<Longrightarrow> rg anything anything Q p w"
  by (induction p arbitrary: w) auto

text \<open>
  A row found by a statement may be returned; when it is not found, the rest of the method
  is free to do what it does, as long as it also reports the truth.
\<close>

lemma rg_found:
  assumes "rg anything anything (\<lambda>r w. case r of Inr (Some a) \<Rightarrow> access_row st sid uid a w | _ \<Rightarrow> True) p w"
    and "\<And>w. rg anything anything (reports st sid uid) q w"
  shows "rg anything anything (reports st sid uid) (bind p (\<lambda>x. case x of Some row \<Rightarrow> Return row | None \<Rightarrow> q)) w"
  unfolding rg_bind using assms(1)
  by (rule rg_mono) (auto split: sum.splits option.splits intro: assms(2))

lemma rg_read_then:
  assumes "\<And>x w. rg anything anything Q (f x) w" and "\<And>e w. Q (Inl e) w"
  shows "rg anything anything Q (bind p f) w"
  unfolding rg_bind by (rule rg_any) (auto split: sum.splits intro: assms)

lemma rg_upsert: "rg anything anything (reports PENDING sid uid) (upsertPendingWithRetry ids sid uid n) w"
proof (induction n arbitrary: w rule: measure_induct_rule [where f = "\<lambda>n. MAX_RACE_RETRIES - n"])
  case (less n)
  have IH: "rg anything anything (reports PENDING sid uid) (upsertPendingWithRetry ids sid uid (Suc n)) w"
    if "\<not> MAX_RACE_RETRIES \<le> n" for w
    using that by (intro less) linarith
  show ?case
    by (subst upsertPendingWithRetry.simps)
      (intro rg_found [OF rg_statements(1)],
       auto intro!: rg_read_then IH split: option.splits sum.splits)
qed

lemma rg_approve: "rg anything anything (reports APPROVED sid uid) (approveWithRetry ids t sid uid n) w"
proof (induction n arbitrary: w rule: measure_induct_rule [where f = "\<lambda>n. MAX_RACE_RETRIES - n"])
  case (less n)
  have IH: "rg anything anything (reports APPROVED sid uid) (approveWithRetry ids t sid uid (Suc n)) w"
    if "\<not> MAX_RACE_RETRIES \<le> n" for w
    using that by (intro less) linarith
  have "rg anything anything (reports APPROVED sid uid)
     (bind (tryInsertApproved (ids n) sid uid) (\<lambda>inserted.
      case inserted of
       Some row \<Rightarrow> Return row
     | None \<Rightarrow>
     if MAX_RACE_RETRIES \<le> n then
       bind (findAccess sid uid) (\<lambda>existing.
       case existing of
         Some e \<Rightarrow>
           (case sa_status e of
              APPROVED \<Rightarrow> Throw (ConflictException (Msg ''Server access already approved''))
            | PENDING \<Rightarrow> Throw (ConflictException (Msg ''Access request still pending'')))
       | None \<Rightarrow> Throw (NotFoundException (Msg ''Access request not found'')))
     else approveWithRetry ids t sid uid (n + 1))) w" for w
    by (intro rg_found [OF rg_statements(2)])
      (auto intro!: rg_read_then IH split: option.splits server_access_status.splits)
  then show ?case using IH
    by (subst approveWithRetry.simps)
      (intro rg_found [OF rg_statements(3)], auto intro!: rg_read_then split: option.splits)
qed

section \<open>Properties\<close>

text \<open>
  C16. Whatever other requests do between its statements, an approval that succeeds reports
  \<open>APPROVED\<close> and an approved row for that user and server is in the table when it returns;
  a request that succeeds likewise reports a \<open>PENDING\<close> row that is there. Neither ever
  fabricates a state.
\<close>

theorem access_reports_the_truth:
  "rg anything anything
     (\<lambda>r w. case r of Inl _ \<Rightarrow> True
        | Inr p \<Rightarrow> ar_status p = APPROVED \<and> (\<exists>a. access_row APPROVED sid uid a w \<and> ar_approvedAt p = sa_approvedAt a))
     (approveAccess ids sid uid) w
   \<and> rg anything anything
     (\<lambda>r w. case r of Inl _ \<Rightarrow> True
        | Inr p \<Rightarrow> ma_status p = PENDING \<and> (\<exists>a. access_row PENDING sid (p_id pr) a w \<and> ma_requestedAt p = sa_createdAt a))
     (requestAccess ids sid pr) w"
proof -
  have "rg anything anything
     (\<lambda>r w. case r of Inl _ \<Rightarrow> True
        | Inr p \<Rightarrow> ar_status p = APPROVED \<and> (\<exists>a. access_row APPROVED sid uid a w \<and> ar_approvedAt p = sa_approvedAt a))
     (bind (approveWithRetry ids t sid uid 0) (\<lambda>row. Return (access_projection u row))) w" for u t w
    unfolding rg_bind
    by (rule rg_mono [OF rg_approve]) (auto simp: access_projection_def access_row_def reports_def split: sum.splits)
  moreover have "rg anything anything
     (\<lambda>r w. case r of Inl _ \<Rightarrow> True
        | Inr p \<Rightarrow> ma_status p = PENDING \<and> (\<exists>a. access_row PENDING sid (p_id pr) a w \<and> ma_requestedAt p = sa_createdAt a))
     (bind (upsertPendingWithRetry ids sid (p_id pr) 0) (\<lambda>row. Return (toMyAccessRequest row))) w" for w
    unfolding rg_bind
    by (rule rg_mono [OF rg_upsert]) (auto simp: toMyAccessRequest_def access_row_def reports_def split: sum.splits)
  ultimately show ?thesis
    by (auto simp: approveAccess_def requestAccess_def intro!: rg_read_then)
qed

lemma ends_within_statements [simp]:
  "ends_within (Suc n) (tryInsertPending i sid uid)" "ends_within (Suc n) (tryInsertApproved i sid uid)"
  "ends_within (Suc n) (tryApprovePending sid uid)" "ends_within (Suc n) (findAccess sid uid)"
  "ends_within (Suc n) (loadRequestableServer sid)" "ends_within (Suc n) (loadServerForAdmin sid)"
  "ends_within (Suc n) (loadTargetUser uid)"
  by (auto simp: tryInsertPending_def tryInsertApproved_def tryApprovePending_def findAccess_def
      loadRequestableServer_def loadServerForAdmin_def loadTargetUser_def atomically_def get_def
      split: sum.splits option.splits)

lemma ends_within_result: "ends_within n p \<Longrightarrow> ends_within n (bind p (\<lambda>x. Return (g x)))"
  by (induction n p rule: ends_within.induct) auto

lemma ends_within_Suc_bind:
  "ends_within (Suc 0) p \<Longrightarrow> (\<And>x. ends_within n (f x)) \<Longrightarrow> ends_within (Suc n) (bind p f)"
  using ends_within_bind [of "Suc 0" p n f] by simp

text \<open>
  C34. The retry loops end: whatever the other requests do, a request for access makes at most
  7 SQL statements and an approval at most 9.
\<close>

theorem access_retries_are_bounded:
  "ends_within 7 (requestAccess ids sid pr) \<and> ends_within 9 (approveAccess ids sid uid)"
proof -
  have u1: "ends_within 3 (upsertPendingWithRetry ids sid u 1)" for u
    by (subst upsertPendingWithRetry.simps)
      (auto simp: numeral_eq_Suc MAX_RACE_RETRIES_def intro!: ends_within_Suc_bind split: option.splits sum.splits)
  have u0: "ends_within 6 (upsertPendingWithRetry ids sid u 0)" for u
    using u1 by (subst upsertPendingWithRetry.simps)
      (auto simp: numeral_eq_Suc MAX_RACE_RETRIES_def intro!: ends_within_Suc_bind split: option.splits)
  have a1: "ends_within 4 (approveWithRetry ids t sid uid 1)" for t
    by (subst approveWithRetry.simps)
      (auto simp: numeral_eq_Suc MAX_RACE_RETRIES_def intro!: ends_within_Suc_bind
        split: option.splits server_access_status.splits)
  have a0: "ends_within 7 (approveWithRetry ids t sid uid 0)" for t
    using a1 [THEN ends_within_mono] by (subst approveWithRetry.simps)
      (auto simp: numeral_eq_Suc MAX_RACE_RETRIES_def intro!: ends_within_Suc_bind
        split: option.splits server_access_status.splits)
  have u: "ends_within (Suc 6) (bind (loadRequestableServer sid) f)" if "\<And>x. ends_within 6 (f x)" for f :: "server \<Rightarrow> (world, my_access_request) prog"
    using that by (intro ends_within_Suc_bind) auto
  have a: "ends_within (Suc (Suc 7)) (bind (loadServerForAdmin sid) (\<lambda>s. bind (loadTargetUser uid) (f s)))"
    if "\<And>s x. ends_within 7 (f s x)" for f :: "server \<Rightarrow> user \<Rightarrow> (world, access_request) prog"
    using that by (intro ends_within_Suc_bind) auto
  show ?thesis
    by (auto simp: requestAccess_def approveAccess_def u0 a0
        intro!: u [simplified] a [simplified] ends_within_result)
qed

text \<open>
  Access that was revoked is gone: after a successful revocation the user no longer sees
  the server, unless it is open to all.
\<close>

theorem revoked_user_loses_server:
  assumes "run (revokeAccess sid (p_id pr)) w = (Inr u, w')" and "p_role pr \<noteq> ADMIN"
    and "r \<in> set (servers w')" and "sv_id r = sid" and "sv_accessType r \<noteq> OPEN"
  shows "\<not> sel_visible pr w' r"
proof -
  from assms(1) have "serverAccess w' = delete_where (access_key sid (p_id pr)) (serverAccess w)"
    by (auto simp: revokeAccess_def loadServerForAdmin_def run_bind run_atomically split: option.splits if_splits sum.splits)
  then show ?thesis using assms(2-5)
    by (auto simp: sel_visible_def list_ex_iff access_key_def)
qed

definition access_world :: world where
  "access_world = sample_world\<lparr>serverAccess := [\<lparr>sa_id = ''a1'', sa_userId = ''bob'', sa_serverId = ''s2'',
     sa_status = APPROVED, sa_createdAt = 0, sa_approvedAt = Some 0\<rparr>]\<rparr>"

theorem revoked_user_loses_server_witness:
  "sel_visible bob_principal access_world (sample_server ''s2'' 25566 RUNNING (Some ''c2'') REQUEST)
   \<and> \<not> sel_visible bob_principal (snd (run (revokeAccess ''s2'' ''bob'') access_world))
       (sample_server ''s2'' 25566 RUNNING (Some ''c2'') REQUEST)"
proof
  show "sel_visible bob_principal access_world (sample_server ''s2'' 25566 RUNNING (Some ''c2'') REQUEST)" by code_simp
  have "fst (run (revokeAccess ''s2'' ''bob'') access_world) = Inr ()" by code_simp
  then have r: "run (revokeAccess ''s2'' (p_id bob_principal)) access_world
      = (Inr (), snd (run (revokeAccess ''s2'' ''bob'') access_world))"
    by (metis prod.collapse bob_principal_def principal.select_convs(1))
  show "\<not> sel_visible bob_principal (snd (run (revokeAccess ''s2'' ''bob'') access_world))
       (sample_server ''s2'' 25566 RUNNING (Some ''c2'') REQUEST)"
    by (rule revoked_user_loses_server [OF r]) code_simp+
qed

end
