(* ===== verification/Visibility.thy ===== *)
theory Visibility
  imports ServersOutcomes ServerAccessService
begin

text \<open>
  Servers a caller may not see, compared with servers that do not exist: the same request is made in a state with the
  server and in the state without it, and the caller gets the same answer.
\<close>

section \<open>Who may see a server\<close>

text \<open>
  Stated on the rows alone: a server that is still being created is nobody's; else an administrator, everybody for an open
  server, and whoever has an approved access row for it.
\<close>

definition approved_for :: "principal \<Rightarrow> world \<Rightarrow> string \<Rightarrow> bool" where
  "approved_for pr w sid \<longleftrightarrow> (\<exists>a \<in> set (serverAccess w). sa_userId a = p_id pr \<and> sa_serverId a = sid \<and> sa_status a = APPROVED)"

definition denied :: "principal \<Rightarrow> world \<Rightarrow> server \<Rightarrow> bool" where
  "denied pr w r \<longleftrightarrow> sv_status r = CREATING
     \<or> p_role pr \<noteq> ADMIN \<and> sv_accessType r \<in> {REQUEST, PRIVATE} \<and> \<not> approved_for pr w (sv_id r)"

text \<open>A denied server that access cannot be requested for either.\<close>

definition undiscoverable :: "principal \<Rightarrow> world \<Rightarrow> server \<Rightarrow> bool" where
  "undiscoverable pr w r \<longleftrightarrow> denied pr w r \<and> (sv_status r = CREATING \<or> sv_accessType r = PRIVATE)"

text \<open>The state without the server, and what it means that a request cannot tell it from the state with the server.\<close>

definition without :: "string \<Rightarrow> world \<Rightarrow> world" where
  "without sid w = delete_servers (\<lambda>r. sv_id r = sid) w"

definition same_answer :: "(world, 'a) prog \<Rightarrow> string \<Rightarrow> world \<Rightarrow> bool" where
  "same_answer p sid w \<longleftrightarrow> fst (run p w) = fst (run p (without sid w)) \<and> snd (run p w) = w"

lemma visible_not_denied: "sel_visible pr w r \<longleftrightarrow> \<not> denied pr w r"
  by (cases "sv_accessType r") (auto simp: sel_visible_def denied_def approved_for_def list_ex_iff)

section \<open>The state without the server\<close>

lemma servers_without: "servers (without sid w) = filter (\<lambda>r. sv_id r \<noteq> sid) (servers w)"
  by (simp add: without_def delete_where_def)

lemma row_of_without: "row_of sid (without sid w) = None"
  by (auto simp: row_of_def servers_without find_None_iff)

lemma without_db_ok: "db_ok w \<Longrightarrow> db_ok (without sid w)"
  by (simp add: without_def delete_servers_keeps_db_ok)

lemma access_without:
  "serverAccess (without sid w) = filter (\<lambda>a. \<not> (server_exists w sid \<and> sa_serverId a = sid)) (serverAccess w)"
  by (auto simp: without_def delete_servers_def Let_def delete_where_def list_ex_iff server_exists_def intro!: filter_cong)

lemma access_kept:
  assumes "sid' \<noteq> sid"
  shows "list_ex (\<lambda>a. sa_serverId a = sid' \<and> P a) (serverAccess (without sid w)) = list_ex (\<lambda>a. sa_serverId a = sid' \<and> P a) (serverAccess w)"
  using assms by (auto simp: access_without list_ex_iff)

lemma kept_without:
  assumes "sv_id r \<noteq> sid"
  shows "sel_visible pr (without sid w) r = sel_visible pr w r" and "hasAccessState pr st (without sid w) r = hasAccessState pr st w r"
proof -
  show "hasAccessState pr st (without sid w) r = hasAccessState pr st w r"
    using access_kept [OF assms, of "\<lambda>a. sa_userId a = p_id pr \<and> sa_status a = st"] by (simp add: hasAccessState_def)
  show "sel_visible pr (without sid w) r = sel_visible pr w r"
    using access_kept [OF assms, of "\<lambda>a. sa_userId a = p_id pr \<and> sa_status a = APPROVED"]
    by (simp add: sel_visible_def conj_left_commute)
qed

text \<open>A selection that leaves the server out selects the same rows in both states.\<close>

lemma selected_without:
  assumes "\<And>r. r \<in> set (servers w) \<Longrightarrow> sv_id r = sid \<Longrightarrow> \<not> P r" and "\<And>r. sv_id r \<noteq> sid \<Longrightarrow> P' r = P r"
  shows "filter P' (servers (without sid w)) = filter P (servers w)"
  using assms by (auto simp: servers_without intro!: filter_cong)

section \<open>Requests\<close>

lemma denied_not_found:
  assumes "db_ok w" and "\<And>r. row_of sid w = Some r \<Longrightarrow> denied pr w r"
  shows "run (loadVisibleServer sid pr) w = (Inl notFound, w)"
  using assms by (auto simp: run_loadVisibleServer visible_not_denied notFound_def split: option.splits)

lemma same_answer_lists:
  assumes "row_of sid w = Some r" and "db_ok w"
  shows "denied pr w r \<Longrightarrow> same_answer (listServers q pr) sid w"
    and "undiscoverable pr w r \<Longrightarrow> same_answer (listRequestableServers q pr) sid w"
proof -
  have only: "x = r" if "x \<in> set (servers w)" "sv_id x = sid" for x
    using row_of_mem [OF assms(1)] that distinct_key_unique [OF servers_distinct_ids [OF assms(2)]] by metis
  show "same_answer (listServers q pr) sid w" if "denied pr w r"
  proof -
    have "filter (sel_visible pr (without sid w)) (servers (without sid w)) = filter (sel_visible pr w) (servers w)"
      by (rule selected_without) (use only that kept_without in \<open>auto simp: visible_not_denied\<close>)
    then show ?thesis by (simp add: same_answer_def listServers_def page_def run_bind)
  qed
  show "same_answer (listRequestableServers q pr) sid w" if "undiscoverable pr w r"
  proof -
    have sel: "filter (sel_requestable pr (without sid w)) (servers (without sid w)) = filter (sel_requestable pr w) (servers w)"
      by (rule selected_without) (use only that kept_without in \<open>auto simp: sel_requestable_def undiscoverable_def\<close>)
    have req: "toRequestable pr (without sid w) x = toRequestable pr w x" if "x \<in> set (filter (sel_requestable pr w) (servers w))" for x
      using that only \<open>undiscoverable pr w r\<close> kept_without [of x sid]
      by (cases "sv_id x = sid") (auto simp: toRequestable_def sel_requestable_def undiscoverable_def)
    have "map (toRequestable pr (without sid w)) (page q (sel_requestable pr w) (servers w))
        = map (toRequestable pr w) (page q (sel_requestable pr w) (servers w))"
      by (rule map_cong [OF refl], rule req) (auto simp: page_def dest!: in_set_takeD in_set_dropD)
    with sel show ?thesis by (simp add: same_answer_def listRequestableServers_def page_def run_bind)
  qed
qed

lemma same_answer_access:
  assumes "row_of sid w = Some r" and "db_ok w" and "undiscoverable pr w r"
  shows "same_answer (requestAccess ids sid pr) sid w" and "same_answer (getMyAccessRequest sid pr) sid w"
proof -
  have absent: "List.find (\<lambda>x. sv_id x = sid \<and> sv_status x \<noteq> CREATING) (servers (without sid w)) = None"
    by (auto simp: servers_without find_None_iff)
  have found: "List.find (\<lambda>x. sv_id x = sid \<and> sv_status x \<noteq> CREATING) (servers w) = (if sv_status r \<noteq> CREATING then Some r else None)"
    using find_key_and [OF servers_distinct_ids [OF assms(2)], of sid "\<lambda>x. sv_status x \<noteq> CREATING"] assms(1) by (simp add: row_of_def)
  show "same_answer (requestAccess ids sid pr) sid w" and "same_answer (getMyAccessRequest sid pr) sid w"
    using assms(3) found absent
    by (auto simp: same_answer_def requestAccess_def getMyAccessRequest_def loadRequestableServer_def run_bind undiscoverable_def)
qed

text \<open>
  C32. A server that is denied to the caller (it is still being created, or the caller is no administrator, the server is not
  open, and the caller has no approved access row) cannot be told from one that does not exist by asking for it, starting,
  stopping, restarting or deleting it, or listing the servers: the answer is the one the caller gets in the state without the
  server, and nothing changes. When the server is private (or being created), requesting access, asking for one's own
  request and listing the servers one can request access to do not tell either; a server with access on request is shown there on
  purpose.
\<close>

theorem hidden_is_absent:
  assumes "db_ok w" and "row_of sid w = Some r" and "denied pr w r"
  shows "same_answer (getServer sid pr) sid w \<and> same_answer (startServer dk cfg sid pr) sid w
    \<and> same_answer (stopServer dk cfg sid pr) sid w \<and> same_answer (restartServer dk cfg sid pr) sid w
    \<and> same_answer (deleteServer dk sid pr) sid w \<and> same_answer (listServers q pr) sid w
    \<and> (sv_status r = CREATING \<or> sv_accessType r = PRIVATE \<longrightarrow>
         same_answer (requestAccess ids sid pr) sid w \<and> same_answer (getMyAccessRequest sid pr) sid w
         \<and> same_answer (listRequestableServers q pr) sid w)"
proof -
  have "run (loadVisibleServer sid pr) w = (Inl notFound, w)"
    by (rule denied_not_found [OF assms(1)]) (use assms(2,3) in simp)
  moreover have "run (loadVisibleServer sid pr) (without sid w) = (Inl notFound, without sid w)"
    by (rule denied_not_found [OF without_db_ok [OF assms(1)]]) (simp add: row_of_without)
  ultimately have "same_answer (getServer sid pr) sid w \<and> same_answer (startServer dk cfg sid pr) sid w
      \<and> same_answer (stopServer dk cfg sid pr) sid w \<and> same_answer (restartServer dk cfg sid pr) sid w
      \<and> same_answer (deleteServer dk sid pr) sid w"
    by (simp add: same_answer_def getServer_def startServer_def stopServer_def restartServer_def stopPhase_def deleteServer_def run_bind)
  moreover note same_answer_lists [OF assms(2,1)] same_answer_access [OF assms(2,1)]
  ultimately show ?thesis using assms(3) by (auto simp: undiscoverable_def)
qed

lemma sample_denied:
  "row_of ''s3'' sample_world \<noteq> None \<and> sv_accessType (the (row_of ''s3'' sample_world)) = PRIVATE
   \<and> \<not> sel_visible bob_principal sample_world (the (row_of ''s3'' sample_world))"
  by code_simp

theorem hidden_is_absent_witness:
  "fst (run (getServer ''s3'' bob_principal) sample_world) = fst (run (getServer ''s3'' bob_principal) (without ''s3'' sample_world))
   \<and> fst (run (listServers \<lparr>q_limit = 10, q_offset = 0\<rparr> bob_principal) sample_world)
       = fst (run (listServers \<lparr>q_limit = 10, q_offset = 0\<rparr> bob_principal) (without ''s3'' sample_world))
   \<and> fst (run (getMyAccessRequest ''s3'' bob_principal) sample_world)
       = fst (run (getMyAccessRequest ''s3'' bob_principal) (without ''s3'' sample_world))"
proof -
  from sample_denied obtain r where r: "row_of ''s3'' sample_world = Some r" "denied bob_principal sample_world r" "sv_accessType r = PRIVATE"
    by (auto simp: visible_not_denied)
  from hidden_is_absent [OF sample_world_db_ok r(1,2), of willing_dockerode no_config "\<lparr>q_limit = 10, q_offset = 0\<rparr>"] r(3)
  show ?thesis by (simp add: same_answer_def)
qed

end
