(* ===== verification/Crypto.thy ===== *)
theory Crypto
  imports Samples
begin

text \<open>
  What the authentication code takes from outside: \<open>bcrypt\<close>, SHA-256, AES-GCM, the JWT library
  and \<open>otplib\<close> are the fields of the parameter record \<open>crypto\<close>; random values are arguments.
  Modelled here are the parts of the sources around them: \<open>src/auth/password.ts\<close>,
  \<open>src/auth/refresh-token-id.ts\<close>, \<open>src/common/crypto.util.ts\<close>, and the JSON values and string
  arrays the services exchange with them.
\<close>

section \<open>JSON values\<close>

datatype json = JNull | JBool bool | JNum jsnum | JStr string | JArr "json list" | JObj "(string \<times> json) list"

text \<open>\<open>Object.hasOwn(o, k) ? o[k] : undefined\<close>\<close>

definition jfield :: "(string \<times> json) list \<Rightarrow> string \<Rightarrow> json option" where
  "jfield ms k = map_of ms k"

datatype jwt_result = JwtOk json | JwtExpired | JwtInvalid

record crypto =
  bcrypt_compare :: "string \<Rightarrow> string \<Rightarrow> bool"
  bcrypt_hash :: "string \<Rightarrow> string"
  sha256hex :: "string \<Rightarrow> string"
  jwt_sign :: "json \<Rightarrow> string option \<Rightarrow> string"
  jwt_verify :: "string \<Rightarrow> jwt_result"
  base64url_json :: "string \<Rightarrow> json option"
  totp_valid :: "string \<Rightarrow> string \<Rightarrow> bool"
  gcm_seal :: "string \<Rightarrow> string \<Rightarrow> string \<Rightarrow> string \<times> string"
  gcm_open :: "string \<Rightarrow> string \<Rightarrow> string \<Rightarrow> string \<Rightarrow> string option"

section \<open>Passwords and token ids\<close>

definition MAX_PASSWORD_BYTES :: nat where "MAX_PASSWORD_BYTES = 72"

definition isPasswordWithinByteLimit :: "string \<Rightarrow> bool" where
  "isPasswordWithinByteLimit data \<longleftrightarrow> byteLength data \<le> MAX_PASSWORD_BYTES"

definition assertPasswordWithinByteLimit :: "string \<Rightarrow> exn + unit" where
  "assertPasswordWithinByteLimit data =
     guardE (isPasswordWithinByteLimit data) (BadRequestException (Msg ''Password must not exceed 72 UTF-8 bytes''))"

definition hashRefreshTokenId :: "crypto \<Rightarrow> string \<Rightarrow> string" where
  "hashRefreshTokenId cr tokenId = sha256hex cr tokenId"

section \<open>Encryption of the TOTP secret\<close>

text \<open>
  \<open>gcm_seal key iv text\<close> gives the authentication tag and the ciphertext, both in hexadecimal;
  \<open>gcm_open key iv tag cipher\<close> gives the plain text, or nothing when the tag does not match.
\<close>

definition encrypt :: "crypto \<Rightarrow> string \<Rightarrow> string \<Rightarrow> string \<Rightarrow> string" where
  "encrypt cr iv text key =
     (case gcm_seal cr key iv text of (authTag, encrypted) \<Rightarrow> iv @ '':'' @ authTag @ '':'' @ encrypted)"

definition decrypt :: "crypto \<Rightarrow> string \<Rightarrow> string \<Rightarrow> exn + string" where
  "decrypt cr payload key =
     (case split_on (CHR '':'') payload of
        iv # authTag # cipher # _ \<Rightarrow>
          (case gcm_open cr key iv authTag cipher of
             Some t \<Rightarrow> Inr t
           | None \<Rightarrow> Inl (PlainError ''Unsupported state or unable to authenticate data''))
      | _ \<Rightarrow> Inl (PlainError ''ERR_INVALID_ARG_TYPE''))"

section \<open>Arrays of strings as JSON text\<close>

definition hex_char :: "int \<Rightarrow> char" where
  "hex_char n = (if n < 10 then char_of (n + 48) else char_of (n + 87))"

text \<open>How \<open>JSON.stringify\<close> writes one character of a string.\<close>

definition escape_char :: "char \<Rightarrow> string" where
  "escape_char c =
     (if c = CHR 0x22 then [CHR 0x5C, CHR 0x22]
      else if c = CHR 0x5C then [CHR 0x5C, CHR 0x5C]
      else if code c = 8 then [CHR 0x5C, CHR ''b'']
      else if code c = 9 then [CHR 0x5C, CHR ''t'']
      else if code c = 10 then [CHR 0x5C, CHR ''n'']
      else if code c = 12 then [CHR 0x5C, CHR ''f'']
      else if code c = 13 then [CHR 0x5C, CHR ''r'']
      else if code c < 32 then [CHR 0x5C, CHR ''u'', CHR ''0'', CHR ''0'', hex_char (code c div 16), hex_char (code c mod 16)]
      else [c])"

definition stringify_string :: "string \<Rightarrow> string" where
  "stringify_string s = CHR 0x22 # concat (map escape_char s) @ [CHR 0x22]"

fun stringify_rest :: "string list \<Rightarrow> string" where
  "stringify_rest [] = '']''"
| "stringify_rest (x # xs) = CHR '','' # stringify_string x @ stringify_rest xs"

definition stringify_array :: "string list \<Rightarrow> string" where
  "stringify_array xs = (case xs of [] \<Rightarrow> ''[]'' | y # ys \<Rightarrow> CHR ''['' # stringify_string y @ stringify_rest ys)"

definition is_json_ws :: "char \<Rightarrow> bool" where
  "is_json_ws c \<longleftrightarrow> code c = 32 \<or> code c = 9 \<or> code c = 10 \<or> code c = 13"

definition skip_ws :: "string \<Rightarrow> string" where
  "skip_ws s = dropWhile is_json_ws s"

fun unescape :: "char \<Rightarrow> char option" where
  "unescape e =
     (if e = CHR 0x22 \<or> e = CHR 0x5C \<or> e = CHR ''/'' then Some e
      else if e = CHR ''b'' then Some (char_of (8 :: int))
      else if e = CHR ''f'' then Some (char_of (12 :: int))
      else if e = CHR ''n'' then Some (char_of (10 :: int))
      else if e = CHR ''r'' then Some (char_of (13 :: int))
      else if e = CHR ''t'' then Some (char_of (9 :: int))
      else None)"

text \<open>One character of a string literal, plain or escaped, and what follows it.\<close>

fun parse_char :: "string \<Rightarrow> (char \<times> string) option" where
  "parse_char [] = None"
| "parse_char (c # cs) =
     (if code c < 32 then None
      else if c \<noteq> CHR 0x5C then Some (c, cs)
      else case cs of
        [] \<Rightarrow> None
      | e # ds \<Rightarrow>
          if e \<noteq> CHR ''u'' then map_option (\<lambda>d. (d, ds)) (unescape e)
          else case ds of
            h1 # h2 # h3 # h4 # r \<Rightarrow>
              if is_hex h1 \<and> is_hex h2 \<and> is_hex h3 \<and> is_hex h4 \<and> hex_digit h1 = 0 \<and> hex_digit h2 = 0
              then Some (char_of (hex_digit h3 * 16 + hex_digit h4), r) else None
          | _ \<Rightarrow> None)"

lemma parse_char_shorter: "parse_char s = Some (c, r) \<Longrightarrow> length r < length s"
  by (cases s) (auto simp del: unescape.simps split: if_splits list.splits)

text \<open>The rest of a string literal after its opening quote: the string and what follows it.\<close>

function parse_string :: "string \<Rightarrow> (string \<times> string) option" where
  "parse_string s =
     (case s of
        [] \<Rightarrow> None
      | q # cs \<Rightarrow>
          if q = CHR 0x22 then Some ([], cs)
          else case parse_char s of
            None \<Rightarrow> None
          | Some (c, r) \<Rightarrow> map_option (\<lambda>(x, t). (c # x, t)) (parse_string r))"
  by pat_completeness auto
termination
  by (relation "measure length") (auto dest: parse_char_shorter simp del: parse_char.simps)

declare parse_string.simps [simp del]

lemma parse_string_shorter: "parse_string s = Some (x, r) \<Longrightarrow> length r < length s"
proof (induction s arbitrary: x rule: length_induct)
  case (1 s)
  from 1(2) consider cs where "s = CHR 0x22 # cs" "r = cs"
    | c t y where "parse_char s = Some (c, t)" "parse_string t = Some (y, r)"
    by (subst (asm) parse_string.simps)
      (auto split: list.splits if_splits option.splits simp del: parse_char.simps)
  then show ?case
  proof cases
    case (2 c t y)
    then show ?thesis using 1(1) parse_char_shorter [of s c t] less_trans by blast
  qed simp
qed

lemma skip_ws_length: "length (skip_ws s) \<le> length s"
  by (simp add: skip_ws_def length_dropWhile_le)

function parse_rest :: "string \<Rightarrow> (string list \<times> string) option" where
  "parse_rest s =
     (case skip_ws s of
        [] \<Rightarrow> None
      | c # cs \<Rightarrow>
          if c = CHR '']'' then Some ([], cs)
          else if c = CHR '','' then
            (case skip_ws cs of
               [] \<Rightarrow> None
             | q # ds \<Rightarrow>
                 if q = CHR 0x22 then
                   (case parse_string ds of
                      None \<Rightarrow> None
                    | Some (x, r) \<Rightarrow> map_option (\<lambda>(xs, t). (x # xs, t)) (parse_rest r))
                 else None)
          else None)"
  by pat_completeness auto

termination
proof (relation "measure length"; clarsimp)
  fix s cs ds x r
  assume "skip_ws s = CHR '','' # cs" "skip_ws cs = CHR 0x22 # ds" "parse_string ds = Some (x, r)"
  with skip_ws_length [of s] skip_ws_length [of cs] parse_string_shorter [of ds x r]
  show "length r < length s" by simp
qed

declare parse_rest.simps [simp del]

text \<open>
  \<open>JSON.parse\<close> followed by \<open>isStringArray\<close>: the array, when the text is a JSON array of
  strings; nothing when it is any other JSON value or no JSON at all (the source treats
  these alike).
\<close>

definition parse_string_array :: "string \<Rightarrow> string list option" where
  "parse_string_array s =
     (case skip_ws s of
        [] \<Rightarrow> None
      | c # cs \<Rightarrow>
          if c \<noteq> CHR ''['' then None
          else
            (case
              (case skip_ws cs of
                 [] \<Rightarrow> None
               | d # ds \<Rightarrow>
                   if d = CHR '']'' then Some ([], ds)
                   else if d = CHR 0x22 then
                     (case parse_string ds of
                        None \<Rightarrow> None
                      | Some (x, r) \<Rightarrow> map_option (\<lambda>(xs, t). (x # xs, t)) (parse_rest r))
                   else None) of
               None \<Rightarrow> None
             | Some (xs, t) \<Rightarrow> if skip_ws t = [] then Some xs else None))"

section \<open>Round trips\<close>

lemma hex_nibble: "0 \<le> n \<Longrightarrow> n < 16 \<Longrightarrow> is_hex (hex_char n) \<and> hex_digit (hex_char n) = n"
proof -
  assume "0 \<le> n" "n < 16"
  then have "n \<in> set [0, 1, 2, 3, 4, 5, 6, 7, 8, 9, 10, 11, 12, 13, 14, 15]" by (simp, presburger)
  moreover have "list_all (\<lambda>n. is_hex (hex_char n) \<and> hex_digit (hex_char n) = n)
      [0, 1, 2, 3, 4, 5, 6, 7, 8, 9, 10, 11, 12, 13, 14, 15]" by code_simp
  ultimately show ?thesis unfolding list_all_iff by blast
qed

lemma code_range: "0 \<le> code c" "code c < 256"
proof -
  have m: "code c mod 256 = code c" by (rule of_char_mod_256)
  show "0 \<le> code c" using pos_mod_sign [of 256 "code c"] unfolding m by simp
  show "code c < 256" using pos_mod_bound [of 256 "code c"] unfolding m by simp
qed

lemma char_code: "char_of (code c) = c"
  by simp

lemma parse_char_escape: "parse_char (escape_char c @ r) = Some (c, r) \<and> hd (escape_char c) \<noteq> CHR 0x22 \<and> escape_char c \<noteq> []"
proof -
  have u: "char_of (hex_digit (hex_char (code c div 16)) * 16 + hex_digit (hex_char (code c mod 16))) = c"
    "is_hex (hex_char (code c div 16))" "is_hex (hex_char (code c mod 16))" if "code c < 32"
    using that hex_nibble [of "code c div 16"] hex_nibble [of "code c mod 16"] code_range [of c] by auto
  have z: "is_hex (CHR ''0'')" "hex_digit (CHR ''0'') = 0" by code_simp+
  have ch: "c = char_of n" if "code c = n" for n :: int using that by auto
  show ?thesis
    using u z
    by (auto simp: escape_char_def dest: ch)
qed

lemma parse_stringify_string: "parse_string (concat (map escape_char s) @ CHR 0x22 # r) = Some (s, r)"
proof (induction s)
  case Nil
  show ?case by (subst parse_string.simps) simp
next
  case (Cons c s)
  let ?r = "concat (map escape_char s) @ CHR 0x22 # r"
  have p: "parse_char (escape_char c @ ?r) = Some (c, ?r)" and h: "hd (escape_char c) \<noteq> CHR 0x22" "escape_char c \<noteq> []"
    using parse_char_escape by auto
  obtain q qs where q: "escape_char c = q # qs" using h(2) by (cases "escape_char c") auto
  have "parse_string (q # qs @ ?r) = Some (c # s, r)"
    using p h(1) Cons by (subst parse_string.simps) (simp del: parse_char.simps add: q)
  then show ?case by (simp add: q)
qed

lemma skip_ws_stop [simp]: "\<not> is_json_ws c \<Longrightarrow> skip_ws (c # cs) = c # cs"
  by (simp add: skip_ws_def)

lemma not_ws [simp]: "\<not> is_json_ws (CHR '','')" "\<not> is_json_ws (CHR '']'')" "\<not> is_json_ws (CHR ''['')"
  "\<not> is_json_ws (CHR 0x22)"
  by code_simp+

lemma parse_stringify_rest: "parse_rest (stringify_rest xs) = Some (xs, [])"
  by (induction xs) (simp_all add: parse_rest.simps [of "_ # _"] stringify_string_def parse_stringify_string)

lemma parse_stringify_array: "parse_string_array (stringify_array xs) = Some xs"
  by (cases xs)
    (simp_all add: parse_string_array_def stringify_array_def stringify_string_def
      parse_stringify_string parse_stringify_rest skip_ws_def [of "[]"])

text \<open>
  Backup codes survive storage: parsing the JSON text written for an array of strings
  gives back exactly that array, whatever characters the strings contain.
\<close>

theorem string_array_roundtrip: "parse_string_array (stringify_array xs) = Some xs"
  by (rule parse_stringify_array)

section \<open>A concrete instance\<close>

text \<open>
  Functions for the outside code on which the properties can be evaluated: hashing is a
  prefix, a token is the text of its claims' subject and id, the cipher is the identity.
\<close>

definition jstr :: "(string \<times> json) list \<Rightarrow> string \<Rightarrow> string" where
  "jstr ms k = (case map_of ms k of Some (JStr s) \<Rightarrow> s | _ \<Rightarrow> [])"

definition sample_crypto :: crypto where
  "sample_crypto = \<lparr>bcrypt_compare = (\<lambda>p h. h = ''h:'' @ p), bcrypt_hash = (\<lambda>p. ''h:'' @ p),
     sha256hex = (\<lambda>s. ''x'' @ s),
     jwt_sign = (\<lambda>j e. case j of JObj ms \<Rightarrow> jstr ms ''type'' @ ''.'' @ jstr ms ''sub'' @ ''.'' @ jstr ms ''jti'' | _ \<Rightarrow> []),
     jwt_verify = (\<lambda>t. case split_on (CHR ''.'') t of
        [ty, sub, jti] \<Rightarrow> JwtOk (JObj [(''sub'', JStr sub), (''type'', JStr ty), (''jti'', JStr jti),
           (''username'', JStr sub), (''exp'', JNum (Num 2000000000))])
      | _ \<Rightarrow> JwtInvalid),
     base64url_json = (\<lambda>s. Some (JObj [(''sub'', JStr s), (''type'', JStr ''refresh''), (''jti'', JStr s),
           (''exp'', JNum (Num 2000000000))])),
     totp_valid = (\<lambda>s t. t = ''123456''),
     gcm_seal = (\<lambda>k iv t. (''ab'', t)), gcm_open = (\<lambda>k iv tag c. Some c)\<rparr>"

section \<open>Encryption\<close>

lemma split_on_no_sep: "d \<notin> set s \<Longrightarrow> split_on d s = [s]"
  by (induction s) auto

lemma split_on_append: "d \<notin> set a \<Longrightarrow> split_on d (a @ d # b) = a # split_on d b"
  by (induction a) (auto split: list.splits)

text \<open>
  A TOTP secret survives encryption: decrypting what was encrypted under the same key
  gives the secret back, provided the cipher itself inverts (\<open>gcm_open\<close> after \<open>gcm_seal\<close>) and
  its tag and ciphertext, like the initialisation vector, are hexadecimal (no colon).
\<close>

theorem encrypt_roundtrip:
  assumes "gcm_seal cr key iv plain = (tag, cipher)" and "gcm_open cr key iv tag cipher = Some plain"
    and "CHR '':'' \<notin> set iv" and "CHR '':'' \<notin> set tag" and "CHR '':'' \<notin> set cipher"
  shows "decrypt cr (encrypt cr iv plain key) key = Inr plain"
  using assms by (simp add: encrypt_def decrypt_def split_on_append split_on_no_sep)

theorem encrypt_roundtrip_witness:
  "decrypt sample_crypto (encrypt sample_crypto ''00ff'' ''secret'' ''k'') ''k'' = Inr ''secret''"
  by (rule encrypt_roundtrip [where tag = "''ab''" and cipher = "''secret''"]) (simp_all add: sample_crypto_def)

end
