(* ===== verification/UsersService.thy ===== *)
theory UsersService
  imports Crypto
begin

text \<open>
  \<open>src/users/users.service.ts\<close> and \<open>public-user.ts\<close>: accounts and their passwords, and the SQL
  statements on the \<open>users\<close> and \<open>refresh_tokens\<close> tables that the other services share.
\<close>

section \<open>Public view of an account\<close>

record public_user =
  pu_id :: string
  pu_email :: string
  pu_username :: string
  pu_googleId :: "string option"
  pu_githubId :: "string option"
  pu_role :: role
  pu_status :: user_status
  pu_totpEnabled :: bool
  pu_tempPasswordExpiresAt :: "timestamp option"
  pu_mustChangePassword :: bool
  pu_minecraftUUID :: "string option"
  pu_minecraftName :: "string option"
  pu_minecraftVerified :: bool
  pu_createdAt :: timestamp
  pu_updatedAt :: timestamp

definition toPublicUser :: "user \<Rightarrow> public_user" where
  "toPublicUser u = \<lparr>pu_id = u_id u, pu_email = u_email u, pu_username = u_username u,
     pu_googleId = u_googleId u, pu_githubId = u_githubId u, pu_role = u_role u, pu_status = u_status u,
     pu_totpEnabled = u_totpEnabled u, pu_tempPasswordExpiresAt = u_tempPasswordExpiresAt u,
     pu_mustChangePassword = u_mustChangePassword u, pu_minecraftUUID = u_minecraftUUID u,
     pu_minecraftName = u_minecraftName u, pu_minecraftVerified = u_minecraftVerified u,
     pu_createdAt = u_createdAt u, pu_updatedAt = u_updatedAt u\<rparr>"

section \<open>Statements\<close>

text \<open>
  \<open>UPDATE users SET ... WHERE ... RETURNING *\<close>. Drizzle's \<open>$onUpdateFn\<close> adds \<open>updated_at\<close> with
  the current \<open>Date\<close>.
\<close>

definition touch :: "world \<Rightarrow> user \<Rightarrow> user" where
  "touch w u = u\<lparr>u_updatedAt := ofDate (dateNow w)\<rparr>"

definition update_users :: "(user \<Rightarrow> bool) \<Rightarrow> (user \<Rightarrow> user) \<Rightarrow> world \<Rightarrow> exn + user list \<times> world" where
  "update_users P f w =
     (let g = (\<lambda>u. touch w (f u)); rows = map g (filter P (users w)); t = update_where P g (users w)
      in if \<not> list_all varchar_ok rows then Inl (PostgresError ''22001'')
         else if users_unique t then Inr (rows, w\<lparr>users := t\<rparr>)
         else Inl (PostgresError ''23505''))"

definition insert_user :: "user \<Rightarrow> world \<Rightarrow> exn + user \<times> world" where
  "insert_user u w =
     (if \<not> varchar_ok u then Inl (PostgresError ''22001'')
      else if users_unique (users w @ [u]) then Inr (u, w\<lparr>users := users w @ [u]\<rparr>)
      else Inl (PostgresError ''23505''))"

definition delete_tokens :: "(refresh_token \<Rightarrow> bool) \<Rightarrow> world \<Rightarrow> world" where
  "delete_tokens P w = w\<lparr>refreshTokens := delete_where P (refreshTokens w)\<rparr>"

definition insert_token :: "refresh_token \<Rightarrow> world \<Rightarrow> exn + unit \<times> world" where
  "insert_token t w =
     (if \<not> refreshTokens_unique (refreshTokens w @ [t]) then Inl (PostgresError ''23505'')
      else if \<not> user_exists w (rt_userId t) then Inl (PostgresError ''23503'')
      else Inr ((), w\<lparr>refreshTokens := refreshTokens w @ [t]\<rparr>))"

definition find_user :: "string \<Rightarrow> world \<Rightarrow> user option" where
  "find_user uid w = List.find (\<lambda>u. u_id u = uid) (users w)"

section \<open>Operations\<close>

definition new_user :: "string \<Rightarrow> string \<Rightarrow> string \<Rightarrow> string option \<Rightarrow> user_status \<Rightarrow> role option \<Rightarrow> timestamp \<Rightarrow> user" where
  "new_user uid email username passwordHash status rl now = \<lparr>u_id = uid, u_email = email, u_username = username,
     u_passwordHash = passwordHash, u_googleId = None, u_githubId = None, u_role = orElse rl USER,
     u_status = status, u_totpSecret = None, u_totpEnabled = False, u_totpBackupCodes = None,
     u_tempPasswordHash = None, u_tempPasswordExpiresAt = None, u_mustChangePassword = False,
     u_minecraftUUID = None, u_minecraftName = None, u_minecraftVerified = False,
     u_createdAt = now, u_updatedAt = now\<rparr>"

definition createUser :: "string \<Rightarrow> string \<Rightarrow> string \<Rightarrow> string option \<Rightarrow> user_status \<Rightarrow> role option \<Rightarrow> (world, bool) prog" where
  "createUser newId email username passwordHash status rl =
     bind (atomically (\<lambda>w. insert_user (new_user newId email username passwordHash status rl (clock w)) w)) (\<lambda>_.
     Return True)"

definition findById :: "string \<Rightarrow> (world, user option) prog" where
  "findById uid = get (find_user uid)"

definition findByIdentifier :: "string \<Rightarrow> (world, user option) prog" where
  "findByIdentifier identifier =
     get (\<lambda>w. List.find (\<lambda>u. u_email u = identifier \<or> u_username u = identifier) (users w))"

text \<open>The DTO has one optional member; one that is absent is filtered out.\<close>

definition updateProfile :: "string \<Rightarrow> string option \<Rightarrow> (world, public_user) prog" where
  "updateProfile userId username =
     bind (findById userId) (\<lambda>userData.
     case userData of
       None \<Rightarrow> Throw (PlainError '''')
     | Some u \<Rightarrow>
         (case username of
            None \<Rightarrow> Throw (BadRequestException (Msg ''No changes''))
          | Some n \<Rightarrow>
              if n = u_username u then Throw (BadRequestException (Msg ''No changes''))
              else
                bind (atomically (update_users (\<lambda>x. u_id x = userId) (\<lambda>x. x\<lparr>u_username := n\<rparr>))) (\<lambda>rows.
                case first_row rows of
                  None \<Rightarrow> Throw (PlainError ''undefined'')
                | Some r \<Rightarrow> Return (toPublicUser r))))"

definition wrongCredentials :: exn where
  "wrongCredentials = BadRequestException (Msg ''Wrong credentials'')"

text \<open>The transaction that completes a forced password change.\<close>

definition forced_change :: "string \<Rightarrow> string \<Rightarrow> string \<Rightarrow> world \<Rightarrow> exn + user option \<times> world" where
  "forced_change userId tempHash newPwHash w =
     seqE (update_users
            (\<lambda>u. u_id u = userId \<and> u_mustChangePassword u \<and> u_tempPasswordExpiresAt u = None
                 \<and> u_tempPasswordHash u = Some tempHash)
            (\<lambda>u. u\<lparr>u_passwordHash := Some newPwHash, u_tempPasswordHash := None,
                   u_tempPasswordExpiresAt := None, u_mustChangePassword := False\<rparr>) w)
       (\<lambda>(rows, w').
          case first_row rows of
            None \<Rightarrow> Inr (None, w)
          | Some u \<Rightarrow> Inr (Some u, delete_tokens (\<lambda>t. rt_userId t = userId) w'))"

definition updatePassword :: "crypto \<Rightarrow> string \<Rightarrow> string \<Rightarrow> string \<Rightarrow> string option \<Rightarrow> bool \<Rightarrow> (world, public_user) prog" where
  "updatePassword cr userId oldPassword newPassword refreshTokenId temporaryAuth =
     bind (liftE (assertPasswordWithinByteLimit oldPassword)) (\<lambda>_.
     bind (liftE (assertPasswordWithinByteLimit newPassword)) (\<lambda>_.
     bind (findById userId) (\<lambda>userData.
     case userData of
       None \<Rightarrow> Throw (PlainError '''')
     | Some u \<Rightarrow>
       if temporaryAuth then
         (case truthy (u_tempPasswordHash u) of
            None \<Rightarrow> Throw wrongCredentials
          | Some tempHash \<Rightarrow>
              if \<not> (u_mustChangePassword u \<and> u_tempPasswordExpiresAt u = None \<and> bcrypt_compare cr oldPassword tempHash)
              then Throw wrongCredentials
              else
                bind (atomically (forced_change userId tempHash (bcrypt_hash cr newPassword))) (\<lambda>updated.
                case updated of
                  None \<Rightarrow> Throw wrongCredentials
                | Some r \<Rightarrow> Return (toPublicUser r)))
       else if u_mustChangePassword u then Throw wrongCredentials
       else
         (case truthy (u_passwordHash u) of
            None \<Rightarrow> Throw wrongCredentials
          | Some primary \<Rightarrow>
              if \<not> bcrypt_compare cr oldPassword primary then Throw wrongCredentials
              else
                bind (atomically (update_users (\<lambda>x. u_id x = userId)
                  (\<lambda>x. x\<lparr>u_passwordHash := Some (bcrypt_hash cr newPassword)\<rparr>))) (\<lambda>rows.
                case first_row rows of
                  None \<Rightarrow> Throw (PlainError ''undefined'')
                | Some r \<Rightarrow>
                    bind (case refreshTokenId of
                            None \<Rightarrow> modify (delete_tokens (\<lambda>t. rt_userId t = userId))
                          | Some tid \<Rightarrow>
                              if tid = [] then modify (delete_tokens (\<lambda>t. rt_userId t = userId))
                              else modify (delete_tokens (\<lambda>t. rt_userId t = userId
                                     \<and> rt_tokenIdHash t \<noteq> hashRefreshTokenId cr tid))) (\<lambda>_.
                    Return (toPublicUser r)))))))"

text \<open>The row of an account after an update by its id.\<close>

lemma find_user_updated:
  assumes "update_users (\<lambda>u. u_id u = uid) f w = Inr (rows, w1)" and "\<And>u. u_id (f u) = u_id u"
  shows "find_user uid w1 = map_option (\<lambda>u. touch w (f u)) (find_user uid w)"
proof -
  from assms(1) have "users w1 = update_where (\<lambda>u. u_id u = uid) (\<lambda>u. touch w (f u)) (users w)"
    by (auto simp: update_users_def Let_def split: if_splits)
  moreover have "List.find (\<lambda>u. u_id u = uid) (update_where (\<lambda>u. u_id u = uid) (\<lambda>u. touch w (f u)) t)
      = map_option (\<lambda>u. touch w (f u)) (List.find (\<lambda>u. u_id u = uid) t)" for t
    using assms(2) by (induction t) (auto simp: touch_def)
  ultimately show ?thesis by (simp add: find_user_def)
qed

section \<open>The guarantee of the account services\<close>

text \<open>
  Every atomic step of the services that work on accounts keeps the constraints of the
  schema, keeps an active administrator if there is one, and lets only moderators hold
  moderator permissions.
\<close>

definition is_active_admin :: "user \<Rightarrow> bool" where
  "is_active_admin u \<longleftrightarrow> u_role u = ADMIN \<and> u_status u = ACTIVE"

definition has_active_admin :: "world \<Rightarrow> bool" where
  "has_active_admin w \<longleftrightarrow> (\<exists>u \<in> set (users w). is_active_admin u)"

definition grants_ok :: "world \<Rightarrow> bool" where
  "grants_ok w \<longleftrightarrow> (\<forall>p \<in> set (modPermissions w). \<exists>u \<in> set (users w). u_id u = mp_userId p \<and> u_role u = MOD)"

definition account_guar :: "world \<Rightarrow> world \<Rightarrow> bool" where
  "account_guar w w' \<longleftrightarrow> (db_ok w \<longrightarrow> db_ok w' \<and> (has_active_admin w \<longrightarrow> has_active_admin w') \<and> (grants_ok w \<longrightarrow> grants_ok w'))"

lemma account_guar_refl [simp]: "account_guar w w"
  by (simp add: account_guar_def)

lemma account_guar_trans: "account_guar w w' \<Longrightarrow> account_guar w' w'' \<Longrightarrow> account_guar w w''"
  by (simp add: account_guar_def)

lemma log_closed_account [simp]: "log_closed account_guar"
  by (simp add: log_closed_def account_guar_def has_active_admin_def grants_ok_def)

lemma guar_account_read [guar_simps]: "guar account_guar (get f)"
  by (simp add: guar_get)

lemma db_ok_users:
  assumes "db_ok w" and "users_unique t" and "list_all varchar_ok (users w) \<Longrightarrow> list_all varchar_ok t"
    and "\<And>x. user_exists w x \<Longrightarrow> \<exists>u \<in> set t. u_id u = x"
  shows "db_ok (w\<lparr>users := t\<rparr>)"
proof -
  have s: "server_exists (w\<lparr>users := t\<rparr>) = server_exists w" by (simp add: server_exists_def fun_eq_iff)
  have u: "user_exists w x \<Longrightarrow> user_exists (w\<lparr>users := t\<rparr>) x" for x
    using assms(4) by (auto simp: user_exists_def)
  from assms(1-3) u show ?thesis
    by (simp add: db_ok_def refs_ok_def s cong: option.case_cong)
qed

lemma account_guar_users:
  assumes "users_unique t" and "list_all varchar_ok (users w) \<Longrightarrow> list_all varchar_ok t"
    and same: "\<And>u. u \<in> set (users w) \<Longrightarrow> \<exists>u' \<in> set t. u_id u' = u_id u \<and> u_role u' = u_role u \<and> u_status u' = u_status u"
  shows "account_guar w (w\<lparr>users := t\<rparr>)"
  unfolding account_guar_def
proof (intro impI conjI)
  assume "db_ok w"
  then show "db_ok (w\<lparr>users := t\<rparr>)"
    by (rule db_ok_users [OF _ assms(1)]) (use assms(2) same in \<open>fastforce simp: user_exists_def\<close>)+
  show "has_active_admin (w\<lparr>users := t\<rparr>)" if "has_active_admin w"
    using that same by (fastforce simp: has_active_admin_def is_active_admin_def)
  show "grants_ok (w\<lparr>users := t\<rparr>)" if "grants_ok w"
    using that same by (fastforce simp: grants_ok_def)
qed

lemma update_users_Inr:
  assumes "update_users P f w = Inr (rows, w')"
  shows "users_unique (update_where P (\<lambda>u. touch w (f u)) (users w))"
    and "w' = w\<lparr>users := update_where P (\<lambda>u. touch w (f u)) (users w)\<rparr>"
    and "list_all varchar_ok (users w) \<Longrightarrow> list_all varchar_ok (update_where P (\<lambda>u. touch w (f u)) (users w))"
  using assms by (auto simp: update_users_def Let_def list_all_iff update_where_def split: if_splits)

text \<open>An update that touches neither identity, nor role, nor status.\<close>

lemma account_update_users:
  assumes "update_users P f w = Inr (rows, w')"
    and "\<And>u. P u \<Longrightarrow> u_id (f u) = u_id u \<and> u_role (f u) = u_role u \<and> u_status (f u) = u_status u"
  shows "account_guar w w'"
proof -
  let ?t = "update_where P (\<lambda>u. touch w (f u)) (users w)"
  note w' = update_users_Inr [OF assms(1)]
  show ?thesis unfolding w'(2)
  proof (intro account_guar_users w'(1,3))
    fix u assume "u \<in> set (users w)"
    then show "\<exists>u' \<in> set ?t. u_id u' = u_id u \<and> u_role u' = u_role u \<and> u_status u' = u_status u"
      using assms(2) [of u]
      by (intro bexI [of _ "if P u then touch w (f u) else u"]) (auto simp: touch_def update_where_def)
  qed
qed

lemma account_insert_user: "insert_user u w = Inr (x, w') \<Longrightarrow> account_guar w w'"
  by (auto simp: insert_user_def split: if_splits intro!: account_guar_users)

lemma db_ok_tokens:
  assumes "db_ok w" and "refreshTokens_unique t" and "\<forall>x \<in> set t. user_exists w (rt_userId x)"
  shows "db_ok (w\<lparr>refreshTokens := t\<rparr>)"
proof -
  have "server_exists (w\<lparr>refreshTokens := t\<rparr>) = server_exists w" "user_exists (w\<lparr>refreshTokens := t\<rparr>) = user_exists w"
    by (simp_all add: server_exists_def user_exists_def fun_eq_iff)
  with assms show ?thesis by (simp add: db_ok_def refs_ok_def cong: option.case_cong)
qed

lemma account_tokens:
  assumes "refreshTokens_unique t" and "\<forall>x \<in> set t. x \<in> set (refreshTokens w) \<or> user_exists w (rt_userId x)"
  shows "account_guar w (w\<lparr>refreshTokens := t\<rparr>)"
proof -
  have "db_ok (w\<lparr>refreshTokens := t\<rparr>)" if "db_ok w"
    by (rule db_ok_tokens [OF that assms(1)]) (use assms(2) that in \<open>auto simp: db_ok_def refs_ok_def\<close>)
  then show ?thesis by (auto simp: account_guar_def has_active_admin_def grants_ok_def)
qed

lemma account_delete_tokens: "account_guar w (delete_tokens P w)"
proof (cases "db_ok w")
  case True
  then show ?thesis unfolding delete_tokens_def by (intro account_tokens) (auto simp: db_ok_def)
qed (simp add: account_guar_def)

lemma account_insert_token: "insert_token t w = Inr (x, w') \<Longrightarrow> account_guar w w'"
  by (auto simp: insert_token_def split: if_splits intro!: account_tokens)

lemmas account_intros = guar_intros guar_atomicallyI account_delete_tokens

lemma guar_users_service [guar_simps]:
  "guar account_guar (createUser i e n h st rl)"
  "guar account_guar (findById uid)"
  "guar account_guar (findByIdentifier x)"
  "guar account_guar (updateProfile uid nm)"
  unfolding createUser_def findById_def findByIdentifier_def updateProfile_def
  by (auto intro!: account_intros elim!: account_insert_user account_update_users simp: guar_simps split: option.splits)

lemma account_forced_change: "forced_change uid th nh w = Inr (x, w') \<Longrightarrow> account_guar w w'"
  unfolding forced_change_def
  by (auto simp: seqE_Inr_iff split: option.splits
      intro!: account_guar_trans [OF _ account_delete_tokens] elim!: account_update_users)

lemma guar_updatePassword [guar_simps]: "guar account_guar (updatePassword cr uid op np tid tmp)"
  unfolding updatePassword_def
  by (auto intro!: account_intros elim!: account_update_users account_forced_change simp: guar_simps split: option.splits)

end
