(* ===== verification/AdminService.thy ===== *)
theory AdminService
  imports UsersService
begin

text \<open>
  \<open>src/admin/admin.service.ts\<close>: administration of accounts. The transactions that take the
  advisory lock \<open>LAST_ADMIN_LOCK_KEY\<close> are one atomic step.
\<close>

definition TEMP_PASSWORD_TTL_MS :: int where "TEMP_PASSWORD_TTL_MS = 24 * 60 * 60 * 1000"

record list_users_query =
  lu_status :: "user_status option"
  lu_role :: "role option"

record grant_dto =
  gr_permission :: mod_permission
  gr_serverId :: "string option"

definition userNotFound :: exn where
  "userNotFound = NotFoundException (Msg ''User not found'')"

section \<open>Reading\<close>

definition listUsers :: "list_users_query \<Rightarrow> (world, public_user list) prog" where
  "listUsers q =
     get (\<lambda>w. map toPublicUser (sort_key u_createdAt
       (filter (\<lambda>u. (case lu_status q of None \<Rightarrow> True | Some s \<Rightarrow> u_status u = s)
                  \<and> (case lu_role q of None \<Rightarrow> True | Some r \<Rightarrow> u_role u = r)) (users w))))"

definition loadUser :: "string \<Rightarrow> (world, user) prog" where
  "loadUser userId =
     bind (get (find_user userId)) (\<lambda>t. case t of None \<Rightarrow> Throw userNotFound | Some u \<Rightarrow> Return u)"

definition listModPermissions :: "string \<Rightarrow> (world, mod_permission_row list) prog" where
  "listModPermissions userId =
     bind (loadUser userId) (\<lambda>_.
     get (\<lambda>w. sort_key (\<lambda>p. (mp_createdAt p, mp_id p)) (filter (\<lambda>p. mp_userId p = userId) (modPermissions w))))"

section \<open>Status and role\<close>

definition deactivates :: "role \<Rightarrow> user_status \<Rightarrow> user_status \<Rightarrow> bool" where
  "deactivates targetRole targetStatus nextStatus \<longleftrightarrow>
     targetRole = ADMIN \<and> targetStatus = ACTIVE \<and> nextStatus \<noteq> ACTIVE"

definition demotes :: "role \<Rightarrow> user_status \<Rightarrow> role \<Rightarrow> bool" where
  "demotes targetRole targetStatus nextRole \<longleftrightarrow>
     targetRole = ADMIN \<and> targetStatus = ACTIVE \<and> nextRole \<noteq> ADMIN"

definition assertActiveAdminsRemain :: "world \<Rightarrow> exn + unit" where
  "assertActiveAdminsRemain w =
     guardE (\<not> length (filter is_active_admin (users w)) \<le> 1)
       (ConflictException (Msg ''Cannot deactivate the last active admin''))"

definition updateStatusTx :: "string \<Rightarrow> user_status \<Rightarrow> world \<Rightarrow> exn + public_user \<times> world" where
  "updateStatusTx userId status w =
     (case find_user userId w of
        None \<Rightarrow> Inl userNotFound
      | Some target \<Rightarrow>
          seqE (guardE (u_status target \<noteq> status) (BadRequestException (Msg ''No changes''))) (\<lambda>_.
          seqE (if deactivates (u_role target) (u_status target) status then assertActiveAdminsRemain w else Inr ()) (\<lambda>_.
          seqE (update_users (\<lambda>u. u_id u = userId) (\<lambda>u. u\<lparr>u_status := status\<rparr>) w) (\<lambda>(rows, w1).
          case first_row rows of
            None \<Rightarrow> Inl (PlainError ''undefined'')
          | Some updated \<Rightarrow>
              Inr (toPublicUser updated,
                   if status = BANNED then delete_tokens (\<lambda>t. rt_userId t = userId) w1 else w1)))))"

definition updateStatus :: "string \<Rightarrow> user_status \<Rightarrow> (world, public_user) prog" where
  "updateStatus userId status = atomically (updateStatusTx userId status)"

definition delete_grants :: "(mod_permission_row \<Rightarrow> bool) \<Rightarrow> world \<Rightarrow> world" where
  "delete_grants P w = w\<lparr>modPermissions := delete_where P (modPermissions w)\<rparr>"

definition updateRoleTx :: "string \<Rightarrow> role \<Rightarrow> world \<Rightarrow> exn + public_user \<times> world" where
  "updateRoleTx userId rl w =
     (case find_user userId w of
        None \<Rightarrow> Inl userNotFound
      | Some target \<Rightarrow>
          seqE (guardE (u_role target \<noteq> rl) (BadRequestException (Msg ''No changes''))) (\<lambda>_.
          seqE (if demotes (u_role target) (u_status target) rl then assertActiveAdminsRemain w else Inr ()) (\<lambda>_.
          seqE (update_users (\<lambda>u. u_id u = userId) (\<lambda>u. u\<lparr>u_role := rl\<rparr>) w) (\<lambda>(rows, w1).
          case first_row rows of
            None \<Rightarrow> Inl (PlainError ''undefined'')
          | Some updated \<Rightarrow> Inr (toPublicUser updated, delete_grants (\<lambda>p. mp_userId p = userId) w1)))))"

definition updateRole :: "string \<Rightarrow> role \<Rightarrow> (world, public_user) prog" where
  "updateRole userId rl = atomically (updateRoleTx userId rl)"

section \<open>Moderator permissions\<close>

text \<open>The scope of a grant: absent is global, blank is refused, anything else is trimmed.\<close>

definition grant_scope :: "grant_dto \<Rightarrow> exn + string option" where
  "grant_scope dto = (case gr_serverId dto of
     None \<Rightarrow> Inr None
   | Some raw \<Rightarrow> if trim raw = [] then Inl (BadRequestException (Msg ''serverId must not be blank''))
                 else Inr (Some (trim raw)))"

text \<open>
  The transaction holds the advisory lock that the changes of roles take, so the target's role
  is the same when it is read and when the grant is inserted. The server is read without a
  lock: \<open>seen\<close> is what that earlier read found. When the server has gone since, the insertion
  violates the foreign key.
\<close>

definition scope_seen :: "grant_dto \<Rightarrow> world \<Rightarrow> bool" where
  "scope_seen dto w = (case grant_scope dto of Inr (Some sid) \<Rightarrow> server_exists w sid | _ \<Rightarrow> False)"

definition grantTx :: "string \<Rightarrow> string \<Rightarrow> grant_dto \<Rightarrow> bool \<Rightarrow> world \<Rightarrow> exn + mod_permission_row \<times> world" where
  "grantTx newId userId dto seen w =
     (case find_user userId w of
        None \<Rightarrow> Inl userNotFound
      | Some target \<Rightarrow>
          seqE (guardE (u_role target = MOD) (BadRequestException (Msg ''User is not a MOD''))) (\<lambda>_.
          seqE (grant_scope dto) (\<lambda>serverId.
          seqE (case serverId of
                  None \<Rightarrow> Inr ()
                | Some sid \<Rightarrow> guardE seen (NotFoundException (Msg ''Server not found''))) (\<lambda>_.
          let row = \<lparr>mp_id = newId, mp_userId = userId, mp_permission = gr_permission dto,
                     mp_serverId = serverId, mp_createdAt = clock w\<rparr>
          in if \<not> modPermissions_unique (modPermissions w @ [row])
             then Inl (ConflictException (Msg ''Permission grant already exists''))
             else if \<not> (case serverId of None \<Rightarrow> True | Some sid \<Rightarrow> server_exists w sid)
             then Inl (PostgresError ''23503'')
             else Inr (row, w\<lparr>modPermissions := modPermissions w @ [row]\<rparr>)))))"

definition grantModPermission :: "string \<Rightarrow> string \<Rightarrow> grant_dto \<Rightarrow> (world, mod_permission_row) prog" where
  "grantModPermission newId userId dto =
     bind (get (scope_seen dto)) (\<lambda>seen.
     atomically (grantTx newId userId dto seen))"

definition revokeModPermission :: "string \<Rightarrow> string \<Rightarrow> (world, unit) prog" where
  "revokeModPermission userId permId =
     bind (loadUser userId) (\<lambda>_.
     atomically (\<lambda>w.
       let P = (\<lambda>p. mp_id p = permId \<and> mp_userId p = userId)
       in if list_ex P (modPermissions w) then Inr ((), delete_grants P w)
          else Inl (NotFoundException (Msg ''Permission grant not found''))))"

section \<open>Account recovery\<close>

definition resetTx :: "string \<Rightarrow> string \<Rightarrow> timestamp \<Rightarrow> world \<Rightarrow> exn + unit \<times> world" where
  "resetTx userId tempPasswordHash expiresAt w =
     seqE (update_users (\<lambda>u. u_id u = userId)
            (\<lambda>u. u\<lparr>u_tempPasswordHash := Some tempPasswordHash, u_tempPasswordExpiresAt := Some expiresAt,
                   u_mustChangePassword := True\<rparr>) w)
       (\<lambda>(rows, w1). Inr ((), delete_tokens (\<lambda>t. rt_userId t = userId) w1))"

definition resetPassword :: "crypto \<Rightarrow> string \<Rightarrow> string \<Rightarrow> (world, string) prog" where
  "resetPassword cr tempPassword userId =
     bind (loadUser userId) (\<lambda>_.
     bind (get dateNow) (\<lambda>now.
     bind (atomically (resetTx userId (bcrypt_hash cr tempPassword) (ofDate (now + TEMP_PASSWORD_TTL_MS)))) (\<lambda>_.
     Return tempPassword)))"

definition removeTwoFactor :: "string \<Rightarrow> (world, public_user) prog" where
  "removeTwoFactor userId =
     bind (loadUser userId) (\<lambda>target.
     if \<not> u_totpEnabled target then Throw (BadRequestException (Msg ''Two-factor authentication is not enabled''))
     else
     bind (atomically (update_users (\<lambda>u. u_id u = userId)
       (\<lambda>u. u\<lparr>u_totpEnabled := False, u_totpSecret := None, u_totpBackupCodes := None\<rparr>))) (\<lambda>rows.
     case first_row rows of
       None \<Rightarrow> Throw (PlainError ''undefined'')
     | Some r \<Rightarrow> Return (toPublicUser r)))"

section \<open>At least one active administrator\<close>

lemma other_admin:
  assumes "distinct (map u_id (users w))" and "\<not> length (filter is_active_admin (users w)) \<le> 1"
  shows "\<exists>u \<in> set (users w). is_active_admin u \<and> u_id u \<noteq> uid"
proof -
  let ?as = "filter is_active_admin (users w)"
  obtain a b rest where ab: "?as = a # b # rest"
    using assms(2) by (cases ?as; cases "tl ?as") auto
  have "distinct (map u_id ?as)" using assms(1) by (rule distinct_map_filter)
  then have "u_id a \<noteq> u_id b" by (simp add: ab)
  moreover have "a \<in> set ?as" "b \<in> set ?as" unfolding ab by simp_all
  ultimately show ?thesis by (cases "u_id a = uid") auto
qed

text \<open>Changing one account, found by its id.\<close>

lemma changed_user:
  assumes "update_users (\<lambda>u. u_id u = uid) f w = Inr (rows, w')" and "\<And>u. u_id (f u) = u_id u"
  shows "\<And>u. u \<in> set (users w) \<Longrightarrow> u_id u \<noteq> uid \<Longrightarrow> u \<in> set (users w')"
    and "\<And>u. u \<in> set (users w) \<Longrightarrow> u_id u = uid \<Longrightarrow> touch w (f u) \<in> set (users w')"
    and "db_ok w \<Longrightarrow> db_ok w'" and "w' = w\<lparr>users := users w'\<rparr>"
proof -
  let ?t = "update_where (\<lambda>u. u_id u = uid) (\<lambda>u. touch w (f u)) (users w)"
  note u = update_users_Inr(1,3) [OF assms(1)] and w' = update_users_Inr(2) [OF assms(1)]
  show 1: "u \<in> set (users w) \<Longrightarrow> u_id u \<noteq> uid \<Longrightarrow> u \<in> set (users w')" for u
    by (auto simp: w' set_update_where)
  show 2: "u \<in> set (users w) \<Longrightarrow> u_id u = uid \<Longrightarrow> touch w (f u) \<in> set (users w')" for u
    by (auto simp: w' set_update_where)
  show "w' = w\<lparr>users := users w'\<rparr>" by (simp add: w')
  show "db_ok w'" if "db_ok w"
    unfolding w'
  proof (rule db_ok_users [OF that u])
    fix x assume "user_exists w x"
    then obtain v where v: "v \<in> set (users w)" "u_id v = x" by (auto simp: user_exists_def)
    then show "\<exists>u \<in> set ?t. u_id u = x"
      using 1 [of v] 2 [of v] assms(2) [of v]
      by (intro bexI [of _ "if u_id v = uid then touch w (f v) else v"]) (auto simp: w' touch_def)
  qed
qed

lemma users_distinct_ids: "db_ok w \<Longrightarrow> distinct (map u_id (users w))"
  by (simp add: db_ok_def users_unique_def)

lemma find_user_unique:
  assumes "find_user uid w = Some t" and "db_ok w" and "u \<in> set (users w)" and "u_id u = uid"
  shows "u = t"
proof -
  have "t \<in> set (users w)" "u_id t = uid" using assms(1) by (auto simp: find_user_def dest: find_Some_mem)
  then show ?thesis using distinct_key_unique [OF users_distinct_ids [OF assms(2)] assms(3)] assms(4) by simp
qed

lemma find_user_mem: "find_user uid w = Some t \<Longrightarrow> t \<in> set (users w) \<and> u_id t = uid"
  by (auto simp: find_user_def dest: find_Some_mem)

lemma guard_admins:
  "(if b then assertActiveAdminsRemain w else Inr ()) = Inr u \<longleftrightarrow>
   (b \<longrightarrow> \<not> length (filter is_active_admin (users w)) \<le> 1)"
  by (simp add: assertActiveAdminsRemain_def)

lemma account_updateStatus:
  assumes "updateStatusTx uid st w = Inr (p, w')"
  shows "account_guar w w'"
proof -
  from assms obtain t rows w1 where t: "find_user uid w = Some t" "u_status t \<noteq> st"
    and g: "deactivates (u_role t) (u_status t) st \<longrightarrow> \<not> length (filter is_active_admin (users w)) \<le> 1"
    and up: "update_users (\<lambda>u. u_id u = uid) (\<lambda>u. u\<lparr>u_status := st\<rparr>) w = Inr (rows, w1)"
    and w': "w' = w1 \<or> w' = delete_tokens (\<lambda>t. rt_userId t = uid) w1"
    by (auto simp: updateStatusTx_def seqE_Inr_iff guard_admins split: option.splits if_splits)
  have "\<And>u. u_id (u\<lparr>u_status := st\<rparr>) = u_id u" by simp
  note ch = changed_user [OF up this]
  have "account_guar w w1"
    unfolding account_guar_def
  proof (intro impI conjI)
    assume ok: "db_ok w"
    then show "db_ok w1" by (rule ch(3))
    show "has_active_admin w1" if "has_active_admin w"
    proof -
      have "\<exists>u \<in> set (users w). is_active_admin u \<and> u_id u \<noteq> uid"
      proof (cases "is_active_admin t")
        case True
        then have "deactivates (u_role t) (u_status t) st" using t(2) by (auto simp: deactivates_def is_active_admin_def)
        then show ?thesis using g other_admin [OF users_distinct_ids [OF ok]] by blast
      next
        case False
        then show ?thesis using that find_user_unique [OF t(1) ok] by (auto simp: has_active_admin_def)
      qed
      then show ?thesis using ch(1) by (auto simp: has_active_admin_def)
    qed
    show "grants_ok w1" if gr: "grants_ok w"
      unfolding grants_ok_def
    proof
      fix p assume "p \<in> set (modPermissions w1)"
      then have "p \<in> set (modPermissions w)" by (subst (asm) ch(4)) simp
      then obtain u where u: "u \<in> set (users w)" "u_id u = mp_userId p" "u_role u = MOD"
        using gr by (auto simp: grants_ok_def)
      then show "\<exists>u \<in> set (users w1). u_id u = mp_userId p \<and> u_role u = MOD"
        using ch(1) [of u] ch(2) [of u]
        by (intro bexI [of _ "if u_id u = uid then touch w (u\<lparr>u_status := st\<rparr>) else u"]) (auto simp: touch_def)
    qed
  qed
  then show ?thesis using w' by (auto intro: account_guar_trans account_delete_tokens)
qed

lemma account_updateRole:
  assumes "updateRoleTx uid rl w = Inr (p, w')"
  shows "account_guar w w'"
proof -
  from assms obtain t rows w1 where t: "find_user uid w = Some t" "u_role t \<noteq> rl"
    and g: "demotes (u_role t) (u_status t) rl \<longrightarrow> \<not> length (filter is_active_admin (users w)) \<le> 1"
    and up: "update_users (\<lambda>u. u_id u = uid) (\<lambda>u. u\<lparr>u_role := rl\<rparr>) w = Inr (rows, w1)"
    and w': "w' = delete_grants (\<lambda>p. mp_userId p = uid) w1"
    by (auto simp: updateRoleTx_def seqE_Inr_iff guard_admins split: option.splits)
  have "\<And>u. u_id (u\<lparr>u_role := rl\<rparr>) = u_id u" by simp
  note ch = changed_user [OF up this]
  have w1: "modPermissions w1 = modPermissions w" by (subst ch(4)) simp
  show ?thesis
    unfolding account_guar_def
  proof (intro impI conjI)
    assume ok: "db_ok w"
    then have "db_ok w1" by (rule ch(3))
    then show "db_ok w'"
      unfolding w' delete_grants_def
      by (auto simp: db_ok_def refs_ok_def user_exists_def server_exists_def split: option.splits)
    show "has_active_admin w'" if "has_active_admin w"
    proof -
      have "\<exists>u \<in> set (users w). is_active_admin u \<and> u_id u \<noteq> uid"
      proof (cases "is_active_admin t")
        case True
        then have "demotes (u_role t) (u_status t) rl" using t(2) by (auto simp: demotes_def is_active_admin_def)
        then show ?thesis using g other_admin [OF users_distinct_ids [OF ok]] by blast
      next
        case False
        then show ?thesis using that find_user_unique [OF t(1) ok] by (auto simp: has_active_admin_def)
      qed
      then show ?thesis using ch(1) by (auto simp: has_active_admin_def w' delete_grants_def)
    qed
    show "grants_ok w'" if "grants_ok w"
      using that ch(1) by (fastforce simp: grants_ok_def w' delete_grants_def w1)
  qed
qed

lemma db_ok_grants:
  assumes "db_ok w" and "modPermissions_unique t"
    and "\<forall>p \<in> set t. p \<in> set (modPermissions w) \<or> user_exists w (mp_userId p)
           \<and> (case mp_serverId p of None \<Rightarrow> True | Some s \<Rightarrow> server_exists w s)"
  shows "db_ok (w\<lparr>modPermissions := t\<rparr>)"
proof -
  have "server_exists (w\<lparr>modPermissions := t\<rparr>) = server_exists w" "user_exists (w\<lparr>modPermissions := t\<rparr>) = user_exists w"
    by (simp_all add: server_exists_def user_exists_def fun_eq_iff)
  with assms show ?thesis by (auto simp: db_ok_def refs_ok_def cong: option.case_cong)
qed

lemma account_delete_grants: "account_guar w (delete_grants P w)"
proof -
  have "db_ok (delete_grants P w)" if "db_ok w"
    unfolding delete_grants_def
    by (rule db_ok_grants [OF that]) (use that in \<open>simp_all add: db_ok_def\<close>)
  then show ?thesis by (simp add: account_guar_def delete_grants_def has_active_admin_def grants_ok_def)
qed

lemma account_grant:
  assumes "grantTx i uid dto seen w = Inr (row, w')"
  shows "account_guar w w'"
proof (cases "find_user uid w")
  case (Some t)
  with assms have m: "u_role t = MOD" by (cases "u_role t = MOD") (simp_all add: grantTx_def)
  with assms Some obtain scope where sc: "grant_scope dto = Inr scope"
    by (cases "grant_scope dto") (auto simp: grantTx_def)
  have row: "mp_userId row = uid" "case mp_serverId row of None \<Rightarrow> True | Some s \<Rightarrow> server_exists w s"
    and u: "modPermissions_unique (modPermissions w @ [row])"
    and w': "w' = w\<lparr>modPermissions := modPermissions w @ [row]\<rparr>"
    using assms Some m sc by (cases scope; auto simp: grantTx_def Let_def seqE_Inr_iff split: if_splits)+
  have t: "t \<in> set (users w)" "u_id t = mp_userId row" using find_user_mem [OF Some] row by auto
  have "db_ok w'" if "db_ok w"
    unfolding w' by (rule db_ok_grants [OF that u]) (use row t in \<open>auto simp: user_exists_def\<close>)
  moreover have "grants_ok w'" if "grants_ok w"
    using that t m by (auto simp: grants_ok_def w')
  ultimately show ?thesis by (simp add: account_guar_def has_active_admin_def w')
qed (use assms in \<open>simp add: grantTx_def\<close>)

lemma account_reset: "resetTx uid h e w = Inr (x, w') \<Longrightarrow> account_guar w w'"
  unfolding resetTx_def
  by (auto simp: seqE_Inr_iff intro!: account_guar_trans [OF _ account_delete_tokens] elim!: account_update_users)

lemma guar_admin_service [guar_simps]:
  "guar account_guar (listUsers q)"
  "guar account_guar (listModPermissions uid)"
  "guar account_guar (updateStatus uid st)"
  "guar account_guar (updateRole uid rl)"
  "guar account_guar (grantModPermission i uid dto)"
  "guar account_guar (revokeModPermission uid pid)"
  "guar account_guar (resetPassword cr tp uid)"
  "guar account_guar (removeTwoFactor uid)"
  unfolding listUsers_def listModPermissions_def updateStatus_def updateRole_def grantModPermission_def
    revokeModPermission_def resetPassword_def removeTwoFactor_def loadUser_def Let_def
  by (auto intro!: account_intros account_delete_grants elim!: account_updateStatus account_updateRole account_grant
      account_reset account_update_users simp: guar_simps split: option.splits if_splits)

section \<open>Properties\<close>

text \<open>
  Banning an account ends its sessions: after a successful change to \<open>BANNED\<close> the account
  is banned and holds no refresh token.
\<close>

theorem ban_revokes_sessions:
  assumes "run (updateStatus uid BANNED) w = (Inr p, w')" and "db_ok w"
  shows "(\<exists>u. find_user uid w' = Some u \<and> u_status u = BANNED) \<and> (\<forall>t \<in> set (refreshTokens w'). rt_userId t \<noteq> uid)"
proof -
  from assms(1) obtain t rows w1 where t: "find_user uid w = Some t"
    and up: "update_users (\<lambda>u. u_id u = uid) (\<lambda>u. u\<lparr>u_status := BANNED\<rparr>) w = Inr (rows, w1)"
    and w': "w' = delete_tokens (\<lambda>t. rt_userId t = uid) w1"
    by (auto simp: updateStatus_def run_atomically updateStatusTx_def seqE_Inr_iff split: option.splits sum.splits)
  have "find_user uid w1 = Some (touch w (t\<lparr>u_status := BANNED\<rparr>))"
    using find_user_updated [OF up] t by simp
  then show ?thesis by (simp add: w' delete_tokens_def find_user_def touch_def)
qed

lemma sample_ban: "(case run (updateStatus ''bob'' BANNED) sample_world of (Inr p, w) \<Rightarrow> True | _ \<Rightarrow> False)"
  by code_simp

theorem ban_revokes_sessions_witness:
  "\<exists>u. find_user ''bob'' (snd (run (updateStatus ''bob'' BANNED) sample_world)) = Some u \<and> u_status u = BANNED"
proof -
  from sample_ban obtain p where
    "run (updateStatus ''bob'' BANNED) sample_world = (Inr p, snd (run (updateStatus ''bob'' BANNED) sample_world))"
    by (auto split: prod.splits sum.splits)
  from ban_revokes_sessions [OF this sample_world_db_ok] show ?thesis ..
qed

text \<open>
  A password reset by an administrator puts the account into forced recovery: the temporary
  credential is stored with an expiry 24 hours ahead, the account must change its password,
  and no refresh session survives; every other attribute of the account is kept.
\<close>

theorem reset_forces_recovery:
  assumes "run (resetPassword cr tmp uid) w = (Inr x, w')" and "find_user uid w = Some u"
  shows "x = tmp
       \<and> find_user uid w' = Some (u\<lparr>u_tempPasswordHash := Some (bcrypt_hash cr tmp),
             u_tempPasswordExpiresAt := Some (ofDate (dateNow w + 86400000)),
             u_mustChangePassword := True, u_updatedAt := ofDate (dateNow w)\<rparr>)
       \<and> (\<forall>t \<in> set (refreshTokens w'). rt_userId t \<noteq> uid)"
proof -
  let ?f = "\<lambda>u. u\<lparr>u_tempPasswordHash := Some (bcrypt_hash cr tmp),
      u_tempPasswordExpiresAt := Some (ofDate (dateNow w + TEMP_PASSWORD_TTL_MS)), u_mustChangePassword := True\<rparr>"
  from assms obtain rows w1 where x: "x = tmp"
    and up: "update_users (\<lambda>u. u_id u = uid) ?f w = Inr (rows, w1)"
    and w': "w' = delete_tokens (\<lambda>t. rt_userId t = uid) w1"
    by (auto simp: resetPassword_def loadUser_def resetTx_def run_bind run_atomically seqE_Inr_iff split: sum.splits)
  have "find_user uid w1 = Some (touch w (?f u))"
    using find_user_updated [OF up] assms(2) by simp
  then show ?thesis by (simp add: x w' delete_tokens_def find_user_def touch_def TEMP_PASSWORD_TTL_MS_def)
qed

lemma sample_reset: "(case run (resetPassword sample_crypto ''tmp'' ''bob'') sample_world of (Inr p, w) \<Rightarrow> True | _ \<Rightarrow> False)"
  by code_simp

lemma sample_bob: "find_user ''bob'' sample_world = Some (sample_user ''bob'' USER)"
  by (simp add: find_user_def sample_world_def sample_user_def)

theorem reset_forces_recovery_witness:
  "\<exists>u. find_user ''bob'' (snd (run (resetPassword sample_crypto ''tmp'' ''bob'') sample_world)) = Some u
     \<and> u_mustChangePassword u \<and> u_tempPasswordHash u = Some ''h:tmp''"
proof -
  from sample_reset obtain p where "run (resetPassword sample_crypto ''tmp'' ''bob'') sample_world
      = (Inr p, snd (run (resetPassword sample_crypto ''tmp'' ''bob'') sample_world))"
    by (auto split: prod.splits sum.splits)
  from reset_forces_recovery [OF this sample_bob] show ?thesis by (simp add: sample_crypto_def)
qed

end
