(* ===== verification/LoginAbuse.thy ===== *)
theory LoginAbuse
  imports Crypto
begin

text \<open>
  \<open>src/auth/login-abuse.service.ts\<close>: limits on failed logins. The two JavaScript \<open>Map\<close>s are
  association lists in insertion order (\<open>set\<close> on a present key keeps its place, a new key goes
  to the end). The locale \<open>failure_counter\<close> states what a windowed failure counter promises;
  it is interpreted here and for the second factor in \<open>AuthService\<close>.
\<close>

section \<open>Constants and keys\<close>

definition FAILURE_WINDOW_MS :: int where "FAILURE_WINDOW_MS = 15 * 60 * 1000"
definition PAIR_FAILURE_LIMIT :: int where "PAIR_FAILURE_LIMIT = 5"
definition MAX_PAIR_ENTRIES :: nat where "MAX_PAIR_ENTRIES = 20000"
definition MAX_ACCOUNT_ENTRIES :: nat where "MAX_ACCOUNT_ENTRIES = 5000"
definition MAX_PROGRESSIVE_DELAY_MS :: int where "MAX_PROGRESSIVE_DELAY_MS = 100"

type_synonym failures = "(string \<times> failure_entry) list"

record login_context =
  lc_identifier :: string
  lc_source :: string

definition normalize :: "string \<Rightarrow> string" where
  "normalize v = take 254 (toLowerCase (trim v))"

definition pairKey :: "crypto \<Rightarrow> login_context \<Rightarrow> string" where
  "pairKey cr ctx = normalize (lc_identifier ctx) @ CHR 0x00 # sha256hex cr (take 256 (lc_source ctx))"

section \<open>Operations\<close>

definition prune_entries :: "int \<Rightarrow> failures \<Rightarrow> failures" where
  "prune_entries now es = filter (\<lambda>(k, e). \<not> FAILURE_WINDOW_MS \<le> now - fe_lastFailureAt e) es"

definition prune :: "int \<Rightarrow> world \<Rightarrow> world" where
  "prune now w = w\<lparr>pairFailures := prune_entries now (pairFailures w),
                   accountFailures := prune_entries now (accountFailures w)\<rparr>"

text \<open>\<open>while (entries.size > maxEntries) entries.delete(oldest)\<close>\<close>

function evict :: "nat \<Rightarrow> failures \<Rightarrow> failures" where
  "evict maxEntries es = (if maxEntries < length es then evict maxEntries (tl es) else es)"
  by pat_completeness auto
termination
  by (relation "measure (\<lambda>(m, es). length es)") auto

declare evict.simps [simp del]

definition bump :: "failures \<Rightarrow> string \<Rightarrow> int \<Rightarrow> nat \<Rightarrow> failures" where
  "bump es key now maxEntries =
     (let entry = (case map_of es key of
            Some previous \<Rightarrow>
              if now - fe_firstFailureAt previous < FAILURE_WINDOW_MS then previous
              else \<lparr>fe_failures = 0, fe_firstFailureAt = now, fe_lastFailureAt = now\<rparr>
          | None \<Rightarrow> \<lparr>fe_failures = 0, fe_firstFailureAt = now, fe_lastFailureAt = now\<rparr>)
      in evict maxEntries (AList.update key
           \<lparr>fe_failures = fe_failures entry + 1, fe_firstFailureAt = fe_firstFailureAt entry, fe_lastFailureAt = now\<rparr> es))"

definition recordFailure :: "crypto \<Rightarrow> login_context \<Rightarrow> world \<Rightarrow> world" where
  "recordFailure cr ctx w =
     (let now = dateNow w; w1 = prune now w
      in w1\<lparr>pairFailures := bump (pairFailures w1) (pairKey cr ctx) now MAX_PAIR_ENTRIES,
            accountFailures := bump (accountFailures w1) (normalize (lc_identifier ctx)) now MAX_ACCOUNT_ENTRIES\<rparr>)"

definition recordSuccess :: "login_context \<Rightarrow> world \<Rightarrow> world" where
  "recordSuccess ctx w =
     (let accountKey = normalize (lc_identifier ctx)
      in w\<lparr>accountFailures := AList.delete accountKey (accountFailures w),
           pairFailures := filter (\<lambda>(k, e). \<not> startsWith k (accountKey @ [CHR 0x00])) (pairFailures w)\<rparr>)"

text \<open>The delay before an attempt on an account with many failures.\<close>

definition progressive_delay :: "int \<Rightarrow> int" where
  "progressive_delay n = min MAX_PROGRESSIVE_DELAY_MS (max 0 (n - PAIR_FAILURE_LIMIT) * 10)"

definition assertAllowed :: "crypto \<Rightarrow> login_context \<Rightarrow> (world, unit) prog" where
  "assertAllowed cr ctx =
     bind (modify (\<lambda>w. prune (dateNow w) w)) (\<lambda>_.
     bind (get (\<lambda>w. (map_of (pairFailures w) (pairKey cr ctx), map_of (accountFailures w) (normalize (lc_identifier ctx)))))
       (\<lambda>(pair, account).
     if (case pair of None \<Rightarrow> False | Some e \<Rightarrow> PAIR_FAILURE_LIMIT \<le> fe_failures e)
     then Throw (TooManyRequests (Code ''LoginRateLimited''))
     else case account of
       None \<Rightarrow> Return ()
     | Some e \<Rightarrow> if 0 < progressive_delay (fe_failures e) then sleep (progressive_delay (fe_failures e)) else Return ()))"

section \<open>Windowed failure counters\<close>

text \<open>
  A counter of failures by key: a bump within the window of the first failure adds one, a
  later one starts anew; \<open>ok\<close> is the invariant of its representation.
\<close>

locale failure_counter =
  fixes bump' :: "string \<Rightarrow> int \<Rightarrow> 'm \<Rightarrow> 'm"
    and count :: "string \<Rightarrow> 'm \<Rightarrow> int"
    and start :: "string \<Rightarrow> 'm \<Rightarrow> int option"
    and ok :: "'m \<Rightarrow> bool"
    and span :: int
  assumes bump_ok: "ok m \<Longrightarrow> (\<And>t0. start k m = Some t0 \<Longrightarrow> t0 \<le> now) \<Longrightarrow> ok (bump' k now m)"
    and bump_fresh: "ok m \<Longrightarrow> start k m = None \<Longrightarrow> count k (bump' k now m) = 1 \<and> start k (bump' k now m) = Some now"
    and bump_again: "ok m \<Longrightarrow> start k m = Some t0 \<Longrightarrow> t0 \<le> now \<Longrightarrow> now - t0 < span \<Longrightarrow>
          count k (bump' k now m) = count k m + 1 \<and> start k (bump' k now m) = Some t0"
begin

lemma bumps_again:
  assumes "ok m" and "start k m = Some t0" and "\<forall>t \<in> set ts. t0 \<le> t \<and> t - t0 < span"
  shows "ok (fold (bump' k) ts m) \<and> count k (fold (bump' k) ts m) = count k m + int (length ts)
       \<and> start k (fold (bump' k) ts m) = Some t0"
  using assms
proof (induction ts arbitrary: m)
  case (Cons t ts)
  then have t: "t0 \<le> t" "t - t0 < span" by simp_all
  have "ok (bump' k t m)" using Cons.prems(2) t by (intro bump_ok [OF Cons.prems(1)]) simp
  with bump_again [OF Cons.prems(1,2) t] Cons.IH [of "bump' k t m"] Cons.prems(3)
  show ?case by simp
qed simp

text \<open>After \<open>n\<close> failures within one window of the first, the counter stands at \<open>n\<close>.\<close>

lemma bumps_in_window:
  assumes "ok m" and "start k m = None" and "\<forall>t \<in> set ts. t0 \<le> t \<and> t - t0 < span"
  shows "ok (fold (bump' k) (t0 # ts) m) \<and> count k (fold (bump' k) (t0 # ts) m) = 1 + int (length ts)
       \<and> start k (fold (bump' k) (t0 # ts) m) = Some t0"
proof -
  have "ok (bump' k t0 m)" using assms(2) by (intro bump_ok [OF assms(1)]) simp
  from bumps_again [OF this _ assms(3)] bump_fresh [OF assms(1,2), of t0] show ?thesis by simp
qed

end

section \<open>The representation\<close>

lemma evict_eq: "evict m es = drop (length es - m) es"
proof (induction m es rule: evict.induct)
  case (1 m es)
  then show ?case by (subst evict.simps) (cases es; auto simp: Suc_diff_le)
qed

lemma length_evict: "length (evict m es) \<le> m"
  by (simp add: evict_eq)

lemma length_alist_update: "length (AList.update k v es) = (if k \<in> fst ` set es then length es else Suc (length es))"
  by (induction es) auto

lemma alist_update_new: "k \<notin> fst ` set es \<Longrightarrow> AList.update k v es = es @ [(k, v)]"
  by (induction es) auto

lemma map_of_drop_last: "n \<le> length es \<Longrightarrow> k \<notin> fst ` set es \<Longrightarrow> map_of (drop n (es @ [(k, v)])) k = Some v"
proof -
  assume n: "n \<le> length es" and k: "k \<notin> fst ` set es"
  have "k \<notin> fst ` set (drop n es)" using k set_drop_subset [of n es] by blast
  then have "map_of (drop n es) k = None" by (simp add: map_of_eq_None_iff)
  then show ?thesis using n by (simp add: map_add_def)
qed

text \<open>A bump never evicts the entry it writes.\<close>

lemma map_of_bump:
  assumes "length es \<le> m" and "0 < m"
  shows "map_of (evict m (AList.update k v es)) k = Some v"
proof (cases "k \<in> fst ` set es")
  case True
  then have "length (AList.update k v es) \<le> m" using assms(1) by (simp add: length_alist_update)
  then show ?thesis by (simp add: evict_eq update_conv)
next
  case False
  then show ?thesis
    using map_of_drop_last [of "Suc (length es) - m" es k v] assms
    by (simp add: evict_eq alist_update_new)
qed

definition entry_count :: "string \<Rightarrow> failures \<Rightarrow> int" where
  "entry_count k es = (case map_of es k of None \<Rightarrow> 0 | Some e \<Rightarrow> fe_failures e)"

definition entry_start :: "string \<Rightarrow> failures \<Rightarrow> int option" where
  "entry_start k es = map_option fe_firstFailureAt (map_of es k)"

text \<open>One recorded failure on one of the maps: old entries are pruned first.\<close>

definition fail :: "nat \<Rightarrow> string \<Rightarrow> int \<Rightarrow> failures \<Rightarrow> failures" where
  "fail m k now es = bump (prune_entries now es) k now m"

definition entries_ok :: "nat \<Rightarrow> failures \<Rightarrow> bool" where
  "entries_ok m es \<longleftrightarrow> length es \<le> m \<and> distinct (map fst es) \<and> (\<forall>(k, e) \<in> set es. fe_firstFailureAt e \<le> fe_lastFailureAt e)"

lemma map_of_filter_kept: "map_of es k = Some e \<Longrightarrow> P (k, e) \<Longrightarrow> map_of (filter P es) k = Some e"
  by (induction es) (auto split: if_splits)

lemma map_of_filter_None: "map_of es k = None \<Longrightarrow> map_of (filter P es) k = None"
  by (induction es) (auto split: if_splits)

lemma entries_ok_prune: "entries_ok m es \<Longrightarrow> entries_ok m (prune_entries now es)"
  by (auto simp: entries_ok_def prune_entries_def distinct_map_filter intro: le_trans [OF length_filter_le])

lemma set_alist_update: "set (AList.update k v es) \<subseteq> insert (k, v) (set es)"
  by (induction es) auto

lemma set_evict: "set (evict m es) \<subseteq> set es"
  by (simp add: evict_eq set_drop_subset)

definition written :: "failures \<Rightarrow> string \<Rightarrow> int \<Rightarrow> failure_entry" where
  "written es k now = (case map_of es k of
     Some p \<Rightarrow> if now - fe_firstFailureAt p < FAILURE_WINDOW_MS
               then \<lparr>fe_failures = fe_failures p + 1, fe_firstFailureAt = fe_firstFailureAt p, fe_lastFailureAt = now\<rparr>
               else \<lparr>fe_failures = 1, fe_firstFailureAt = now, fe_lastFailureAt = now\<rparr>
   | None \<Rightarrow> \<lparr>fe_failures = 1, fe_firstFailureAt = now, fe_lastFailureAt = now\<rparr>)"

lemma bump_written: "bump es k now m = evict m (AList.update k (written es k now) es)"
  by (simp add: bump_def written_def Let_def split: option.splits)

lemma entries_ok_bump:
  assumes "entries_ok m es" and "fe_firstFailureAt (written es k now) \<le> now"
  shows "entries_ok m (bump es k now m)"
proof -
  have sub: "set (bump es k now m) \<subseteq> insert (k, written es k now) (set es)"
    unfolding bump_written by (rule subset_trans [OF set_evict set_alist_update])
  have last: "fe_lastFailureAt (written es k now) = now" by (simp add: written_def split: option.splits)
  have "\<forall>(k, e) \<in> set (bump es k now m). fe_firstFailureAt e \<le> fe_lastFailureAt e"
  proof (clarify)
    fix k' e assume "(k', e) \<in> set (bump es k now m)"
    with sub consider "e = written es k now" | "(k', e) \<in> set es" by auto
    then show "fe_firstFailureAt e \<le> fe_lastFailureAt e"
      by cases (use assms last in \<open>auto simp: entries_ok_def\<close>)
  qed
  moreover have "distinct (map fst (bump es k now m))"
    using assms(1) by (simp add: entries_ok_def bump_written evict_eq drop_map [symmetric] distinct_update)
  ultimately show ?thesis by (simp add: entries_ok_def bump_written length_evict)
qed

lemma prune_keeps:
  assumes "entries_ok m es" and "entry_start k es = Some t0" and "now - t0 < FAILURE_WINDOW_MS"
  shows "map_of (prune_entries now es) k = map_of es k"
proof -
  from assms(2) obtain e where e: "map_of es k = Some e" "fe_firstFailureAt e = t0"
    by (auto simp: entry_start_def)
  then have "(k, e) \<in> set es" by (auto dest: map_of_SomeD)
  then have "t0 \<le> fe_lastFailureAt e" using assms(1) e(2) by (auto simp: entries_ok_def)
  then have "map_of (prune_entries now es) k = Some e"
    unfolding prune_entries_def using e(1) assms(3) by (intro map_of_filter_kept) auto
  then show ?thesis by (simp add: e)
qed

lemma fail_ok:
  assumes "entries_ok m es" and "\<And>t0. entry_start k es = Some t0 \<Longrightarrow> t0 \<le> now"
  shows "entries_ok m (fail m k now es)"
proof -
  have "fe_firstFailureAt e \<le> now" if e: "map_of (prune_entries now es) k = Some e" for e
  proof -
    from e have "(k, e) \<in> set (prune_entries now es)" by (rule map_of_SomeD)
    then have "(k, e) \<in> set es" by (simp add: prune_entries_def)
    then have "map_of es k = Some e" using assms(1) by (simp add: entries_ok_def)
    then show ?thesis using assms(2) by (simp add: entry_start_def)
  qed
  then have "fe_firstFailureAt (written (prune_entries now es) k now) \<le> now"
    by (simp add: written_def split: option.splits)
  then show ?thesis unfolding fail_def by (rule entries_ok_bump [OF entries_ok_prune [OF assms(1)]])
qed

lemma fail_entry:
  assumes "entries_ok m es" and "0 < m"
  shows "map_of (fail m k now es) k = Some (written (prune_entries now es) k now)"
  unfolding fail_def bump_written
  by (rule map_of_bump [OF _ assms(2)]) (use entries_ok_prune [OF assms(1)] in \<open>simp add: entries_ok_def\<close>)

text \<open>Both maps of the service are windowed failure counters.\<close>

lemma fail_counter:
  assumes "0 < m"
  shows "failure_counter (fail m) entry_count entry_start (entries_ok m) FAILURE_WINDOW_MS"
proof
  show "entries_ok m (fail m k now es)" if "entries_ok m es" "\<And>t0. entry_start k es = Some t0 \<Longrightarrow> t0 \<le> now" for es k now
    using that by (rule fail_ok)
  show "entry_count k (fail m k now es) = 1 \<and> entry_start k (fail m k now es) = Some now"
    if "entries_ok m es" "entry_start k es = None" for es k now
  proof -
    have "map_of (prune_entries now es) k = None"
      unfolding prune_entries_def using that(2) by (intro map_of_filter_None) (simp add: entry_start_def)
    then show ?thesis by (simp add: entry_count_def entry_start_def fail_entry [OF that(1) assms] written_def)
  qed
  show "entry_count k (fail m k now es) = entry_count k es + 1 \<and> entry_start k (fail m k now es) = Some t0"
    if "entries_ok m es" "entry_start k es = Some t0" "t0 \<le> now" "now - t0 < FAILURE_WINDOW_MS" for es k t0 now
    using prune_keeps [OF that(1,2,4)] that(2,4)
    by (auto simp: entry_count_def entry_start_def fail_entry [OF that(1) assms] written_def)
qed

interpretation pairs: failure_counter "fail MAX_PAIR_ENTRIES" entry_count entry_start "entries_ok MAX_PAIR_ENTRIES" FAILURE_WINDOW_MS
  by (rule fail_counter) (simp add: MAX_PAIR_ENTRIES_def)

interpretation by_account: failure_counter "fail MAX_ACCOUNT_ENTRIES" entry_count entry_start "entries_ok MAX_ACCOUNT_ENTRIES" FAILURE_WINDOW_MS
  by (rule fail_counter) (simp add: MAX_ACCOUNT_ENTRIES_def)

section \<open>Properties\<close>

text \<open>Failed attempts at the given times, in milliseconds.\<close>

definition attempts :: "crypto \<Rightarrow> login_context \<Rightarrow> int list \<Rightarrow> world \<Rightarrow> world" where
  "attempts cr ctx ts w = fold (\<lambda>t w. recordFailure cr ctx (w\<lparr>clock := ofDate t\<rparr>)) ts w"

lemma pairFailures_attempts:
  "pairFailures (attempts cr ctx ts w) = fold (fail MAX_PAIR_ENTRIES (pairKey cr ctx)) ts (pairFailures w)"
  unfolding attempts_def
  by (induction ts arbitrary: w) (simp_all add: recordFailure_def prune_def fail_def Let_def dateNow_def)


definition bob_context :: login_context where
  "bob_context = \<lparr>lc_identifier = ''bob'', lc_source = ''10.0.0.1''\<rparr>"


end
