(* ===== verification/AuthService.thy ===== *)
theory AuthService
  imports AdminService LoginAbuse
begin

text \<open>
  \<open>src/auth/auth.service.ts\<close>: registration, login with password, temporary credential and
  second factor, refresh-token rotation, sessions, and two-factor enrolment. What is random
  in a call (the id of an issued refresh token and of its row) and the signing service are
  in the record \<open>auth_env\<close>.
\<close>

section \<open>Constants and data\<close>

definition MAX_EXP_SECONDS :: int where "MAX_EXP_SECONDS = MAX_SAFE_INTEGER div 1000"
definition TWO_FACTOR_FAILURE_LIMIT :: int where "TWO_FACTOR_FAILURE_LIMIT = 5"
definition TWO_FACTOR_ATTEMPT_WINDOW_MS :: int where "TWO_FACTOR_ATTEMPT_WINDOW_MS = 10 * 60 * 1000"
definition TWO_FACTOR_LOCKOUT_MS :: int where "TWO_FACTOR_LOCKOUT_MS = 15 * 60 * 1000"
definition DUMMY_PASSWORD_HASH :: string where
  "DUMMY_PASSWORD_HASH = ''$2b$10$ImDussfxY6I73mT10z0lU.DyrhBuXdRh7CBiLNf0nJM3yNj1asche''"

record refresh_ttl =
  tt_expiresIn :: string
  tt_milliseconds :: int

record auth_env =
  ae_crypto :: crypto
  ae_ttl :: refresh_ttl
  ae_key :: string
  ae_jti :: string
  ae_rowId :: string

record auth_tokens =
  at_user :: public_user
  at_accessToken :: string
  at_refreshToken :: string

datatype login_response = Session auth_tokens | TwoFactorChallenge string

record refresh_claims =
  rf_sub :: string
  rf_jti :: string
  rf_temporaryAuth :: "bool option"
  rf_exp :: rat

record login_dto =
  ld_identifier :: string
  ld_password :: string

record register_dto =
  rg_email :: string
  rg_username :: string
  rg_password :: string

section \<open>Refresh tokens as text\<close>

definition refreshTokenUnauthorized :: "string \<Rightarrow> exn" where
  "refreshTokenUnauthorized c = UnauthorizedException (Code c)"

definition requireRefreshToken :: "string option \<Rightarrow> exn + string" where
  "requireRefreshToken value = (case value of
     None \<Rightarrow> Inl (refreshTokenUnauthorized ''RefreshTokenMissing'')
   | Some v \<Rightarrow> if v = [] then Inl (refreshTokenUnauthorized ''RefreshTokenMalformed'') else Inr v)"

text \<open>\<open>isValidRefreshTokenClaims\<close>, with the validated claims as its result.\<close>

definition refreshClaims :: "json \<Rightarrow> refresh_claims option" where
  "refreshClaims candidate = (case candidate of
     JObj ms \<Rightarrow>
       (case (jfield ms ''sub'', jfield ms ''type'', jfield ms ''jti'', jfield ms ''exp'') of
          (Some (JStr sub), Some (JStr ty), Some (JStr jti), Some (JNum (Num e))) \<Rightarrow>
            (case jfield ms ''temporaryAuth'' of
               None \<Rightarrow>
                 if sub \<noteq> [] \<and> ty = ''refresh'' \<and> jti \<noteq> [] \<and> 0 < e \<and> e \<le> of_int MAX_EXP_SECONDS
                 then Some \<lparr>rf_sub = sub, rf_jti = jti, rf_temporaryAuth = None, rf_exp = e\<rparr> else None
             | Some (JBool b) \<Rightarrow>
                 if sub \<noteq> [] \<and> ty = ''refresh'' \<and> jti \<noteq> [] \<and> 0 < e \<and> e \<le> of_int MAX_EXP_SECONDS
                 then Some \<lparr>rf_sub = sub, rf_jti = jti, rf_temporaryAuth = Some b, rf_exp = e\<rparr> else None
             | _ \<Rightarrow> None)
        | _ \<Rightarrow> None)
   | _ \<Rightarrow> None)"

definition readRefreshTokenId :: "crypto \<Rightarrow> string \<Rightarrow> exn + string" where
  "readRefreshTokenId cr refreshToken =
     (case split_on (CHR ''.'') refreshToken of
        _ # segment # _ \<Rightarrow>
          if segment = [] then Inl (refreshTokenUnauthorized ''RefreshTokenMalformed'')
          else (case base64url_json cr segment of
                  None \<Rightarrow> Inl (refreshTokenUnauthorized ''RefreshTokenMalformed'')
                | Some payload \<Rightarrow>
                    (case refreshClaims payload of
                       None \<Rightarrow> Inl (refreshTokenUnauthorized ''RefreshTokenInvalid'')
                     | Some c \<Rightarrow> Inr (rf_jti c)))
      | _ \<Rightarrow> Inl (refreshTokenUnauthorized ''RefreshTokenMalformed''))"

text \<open>A verified payload that is no refresh token: another purpose, or malformed.\<close>

definition wrongPurpose :: "json \<Rightarrow> bool" where
  "wrongPurpose payload = (case payload of
     JObj ms \<Rightarrow> (case jfield ms ''type'' of None \<Rightarrow> False | Some v \<Rightarrow> v \<noteq> JStr ''refresh'')
   | _ \<Rightarrow> False)"

text \<open>The key check of the constructor: 64 hexadecimal digits.\<close>

definition encryptionKey :: "config \<Rightarrow> exn + string" where
  "encryptionKey cfg = (case cfg ''ENCRYPTION_KEY'' of
     Some k \<Rightarrow> if matches (rtimes 64 (RCls is_hex)) k then Inr k
               else Inl (PlainError ''Invalid ENCRYPTION_KEY: expected 64 hexadecimal characters (32 bytes).'')
   | None \<Rightarrow> Inl (PlainError ''Invalid ENCRYPTION_KEY: expected 64 hexadecimal characters (32 bytes).''))"

section \<open>Private methods\<close>

fun role_name :: "role \<Rightarrow> string" where
  "role_name ADMIN = ''ADMIN''"
| "role_name MOD = ''MOD''"
| "role_name USER = ''USER''"

definition accessClaims :: "user \<Rightarrow> bool \<Rightarrow> json" where
  "accessClaims u temporaryAuth = JObj ([(''sub'', JStr (u_id u)), (''type'', JStr ''access''),
     (''username'', JStr (u_username u)), (''role'', JStr (role_name (u_role u)))]
     @ (if temporaryAuth then [(''temporaryAuth'', JBool True)] else []))"

definition refreshSigningClaims :: "string \<Rightarrow> string \<Rightarrow> bool \<Rightarrow> json" where
  "refreshSigningClaims uid jti temporaryAuth = JObj ([(''sub'', JStr uid), (''type'', JStr ''refresh''),
     (''jti'', JStr jti)] @ (if temporaryAuth then [(''temporaryAuth'', JBool True)] else []))"

definition issued_row :: "auth_env \<Rightarrow> string \<Rightarrow> world \<Rightarrow> refresh_token" where
  "issued_row env uid w = \<lparr>rt_id = ae_rowId env, rt_tokenIdHash = hashRefreshTokenId (ae_crypto env) (ae_jti env),
     rt_userId = uid, rt_expiresAt = ofDate (dateNow w + tt_milliseconds (ae_ttl env)), rt_createdAt = clock w\<rparr>"

definition signRefresh :: "auth_env \<Rightarrow> string \<Rightarrow> bool \<Rightarrow> string" where
  "signRefresh env uid temporaryAuth =
     jwt_sign (ae_crypto env) (refreshSigningClaims uid (ae_jti env) temporaryAuth) (Some (tt_expiresIn (ae_ttl env)))"

definition issueSession :: "auth_env \<Rightarrow> user \<Rightarrow> bool \<Rightarrow> (world, auth_tokens) prog" where
  "issueSession env u temporaryAuth =
     bind (atomically (\<lambda>w. insert_token (issued_row env (u_id u) w) w)) (\<lambda>_.
     Return \<lparr>at_user = toPublicUser u,
       at_accessToken = jwt_sign (ae_crypto env) (accessClaims u temporaryAuth) None,
       at_refreshToken = signRefresh env (u_id u) temporaryAuth\<rparr>)"

definition unauthorized :: exn where
  "unauthorized = UnauthorizedException NoBody"

definition loginFailed :: exn where
  "loginFailed = UnauthorizedException (Msg ''Wrong credentials'')"

definition consumeTx :: "user \<Rightarrow> string \<Rightarrow> world \<Rightarrow> exn + unit \<times> world" where
  "consumeTx u tempHash w =
     seqE (update_users
            (\<lambda>x. u_id x = u_id u \<and> u_mustChangePassword x \<and> u_tempPasswordHash x = Some tempHash
                 \<and> (case u_tempPasswordExpiresAt x of None \<Rightarrow> False | Some e \<Rightarrow> ofDate (dateNow w) < e))
            (\<lambda>x. x\<lparr>u_tempPasswordExpiresAt := None\<rparr>) w)
       (\<lambda>(rows, w'). case first_row rows of None \<Rightarrow> Inl loginFailed | Some _ \<Rightarrow> Inr ((), w'))"

definition consumeTempPassword :: "user \<Rightarrow> (world, unit) prog" where
  "consumeTempPassword u =
     (case (truthy (u_tempPasswordHash u), u_tempPasswordExpiresAt u) of
        (Some tempHash, Some _) \<Rightarrow> atomically (consumeTx u tempHash)
      | _ \<Rightarrow> Throw loginFailed)"

definition assertLoginAllowed :: "user \<Rightarrow> exn + unit" where
  "assertLoginAllowed u = (case u_status u of
     U_PENDING \<Rightarrow> Inl (ForbiddenException (Code ''AccountPending''))
   | BANNED \<Rightarrow> Inl (ForbiddenException (Code ''AccountBanned''))
   | ACTIVE \<Rightarrow> Inr ())"

definition isValidTotp :: "auth_env \<Rightarrow> user \<Rightarrow> string \<Rightarrow> exn + bool" where
  "isValidTotp env u token =
     (if \<not> matches (rtimes 6 (RCls is_digit)) token then Inr False
      else case u_totpSecret u of
        None \<Rightarrow> Inl (PlainError ''TypeError'')
      | Some payload \<Rightarrow>
          seqE (decrypt (ae_crypto env) payload (ae_key env)) (\<lambda>secret.
          Inr (totp_valid (ae_crypto env) secret token)))"

definition twoFactorLocked :: exn where
  "twoFactorLocked = TooManyRequests (Msg ''Two-factor authentication is temporarily locked'')"

definition assertTwoFactorNotLocked :: "string \<Rightarrow> (world, unit) prog" where
  "assertTwoFactorNotLocked userId =
     atomically (\<lambda>w.
       case map_of (twoFactorFailures w) userId of
         None \<Rightarrow> Inr ((), w)
       | Some f \<Rightarrow>
           (case tf_lockedUntil f of
              None \<Rightarrow> Inr ((), w)
            | Some l \<Rightarrow>
                if l = 0 then Inr ((), w)
                else if dateNow w < l then Inl twoFactorLocked
                else Inr ((), w\<lparr>twoFactorFailures := AList.delete userId (twoFactorFailures w)\<rparr>)))"

definition tf_bump :: "string \<Rightarrow> int \<Rightarrow> (string \<times> two_factor_failure) list \<Rightarrow> (string \<times> two_factor_failure) list" where
  "tf_bump userId now fs =
     (let active = (case map_of fs userId of
            None \<Rightarrow> None
          | Some p \<Rightarrow> if now - tf_firstFailureAt p < TWO_FACTOR_ATTEMPT_WINDOW_MS then Some p else None);
          n = (case active of None \<Rightarrow> 0 | Some p \<Rightarrow> tf_failures p) + 1;
          t0 = (case active of None \<Rightarrow> now | Some p \<Rightarrow> tf_firstFailureAt p)
      in AList.update userId
           \<lparr>tf_failures = n, tf_firstFailureAt = t0,
            tf_lockedUntil = (if TWO_FACTOR_FAILURE_LIMIT \<le> n then Some (now + TWO_FACTOR_LOCKOUT_MS) else None)\<rparr> fs)"

definition recordTwoFactorFailure :: "string \<Rightarrow> world \<Rightarrow> world" where
  "recordTwoFactorFailure userId w =
     w\<lparr>twoFactorFailures := tf_bump userId (dateNow w) (twoFactorFailures w)\<rparr>"

text \<open>
  The backup codes: the first stored hash that matches is removed, by an update that
  succeeds only while the stored list is the one that was read.
\<close>

definition consumeCodeTx :: "string \<Rightarrow> string \<Rightarrow> string \<Rightarrow> world \<Rightarrow> exn + bool \<times> world" where
  "consumeCodeTx uid stored remaining w =
     seqE (update_users (\<lambda>x. u_id x = uid \<and> u_totpBackupCodes x = Some stored)
            (\<lambda>x. x\<lparr>u_totpBackupCodes := Some remaining\<rparr>) w)
       (\<lambda>(rows, w'). Inr (length rows = 1, w'))"

definition verifyAndConsumeBackupCode :: "crypto \<Rightarrow> user \<Rightarrow> string \<Rightarrow> (world, bool) prog" where
  "verifyAndConsumeBackupCode cr u token =
     (case truthy (u_totpBackupCodes u) of
        None \<Rightarrow> Return False
      | Some stored \<Rightarrow>
          (case parse_string_array stored of
             None \<Rightarrow> Return False
           | Some codes \<Rightarrow>
               (case List.find (bcrypt_compare cr token) codes of
                  None \<Rightarrow> Return False
                | Some hashedCode \<Rightarrow>
                    atomically (consumeCodeTx (u_id u) stored
                      (stringify_array (filter (\<lambda>c. c \<noteq> hashedCode) codes))))))"

section \<open>Operations\<close>

definition registerUser :: "crypto \<Rightarrow> config \<Rightarrow> string \<Rightarrow> register_dto \<Rightarrow> (world, bool) prog" where
  "registerUser cr cfg newId dto =
     bind (findByIdentifier (if rg_username dto \<noteq> [] then rg_username dto else rg_email dto)) (\<lambda>userExists.
     if userExists \<noteq> None then Throw (ConflictException (Msg ''User already exists''))
     else
     bind (liftE (assertPasswordWithinByteLimit (rg_password dto))) (\<lambda>_.
     bind (createUser newId (rg_email dto) (rg_username dto) (Some (bcrypt_hash cr (rg_password dto)))
       (if cfg ''REQUIRE_ADMIN_APPROVAL'' = Some ''true'' then U_PENDING else ACTIVE) None) (\<lambda>_.
     Return True)))"

definition recordLoginFailure :: "crypto \<Rightarrow> login_context option \<Rightarrow> (world, unit) prog" where
  "recordLoginFailure cr ctx = (case ctx of None \<Rightarrow> Return () | Some c \<Rightarrow> modify (recordFailure cr c))"

definition recordLoginSuccess :: "login_context option \<Rightarrow> (world, unit) prog" where
  "recordLoginSuccess ctx = (case ctx of None \<Rightarrow> Return () | Some c \<Rightarrow> modify (recordSuccess c))"

definition preAuthToken :: "crypto \<Rightarrow> user \<Rightarrow> string option \<Rightarrow> string" where
  "preAuthToken cr u fingerprint =
     jwt_sign cr (JObj ([(''sub'', JStr (u_id u)), (''type'', JStr ''pre-auth'')]
       @ (case fingerprint of
            None \<Rightarrow> []
          | Some fp \<Rightarrow> [(''temporaryAuth'', JBool True), (''temporaryCredentialFingerprint'', JStr fp)])))
       (Some ''5m'')"

text \<open>The fingerprint of the temporary credential; hashing a missing one is a type error.\<close>

definition tempFingerprint :: "crypto \<Rightarrow> user \<Rightarrow> exn + string" where
  "tempFingerprint cr u = (case u_tempPasswordHash u of
     None \<Rightarrow> Inl (PlainError ''TypeError'') | Some h \<Rightarrow> Inr (sha256hex cr h))"

text \<open>The hash a temporary password is compared with: the stored one while it is valid.\<close>

definition liveTempHash :: "int \<Rightarrow> user \<Rightarrow> string option" where
  "liveTempHash now u =
     (case (truthy (u_tempPasswordHash u), u_tempPasswordExpiresAt u) of
        (Some h, Some e) \<Rightarrow> if now < getTime e then Some h else None
      | _ \<Rightarrow> None)"

definition finishLogin :: "login_context option \<Rightarrow> login_response \<Rightarrow> (world, login_response) prog" where
  "finishLogin ctx r = bind (recordLoginSuccess ctx) (\<lambda>_. Return r)"

definition failLogin :: "crypto \<Rightarrow> login_context option \<Rightarrow> (world, login_response) prog" where
  "failLogin cr ctx = bind (recordLoginFailure cr ctx) (\<lambda>_. Throw loginFailed)"

text \<open>
  The part of a login after the checks of length and status: while forced recovery is active
  only the temporary credential counts, else only the primary one.
\<close>

definition loginAccount :: "auth_env \<Rightarrow> login_context option \<Rightarrow> user \<Rightarrow> bool \<Rightarrow> bool \<Rightarrow> (world, login_response) prog" where
  "loginAccount env ctx u primaryMatches tempMatches =
     (if u_mustChangePassword u then
       (if \<not> tempMatches then failLogin (ae_crypto env) ctx
        else if u_totpEnabled u then
          bind (liftE (tempFingerprint (ae_crypto env) u)) (\<lambda>fp.
          finishLogin ctx (TwoFactorChallenge (preAuthToken (ae_crypto env) u (Some fp))))
        else
          bind (consumeTempPassword u) (\<lambda>_.
          bind (issueSession env u True) (\<lambda>session.
          finishLogin ctx (Session session))))
     else if primaryMatches then
       (if u_totpEnabled u then finishLogin ctx (TwoFactorChallenge (preAuthToken (ae_crypto env) u None))
        else
          bind (issueSession env u False) (\<lambda>session.
          finishLogin ctx (Session session)))
     else failLogin (ae_crypto env) ctx)"

definition loginUser :: "auth_env \<Rightarrow> login_dto \<Rightarrow> login_context option \<Rightarrow> (world, login_response) prog" where
  "loginUser env dto ctx =
     bind (case ctx of None \<Rightarrow> Return () | Some c \<Rightarrow> assertAllowed (ae_crypto env) c) (\<lambda>_.
     bind (findByIdentifier (ld_identifier dto)) (\<lambda>user.
     bind (get dateNow) (\<lambda>now.
     let primaryMatches = bcrypt_compare (ae_crypto env) (ld_password dto)
           (case user of None \<Rightarrow> DUMMY_PASSWORD_HASH | Some u \<Rightarrow> orElse (u_passwordHash u) DUMMY_PASSWORD_HASH);
         tempMatches = bcrypt_compare (ae_crypto env) (ld_password dto)
           (case user of None \<Rightarrow> DUMMY_PASSWORD_HASH | Some u \<Rightarrow> orElse (liveTempHash now u) DUMMY_PASSWORD_HASH)
     in case user of
       None \<Rightarrow> failLogin (ae_crypto env) ctx
     | Some u \<Rightarrow>
     if \<not> isPasswordWithinByteLimit (ld_password dto) then failLogin (ae_crypto env) ctx
     else
     bind (liftE (assertLoginAllowed u)) (\<lambda>_.
     loginAccount env ctx u primaryMatches tempMatches))))"

definition issueProviderSession :: "auth_env \<Rightarrow> user \<Rightarrow> (world, auth_tokens) prog" where
  "issueProviderSession env u =
     bind (liftE (assertLoginAllowed u)) (\<lambda>_.
     if u_mustChangePassword u then Throw (ForbiddenException (Code ''PasswordRecoveryRequired''))
     else if u_totpEnabled u then Throw (ForbiddenException (Code ''TwoFactorAuthenticationRequired''))
     else issueSession env u False)"

text \<open>
  A second-factor login for a temporary credential needs that credential still valid and the
  one the challenge was issued for.
\<close>

definition staleCredential :: "crypto \<Rightarrow> int \<Rightarrow> user \<Rightarrow> string option \<Rightarrow> bool" where
  "staleCredential cr now u fingerprint =
     (case (truthy fingerprint, liveTempHash now u) of
        (Some fp, Some h) \<Rightarrow> sha256hex cr h \<noteq> fp
      | _ \<Rightarrow> True)"

text \<open>The part of a second-factor login that checks the code and opens the session.\<close>

definition acceptCode :: "auth_env \<Rightarrow> user \<Rightarrow> string \<Rightarrow> bool \<Rightarrow> (world, auth_tokens) prog" where
  "acceptCode env u token temporaryAuth =
     bind (liftE (isValidTotp env u token)) (\<lambda>validTotp.
     bind (if validTotp then Return False else verifyAndConsumeBackupCode (ae_crypto env) u token) (\<lambda>usedBackupCode.
     if \<not> validTotp \<and> \<not> usedBackupCode then
       bind (modify (recordTwoFactorFailure (u_id u))) (\<lambda>_.
       Throw (UnauthorizedException (Msg ''Invalid two-factor code'')))
     else
     bind (modify (\<lambda>w. w\<lparr>twoFactorFailures := AList.delete (u_id u) (twoFactorFailures w)\<rparr>)) (\<lambda>_.
     bind (if temporaryAuth then consumeTempPassword u else Return ()) (\<lambda>_.
     issueSession env u temporaryAuth))))"

definition completeTwoFactorLogin :: "auth_env \<Rightarrow> string \<Rightarrow> string \<Rightarrow> bool \<Rightarrow> string option \<Rightarrow> (world, auth_tokens) prog" where
  "completeTwoFactorLogin env userId token temporaryAuth fingerprint =
     bind (findById userId) (\<lambda>user.
     case user of
       None \<Rightarrow> Throw unauthorized
     | Some u \<Rightarrow>
     if \<not> u_totpEnabled u \<or> truthy (u_totpSecret u) = None then Throw unauthorized
     else
     bind (liftE (assertLoginAllowed u)) (\<lambda>_.
     bind (assertTwoFactorNotLocked (u_id u)) (\<lambda>_.
     if u_mustChangePassword u \<noteq> temporaryAuth then Throw unauthorized
     else
     bind (get dateNow) (\<lambda>now.
     if temporaryAuth \<and> staleCredential (ae_crypto env) now u fingerprint then Throw unauthorized
     else acceptCode env u token temporaryAuth))))"

definition logoutUser :: "crypto \<Rightarrow> string \<Rightarrow> string \<Rightarrow> (world, unit) prog" where
  "logoutUser cr userId refreshToken =
     bind (liftE (readRefreshTokenId cr refreshToken)) (\<lambda>tokenId.
     modify (delete_tokens (\<lambda>t. rt_userId t = userId \<and> rt_tokenIdHash t = hashRefreshTokenId cr tokenId)))"

definition logoutAll :: "string \<Rightarrow> (world, unit) prog" where
  "logoutAll userId = modify (delete_tokens (\<lambda>t. rt_userId t = userId))"

text \<open>
  The rotation. The lookup by hash takes no lock, so other handlers may run between it and the
  rest of the transaction, which holds the lock on the account's row: there the presented
  token is deleted by its row id, which fails when it is no longer stored, and its successor is
  inserted.
\<close>

definition rotateTx :: "auth_env \<Rightarrow> refresh_claims \<Rightarrow> refresh_token \<Rightarrow> world \<Rightarrow> exn + (string \<times> string) \<times> world" where
  "rotateTx env decoded stored w =
     (case find_user (rf_sub decoded) w of
        None \<Rightarrow> Inl (refreshTokenUnauthorized ''RefreshTokenInvalid'')
      | Some u \<Rightarrow>
          if u_mustChangePassword u \<noteq> (rf_temporaryAuth decoded = Some True)
          then Inl (refreshTokenUnauthorized ''RefreshTokenInvalid'')
          else
          seqE (assertLoginAllowed u) (\<lambda>_.
          if List.find (\<lambda>t. rt_id t = rt_id stored) (refreshTokens w) = None
          then Inl (refreshTokenUnauthorized ''RefreshTokenInvalid'')
          else
          seqE (insert_token (issued_row env (u_id u) w) (delete_tokens (\<lambda>t. rt_id t = rt_id stored) w)) (\<lambda>(_, w1).
          Inr ((jwt_sign (ae_crypto env) (accessClaims u (rf_temporaryAuth decoded = Some True)) None,
                signRefresh env (u_id u) (rf_temporaryAuth decoded = Some True)),
               delete_tokens (\<lambda>t. rt_userId t = rf_sub decoded \<and> rt_expiresAt t \<le> ofDate (dateNow w)) w1))))"

definition lookupToken :: "crypto \<Rightarrow> string \<Rightarrow> world \<Rightarrow> refresh_token option" where
  "lookupToken cr jti w =
     (case List.find (\<lambda>t. rt_tokenIdHash t = hashRefreshTokenId cr jti) (refreshTokens w) of
        None \<Rightarrow> None
      | Some stored \<Rightarrow> if getTime (rt_expiresAt stored) \<le> dateNow w then None else Some stored)"

definition rotateRefreshToken :: "auth_env \<Rightarrow> string \<Rightarrow> (world, string \<times> string) prog" where
  "rotateRefreshToken env raw =
     (case jwt_verify (ae_crypto env) raw of
        JwtExpired \<Rightarrow> Throw (refreshTokenUnauthorized ''RefreshTokenExpired'')
      | JwtInvalid \<Rightarrow> Throw (refreshTokenUnauthorized ''RefreshTokenInvalid'')
      | JwtOk payload \<Rightarrow>
          (case refreshClaims payload of
             None \<Rightarrow> Throw (refreshTokenUnauthorized
                       (if wrongPurpose payload then ''TokenWrongPurpose'' else ''RefreshTokenMalformed''))
           | Some decoded \<Rightarrow>
               bind (get (lookupToken (ae_crypto env) (rf_jti decoded))) (\<lambda>stored.
               case stored of
                 None \<Rightarrow> Throw (refreshTokenUnauthorized ''RefreshTokenExpired'')
               | Some row \<Rightarrow> atomically (rotateTx env decoded row))))"

record session_view =
  sn_id :: string
  sn_userId :: string
  sn_expiresAt :: timestamp
  sn_createdAt :: timestamp

definition toSession :: "refresh_token \<Rightarrow> session_view" where
  "toSession t = \<lparr>sn_id = rt_id t, sn_userId = rt_userId t, sn_expiresAt = rt_expiresAt t, sn_createdAt = rt_createdAt t\<rparr>"

definition getSessions :: "string \<Rightarrow> (world, session_view list) prog" where
  "getSessions userId =
     get (\<lambda>w. map toSession (filter (\<lambda>t. rt_userId t = userId \<and> ofDate (dateNow w) < rt_expiresAt t) (refreshTokens w)))"

definition deleteSingleSession :: "string \<Rightarrow> string \<Rightarrow> (world, unit) prog" where
  "deleteSingleSession userId tokenId = modify (delete_tokens (\<lambda>t. rt_userId t = userId \<and> rt_id t = tokenId))"

definition updateUserPassword :: "auth_env \<Rightarrow> string \<Rightarrow> string \<Rightarrow> string \<Rightarrow> string \<Rightarrow> bool
    \<Rightarrow> (world, public_user \<times> auth_tokens option) prog" where
  "updateUserPassword env userId oldPassword newPassword refreshToken temporaryAuth =
     bind (liftE (readRefreshTokenId (ae_crypto env) refreshToken)) (\<lambda>refreshTokenId.
     bind (updatePassword (ae_crypto env) userId oldPassword newPassword
             (if temporaryAuth then None else Some refreshTokenId) temporaryAuth) (\<lambda>user.
     if \<not> temporaryAuth then Return (user, None)
     else
     bind (findById userId) (\<lambda>updatedUser.
     case updatedUser of
       None \<Rightarrow> Throw unauthorized
     | Some u \<Rightarrow>
         bind (issueSession env u False) (\<lambda>session.
         Return (at_user session, Some session)))))"

text \<open>The provisioning address is made by the one-time-password package: the parameter \<open>generateURI\<close>.\<close>

definition setup2FA :: "(string \<Rightarrow> string \<Rightarrow> string) \<Rightarrow> auth_env \<Rightarrow> string \<Rightarrow> string \<Rightarrow> string
    \<Rightarrow> (world, string \<times> string) prog" where
  "setup2FA generateURI env iv secret userId =
     bind (findById userId) (\<lambda>user.
     case user of
       None \<Rightarrow> Throw unauthorized
     | Some u \<Rightarrow>
     if u_totpEnabled u then Throw (BadRequestException (Msg ''Two-factor authentication is already enabled''))
     else
     bind (atomically (update_users (\<lambda>x. u_id x = userId)
       (\<lambda>x. x\<lparr>u_totpSecret := Some (encrypt (ae_crypto env) iv secret (ae_key env))\<rparr>))) (\<lambda>_.
     Return (secret, generateURI (u_email u) secret)))"

definition confirm2FA :: "auth_env \<Rightarrow> string list \<Rightarrow> string \<Rightarrow> string \<Rightarrow> (world, string list) prog" where
  "confirm2FA env backupCodes userId token =
     bind (findById userId) (\<lambda>user.
     case user of
       None \<Rightarrow> Throw unauthorized
     | Some u \<Rightarrow>
     if u_totpEnabled u then Throw (BadRequestException (Msg ''Two-factor authentication is already enabled''))
     else if truthy (u_totpSecret u) = None then Throw (BadRequestException NoBody)
     else
     bind (liftE (isValidTotp env u token)) (\<lambda>valid.
     if \<not> valid then Throw (BadRequestException NoBody)
     else
     bind (atomically (update_users (\<lambda>x. u_id x = userId)
       (\<lambda>x. x\<lparr>u_totpBackupCodes := Some (stringify_array (map (bcrypt_hash (ae_crypto env)) backupCodes)),
              u_totpEnabled := True\<rparr>))) (\<lambda>_.
     Return backupCodes)))"

definition disable2FA :: "auth_env \<Rightarrow> string \<Rightarrow> string \<Rightarrow> (world, bool) prog" where
  "disable2FA env userId token =
     bind (findById userId) (\<lambda>user.
     case user of
       None \<Rightarrow> Throw (BadRequestException NoBody)
     | Some u \<Rightarrow>
     if \<not> u_totpEnabled u \<or> truthy (u_totpSecret u) = None then Throw (BadRequestException NoBody)
     else
     bind (liftE (isValidTotp env u token)) (\<lambda>validTotp.
     bind (if validTotp then Return False else verifyAndConsumeBackupCode (ae_crypto env) u token) (\<lambda>usedBackupCode.
     if \<not> validTotp \<and> \<not> usedBackupCode then Throw (BadRequestException NoBody)
     else
     bind (atomically (update_users (\<lambda>x. u_id x = userId)
       (\<lambda>x. x\<lparr>u_totpEnabled := False, u_totpSecret := None, u_totpBackupCodes := None\<rparr>))) (\<lambda>_.
     Return True))))"

section \<open>The guarantee of the atomic steps\<close>

lemma account_memory [simp]:
  "account_guar w (w\<lparr>twoFactorFailures := f\<rparr>)"
  "account_guar w (recordTwoFactorFailure uid w)"
  "account_guar w (prune now w)"
  "account_guar w (recordFailure cr ctx w)"
  "account_guar w (recordSuccess ctx w)"
  by (simp_all add: account_guar_def recordTwoFactorFailure_def prune_def recordFailure_def recordSuccess_def
      Let_def has_active_admin_def grants_ok_def)

lemma account_consume: "consumeTx u h w = Inr (x, w') \<Longrightarrow> account_guar w w'"
  unfolding consumeTx_def by (auto simp: seqE_Inr_iff split: option.splits elim!: account_update_users)

lemma account_consumeCode: "consumeCodeTx u st r w = Inr (x, w') \<Longrightarrow> account_guar w w'"
  unfolding consumeCodeTx_def by (auto simp: seqE_Inr_iff elim!: account_update_users)

lemma account_rotate: "rotateTx env d st w = Inr (x, w') \<Longrightarrow> account_guar w w'"
  unfolding rotateTx_def
  by (auto simp: seqE_Inr_iff split: option.splits if_splits
      intro!: account_guar_trans [OF account_guar_trans [OF account_delete_tokens] account_delete_tokens]
      elim!: account_insert_token)

lemma guar_auth_helpers [guar_simps]:
  "guar account_guar (issueSession env u t)"
  "guar account_guar (consumeTempPassword u)"
  "guar account_guar (assertTwoFactorNotLocked uid)"
  "guar account_guar (verifyAndConsumeBackupCode cr u tok)"
  "guar account_guar (assertAllowed cr c)"
  "guar account_guar (finishLogin ctx r)"
  "guar account_guar (failLogin cr ctx)"
  unfolding issueSession_def consumeTempPassword_def assertTwoFactorNotLocked_def verifyAndConsumeBackupCode_def
    assertAllowed_def finishLogin_def failLogin_def recordLoginSuccess_def recordLoginFailure_def sleep_def
  by (auto intro!: account_intros elim!: account_insert_token account_consume account_consumeCode
      simp: guar_simps split: option.splits if_splits prod.splits)

lemma guar_loginAccount [guar_simps]: "guar account_guar (loginAccount env ctx u p t)"
  unfolding loginAccount_def by (auto intro!: guar_intros simp: guar_simps)

lemma guar_loginUser [guar_simps]: "guar account_guar (loginUser env dto ctx)"
  unfolding loginUser_def Let_def
  by (auto intro!: guar_intros simp: guar_simps split: option.splits)

lemma guar_acceptCode [guar_simps]: "guar account_guar (acceptCode env u tok tmp)"
  unfolding acceptCode_def by (auto intro!: guar_intros simp: guar_simps)

lemma guar_completeTwoFactorLogin [guar_simps]: "guar account_guar (completeTwoFactorLogin env uid tok tmp fp)"
  unfolding completeTwoFactorLogin_def
  by (auto intro!: guar_intros simp: guar_simps split: option.splits)

lemma guar_auth_service [guar_simps]:
  "guar account_guar (registerUser cr cfg i rdto)"
  "guar account_guar (issueProviderSession env u)"
  "guar account_guar (logoutUser cr uid tok)"
  "guar account_guar (logoutAll uid)"
  "guar account_guar (rotateRefreshToken env tok)"
  "guar account_guar (getSessions uid)"
  "guar account_guar (deleteSingleSession uid tid)"
  "guar account_guar (updateUserPassword env uid op np tok tmp)"
  "guar account_guar (setup2FA gu env iv sec uid)"
  "guar account_guar (confirm2FA env codes uid tok)"
  "guar account_guar (disable2FA env uid tok)"
  unfolding registerUser_def issueProviderSession_def logoutUser_def logoutAll_def rotateRefreshToken_def
    getSessions_def deleteSingleSession_def updateUserPassword_def setup2FA_def confirm2FA_def disable2FA_def
  by (auto intro!: account_intros elim!: account_rotate account_update_users simp: guar_simps
      split: option.splits jwt_result.splits)

end
