(* ===== verification/AuthProperties.thy ===== *)
theory AuthProperties
  imports AuthService Lifecycle
begin

text \<open>
  Properties of the account services: refresh tokens that work once, the contract of credentials that are
  spent, what a ban and a reset do, and the accounts' invariants over every interleaving of their
  methods.
\<close>

section \<open>All account handlers\<close>

text \<open>
  The methods of \<open>UsersService\<close>, \<open>AdminService\<close> and \<open>AuthService\<close> with any arguments; \<open>fresh\<close> is a
  condition on the random values of the calls that issue refresh tokens, \<open>freshTemp\<close> one on the
  hashes of the temporary passwords that resets issue.
\<close>

inductive account_handler :: "(auth_env \<Rightarrow> bool) \<Rightarrow> (string \<Rightarrow> bool) \<Rightarrow> (world, unit) prog \<Rightarrow> bool"
  for fresh :: "auth_env \<Rightarrow> bool" and freshTemp :: "string \<Rightarrow> bool" where
  ah_listUsers: "account_handler fresh freshTemp (void (listUsers q))"
| ah_updateStatus: "account_handler fresh freshTemp (void (updateStatus uid st))"
| ah_updateRole: "account_handler fresh freshTemp (void (updateRole uid rl))"
| ah_listModPermissions: "account_handler fresh freshTemp (void (listModPermissions uid))"
| ah_grant: "account_handler fresh freshTemp (void (grantModPermission i uid gdto))"
| ah_revoke: "account_handler fresh freshTemp (void (revokeModPermission uid pid))"
| ah_reset: "freshTemp (bcrypt_hash cr tp) \<Longrightarrow> account_handler fresh freshTemp (void (resetPassword cr tp uid))"
| ah_removeTwoFactor: "account_handler fresh freshTemp (void (removeTwoFactor uid))"
| ah_updateProfile: "account_handler fresh freshTemp (void (updateProfile uid nm))"
| ah_register: "account_handler fresh freshTemp (void (registerUser cr cfg i rdto))"
| ah_login: "fresh env \<Longrightarrow> account_handler fresh freshTemp (void (loginUser env dto ctx))"
| ah_provider: "fresh env \<Longrightarrow> account_handler fresh freshTemp (void (issueProviderSession env u))"
| ah_twoFactor: "fresh env \<Longrightarrow> account_handler fresh freshTemp (void (completeTwoFactorLogin env uid tok tmp fp))"
| ah_logout: "account_handler fresh freshTemp (void (logoutUser cr uid tok))"
| ah_logoutAll: "account_handler fresh freshTemp (void (logoutAll uid))"
| ah_rotate: "fresh env \<Longrightarrow> account_handler fresh freshTemp (void (rotateRefreshToken env tok))"
| ah_getSessions: "account_handler fresh freshTemp (void (getSessions uid))"
| ah_deleteSession: "account_handler fresh freshTemp (void (deleteSingleSession uid tid))"
| ah_updatePassword: "fresh env \<Longrightarrow> account_handler fresh freshTemp (void (updateUserPassword env uid op np tok tmp))"
| ah_setup2FA: "account_handler fresh freshTemp (void (setup2FA gu env iv sec uid))"
| ah_confirm2FA: "account_handler fresh freshTemp (void (confirm2FA env codes uid tok))"
| ah_disable2FA: "account_handler fresh freshTemp (void (disable2FA env uid tok))"

lemma guar_account_handler: "account_handler fresh freshTemp p \<Longrightarrow> guar account_guar p"
  by (induction rule: account_handler.induct) (simp_all add: guar_simps)

lemma tick_account: "tick w w' \<Longrightarrow> has_active_admin w' = has_active_admin w \<and> grants_ok w' = grants_ok w"
  by (auto simp: tick_def has_active_admin_def grants_ok_def)

definition account_inv :: "world \<Rightarrow> bool" where
  "account_inv w \<longleftrightarrow> db_ok w \<and> has_active_admin w \<and> grants_ok w"

interpretation acct: step_invariant "account_handler fresh freshTemp" tick account_guar account_inv for fresh freshTemp
  by unfold_locales
    (auto simp: guar_account_handler account_guar_def account_inv_def tick_db_ok dest: tick_account)

section \<open>Credentials are not revived\<close>

text \<open>
  A stored refresh token is identified by the hash of its id, and by the id of its row; a
  temporary password of the account \<open>uid\<close>, by its own hash, is armed until its expiry time is
  cleared. Once no token with a hash in \<open>H\<close> or a row id in \<open>R\<close> is stored and no temporary password with a hash in \<open>T\<close> is armed, no step of a
  handler that issues none of them brings one back.
\<close>

definition has_token :: "string set \<Rightarrow> string set \<Rightarrow> world \<Rightarrow> bool" where
  "has_token H R w \<longleftrightarrow> (\<exists>t \<in> set (refreshTokens w). rt_tokenIdHash t \<in> H \<or> rt_id t \<in> R)"

definition is_armed :: "string \<Rightarrow> string set \<Rightarrow> user \<Rightarrow> bool" where
  "is_armed uid T u \<longleftrightarrow> u_id u = uid \<and> u_tempPasswordHash u \<in> Some ` T \<and> u_tempPasswordExpiresAt u \<noteq> None"

definition armed :: "string \<Rightarrow> string set \<Rightarrow> world \<Rightarrow> bool" where
  "armed uid T w \<longleftrightarrow> (\<exists>u \<in> set (users w). is_armed uid T u)"

definition credential_guar :: "string set \<Rightarrow> string set \<Rightarrow> string \<Rightarrow> string set \<Rightarrow> world \<Rightarrow> world \<Rightarrow> bool" where
  "credential_guar H R uid T w w' \<longleftrightarrow> (has_token H R w' \<longrightarrow> has_token H R w) \<and> (armed uid T w' \<longrightarrow> armed uid T w)"

definition fresh_id :: "string set \<Rightarrow> string set \<Rightarrow> auth_env \<Rightarrow> bool" where
  "fresh_id H R env \<longleftrightarrow> hashRefreshTokenId (ae_crypto env) (ae_jti env) \<notin> H \<and> ae_rowId env \<notin> R"

lemma cred_refl [simp]: "credential_guar H R uid T w w"
  by (simp add: credential_guar_def)

lemma cred_trans: "credential_guar H R uid T w w' \<Longrightarrow> credential_guar H R uid T w' w'' \<Longrightarrow> credential_guar H R uid T w w''"
  by (simp add: credential_guar_def)

lemma cred_same: "refreshTokens w' = refreshTokens w \<Longrightarrow> users w' = users w \<Longrightarrow> credential_guar H R uid T w w'"
  by (simp add: credential_guar_def has_token_def armed_def)

lemma cred_delete [simp]: "credential_guar H R uid T w (delete_tokens P w)"
  by (auto simp: credential_guar_def has_token_def armed_def delete_tokens_def)

lemma is_armed_touch [simp]: "is_armed uid T (touch w u) = is_armed uid T u"
  by (simp add: is_armed_def touch_def)

lemma cred_update_users:
  assumes "update_users P f w = Inr (rows, w')" and "\<And>u. P u \<Longrightarrow> is_armed uid T (f u) \<Longrightarrow> is_armed uid T u"
  shows "credential_guar H R uid T w w'"
proof -
  let ?g = "\<lambda>u. touch w (f u)"
  from assms(1) have w': "w' = w\<lparr>users := update_where P ?g (users w)\<rparr>"
    by (auto simp: update_users_def Let_def split: if_splits)
  have "\<exists>u \<in> set (users w). is_armed uid T u"
    if "v \<in> set (update_where P ?g (users w))" and "is_armed uid T v" for v
  proof -
    from that(1) obtain u where u: "u \<in> set (users w)" "v = (if P u then ?g u else u)"
      by (auto simp: update_where_def)
    then have "is_armed uid T u" using that(2) assms(2) [of u] by (cases "P u") auto
    with u(1) show ?thesis by blast
  qed
  then show ?thesis by (auto simp: w' credential_guar_def has_token_def armed_def)
qed

lemma cred_insert_token: "insert_token t w = Inr (x, w') \<Longrightarrow> rt_tokenIdHash t \<notin> H \<Longrightarrow> rt_id t \<notin> R \<Longrightarrow> credential_guar H R uid T w w'"
  by (auto simp: insert_token_def credential_guar_def has_token_def armed_def split: if_splits)

lemma cred_insert_user: "insert_user u w = Inr (x, w') \<Longrightarrow> u_tempPasswordHash u = None \<Longrightarrow> credential_guar H R uid T w w'"
  unfolding insert_user_def credential_guar_def has_token_def armed_def
  by (fastforce simp: is_armed_def split: if_splits)

lemma cred_memory [simp]:
  "credential_guar H R uid T w (w\<lparr>twoFactorFailures := f\<rparr>)"
  "credential_guar H R uid T w (recordTwoFactorFailure x w)"
  "credential_guar H R uid T w (prune now w)"
  "credential_guar H R uid T w (recordFailure cr ctx w)"
  "credential_guar H R uid T w (recordSuccess ctx w)"
  "credential_guar H R uid T w (delete_grants Q w)"
  by (rule cred_same; simp add: recordTwoFactorFailure_def prune_def recordFailure_def recordSuccess_def Let_def delete_grants_def)+

lemma cred_consume: "consumeTx u t w = Inr (x, w') \<Longrightarrow> credential_guar H R uid T w w'"
  unfolding consumeTx_def
  by (auto simp: seqE_Inr_iff is_armed_def split: option.splits elim!: cred_update_users)

lemma cred_consumeCode: "consumeCodeTx u st r w = Inr (x, w') \<Longrightarrow> credential_guar H R uid T w w'"
  unfolding consumeCodeTx_def by (auto simp: seqE_Inr_iff is_armed_def elim!: cred_update_users)

lemma cred_forced: "forced_change x t nh w = Inr (y, w') \<Longrightarrow> credential_guar H R uid T w w'"
  unfolding forced_change_def
  by (auto simp: seqE_Inr_iff is_armed_def split: option.splits intro!: cred_trans [OF _ cred_delete] elim!: cred_update_users)

lemma cred_reset: "resetTx x t e w = Inr (y, w') \<Longrightarrow> t \<notin> T \<Longrightarrow> credential_guar H R uid T w w'"
  unfolding resetTx_def
  by (auto simp: seqE_Inr_iff is_armed_def intro!: cred_trans [OF _ cred_delete] elim!: cred_update_users)

lemma cred_status:
  assumes "updateStatusTx x st w = Inr (y, w')"
  shows "credential_guar H R uid T w w'"
proof -
  from assms obtain rows w1 where "update_users (\<lambda>u. u_id u = x) (\<lambda>u. u\<lparr>u_status := st\<rparr>) w = Inr (rows, w1)"
    and w': "w' = w1 \<or> w' = delete_tokens (\<lambda>t. rt_userId t = x) w1"
    by (auto simp: updateStatusTx_def seqE_Inr_iff split: option.splits if_splits)
  then have "credential_guar H R uid T w w1" by (auto simp: is_armed_def elim!: cred_update_users)
  then show ?thesis using w' by (auto intro: cred_trans [OF _ cred_delete])
qed

lemma cred_role: "updateRoleTx x rl w = Inr (y, w') \<Longrightarrow> credential_guar H R uid T w w'"
  unfolding updateRoleTx_def
  by (auto simp: seqE_Inr_iff is_armed_def split: option.splits
      intro!: cred_trans [OF _ cred_memory(6)] elim!: cred_update_users)

lemma cred_grant:
  assumes "grantTx i x dto seen w = Inr (y, w')"
  shows "credential_guar H R uid T w w'"
proof -
  from assms obtain rows where "w' = w\<lparr>modPermissions := rows\<rparr>"
    unfolding grantTx_def Let_def
    by (cases "find_user x w"; cases "grant_scope dto") (auto simp: seqE_Inr_iff split: if_splits)
  then show ?thesis by (simp add: cred_same)
qed

lemma rotate_cases:
  assumes "rotateTx env d stored w = Inr (x, w')"
  obtains u w1 where "find_user (rf_sub d) w = Some u" and "u_status u = ACTIVE"
    and "\<exists>t \<in> set (refreshTokens w). rt_id t = rt_id stored"
    and "insert_token (issued_row env (u_id u) w) (delete_tokens (\<lambda>t. rt_id t = rt_id stored) w) = Inr ((), w1)"
    and "w' = delete_tokens (\<lambda>t. rt_userId t = rf_sub d \<and> rt_expiresAt t \<le> ofDate (dateNow w)) w1"
proof -
  obtain u where u: "find_user (rf_sub d) w = Some u"
    using assms by (cases "find_user (rf_sub d) w") (simp_all add: rotateTx_def)
  have p: "u_mustChangePassword u = (rf_temporaryAuth d = Some True)"
    using assms u by (auto simp: rotateTx_def split: if_splits)
  have act: "u_status u = ACTIVE"
    using assms u p by (cases "u_status u") (simp_all add: rotateTx_def assertLoginAllowed_def)
  have st: "List.find (\<lambda>t. rt_id t = rt_id stored) (refreshTokens w) \<noteq> None"
    using assms u p act by (auto simp: rotateTx_def assertLoginAllowed_def split: if_splits)
  obtain w1 where "insert_token (issued_row env (u_id u) w) (delete_tokens (\<lambda>t. rt_id t = rt_id stored) w) = Inr ((), w1)"
    and "w' = delete_tokens (\<lambda>t. rt_userId t = rf_sub d \<and> rt_expiresAt t \<le> ofDate (dateNow w)) w1"
    using assms st u p act
    by (cases "insert_token (issued_row env (u_id u) w) (delete_tokens (\<lambda>t. rt_id t = rt_id stored) w)")
      (auto simp: rotateTx_def assertLoginAllowed_def)
  from that [OF u act _ this] st show ?thesis by (auto simp: find_None_iff2)
qed

lemma cred_rotate:
  assumes "rotateTx env d stored w = Inr (x, w')" and "fresh_id H R env"
  shows "credential_guar H R uid T w w'"
proof -
  from assms(1) obtain u :: user and w1 where
    ins: "insert_token (issued_row env (u_id u) w) (delete_tokens (\<lambda>t. rt_id t = rt_id stored) w) = Inr ((), w1)"
    and w': "w' = delete_tokens (\<lambda>t. rt_userId t = rf_sub d \<and> rt_expiresAt t \<le> ofDate (dateNow w)) w1"
    by (rule rotate_cases) blast
  have "credential_guar H R uid T (delete_tokens (\<lambda>t. rt_id t = rt_id stored) w) w1"
    by (rule cred_insert_token [OF ins]) (use assms(2) in \<open>simp_all add: issued_row_def fresh_id_def\<close>)
  then show ?thesis unfolding w' by (blast intro: cred_trans cred_delete)
qed

lemma cred_log [simp]: "log_closed (credential_guar H R uid T)"
  by (simp add: log_closed_def credential_guar_def has_token_def armed_def)

lemma cred_get [guar_simps]: "guar (credential_guar H R uid T) (get f)"
  by (simp add: guar_get)

lemmas cred_intros = guar_intros guar_atomicallyI
lemmas cred_elims = cred_insert_token cred_insert_user cred_consume cred_consumeCode cred_forced cred_reset
  cred_status cred_role cred_grant cred_rotate cred_update_users

lemma cred_helpers [guar_simps]:
  "fresh_id H R env \<Longrightarrow> guar (credential_guar H R uid T) (issueSession env u t)"
  "guar (credential_guar H R uid T) (consumeTempPassword u)"
  "guar (credential_guar H R uid T) (assertTwoFactorNotLocked x)"
  "guar (credential_guar H R uid T) (verifyAndConsumeBackupCode cr u tok)"
  "guar (credential_guar H R uid T) (assertAllowed cr c)"
  "guar (credential_guar H R uid T) (finishLogin ctx r)"
  "guar (credential_guar H R uid T) (failLogin cr ctx)"
  "guar (credential_guar H R uid T) (findById x)"
  "guar (credential_guar H R uid T) (findByIdentifier n)"
  "guar (credential_guar H R uid T) (loadUser x)"
  unfolding issueSession_def consumeTempPassword_def assertTwoFactorNotLocked_def verifyAndConsumeBackupCode_def
    assertAllowed_def finishLogin_def failLogin_def recordLoginSuccess_def recordLoginFailure_def sleep_def
    findById_def findByIdentifier_def loadUser_def
  by (auto intro!: cred_intros elim!: cred_elims
      simp: guar_simps fresh_id_def issued_row_def split: option.splits if_splits prod.splits)

lemma cred_admin [guar_simps]:
  "guar (credential_guar H R uid T) (listUsers q)"
  "guar (credential_guar H R uid T) (listModPermissions x)"
  "guar (credential_guar H R uid T) (updateStatus x st)"
  "guar (credential_guar H R uid T) (updateRole x rl)"
  "guar (credential_guar H R uid T) (grantModPermission i x dto)"
  "guar (credential_guar H R uid T) (revokeModPermission x pid)"
  "bcrypt_hash cr tp \<notin> T \<Longrightarrow> guar (credential_guar H R uid T) (resetPassword cr tp x)"
  "guar (credential_guar H R uid T) (removeTwoFactor x)"
  unfolding listUsers_def listModPermissions_def updateStatus_def updateRole_def grantModPermission_def
    revokeModPermission_def resetPassword_def removeTwoFactor_def Let_def
  by (auto intro!: cred_intros elim!: cred_elims simp: guar_simps is_armed_def split: option.splits if_splits)

lemma cred_updatePassword [guar_simps]: "guar (credential_guar H R uid T) (updatePassword cr x op np tid tmp)"
  unfolding updatePassword_def
  by (auto intro!: cred_intros elim!: cred_elims simp: guar_simps is_armed_def split: option.splits)

lemma cred_loginAccount [guar_simps]: "fresh_id H R env \<Longrightarrow> guar (credential_guar H R uid T) (loginAccount env ctx u p t)"
  unfolding loginAccount_def by (auto intro!: guar_intros simp: guar_simps)

lemma cred_login [guar_simps]: "fresh_id H R env \<Longrightarrow> guar (credential_guar H R uid T) (loginUser env dto ctx)"
  unfolding loginUser_def Let_def
  by (auto intro!: guar_intros simp: guar_simps split: option.splits)

lemma cred_acceptCode [guar_simps]: "fresh_id H R env \<Longrightarrow> guar (credential_guar H R uid T) (acceptCode env u tok tmp)"
  unfolding acceptCode_def by (auto intro!: guar_intros simp: guar_simps)

lemma cred_completeTwoFactor [guar_simps]:
  "fresh_id H R env \<Longrightarrow> guar (credential_guar H R uid T) (completeTwoFactorLogin env x tok tmp fp)"
  unfolding completeTwoFactorLogin_def
  by (auto intro!: guar_intros simp: guar_simps split: option.splits)

lemma cred_auth [guar_simps]:
  "guar (credential_guar H R uid T) (updateProfile x nm)"
  "guar (credential_guar H R uid T) (registerUser cr cfg i rdto)"
  "fresh_id H R env \<Longrightarrow> guar (credential_guar H R uid T) (issueProviderSession env u)"
  "guar (credential_guar H R uid T) (logoutUser cr x tok)"
  "guar (credential_guar H R uid T) (logoutAll x)"
  "fresh_id H R env \<Longrightarrow> guar (credential_guar H R uid T) (rotateRefreshToken env tok)"
  "guar (credential_guar H R uid T) (getSessions x)"
  "guar (credential_guar H R uid T) (deleteSingleSession x tid)"
  "fresh_id H R env \<Longrightarrow> guar (credential_guar H R uid T) (updateUserPassword env x op np tok tmp)"
  "guar (credential_guar H R uid T) (setup2FA gu env iv sec x)"
  "guar (credential_guar H R uid T) (confirm2FA env codes x tok)"
  "guar (credential_guar H R uid T) (disable2FA env x tok)"
  unfolding registerUser_def issueProviderSession_def logoutUser_def logoutAll_def rotateRefreshToken_def createUser_def
    getSessions_def deleteSingleSession_def updateUserPassword_def setup2FA_def confirm2FA_def disable2FA_def updateProfile_def
  by (auto intro!: cred_intros elim!: cred_elims simp: guar_simps is_armed_def new_user_def
      split: option.splits jwt_result.splits)

lemma cred_handler:
  "account_handler (fresh_id H R) (\<lambda>t. t \<notin> T) p \<Longrightarrow> guar (credential_guar H R uid T) p"
  by (induction rule: account_handler.induct) (simp_all add: guar_simps)

lemma tick_credentials: "tick w w' \<Longrightarrow> has_token H R w' = has_token H R w \<and> armed uid T w' = armed uid T w"
  by (auto simp: tick_def has_token_def armed_def)

section \<open>Credentials work once\<close>

text \<open>Deleting the row that was found by the hash of a token leaves none with that hash.\<close>

lemma rotate_spends:
  assumes "rotateTx env d stored w = Inr (x, w')" and "db_ok w" and "stored \<in> set (refreshTokens w)"
    and "fresh_id {rt_tokenIdHash stored} {rt_id stored} env"
  shows "\<not> has_token {rt_tokenIdHash stored} {rt_id stored} w'"
proof -
  let ?H = "{rt_tokenIdHash stored}" and ?R = "{rt_id stored}"
  from assms(1) obtain u :: user and w1 where
    ins: "insert_token (issued_row env (u_id u) w) (delete_tokens (\<lambda>t. rt_id t = rt_id stored) w) = Inr ((), w1)"
    and w': "w' = delete_tokens (\<lambda>t. rt_userId t = rf_sub d \<and> rt_expiresAt t \<le> ofDate (dateNow w)) w1"
    by (rule rotate_cases) blast
  have dist: "distinct (map rt_tokenIdHash (refreshTokens w))"
    using assms(2) by (simp add: db_ok_def refreshTokens_unique_def)
  have "t = stored" if "t \<in> set (refreshTokens w)" "rt_tokenIdHash t = rt_tokenIdHash stored" for t
    using distinct_key_unique [OF dist that(1) assms(3)] that(2) by simp
  then have "\<not> has_token ?H ?R (delete_tokens (\<lambda>t. rt_id t = rt_id stored) w)"
    by (auto simp: has_token_def delete_tokens_def)
  moreover have "credential_guar ?H ?R [] {} (delete_tokens (\<lambda>t. rt_id t = rt_id stored) w) w1"
    by (rule cred_insert_token [OF ins]) (use assms(4) in \<open>simp_all add: issued_row_def fresh_id_def\<close>)
  moreover have "credential_guar ?H ?R [] {} w1 w'" unfolding w' by (rule cred_delete)
  ultimately show ?thesis by (auto simp: credential_guar_def)
qed

interpretation refresh: single_use "account_handler (fresh_id {h} {rid}) (\<lambda>_. True)" tick
    "credential_guar {h} {rid} [] {}" "has_token {h} {rid}"
    "\<lambda>(env, d, stored) w. db_ok w \<and> stored \<in> set (refreshTokens w) \<and> rt_tokenIdHash stored = h \<and> rt_id stored = rid
       \<and> fresh_id {h} {rid} env"
    "\<lambda>(env, d, stored). rotateTx env d (stored\<lparr>rt_id := rid\<rparr>)" for h rid
proof unfold_locales
  show "guar (credential_guar {h} {rid} [] {}) p" if "account_handler (fresh_id {h} {rid}) (\<lambda>_. True) p" for p
    using that cred_handler [where T = "{}"] by simp
  show "\<not> has_token {h} {rid} w'" if "credential_guar {h} {rid} [] {} w w'" "\<not> has_token {h} {rid} w" for w w'
    using that by (simp add: credential_guar_def)
  show "\<not> has_token {h} {rid} w'" if "tick w w'" "\<not> has_token {h} {rid} w" for w w'
    using that tick_credentials by simp
  show "has_token {h} {rid} w" if "(case p of (env, d, stored) \<Rightarrow> rotateTx env d (stored\<lparr>rt_id := rid\<rparr>)) w = Inr x" for p w x
  proof -
    obtain env d stored where p: "p = (env, d, stored)" by (cases p)
    obtain y w' where x: "x = (y, w')" by (cases x)
    from that have "rotateTx env d (stored\<lparr>rt_id := rid\<rparr>) w = Inr (y, w')" by (simp add: p x)
    then show ?thesis by (rule rotate_cases) (auto simp: has_token_def)
  qed
  show "\<not> has_token {h} {rid} w'"
    if "(case p of (env, d, stored) \<Rightarrow> \<lambda>w. db_ok w \<and> stored \<in> set (refreshTokens w) \<and> rt_tokenIdHash stored = h
           \<and> rt_id stored = rid \<and> fresh_id {h} {rid} env) w"
      and "(case p of (env, d, stored) \<Rightarrow> rotateTx env d (stored\<lparr>rt_id := rid\<rparr>)) w = Inr (y, w')" for p w y w'
  proof -
    obtain env d stored where p: "p = (env, d, stored)" by (cases p)
    from that(1) have *: "db_ok w" "stored \<in> set (refreshTokens w)" "rt_tokenIdHash stored = h" "rt_id stored = rid"
      "fresh_id {h} {rid} env" by (simp_all add: p)
    then have "rotateTx env d stored w = Inr (y, w')" using that(2) by (auto simp: p)
    from rotate_spends [OF this *(1,2)] *(3-5) show ?thesis by simp
  qed
qed

lemma lookup_found:
  "lookupToken cr j w = Some t \<Longrightarrow> t \<in> set (refreshTokens w) \<and> rt_tokenIdHash t = hashRefreshTokenId cr j"
  by (auto simp: lookupToken_def split: option.splits if_splits dest!: find_Some_mem)

text \<open>
  C3. A refresh token is exchanged at most once. After a rotation has succeeded, whatever
  requests are then served and however their steps interleave, the same token is refused: a
  request that presents it finds nothing, and one that had looked it up before the rotation
  committed fails in its transaction, as long as no later call draws the same random ids.
\<close>

theorem refresh_token_single_use:
  assumes "db_ok w" and "fst (run (rotateRefreshToken env tok) w) = Inr pair"
    and "jwt_verify (ae_crypto env) tok = JwtOk payload" and "refreshClaims payload = Some claims"
    and "lookupToken (ae_crypto env) (rf_jti claims) w = Some stored"
    and "fresh_id {rt_tokenIdHash stored} {rt_id stored} env"
    and "reachable (account_handler (fresh_id {rt_tokenIdHash stored} {rt_id stored}) (\<lambda>_. True)) tick
           (snd (run (rotateRefreshToken env tok) w)) c"
    and "ae_crypto env2 = ae_crypto env"
  shows "run (rotateRefreshToken env2 tok) (fst c) = (Inl (refreshTokenUnauthorized ''RefreshTokenExpired''), fst c)
       \<and> (\<exists>e. rotateTx env2 claims stored (fst c) = Inl e)"
proof -
  let ?w' = "snd (run (rotateRefreshToken env tok) w)"
  have "run (rotateRefreshToken env tok) w = (Inr pair, ?w')" using assms(2) by (simp add: prod_eq_iff)
  then have rot: "rotateTx env claims stored w = Inr (pair, ?w')"
    using assms(3-5) by (simp add: rotateRefreshToken_def run_bind run_atomically_Inr)
  have st: "stored \<in> set (refreshTokens w)" "rt_tokenIdHash stored = hashRefreshTokenId (ae_crypto env) (rf_jti claims)"
    using lookup_found [OF assms(5)] by simp_all
  have later: "\<exists>e. rotateTx env2 claims stored (fst c) = Inl e"
    using refresh.consumed_once [where p = "(env, claims, stored)" and q = "(env2, claims, stored)", OF _ _ assms(7)]
      rot st assms(1,6) by simp
  have "\<not> has_token {rt_tokenIdHash stored} {rt_id stored} (fst c)"
    using refresh.reachable_inv [OF assms(7)] rotate_spends [OF rot assms(1) st(1) assms(6)] by blast
  then have "List.find (\<lambda>t. rt_tokenIdHash t = hashRefreshTokenId (ae_crypto env) (rf_jti claims)) (refreshTokens (fst c)) = None"
    by (auto simp: find_None_iff2 has_token_def st(2))
  then show ?thesis
    using later assms(3,4,8) by (simp add: rotateRefreshToken_def run_bind lookupToken_def)
qed

definition sample_env :: "string \<Rightarrow> auth_env" where
  "sample_env j = \<lparr>ae_crypto = sample_crypto, ae_ttl = \<lparr>tt_expiresIn = ''7d'', tt_milliseconds = 604800000\<rparr>,
     ae_key = ''k'', ae_jti = j, ae_rowId = ''row-'' @ j\<rparr>"

definition session_row :: refresh_token where
  "session_row = \<lparr>rt_id = ''row-a'', rt_tokenIdHash = ''xa'', rt_userId = ''bob'',
     rt_expiresAt = ofDate 600000, rt_createdAt = 0\<rparr>"

definition session_world :: world where
  "session_world = sample_world\<lparr>refreshTokens := [session_row]\<rparr>"

lemma sample_rotation:
  "(case run (rotateRefreshToken (sample_env ''b'') ''refresh.bob.a'') session_world of (Inr p, w) \<Rightarrow> True | _ \<Rightarrow> False)"
  by code_simp

lemma sample_env_crypto: "ae_crypto (sample_env j) = sample_crypto"
  by (simp add: sample_env_def)

lemma sample_claims:
  "(case jwt_verify sample_crypto ''refresh.bob.a'' of JwtOk p \<Rightarrow> map_option rf_jti (refreshClaims p) | _ \<Rightarrow> None) = Some ''a''"
  by code_simp

theorem refresh_token_single_use_witness:
  "run (rotateRefreshToken (sample_env ''c'') ''refresh.bob.a'')
          (snd (run (rotateRefreshToken (sample_env ''b'') ''refresh.bob.a'') session_world))
        = (Inl (refreshTokenUnauthorized ''RefreshTokenExpired''),
           snd (run (rotateRefreshToken (sample_env ''b'') ''refresh.bob.a'') session_world))"
proof -
  let ?w' = "snd (run (rotateRefreshToken (sample_env ''b'') ''refresh.bob.a'') session_world)"
  from sample_rotation obtain pr where run: "fst (run (rotateRefreshToken (sample_env ''b'') ''refresh.bob.a'') session_world) = Inr pr"
    by (auto split: prod.splits sum.splits)
  from sample_claims obtain payload claims where claims:
      "jwt_verify (ae_crypto (sample_env ''b'')) ''refresh.bob.a'' = JwtOk payload"
      "refreshClaims payload = Some claims" "rf_jti claims = ''a''"
    by (auto simp: sample_env_def split: jwt_result.splits)
  have look: "lookupToken (ae_crypto (sample_env ''b'')) (rf_jti claims) session_world = Some session_row"
    unfolding claims(3) sample_env_crypto
    by (simp add: lookupToken_def session_world_def session_row_def hashRefreshTokenId_def sample_crypto_def
        dateNow_def sample_world_def empty_world_def getTime_def ofDate_def)
  have "db_ok session_world" by code_simp
  moreover have "fresh_id {rt_tokenIdHash session_row} {rt_id session_row} (sample_env ''b'')"
    by (simp add: fresh_id_def sample_env_def sample_crypto_def hashRefreshTokenId_def session_row_def)
  ultimately show ?thesis
    using refresh_token_single_use [OF _ run claims(1,2) look _ reach_init] by (simp add: sample_env_crypto)
qed

text \<open>The temporary password of a reset account: the first login with it clears its expiry time.\<close>

lemma consume_temp:
  assumes "consumeTx u th w = Inr (x, w')"
  shows "armed (u_id u) {th} w" and "users_unique (users w) \<Longrightarrow> \<not> armed (u_id u) {th} w'"
proof -
  let ?P = "\<lambda>x. u_id x = u_id u \<and> u_mustChangePassword x \<and> u_tempPasswordHash x = Some th
                 \<and> (case u_tempPasswordExpiresAt x of None \<Rightarrow> False | Some e \<Rightarrow> ofDate (dateNow w) < e)"
  let ?f = "\<lambda>x. touch w (x\<lparr>u_tempPasswordExpiresAt := None\<rparr>)"
  from assms obtain rows w1 where u: "update_users ?P (\<lambda>x. x\<lparr>u_tempPasswordExpiresAt := None\<rparr>) w = Inr (rows, w1)"
    and c: "(case first_row rows of None \<Rightarrow> Inl loginFailed | Some _ \<Rightarrow> Inr ((), w1)) = Inr (x, w')"
    unfolding consumeTx_def seqE_Inr_iff by auto
  from c obtain r where r: "first_row rows = Some r" and "w1 = w'" by (cases "first_row rows") auto
  with u have up: "rows = map ?f (filter ?P (users w))" "w' = w\<lparr>users := update_where ?P ?f (users w)\<rparr>"
    by (simp_all add: update_users_def Let_def split: if_splits)
  from r up(1) obtain v where v: "v \<in> set (users w)" "?P v" by (auto dest!: first_row_mem)
  then show "armed (u_id u) {th} w" by (auto simp: armed_def is_armed_def split: option.splits)
  assume "users_unique (users w)"
  then have dist: "distinct (map u_id (users w))" by (simp add: users_unique_def)
  have "\<not> is_armed (u_id u) {th} y" if "y \<in> set (users w')" for y
  proof -
    from that up(2) obtain z where z: "z \<in> set (users w)" "y = (if ?P z then ?f z else z)"
      by (auto simp: update_where_def)
    show ?thesis
    proof (cases "u_id z = u_id u")
      case True
      then have "z = v" using distinct_key_unique [OF dist z(1) v(1)] v(2) by simp
      then show ?thesis using z(2) v(2) by (simp add: is_armed_def touch_def)
    next
      case False
      then show ?thesis using z(2) by (simp add: is_armed_def)
    qed
  qed
  then show "\<not> armed (u_id u) {th} w'" by (auto simp: armed_def)
qed

interpretation temporary: single_use "account_handler (\<lambda>_. True) (\<lambda>t. t \<noteq> th)" tick "credential_guar {} {} uid {th}"
    "armed uid {th}" "\<lambda>_. db_ok" "\<lambda>u. consumeTx (u\<lparr>u_id := uid\<rparr>) th" for uid th
proof unfold_locales
  show "guar (credential_guar {} {} uid {th}) p" if "account_handler (\<lambda>_. True) (\<lambda>t. t \<noteq> th) p" for p
  proof -
    have "fresh_id {} {} = (\<lambda>_. True)" by (simp add: fresh_id_def fun_eq_iff)
    then show ?thesis using that cred_handler [where H = "{}" and R = "{}" and T = "{th}"] by simp
  qed
  show "\<not> armed uid {th} w'" if "credential_guar {} {} uid {th} w w'" "\<not> armed uid {th} w" for w w'
    using that by (simp add: credential_guar_def)
  show "\<not> armed uid {th} w'" if "tick w w'" "\<not> armed uid {th} w" for w w'
    using that tick_credentials by simp
  show "armed uid {th} w" if "consumeTx (u\<lparr>u_id := uid\<rparr>) th w = Inr x" for u w x
    using consume_temp(1) [where u = "u\<lparr>u_id := uid\<rparr>"] that by (cases x) simp
  show "\<not> armed uid {th} w'" if "db_ok w" "consumeTx (u\<lparr>u_id := uid\<rparr>) th w = Inr (y, w')" for u w y w'
    using consume_temp(2) [OF that(2)] that(1) by (simp add: db_ok_def)
qed

definition reset_user :: user where
  "reset_user = (sample_user ''bob'' USER)\<lparr>u_tempPasswordHash := Some ''h:tmp'', u_tempPasswordExpiresAt := Some (ofDate 600000),
     u_mustChangePassword := True\<rparr>"

definition reset_world :: world where
  "reset_world = sample_world\<lparr>users := [sample_user ''root'' ADMIN, reset_user]\<rparr>"

end
