(* ===== verification/LoginProperties.thy ===== *)
theory LoginProperties
  imports AuthProperties
begin

text \<open>
  What a session requires: the password or the temporary credential at login, the second factor
  with its lockout, what a change of password leaves behind, and that a temporary password opens one session.
\<close>

section \<open>Lockout of the second factor\<close>

definition tf_count :: "string \<Rightarrow> (string \<times> two_factor_failure) list \<Rightarrow> int" where
  "tf_count uid fs = (case map_of fs uid of None \<Rightarrow> 0 | Some f \<Rightarrow> tf_failures f)"

definition tf_start :: "string \<Rightarrow> (string \<times> two_factor_failure) list \<Rightarrow> int option" where
  "tf_start uid fs = map_option tf_firstFailureAt (map_of fs uid)"

text \<open>The failures of the second factor are a windowed failure counter, like those of the password.\<close>

interpretation second_factor: failure_counter tf_bump tf_count tf_start "\<lambda>_. True" TWO_FACTOR_ATTEMPT_WINDOW_MS
  by unfold_locales (auto simp: tf_bump_def Let_def tf_count_def tf_start_def update_conv)

text \<open>
  Attempts at the second factor of an account, each with its time and code, as they run.
\<close>

definition tf_attempts :: "auth_env \<Rightarrow> string \<Rightarrow> bool \<Rightarrow> string option \<Rightarrow> (int \<times> string) list \<Rightarrow> world \<Rightarrow> world" where
  "tf_attempts env uid tmp fp tries w =
     fold (\<lambda>(t, tok) w. snd (run (completeTwoFactorLogin env uid tok tmp fp) (w\<lparr>clock := ofDate t\<rparr>))) tries w"

text \<open>A code that is neither valid now nor one of the stored backup codes.\<close>

definition wrong_code :: "auth_env \<Rightarrow> user \<Rightarrow> string \<Rightarrow> bool" where
  "wrong_code env u tok \<longleftrightarrow> isValidTotp env u tok = Inr False
     \<and> (case truthy (u_totpBackupCodes u) of None \<Rightarrow> True | Some stored \<Rightarrow>
          (case parse_string_array stored of None \<Rightarrow> True | Some codes \<Rightarrow> \<not> list_ex (bcrypt_compare (ae_crypto env) tok) codes))"

text \<open>The account has the second factor enabled and may try it, at any of the given times.\<close>

definition may_try :: "crypto \<Rightarrow> user \<Rightarrow> bool \<Rightarrow> string option \<Rightarrow> int \<Rightarrow> bool" where
  "may_try cr u tmp fp t \<longleftrightarrow> u_mustChangePassword u = tmp \<and> \<not> (tmp \<and> staleCredential cr t u fp)"

definition tf_enabled :: "user \<Rightarrow> bool" where
  "tf_enabled u \<longleftrightarrow> u_totpEnabled u \<and> truthy (u_totpSecret u) \<noteq> None \<and> u_status u = ACTIVE"

definition tf_unlocked :: "string \<Rightarrow> (string \<times> two_factor_failure) list \<Rightarrow> bool" where
  "tf_unlocked uid fs \<longleftrightarrow> (\<forall>f. map_of fs uid = Some f \<longrightarrow> tf_lockedUntil f = None)"

definition tf_locked :: "string \<Rightarrow> int \<Rightarrow> (string \<times> two_factor_failure) list \<Rightarrow> bool" where
  "tf_locked uid l fs \<longleftrightarrow> (\<exists>f. map_of fs uid = Some f \<and> tf_lockedUntil f = Some l)"

lemma wrong_code_consumes_nothing:
  "wrong_code env u tok \<Longrightarrow> verifyAndConsumeBackupCode (ae_crypto env) u tok = Return False"
  by (auto simp: wrong_code_def verifyAndConsumeBackupCode_def list_ex_iff split: option.splits dest: find_Some_mem)

text \<open>An attempt with a wrong code records a failure and changes nothing else.\<close>

lemma run_wrong_attempt:
  assumes "find_user uid w = Some u" and "tf_enabled u" and "may_try (ae_crypto env) u tmp fp (dateNow w)" and "wrong_code env u tok"
    and "tf_unlocked uid (twoFactorFailures w)"
  shows "snd (run (completeTwoFactorLogin env uid tok tmp fp) w) = recordTwoFactorFailure uid w"
proof -
  have id: "u_id u = uid" using find_user_mem [OF assms(1)] by simp
  have lock: "run (assertTwoFactorNotLocked uid) w = (Inr (), w)"
    using assms(5) by (auto simp: assertTwoFactorNotLocked_def run_atomically tf_unlocked_def split: option.splits)
  show ?thesis
    using assms(1-4) wrong_code_consumes_nothing [OF assms(4)]
    by (auto simp: completeTwoFactorLogin_def findById_def run_bind tf_enabled_def may_try_def assertLoginAllowed_def run_liftE
        id lock acceptCode_def wrong_code_def)
qed

lemma run_locked_attempt:
  assumes "find_user uid w = Some u" and "tf_enabled u" and "tf_locked uid l (twoFactorFailures w)" and "dateNow w < l" and "l \<noteq> 0"
  shows "run (completeTwoFactorLogin env uid tok tmp fp) w = (Inl twoFactorLocked, w)"
proof -
  have id: "u_id u = uid" using find_user_mem [OF assms(1)] by simp
  show ?thesis using assms
    by (auto simp: completeTwoFactorLogin_def findById_def run_bind tf_enabled_def assertLoginAllowed_def run_liftE id
        assertTwoFactorNotLocked_def run_atomically tf_locked_def)
qed

lemma find_user_clock [simp]: "find_user uid (w\<lparr>clock := c\<rparr>) = find_user uid w"
  by (simp add: find_user_def)

lemma wrong_attempts:
  assumes "find_user uid w = Some u" and "tf_enabled u" and "tf_unlocked uid (twoFactorFailures w)"
    and "tf_start uid (twoFactorFailures w) = Some t0" and "tf_count uid (twoFactorFailures w) + int (length as) < TWO_FACTOR_FAILURE_LIMIT"
    and "\<forall>(t, tok) \<in> set as. t0 \<le> t \<and> t - t0 < TWO_FACTOR_ATTEMPT_WINDOW_MS \<and> may_try (ae_crypto env) u tmp fp t \<and> wrong_code env u tok"
  shows "find_user uid (tf_attempts env uid tmp fp as w) = Some u
    \<and> tf_unlocked uid (twoFactorFailures (tf_attempts env uid tmp fp as w))
    \<and> tf_start uid (twoFactorFailures (tf_attempts env uid tmp fp as w)) = Some t0
    \<and> tf_count uid (twoFactorFailures (tf_attempts env uid tmp fp as w)) = tf_count uid (twoFactorFailures w) + int (length as)"
  using assms
proof (induction as arbitrary: w)
  case (Cons a as)
  obtain t tok where a: "a = (t, tok)" by force
  let ?w = "w\<lparr>clock := ofDate t\<rparr>" and ?fs = "twoFactorFailures w"
  have t: "t0 \<le> t" "t - t0 < TWO_FACTOR_ATTEMPT_WINDOW_MS" "may_try (ae_crypto env) u tmp fp t" "wrong_code env u tok"
    using Cons.prems(6) by (auto simp: a)
  have now: "dateNow ?w = t" by (simp add: dateNow_def)
  have run: "snd (run (completeTwoFactorLogin env uid tok tmp fp) ?w) = recordTwoFactorFailure uid ?w" (is "_ = ?w1")
    by (rule run_wrong_attempt [of _ _ u]) (use Cons.prems t now in simp_all)
  have fs: "twoFactorFailures ?w1 = tf_bump uid t ?fs" and u1: "find_user uid ?w1 = Some u"
    using Cons.prems(1) by (simp_all add: recordTwoFactorFailure_def now find_user_def)
  have b: "tf_count uid (tf_bump uid t ?fs) = tf_count uid ?fs + 1" "tf_start uid (tf_bump uid t ?fs) = Some t0"
    using second_factor.bump_again [OF TrueI Cons.prems(4) t(1,2)] by simp_all
  have "tf_unlocked uid (tf_bump uid t ?fs)"
    using Cons.prems(4,5) t(2) by (auto simp: tf_unlocked_def tf_bump_def Let_def update_conv tf_start_def tf_count_def)
  from Cons.IH [OF u1 Cons.prems(2)] this b fs Cons.prems(5,6) show ?case
    by (simp add: tf_attempts_def a run)
qed (simp add: tf_attempts_def)

lemma locked_attempts:
  assumes "find_user uid w = Some u" and "tf_enabled u" and "tf_locked uid l (twoFactorFailures w)" and "l \<noteq> 0"
    and "\<forall>(t, tok) \<in> set as. t < l"
  shows "find_user uid (tf_attempts env uid tmp fp as w) = Some u
    \<and> twoFactorFailures (tf_attempts env uid tmp fp as w) = twoFactorFailures w"
  using assms
proof (induction as arbitrary: w)
  case (Cons a as)
  obtain t tok where a: "a = (t, tok)" by force
  let ?w = "w\<lparr>clock := ofDate t\<rparr>"
  have "run (completeTwoFactorLogin env uid tok tmp fp) ?w = (Inl twoFactorLocked, ?w)"
    by (rule run_locked_attempt [of _ _ u l]) (use Cons.prems in \<open>auto simp: a dateNow_def\<close>)
  with Cons.IH [of ?w] Cons.prems show ?case by (simp add: tf_attempts_def a)
qed (simp add: tf_attempts_def)

lemma tf_attempts_append: "tf_attempts env uid tmp fp (as @ bs) w = tf_attempts env uid tmp fp bs (tf_attempts env uid tmp fp as w)"
  by (simp add: tf_attempts_def)

lemma tf_bump_locks:
  assumes "tf_start uid fs = Some t0" and "t - t0 < TWO_FACTOR_ATTEMPT_WINDOW_MS"
    and "TWO_FACTOR_FAILURE_LIMIT \<le> tf_count uid fs + 1"
  shows "tf_locked uid (t + TWO_FACTOR_LOCKOUT_MS) (tf_bump uid t fs)"
  using assms by (auto simp: tf_locked_def tf_start_def tf_count_def tf_bump_def Let_def update_conv)

text \<open>Five wrong codes within one window lock the account until the lockout after the fifth has passed.\<close>

lemma five_wrong_attempts_lock:
  assumes "find_user uid w = Some u" and "tf_enabled u" and "map_of (twoFactorFailures w) uid = None" and "length as = 3"
    and "\<forall>(x, tok) \<in> set ((t0, c0) # as @ [(t, c)]). t0 \<le> x \<and> x - t0 < TWO_FACTOR_ATTEMPT_WINDOW_MS
           \<and> may_try (ae_crypto env) u tmp fp x \<and> wrong_code env u tok"
  shows "find_user uid (tf_attempts env uid tmp fp ((t0, c0) # as @ [(t, c)]) w) = Some u
    \<and> tf_locked uid (t + TWO_FACTOR_LOCKOUT_MS) (twoFactorFailures (tf_attempts env uid tmp fp ((t0, c0) # as @ [(t, c)]) w))"
proof -
  let ?w1 = "recordTwoFactorFailure uid (w\<lparr>clock := ofDate t0\<rparr>)"
  let ?w2 = "tf_attempts env uid tmp fp as ?w1"
  have now: "dateNow (v\<lparr>clock := ofDate x\<rparr>) = x" for v x by (simp add: dateNow_def)
  have "snd (run (completeTwoFactorLogin env uid c0 tmp fp) (w\<lparr>clock := ofDate t0\<rparr>)) = ?w1"
    by (rule run_wrong_attempt [of _ _ u]) (use assms in \<open>auto simp: now tf_unlocked_def\<close>)
  then have att: "tf_attempts env uid tmp fp ((t0, c0) # as @ [(t, c)]) w = tf_attempts env uid tmp fp [(t, c)] ?w2"
    by (simp add: tf_attempts_def)
  have fs1: "twoFactorFailures ?w1 = tf_bump uid t0 (twoFactorFailures w)" "find_user uid ?w1 = Some u"
    using assms(1) by (simp_all add: recordTwoFactorFailure_def now find_user_def)
  have "tf_start uid (twoFactorFailures w) = None" using assms(3) by (simp add: tf_start_def)
  from second_factor.bump_fresh [OF TrueI this, of t0]
  have b: "tf_count uid (twoFactorFailures ?w1) = 1" "tf_start uid (twoFactorFailures ?w1) = Some t0" by (simp_all add: fs1)
  have un: "tf_unlocked uid (twoFactorFailures ?w1)"
    using assms(3) by (simp add: fs1 tf_unlocked_def tf_bump_def Let_def update_conv TWO_FACTOR_FAILURE_LIMIT_def)
  have w2: "find_user uid ?w2 = Some u" "tf_unlocked uid (twoFactorFailures ?w2)" "tf_start uid (twoFactorFailures ?w2) = Some t0"
      "tf_count uid (twoFactorFailures ?w2) = 4"
    using wrong_attempts [OF fs1(2) assms(2) un b(2), of as env tmp fp] assms(4,5) b(1) by (auto simp: TWO_FACTOR_FAILURE_LIMIT_def)
  have "snd (run (completeTwoFactorLogin env uid c tmp fp) (?w2\<lparr>clock := ofDate t\<rparr>)) = recordTwoFactorFailure uid (?w2\<lparr>clock := ofDate t\<rparr>)"
    by (rule run_wrong_attempt [of _ _ u]) (use assms(2,5) w2 in \<open>auto simp: now\<close>)
  with w2 tf_bump_locks [OF w2(3), of t] assms(5) show ?thesis
    unfolding att by (auto simp: tf_attempts_def recordTwoFactorFailure_def now find_user_def TWO_FACTOR_FAILURE_LIMIT_def)
qed

text \<open>
  C19. Five second-factor logins with wrong codes (neither a valid one-time code nor a stored
  backup code) within ten minutes of the first lock the account: until fifteen minutes after
  the fifth, every second-factor login is refused with 429 and changes nothing, whatever code is presented, so a
  correct one too; and attempts made in that time, with whatever codes, do not prolong it.
\<close>

theorem two_factor_lockout:
  assumes "find_user uid w = Some u" and "u_totpEnabled u" and "truthy (u_totpSecret u) \<noteq> None" and "u_status u = ACTIVE"
    and "map_of (twoFactorFailures w) uid = None" and "0 \<le> t0" and "length as = 3"
    and "\<forall>(x, code) \<in> set ((t0, c0) # as @ [(t, c)]). t0 \<le> x \<and> x - t0 < TWO_FACTOR_ATTEMPT_WINDOW_MS
           \<and> may_try (ae_crypto env) u tmp fp x \<and> wrong_code env u code"
    and "\<forall>(x, code) \<in> set later. x < t + TWO_FACTOR_LOCKOUT_MS" and "now < t + TWO_FACTOR_LOCKOUT_MS"
  shows "run (completeTwoFactorLogin env' uid tok tmp' fp')
           ((tf_attempts env uid tmp fp ((t0, c0) # as @ [(t, c)] @ later) w)\<lparr>clock := ofDate now\<rparr>)
       = (Inl twoFactorLocked, (tf_attempts env uid tmp fp ((t0, c0) # as @ [(t, c)] @ later) w)\<lparr>clock := ofDate now\<rparr>)"
proof -
  let ?v = "tf_attempts env uid tmp fp ((t0, c0) # as @ [(t, c)]) w"
  have en: "tf_enabled u" using assms(2-4) by (simp add: tf_enabled_def)
  have t: "t + TWO_FACTOR_LOCKOUT_MS \<noteq> 0" using assms(6,8) by (auto simp: TWO_FACTOR_LOCKOUT_MS_def)
  note v = five_wrong_attempts_lock [OF assms(1) en assms(5,7,8)]
  have att: "tf_attempts env uid tmp fp ((t0, c0) # as @ [(t, c)] @ later) w = tf_attempts env uid tmp fp later ?v"
    using tf_attempts_append [of env uid tmp fp "(t0, c0) # as @ [(t, c)]" later w] by simp
  have "find_user uid (tf_attempts env uid tmp fp later ?v) = Some u"
      "tf_locked uid (t + TWO_FACTOR_LOCKOUT_MS) (twoFactorFailures (tf_attempts env uid tmp fp later ?v))"
    using locked_attempts [OF _ en _ t, of uid ?v later env tmp fp] v assms(9) by auto
  then show ?thesis
    unfolding att by (intro run_locked_attempt [OF _ en]) (use assms(10) t in \<open>simp_all add: dateNow_def\<close>)
qed

definition totp_user :: user where
  "totp_user = (sample_user ''bob'' USER)\<lparr>u_totpSecret := Some ''00:ab:S'', u_totpEnabled := True,
     u_totpBackupCodes := Some (stringify_array [''h:one'', ''h:two''])\<rparr>"

definition totp_world :: world where
  "totp_world = sample_world\<lparr>users := [sample_user ''root'' ADMIN, totp_user]\<rparr>"

lemma find_totp_user: "find_user ''bob'' totp_world = Some totp_user"
  by (simp add: find_user_def totp_world_def totp_user_def sample_user_def)

lemma totp_user_wrong:
  "list_all (wrong_code (sample_env ''a'') totp_user) [''x'', ''y''] \<and> tf_enabled totp_user \<and> \<not> u_mustChangePassword totp_user"
  by code_simp

theorem two_factor_lockout_witness:
  "fst (run (completeTwoFactorLogin (sample_env ''a'') ''bob'' ''one'' False None)
     ((tf_attempts (sample_env ''a'') ''bob'' False None
        [(0, ''x''), (1000, ''y''), (2000, ''x''), (3000, ''x''), (4000, ''y''), (5000, ''one'')] totp_world)\<lparr>clock := ofDate 900000\<rparr>))
     = Inl twoFactorLocked"
proof -
  have "map_of (twoFactorFailures totp_world) ''bob'' = None"
    by (simp add: totp_world_def sample_world_def empty_world_def)
  moreover have "may_try cr totp_user False None t" for cr t using totp_user_wrong by (simp add: may_try_def)
  ultimately show ?thesis
    using two_factor_lockout [OF find_totp_user, of 0 "[(1000, ''y''), (2000, ''x''), (3000, ''x'')]" "''x''" 4000 "''y''" "sample_env ''a''"
        False None "[(5000, ''one'')]" 900000 "sample_env ''a''" "''one''" False None] totp_user_wrong
    by (simp add: tf_enabled_def TWO_FACTOR_ATTEMPT_WINDOW_MS_def TWO_FACTOR_LOCKOUT_MS_def)
qed

section \<open>Login\<close>

lemma run_assertAllowed:
  "run (assertAllowed cr c) w = (Inr (), w1) \<Longrightarrow> users w1 = users w \<and> clock w1 = clock w \<and> db_ok w1 = db_ok w"
  by (auto simp: assertAllowed_def run_bind prune_def sleep_def split: if_splits option.splits)

lemma run_finishLogin:
  "run (finishLogin ctx r) w = (Inr x, w') \<Longrightarrow> x = r \<and> users w' = users w \<and> refreshTokens w' = refreshTokens w"
  by (auto simp: finishLogin_def recordLoginSuccess_def run_bind recordSuccess_def Let_def split: option.splits)

lemma run_failLogin: "run (failLogin cr ctx) w \<noteq> (Inr x, w')"
  by (auto simp: failLogin_def run_bind recordLoginFailure_def split: option.splits)

lemma run_issueSession:
  "run (issueSession env u tmp) w = (Inr s, w') \<Longrightarrow>
     insert_token (issued_row env (u_id u) w) w = Inr ((), w') \<and> users w' = users w
     \<and> s = \<lparr>at_user = toPublicUser u, at_accessToken = jwt_sign (ae_crypto env) (accessClaims u tmp) None,
            at_refreshToken = signRefresh env (u_id u) tmp\<rparr>"
  by (auto simp: issueSession_def run_bind_Inr run_atomically_Inr insert_token_def split: if_splits)

lemma liveTempHash_Some:
  "liveTempHash now u = Some h \<longleftrightarrow> (\<exists>e. u_tempPasswordHash u = Some h \<and> h \<noteq> [] \<and> u_tempPasswordExpiresAt u = Some e \<and> now < getTime e)"
  by (cases "u_tempPasswordHash u"; cases "u_tempPasswordExpiresAt u") (auto simp: liveTempHash_def truthy_if)

lemma consume_requires:
  assumes "consumeTx u h w = Inr (x, w')" and "db_ok w" and "find_user (u_id u) w = Some u"
  shows "u_mustChangePassword u \<and> u_tempPasswordHash u = Some h
       \<and> (\<exists>e. u_tempPasswordExpiresAt u = Some e \<and> ofDate (dateNow w) < e)
       \<and> (\<exists>u'. find_user (u_id u) w' = Some u' \<and> u_tempPasswordExpiresAt u' = None)"
proof -
  let ?P = "\<lambda>x. u_id x = u_id u \<and> u_mustChangePassword x \<and> u_tempPasswordHash x = Some h
                 \<and> (case u_tempPasswordExpiresAt x of None \<Rightarrow> False | Some e \<Rightarrow> ofDate (dateNow w) < e)"
  let ?f = "\<lambda>x. touch w (x\<lparr>u_tempPasswordExpiresAt := None\<rparr>)"
  from assms(1) obtain rows w1 where up: "update_users ?P (\<lambda>x. x\<lparr>u_tempPasswordExpiresAt := None\<rparr>) w = Inr (rows, w1)"
    and c: "(case first_row rows of None \<Rightarrow> Inl loginFailed | Some _ \<Rightarrow> Inr ((), w1)) = Inr (x, w')"
    unfolding consumeTx_def seqE_Inr_iff by auto
  from c obtain r where r: "first_row rows = Some r" and w1: "w1 = w'" by (cases "first_row rows") auto
  from up w1 have t: "rows = map ?f (filter ?P (users w))" "users w' = update_where ?P ?f (users w)"
    by (auto simp: update_users_def Let_def split: if_splits)
  from r t(1) obtain v where v: "v \<in> set (users w)" "?P v" by (auto dest!: first_row_mem)
  then have "v = u" using find_user_unique [OF assms(3,2) v(1)] v(2) by simp
  with v have P: "?P u" by simp
  have "find_user (u_id u) w' = map_option (\<lambda>r. if ?P r then ?f r else r) (find_user (u_id u) w)"
    unfolding find_user_def t(2) by (rule find_update_where) (simp add: touch_def)
  then have "find_user (u_id u) w' = Some (?f u)" using assms(3) P by simp
  with P show ?thesis by (auto simp: touch_def split: option.splits)
qed

text \<open>A login that succeeds has passed the checks before the credentials are looked at.\<close>

lemma login_reaches_account:
  assumes "db_ok w" and "run (loginUser env dto ctx) w = (Inr r, w')"
  obtains u w1 where "u \<in> set (users w)" and "u_email u = ld_identifier dto \<or> u_username u = ld_identifier dto"
    and "users w1 = users w" and "db_ok w1" and "u_status u = ACTIVE" and "isPasswordWithinByteLimit (ld_password dto)"
    and "run (loginAccount env ctx u
           (bcrypt_compare (ae_crypto env) (ld_password dto) (orElse (u_passwordHash u) DUMMY_PASSWORD_HASH))
           (bcrypt_compare (ae_crypto env) (ld_password dto) (orElse (liveTempHash (dateNow w) u) DUMMY_PASSWORD_HASH))) w1
         = (Inr r, w')"
proof -
  let ?P = "\<lambda>u. u_email u = ld_identifier dto \<or> u_username u = ld_identifier dto"
  from assms(2) obtain w1 where
    allowed: "run (case ctx of None \<Rightarrow> Return () | Some c \<Rightarrow> assertAllowed (ae_crypto env) c) w = (Inr (), w1)"
    unfolding loginUser_def run_bind_Inr by auto
  then have w1: "users w1 = users w" "dateNow w1 = dateNow w" "db_ok w1"
    using assms(1) by (auto simp: dateNow_def split: option.splits dest: run_assertAllowed)
  note rest = assms(2) [unfolded loginUser_def run_bind allowed, simplified, unfolded findByIdentifier_def, simplified]
  obtain u where found: "List.find ?P (users w) = Some u"
    using rest w1 run_failLogin by (cases "List.find ?P (users w)") (auto simp: run_bind Let_def)
  have len: "isPasswordWithinByteLimit (ld_password dto)"
    using rest w1 found run_failLogin by (auto simp: run_bind Let_def split: if_splits)
  have act: "u_status u = ACTIVE"
    using rest w1 found len by (cases "u_status u") (auto simp: run_bind Let_def assertLoginAllowed_def)
  show ?thesis
    using rest w1 found len act find_Some_mem [OF found]
    by (intro that [of u w1]) (simp_all add: run_bind Let_def assertLoginAllowed_def)
qed

text \<open>
  What the rest of a login, after the account was read, needs to open a session: no second factor, and
  the primary password or, in recovery, the temporary one, which is consumed.
\<close>

lemma login_session:
  assumes "run (loginAccount env ctx u pm tm) w = (Inr (Session s), w')"
  obtains w1 w2 where "\<not> u_totpEnabled u" and "if u_mustChangePassword u then tm else pm"
    and "run (if u_mustChangePassword u then consumeTempPassword u else Return ()) w = (Inr (), w1)"
    and "run (issueSession env u (u_mustChangePassword u)) w1 = (Inr s, w2)" and "users w' = users w1"
proof -
  note main = assms [unfolded loginAccount_def]
  have no2fa: "\<not> u_totpEnabled u" and cred: "if u_mustChangePassword u then tm else pm"
    using main run_failLogin by (auto simp: run_bind_Inr split: if_splits dest!: run_finishLogin)
  from main no2fa cred obtain w1 s' w2
    where steps: "run (if u_mustChangePassword u then consumeTempPassword u else Return ()) w = (Inr (), w1)"
      "run (issueSession env u (u_mustChangePassword u)) w1 = (Inr s', w2)" "run (finishLogin ctx (Session s')) w2 = (Inr (Session s), w')"
    by (cases "u_mustChangePassword u") (auto simp: run_bind_Inr)
  have "s' = s" "users w' = users w1" using run_finishLogin [OF steps(3)] run_issueSession [OF steps(2)] by simp_all
  with that [OF no2fa cred steps(1)] steps(2) show thesis by simp
qed

lemma allowed_unlocked:
  assumes "run (assertAllowed cr c) w = (Inr (), w1)" and "map_of (pairFailures w) (pairKey cr c) = Some e"
    and "dateNow w - fe_lastFailureAt e < FAILURE_WINDOW_MS"
  shows "fe_failures e < PAIR_FAILURE_LIMIT"
proof -
  have "map_of (prune_entries now es) k = Some e" if "map_of es k = Some e" "now - fe_lastFailureAt e < FAILURE_WINDOW_MS" for now es k
    using that by (induction es) (auto simp: prune_entries_def split: if_splits)
  from this [OF assms(2,3)] assms(1) show ?thesis
    by (auto simp: assertAllowed_def run_bind prune_def split: if_splits)
qed


definition temp_login :: login_dto where
  "temp_login = \<lparr>ld_identifier = ''bob'', ld_password = ''tmp''\<rparr>"

lemma sample_login:
  "(case run (loginUser (sample_env ''a'') temp_login None) reset_world of (Inr (Session s), w) \<Rightarrow> True | _ \<Rightarrow> False)"
  by code_simp


section \<open>The second factor\<close>

lemma consumed_code:
  assumes "run (verifyAndConsumeBackupCode cr u tok) w = (Inr True, w')" and "find_user (u_id u) w = Some u" and "db_ok w"
  shows "\<exists>stored codes h u'. u_totpBackupCodes u = Some stored \<and> parse_string_array stored = Some codes
       \<and> h \<in> set codes \<and> bcrypt_compare cr tok h
       \<and> find_user (u_id u) w' = Some u' \<and> u_totpBackupCodes u' = Some (stringify_array (filter (\<lambda>c. c \<noteq> h) codes))"
proof -
  from assms(1) obtain stored codes h where c: "u_totpBackupCodes u = Some stored" "parse_string_array stored = Some codes"
      "List.find (bcrypt_compare cr tok) codes = Some h"
      "consumeCodeTx (u_id u) stored (stringify_array (filter (\<lambda>c. c \<noteq> h) codes)) w = Inr (True, w')"
    by (cases "u_totpBackupCodes u")
      (auto simp: verifyAndConsumeBackupCode_def truthy_if run_atomically_Inr split: option.splits if_splits)
  let ?P = "\<lambda>x. u_id x = u_id u \<and> u_totpBackupCodes x = Some stored"
  let ?f = "\<lambda>x. touch w (x\<lparr>u_totpBackupCodes := Some (stringify_array (filter (\<lambda>c. c \<noteq> h) codes))\<rparr>)"
  from c(4) have "users w' = update_where ?P ?f (users w)"
    by (auto simp: consumeCodeTx_def seqE_Inr_iff update_users_def Let_def split: if_splits)
  then have "find_user (u_id u) w' = map_option (\<lambda>r. if ?P r then ?f r else r) (find_user (u_id u) w)"
    by (simp only: find_user_def) (rule find_update_where, simp add: touch_def)
  then have "find_user (u_id u) w' = Some (?f u)" using assms(2) c(1) by simp
  with c find_Some_mem [OF c(3)] show ?thesis by (fastforce simp: touch_def)
qed

lemma run_assertTwoFactorNotLocked:
  "run (assertTwoFactorNotLocked uid) w = (Inr x, w') \<Longrightarrow> users w' = users w \<and> clock w' = clock w \<and> db_ok w' = db_ok w
     \<and> (\<forall>f l. map_of (twoFactorFailures w) uid = Some f \<longrightarrow> tf_lockedUntil f = Some l \<longrightarrow> l = 0 \<or> l \<le> dateNow w)"
  by (auto simp: assertTwoFactorNotLocked_def run_atomically_Inr split: option.splits if_splits)

text \<open>The tail of the second-factor login after the code was accepted keeps the backup codes.\<close>

lemma codes_after_consume:
  assumes "run (if tmp then consumeTempPassword u else Return ()) w = (Inr (), w')" and "find_user uid w = Some v"
  shows "\<exists>v'. find_user uid w' = Some v' \<and> u_totpBackupCodes v' = u_totpBackupCodes v"
proof (cases tmp)
  case True
  from assms(1) True obtain h where "consumeTx u h w = Inr ((), w')"
    by (auto simp: consumeTempPassword_def run_atomically_Inr split: option.splits)
  then obtain P where "users w' = update_where P (\<lambda>x. touch w (x\<lparr>u_tempPasswordExpiresAt := None\<rparr>)) (users w)"
    unfolding consumeTx_def seqE_Inr_iff update_users_def Let_def
    by (auto split: if_splits option.splits)
  then have "find_user uid w' = map_option (\<lambda>r. if P r then touch w (r\<lparr>u_tempPasswordExpiresAt := None\<rparr>) else r) (find_user uid w)"
    by (simp only: find_user_def) (rule find_update_where, simp add: touch_def)
  then show ?thesis using assms(2) by (auto simp: touch_def)
qed (use assms in simp)

text \<open>What an accepted code means: it is valid, or a backup code that is now used up.\<close>

lemma accepted_code:
  assumes "run (acceptCode env u tok tmp) w = (Inr s, w')" and "find_user (u_id u) w = Some u" and "db_ok w"
  shows "isValidTotp env u tok = Inr True
     \<or> (\<exists>stored codes h u' rest. u_totpBackupCodes u = Some stored \<and> parse_string_array stored = Some codes
          \<and> h \<in> set codes \<and> bcrypt_compare (ae_crypto env) tok h \<and> find_user (u_id u) w' = Some u'
          \<and> u_totpBackupCodes u' = Some rest \<and> parse_string_array rest = Some (filter (\<lambda>c. c \<noteq> h) codes))"
proof (cases "isValidTotp env u tok = Inr True")
  case False
  with assms(1) obtain w1 w2 where code: "run (verifyAndConsumeBackupCode (ae_crypto env) u tok) w = (Inr True, w1)"
    and rest: "run (if tmp then consumeTempPassword u else Return ()) (w1\<lparr>twoFactorFailures := AList.delete (u_id u) (twoFactorFailures w1)\<rparr>) = (Inr (), w2)"
    and issue: "run (issueSession env u tmp) w2 = (Inr s, w')"
    unfolding acceptCode_def run_bind_Inr run_liftE by (auto simp: run_bind_Inr split: if_splits)
  from consumed_code [OF code assms(2,3)] obtain stored codes h v where v: "u_totpBackupCodes u = Some stored"
      "parse_string_array stored = Some codes" "h \<in> set codes" "bcrypt_compare (ae_crypto env) tok h"
      "find_user (u_id u) w1 = Some v" "u_totpBackupCodes v = Some (stringify_array (filter (\<lambda>c. c \<noteq> h) codes))"
    by blast
  from v(5) have "find_user (u_id u) (w1\<lparr>twoFactorFailures := AList.delete (u_id u) (twoFactorFailures w1)\<rparr>) = Some v"
    by (simp add: find_user_def)
  from codes_after_consume [OF rest this] obtain v' where "find_user (u_id u) w2 = Some v'" "u_totpBackupCodes v' = u_totpBackupCodes v"
    by blast
  moreover have "users w' = users w2" using run_issueSession [OF issue] by simp
  ultimately have "find_user (u_id u) w' = Some v'" "u_totpBackupCodes v' = Some (stringify_array (filter (\<lambda>c. c \<noteq> h) codes))"
    using v(6) by (simp_all add: find_user_def)
  with v(1-4) parse_stringify_array show ?thesis by blast
qed simp

text \<open>A second-factor login that succeeds has passed the checks before the code is looked at.\<close>

lemma second_factor_reaches_code:
  assumes "run (completeTwoFactorLogin env uid tok tmp fp) w = (Inr s, w')"
  obtains u w1 where "find_user uid w = Some u" and "u_totpEnabled u" and "u_status u = ACTIVE" and "u_mustChangePassword u = tmp"
    and "run (assertTwoFactorNotLocked uid) w = (Inr (), w1)" and "\<not> (tmp \<and> staleCredential (ae_crypto env) (dateNow w1) u fp)"
    and "run (acceptCode env u tok tmp) w1 = (Inr s, w')"
proof -
  from assms obtain u where u: "find_user uid w = Some u"
    by (cases "find_user uid w") (auto simp: completeTwoFactorLogin_def findById_def run_bind)
  then have id: "u_id u = uid" using find_user_mem by blast
  from assms u have e: "u_totpEnabled u" "truthy (u_totpSecret u) \<noteq> None"
    by (auto simp: completeTwoFactorLogin_def findById_def run_bind split: if_splits)
  from assms u e have a: "u_status u = ACTIVE"
    by (cases "u_status u") (auto simp: completeTwoFactorLogin_def findById_def run_bind assertLoginAllowed_def)
  from assms u e a id obtain w1 where "run (assertTwoFactorNotLocked uid) w = (Inr (), w1)"
    and "u_mustChangePassword u = tmp" and "\<not> (tmp \<and> staleCredential (ae_crypto env) (dateNow w1) u fp)"
    and "run (acceptCode env u tok tmp) w1 = (Inr s, w')"
    by (auto simp: completeTwoFactorLogin_def findById_def run_bind_Inr assertLoginAllowed_def split: if_splits)
  with u e a that show thesis by blast
qed

text \<open>
  C18. What a second-factor login requires. It succeeds only for an active account with the
  second factor enabled that is not locked out, with a valid one-time code or a stored backup
  code, which afterwards is no longer stored; in forced recovery it also needs the temporary
  credential still valid and the very one for which the challenge was issued.
\<close>

theorem second_factor_required:
  assumes "db_ok w" and "fst (run (completeTwoFactorLogin env uid tok tmp fp) w) = Inr s"
  shows "\<exists>u. find_user uid w = Some u \<and> u_status u = ACTIVE \<and> u_totpEnabled u \<and> u_mustChangePassword u = tmp
     \<and> (\<forall>f l. map_of (twoFactorFailures w) uid = Some f \<longrightarrow> tf_lockedUntil f = Some l \<longrightarrow> l = 0 \<or> l \<le> dateNow w)
     \<and> (tmp \<longrightarrow> (\<exists>h. liveTempHash (dateNow w) u = Some h \<and> fp = Some (sha256hex (ae_crypto env) h)))
     \<and> (isValidTotp env u tok = Inr True
        \<or> (\<exists>stored codes h u' rest. u_totpBackupCodes u = Some stored \<and> parse_string_array stored = Some codes
             \<and> h \<in> set codes \<and> bcrypt_compare (ae_crypto env) tok h
             \<and> find_user uid (snd (run (completeTwoFactorLogin env uid tok tmp fp) w)) = Some u'
             \<and> u_totpBackupCodes u' = Some rest \<and> parse_string_array rest = Some (filter (\<lambda>c. c \<noteq> h) codes)))"
proof -
  obtain w' where run: "run (completeTwoFactorLogin env uid tok tmp fp) w = (Inr s, w')"
    using assms(2) by (cases "run (completeTwoFactorLogin env uid tok tmp fp) w") auto
  then obtain u w1 where u: "find_user uid w = Some u" and e: "u_totpEnabled u" and a: "u_status u = ACTIVE"
    and m: "u_mustChangePassword u = tmp" and lock: "run (assertTwoFactorNotLocked uid) w = (Inr (), w1)"
    and fresh: "\<not> (tmp \<and> staleCredential (ae_crypto env) (dateNow w1) u fp)"
    and acc: "run (acceptCode env u tok tmp) w1 = (Inr s, w')"
    by (rule second_factor_reaches_code)
  have id: "u_id u = uid" using find_user_mem [OF u] by blast
  note w1 = run_assertTwoFactorNotLocked [OF lock]
  have "find_user (u_id u) w1 = Some u" "db_ok w1" using u w1 assms(1) by (simp_all add: find_user_def id)
  from accepted_code [OF acc this] u e a m w1 fresh run show ?thesis
    by (auto simp: id staleCredential_def dateNow_def split: option.splits if_splits dest!: truthy_Some)
qed

lemma sample_second_factor:
  "(case run (completeTwoFactorLogin (sample_env ''a'') ''bob'' ''one'' False None) totp_world of (Inr s, w) \<Rightarrow> True | _ \<Rightarrow> False)"
  by code_simp

lemma sample_code_not_totp: "isValidTotp (sample_env ''a'') totp_user ''one'' = Inr False"
  by code_simp

theorem second_factor_required_witness:
  "\<exists>u' rest. find_user ''bob'' (snd (run (completeTwoFactorLogin (sample_env ''a'') ''bob'' ''one'' False None) totp_world)) = Some u'
     \<and> u_totpBackupCodes u' = Some rest \<and> (\<exists>codes. parse_string_array rest = Some codes \<and> ''h:one'' \<notin> set codes)"
proof -
  from sample_second_factor obtain s
    where s: "fst (run (completeTwoFactorLogin (sample_env ''a'') ''bob'' ''one'' False None) totp_world) = Inr s"
    by (auto split: prod.splits sum.splits)
  have ok: "db_ok totp_world" by code_simp
  from second_factor_required [OF ok s] obtain h codes u' rest where "bcrypt_compare sample_crypto ''one'' h"
      "find_user ''bob'' (snd (run (completeTwoFactorLogin (sample_env ''a'') ''bob'' ''one'' False None) totp_world)) = Some u'"
      "u_totpBackupCodes u' = Some rest" "parse_string_array rest = Some (filter (\<lambda>c. c \<noteq> h) codes)"
    by (auto simp: find_totp_user sample_code_not_totp sample_env_crypto)
  then show ?thesis by (auto simp: sample_crypto_def)
qed

section \<open>Temporary passwords\<close>

lemma armed_users: "users w' = users w \<Longrightarrow> armed uid T w' = armed uid T w"
  by (simp add: armed_def)

lemma consumed_temp_password:
  assumes "run (consumeTempPassword u) w = (Inr (), w')" and "u_tempPasswordHash u = Some th"
  shows "armed (u_id u) {th} w" and "users_unique (users w) \<Longrightarrow> \<not> armed (u_id u) {th} w'"
proof -
  from assms have c: "consumeTx u th w = Inr ((), w')"
    by (cases "th = []"; cases "u_tempPasswordExpiresAt u";
        auto simp: consumeTempPassword_def run_atomically_Inr truthy_if)
  show "armed (u_id u) {th} w" and "users_unique (users w) \<Longrightarrow> \<not> armed (u_id u) {th} w'"
    using consume_temp [OF c] by simp_all
qed

text \<open>
  The two ways to open a session with a temporary password, each as the part of the handler after it has read the
  account: that reading may be older than the state in which the rest runs.
\<close>

definition opens_session :: "auth_env \<Rightarrow> user \<Rightarrow> world \<Rightarrow> world \<Rightarrow> bool" where
  "opens_session env u w w' \<longleftrightarrow>
     (\<exists>ctx pm tm s. run (loginAccount env ctx u pm tm) w = (Inr (Session s), w'))
     \<or> (\<exists>tok s. run (acceptCode env u tok True) w = (Inr s, w'))"

lemma account_run_db_ok: "guar account_guar p \<Longrightarrow> db_ok w \<Longrightarrow> db_ok (snd (run p w))"
  using guar_run [of account_guar p w] account_guar_trans by (auto simp: account_guar_def)

lemma verified_code_armed:
  assumes "run (verifyAndConsumeBackupCode cr u tok) w = (Inr b, w')" and "armed uid T w'"
  shows "armed uid T w"
proof -
  have "w' = w \<or> (\<exists>stored new rows. update_users (\<lambda>x. u_id x = u_id u \<and> u_totpBackupCodes x = Some stored)
      (\<lambda>x. x\<lparr>u_totpBackupCodes := Some new\<rparr>) w = Inr (rows, w'))"
    using assms(1) by (auto simp: verifyAndConsumeBackupCode_def consumeCodeTx_def seqE_Inr_iff run_atomically_Inr split: option.splits)
  with assms(2) show ?thesis
    by (auto simp: armed_def is_armed_def touch_def update_where_def dest!: update_users_Inr(2)) force+
qed

lemma opens_session_db_ok: "opens_session env u w w' \<Longrightarrow> db_ok w \<Longrightarrow> db_ok w'"
  unfolding opens_session_def
  using account_run_db_ok [OF guar_loginAccount, of w] account_run_db_ok [OF guar_acceptCode, of w] by (metis snd_conv)

lemma opens_session_spends:
  assumes "opens_session env u w w'" and "u_mustChangePassword u" and "u_tempPasswordHash u = Some th"
  shows "armed (u_id u) {th} w" and "db_ok w \<Longrightarrow> \<not> armed (u_id u) {th} w'"
proof -
  have "\<exists>w1 w2. (armed (u_id u) {th} w1 \<longrightarrow> armed (u_id u) {th} w) \<and> (db_ok w \<longrightarrow> db_ok w1)
      \<and> run (consumeTempPassword u) w1 = (Inr (), w2) \<and> users w' = users w2"
    using assms(1) unfolding opens_session_def
  proof (elim disjE exE)
    fix ctx pm tm s assume "run (loginAccount env ctx u pm tm) w = (Inr (Session s), w')"
    then show ?thesis by (rule login_session) (use assms(2) in auto)
  next
    fix tok s assume acc: "run (acceptCode env u tok True) w = (Inr s, w')"
    then obtain v where v: "isValidTotp env u tok = Inr v"
      by (cases "isValidTotp env u tok") (auto simp: acceptCode_def run_bind)
    with acc obtain b w1 w2 where c: "run (if v then Return False else verifyAndConsumeBackupCode (ae_crypto env) u tok) w = (Inr b, w1)"
        "run (consumeTempPassword u) (w1\<lparr>twoFactorFailures := AList.delete (u_id u) (twoFactorFailures w1)\<rparr>) = (Inr (), w2)"
        "run (issueSession env u True) w2 = (Inr s, w')"
      by (auto simp: acceptCode_def run_bind_Inr split: if_splits)
    let ?w1 = "w1\<lparr>twoFactorFailures := AList.delete (u_id u) (twoFactorFailures w1)\<rparr>"
    have "armed (u_id u) {th} w1 \<longrightarrow> armed (u_id u) {th} w"
      using c(1) verified_code_armed by (cases v) auto
    moreover have "db_ok w \<longrightarrow> db_ok w1"
      using c(1) account_run_db_ok [of "verifyAndConsumeBackupCode (ae_crypto env) u tok" w] by (cases v) (auto simp: guar_simps)
    ultimately have "(armed (u_id u) {th} ?w1 \<longrightarrow> armed (u_id u) {th} w) \<and> (db_ok w \<longrightarrow> db_ok ?w1)" by (simp add: armed_def)
    with c(2) run_issueSession [OF c(3)] show ?thesis by blast
  qed
  then obtain w1 w2 where w1: "armed (u_id u) {th} w1 \<longrightarrow> armed (u_id u) {th} w" "db_ok w \<longrightarrow> db_ok w1"
    and c: "run (consumeTempPassword u) w1 = (Inr (), w2)" and w2: "users w' = users w2" by blast
  from w1 consumed_temp_password(1) [OF c assms(3)] show "armed (u_id u) {th} w" by simp
  assume "db_ok w"
  with w1(2) have "users_unique (users w1)" by (simp add: db_ok_def)
  with consumed_temp_password(2) [OF c assms(3)] armed_users [OF w2] show "\<not> armed (u_id u) {th} w'" by simp
qed

interpretation acct_db: step_invariant "account_handler fresh freshTemp" tick account_guar db_ok for fresh freshTemp
  by unfold_locales (auto simp: guar_account_handler account_guar_def tick_db_ok)

text \<open>
  C21. A temporary password opens one session. Once a login or a second-factor login in recovery has opened a
  session with it, and whatever requests are served afterwards and however they interleave (as long as no
  reset issues a temporary password with the same hash), no other login opens a session with it: neither one that read the account at any
  earlier time and now continues, nor one that starts, by password or by a second-factor challenge.
\<close>

theorem temporary_password_single_use:
  assumes "db_ok w" and "opens_session env u w w'" and "u_mustChangePassword u" and "u_tempPasswordHash u = Some th"
    and "reachable (account_handler (\<lambda>_. True) (\<lambda>t. t \<noteq> th)) tick w' c"
  shows "(\<forall>env2 u2 w2. u_id u2 = u_id u \<and> u_mustChangePassword u2 \<and> u_tempPasswordHash u2 = Some th \<longrightarrow>
            \<not> opens_session env2 u2 (fst c) w2)
    \<and> (\<forall>u2. find_user (u_id u) (fst c) = Some u2 \<and> u_mustChangePassword u2 \<and> u_tempPasswordHash u2 = Some th \<longrightarrow>
         (\<forall>env2 dto ctx s. fst (run (loginUser env2 dto ctx) (fst c)) = Inr (Session s) \<longrightarrow> pu_id (at_user s) \<noteq> u_id u)
         \<and> (\<forall>env2 tok tmp fp s. fst (run (completeTwoFactorLogin env2 (u_id u) tok tmp fp) (fst c)) \<noteq> Inr s))"
proof (intro conjI allI impI)
  have off: "\<not> armed (u_id u) {th} (fst c)"
    using temporary.reachable_inv [OF assms(5)] opens_session_spends(2) [OF assms(2-4,1)] by blast
  have ok: "db_ok (fst c)"
    using acct_db.reachable_inv [OF assms(5)] opens_session_db_ok [OF assms(2,1)] by blast
  have off_users: "\<not> armed (u_id u) {th} v" if "users v = users (fst c)" for v using off that by (simp add: armed_def)
  show "\<not> opens_session env2 u2 (fst c) w2"
    if "u_id u2 = u_id u \<and> u_mustChangePassword u2 \<and> u_tempPasswordHash u2 = Some th" for env2 u2 w2
    using opens_session_spends(1) [of env2 u2 "fst c" w2 th] that off by auto
  fix u2 assume u2: "find_user (u_id u) (fst c) = Some u2 \<and> u_mustChangePassword u2 \<and> u_tempPasswordHash u2 = Some th"
  show "pu_id (at_user s) \<noteq> u_id u" if s: "fst (run (loginUser env2 dto ctx) (fst c)) = Inr (Session s)" for env2 dto ctx s
  proof
    assume same: "pu_id (at_user s) = u_id u"
    obtain w2 where "run (loginUser env2 dto ctx) (fst c) = (Inr (Session s), w2)"
      using s by (cases "run (loginUser env2 dto ctx) (fst c)") auto
    with ok obtain v w1 pm tm where v: "v \<in> set (users (fst c))" and w1: "users w1 = users (fst c)"
      and acc: "run (loginAccount env2 ctx v pm tm) w1 = (Inr (Session s), w2)"
      by (rule login_reaches_account)
    then have "pu_id (at_user s) = u_id v"
      by (elim login_session) (auto simp: toPublicUser_def dest!: run_issueSession)
    with same u2 v find_user_unique [OF _ ok v] have "v = u2" by auto
    with acc u2 find_user_mem have "opens_session env2 u2 w1 w2" "u_id u2 = u_id u" by (auto simp: opens_session_def)
    with opens_session_spends(1) [of env2 u2 w1 w2 th] u2 off_users [OF w1] show False by simp
  qed
  show "fst (run (completeTwoFactorLogin env2 (u_id u) tok tmp fp) (fst c)) \<noteq> Inr s" for env2 tok tmp fp s
  proof
    assume "fst (run (completeTwoFactorLogin env2 (u_id u) tok tmp fp) (fst c)) = Inr s"
    then obtain w2 where "run (completeTwoFactorLogin env2 (u_id u) tok tmp fp) (fst c) = (Inr s, w2)"
      by (cases "run (completeTwoFactorLogin env2 (u_id u) tok tmp fp) (fst c)") auto
    then obtain v w1 where v: "find_user (u_id u) (fst c) = Some v" "u_mustChangePassword v = tmp"
      and w1: "run (assertTwoFactorNotLocked (u_id u)) (fst c) = (Inr (), w1)" and acc: "run (acceptCode env2 v tok tmp) w1 = (Inr s, w2)"
      by (rule second_factor_reaches_code)
    with u2 find_user_mem have "opens_session env2 u2 w1 w2" "u_id u2 = u_id u" by (auto simp: opens_session_def)
    with opens_session_spends(1) [of env2 u2 w1 w2 th] u2 off_users run_assertTwoFactorNotLocked [OF w1] show False by simp
  qed
qed

lemma sample_temp_login:
  "(case run (loginAccount (sample_env ''a'') None reset_user False True) reset_world of (Inr (Session s), w) \<Rightarrow> True | _ \<Rightarrow> False)
   \<and> u_mustChangePassword reset_user \<and> u_tempPasswordHash reset_user = Some ''h:tmp'' \<and> u_id reset_user = ''bob''"
  by code_simp

theorem temporary_password_single_use_witness:
  "\<forall>w2. \<not> opens_session (sample_env ''b'') reset_user
       (snd (run (loginAccount (sample_env ''a'') None reset_user False True) reset_world)) w2"
proof -
  let ?w' = "snd (run (loginAccount (sample_env ''a'') None reset_user False True) reset_world)"
  have "opens_session (sample_env ''a'') reset_user reset_world ?w'"
    using sample_temp_login unfolding opens_session_def
    by (auto split: prod.splits sum.splits login_response.splits)
  moreover have "db_ok reset_world" by code_simp
  ultimately show ?thesis
    using temporary_password_single_use [OF _ _ _ _ reach_init, of reset_world "sample_env ''a''" reset_user ?w' "''h:tmp''"]
      sample_temp_login by simp
qed

section \<open>Changing the password\<close>

text \<open>The forced change, alone: it clears the recovery state and every session.\<close>

lemma forced_change_done:
  assumes "forced_change uid th nh w = Inr (Some r, w')" and "db_ok w"
  shows "(\<exists>u'. find_user uid w' = Some u' \<and> u_passwordHash u' = Some nh \<and> \<not> u_mustChangePassword u')
       \<and> (\<forall>t \<in> set (refreshTokens w'). rt_userId t \<noteq> uid)"
proof -
  let ?P = "\<lambda>u. u_id u = uid \<and> u_mustChangePassword u \<and> u_tempPasswordExpiresAt u = None \<and> u_tempPasswordHash u = Some th"
  let ?f = "\<lambda>u. u\<lparr>u_passwordHash := Some nh, u_tempPasswordHash := None, u_tempPasswordExpiresAt := None, u_mustChangePassword := False\<rparr>"
  from assms(1) obtain rows w1 where up: "update_users ?P ?f w = Inr (rows, w1)"
    and c: "(case first_row rows of None \<Rightarrow> Inr (None, w) | Some u \<Rightarrow> Inr (Some u, delete_tokens (\<lambda>t. rt_userId t = uid) w1))
      = (Inr (Some r, w') :: exn + user option \<times> world)"
    unfolding forced_change_def seqE_Inr_iff by auto
  from c have r: "first_row rows = Some r" and w': "w' = delete_tokens (\<lambda>t. rt_userId t = uid) w1"
    by (cases "first_row rows"; simp)+
  from up have rows: "rows = map (\<lambda>u. touch w (?f u)) (filter ?P (users w))"
    and w1: "users w1 = update_where ?P (\<lambda>u. touch w (?f u)) (users w)"
    by (auto simp: update_users_def Let_def split: if_splits)
  from r rows obtain v where v: "v \<in> set (users w)" "?P v" by (auto dest!: first_row_mem)
  then have "find_user uid w = Some v"
    using find_key_Some [OF users_distinct_ids [OF assms(2)] v(1)] by (simp add: find_user_def)
  moreover have "find_user uid w1 = map_option (\<lambda>r. if ?P r then touch w (?f r) else r) (find_user uid w)"
    unfolding find_user_def w1 by (rule find_update_where) (simp add: touch_def)
  ultimately have "find_user uid w' = Some (touch w (?f v))" using v(2) by (simp add: w' delete_tokens_def find_user_def)
  then show ?thesis by (auto simp: w' delete_tokens_def touch_def)
qed

text \<open>
  C20. What a change of password requires and leaves behind. It needs the current password (in
  forced recovery the consumed temporary one), both passwords of at most 72 bytes; afterwards
  the new password is stored, recovery is over, and of the account's sessions at most the one
  that made the change remains (none after a forced change).
\<close>

theorem password_change_ends_sessions:
  assumes "db_ok w" and "fst (run (updatePassword cr uid old new rid tmp) w) = Inr p"
  shows "byteLength old \<le> 72 \<and> byteLength new \<le> 72
     \<and> (\<exists>u h. find_user uid w = Some u \<and> u_mustChangePassword u = tmp
          \<and> (if tmp then u_tempPasswordHash u else u_passwordHash u) = Some h \<and> bcrypt_compare cr old h)
     \<and> (\<exists>u'. find_user uid (snd (run (updatePassword cr uid old new rid tmp) w)) = Some u'
          \<and> u_passwordHash u' = Some (bcrypt_hash cr new) \<and> \<not> u_mustChangePassword u')
     \<and> (\<forall>t \<in> set (refreshTokens (snd (run (updatePassword cr uid old new rid tmp) w))). rt_userId t = uid \<longrightarrow>
          \<not> tmp \<and> (\<exists>j. rid = Some j \<and> rt_tokenIdHash t = hashRefreshTokenId cr j))"
proof -
  obtain w' where run: "run (updatePassword cr uid old new rid tmp) w = (Inr p, w')"
    using assms(2) by (cases "run (updatePassword cr uid old new rid tmp) w") auto
  then have len: "isPasswordWithinByteLimit old" "isPasswordWithinByteLimit new"
    by (auto simp: updatePassword_def run_bind_Inr run_liftE assertPasswordWithinByteLimit_def)
  from run obtain u where u: "find_user uid w = Some u"
    by (cases "find_user uid w") (auto simp: updatePassword_def run_bind_Inr run_liftE findById_def)
  note r = run [unfolded updatePassword_def run_bind_Inr run_liftE findById_def, simplified, simplified u, simplified]
  show ?thesis
  proof (cases tmp)
    case True
    with r obtain th x where "u_mustChangePassword u" "u_tempPasswordHash u = Some th" "bcrypt_compare cr old th"
        "forced_change uid th (bcrypt_hash cr new) w = Inr (Some x, w')"
      by (auto simp: run_bind_Inr run_atomically_Inr split: option.splits if_splits dest!: truthy_Some)
    with True forced_change_done [OF _ assms(1)] len u run show ?thesis
      by (auto simp: isPasswordWithinByteLimit_def MAX_PASSWORD_BYTES_def)
  next
    case False
    have m: "\<not> u_mustChangePassword u" using r False by (auto split: if_splits)
    obtain h where h: "truthy (u_passwordHash u) = Some h" using r False m by (cases "truthy (u_passwordHash u)") auto
    have cmp: "bcrypt_compare cr old h" using r False m h by (auto split: if_splits)
    from r False m h cmp obtain rows w1 where
      up: "update_users (\<lambda>x. u_id x = uid) (\<lambda>x. x\<lparr>u_passwordHash := Some (bcrypt_hash cr new)\<rparr>) w = Inr (rows, w1)"
      and r3: "run (case first_row rows of None \<Rightarrow> Throw (PlainError ''undefined'')
        | Some r \<Rightarrow> bind (case rid of None \<Rightarrow> modify (delete_tokens (\<lambda>t. rt_userId t = uid))
            | Some tid \<Rightarrow> if tid = [] then modify (delete_tokens (\<lambda>t. rt_userId t = uid))
                else modify (delete_tokens (\<lambda>t. rt_userId t = uid \<and> rt_tokenIdHash t \<noteq> hashRefreshTokenId cr tid)))
          (\<lambda>_. Return (toPublicUser r))) w1 = (Inr p, w')"
      by (simp add: run_bind_Inr [of "atomically f" for f] run_atomically_Inr) blast
    have rest: "users w' = users w1" "\<forall>t \<in> set (refreshTokens w'). rt_userId t = uid \<longrightarrow> (\<exists>j. rid = Some j \<and> rt_tokenIdHash t = hashRefreshTokenId cr j)"
      using r3 by (cases rid; cases "first_row rows"; auto simp: run_bind_Inr delete_tokens_def split: if_splits)+
    have "find_user uid w1 = Some (touch w (u\<lparr>u_passwordHash := Some (bcrypt_hash cr new)\<rparr>))"
      using find_user_updated [OF up] u by simp
    with truthy_Some [OF h] m cmp rest u False run len show ?thesis
      by (auto simp: isPasswordWithinByteLimit_def MAX_PASSWORD_BYTES_def find_user_def touch_def)
  qed
qed

definition consumed_user :: user where
  "consumed_user = reset_user\<lparr>u_tempPasswordExpiresAt := None\<rparr>"

definition consumed_world :: world where
  "consumed_world = session_world\<lparr>users := [sample_user ''root'' ADMIN, consumed_user]\<rparr>"

lemma sample_password_change:
  "(case run (updatePassword sample_crypto ''bob'' ''tmp'' ''new'' None True) consumed_world of (Inr p, w) \<Rightarrow> True | _ \<Rightarrow> False)"
  by code_simp

theorem password_change_ends_sessions_witness:
  "(\<exists>u'. find_user ''bob'' (snd (run (updatePassword sample_crypto ''bob'' ''tmp'' ''new'' None True) consumed_world)) = Some u'
       \<and> u_passwordHash u' = Some ''h:new'' \<and> \<not> u_mustChangePassword u')
   \<and> refreshTokens consumed_world \<noteq> []
   \<and> list_all (\<lambda>t. rt_userId t \<noteq> ''bob'')
        (refreshTokens (snd (run (updatePassword sample_crypto ''bob'' ''tmp'' ''new'' None True) consumed_world)))"
proof -
  from sample_password_change obtain p
    where p: "fst (run (updatePassword sample_crypto ''bob'' ''tmp'' ''new'' None True) consumed_world) = Inr p"
    by (auto split: prod.splits sum.splits)
  have "db_ok consumed_world" by code_simp
  from password_change_ends_sessions [OF this p] show ?thesis
    by (auto simp: sample_crypto_def consumed_world_def session_world_def list_all_iff)
qed

end
