(* ===== verification/GoogleOAuth.thy ===== *)
theory GoogleOAuth
  imports AuthService
begin

text \<open>
  Sign-in with Google: the single-use challenges (\<open>auth/oauth-challenge.service.ts\<close>), the checks
  on a verified ID token (\<open>auth/google-token.service.ts\<close>), the accounts behind a provider's
  identity (\<open>auth/identity.service.ts\<close>) and the two operations built from them
  (\<open>auth/google-oauth.service.ts\<close>). Google's verifier is the parameter \<open>verifyIdToken\<close>; what a
  call draws at random (ids, the challenge, suffixes of user names) is an argument.
\<close>

section \<open>Challenges\<close>

definition OAUTH_CHALLENGE_TTL_MS :: int where "OAUTH_CHALLENGE_TTL_MS = 5 * 60 * 1000"

definition isOAuthChallengeProvider :: "string \<Rightarrow> bool" where
  "isOAuthChallengeProvider provider \<longleftrightarrow> provider = ''google''"

definition isRawChallenge :: "string \<Rightarrow> bool" where
  "isRawChallenge challenge = matches (rtimes 43 (RCls is_base64url)) challenge"

definition hashChallenge :: "crypto \<Rightarrow> string \<Rightarrow> string" where
  "hashChallenge cr challenge = sha256hex cr challenge"

definition insert_challenge :: "oauth_challenge \<Rightarrow> world \<Rightarrow> exn + unit \<times> world" where
  "insert_challenge c w =
     (if \<not> challenge_check c then Inl (PostgresError ''23514'')
      else if oauthChallenges_unique (oauthChallenges w @ [c])
      then Inr ((), w\<lparr>oauthChallenges := oauthChallenges w @ [c]\<rparr>) else Inl (PostgresError ''23505''))"

definition createChallenge :: "crypto \<Rightarrow> string \<Rightarrow> string \<Rightarrow> string \<Rightarrow> (world, string) prog" where
  "createChallenge cr rowId challenge provider =
     (if \<not> isOAuthChallengeProvider provider then Throw (PlainError ''Unsupported OAuth challenge provider'')
      else
      bind (atomically (\<lambda>w. insert_challenge \<lparr>oc_id = rowId, oc_provider = provider,
        oc_challengeHash = hashChallenge cr challenge, oc_expiresAt = ofDate (dateNow w + OAUTH_CHALLENGE_TTL_MS),
        oc_createdAt = clock w\<rparr> w)) (\<lambda>_.
      Return challenge))"

definition spendable :: "crypto \<Rightarrow> string \<Rightarrow> string \<Rightarrow> world \<Rightarrow> oauth_challenge \<Rightarrow> bool" where
  "spendable cr provider challenge w c \<longleftrightarrow> oc_provider c = provider \<and> oc_challengeHash c = hashChallenge cr challenge
     \<and> ofDate (dateNow w) < oc_expiresAt c"

definition consumeChallenge :: "crypto \<Rightarrow> string \<Rightarrow> string \<Rightarrow> world \<Rightarrow> exn + bool \<times> world" where
  "consumeChallenge cr provider challenge w =
     Inr (list_ex (spendable cr provider challenge w) (oauthChallenges w),
          w\<lparr>oauthChallenges := delete_where (spendable cr provider challenge w) (oauthChallenges w)\<rparr>)"

definition verifyAndConsume :: "crypto \<Rightarrow> string \<Rightarrow> string \<Rightarrow> (world, bool) prog" where
  "verifyAndConsume cr provider challenge =
     (if \<not> isOAuthChallengeProvider provider \<or> \<not> isRawChallenge challenge then Return False
      else atomically (consumeChallenge cr provider challenge))"

section \<open>ID tokens\<close>

definition GOOGLE_ISSUERS :: "string list" where
  "GOOGLE_ISSUERS = [''accounts.google.com'', ''https://accounts.google.com'']"

definition MAX_TOKEN_AGE_SECONDS :: int where "MAX_TOKEN_AGE_SECONDS = 5 * 60"
definition CLOCK_SKEW_SECONDS :: int where "CLOCK_SKEW_SECONDS = 60"

record google_claims =
  gc_sub :: string
  gc_email :: string
  gc_nonce :: string
  gc_name :: "json option"

definition invalidGoogleCredential :: exn where
  "invalidGoogleCredential = UnauthorizedException (Code ''InvalidGoogleCredential'')"

definition googleClientId :: "config \<Rightarrow> string option" where
  "googleClientId cfg = (case cfg ''GOOGLE_CLIENT_ID'' of None \<Rightarrow> None | Some v \<Rightarrow> truthy (Some (trim v)))"

definition isConfigured :: "config \<Rightarrow> bool" where
  "isConfigured cfg \<longleftrightarrow> googleClientId cfg \<noteq> None"

text \<open>The validated strings and the two times of a payload.\<close>

definition claimedInt :: "json option \<Rightarrow> int option" where
  "claimedInt v = (case v of Some (JNum n) \<Rightarrow> if isInteger n then Some (js_floor n) else None | _ \<Rightarrow> None)"

definition hasRequiredClaims :: "int \<Rightarrow> (string \<times> json) list \<Rightarrow> bool" where
  "hasRequiredClaims nowMs payload =
     (let now = nowMs div 1000
      in (case jfield payload ''iss'' of Some (JStr iss) \<Rightarrow> iss \<in> set GOOGLE_ISSUERS | _ \<Rightarrow> False)
       \<and> (case jfield payload ''sub'' of Some (JStr sub) \<Rightarrow> trim sub \<noteq> [] | _ \<Rightarrow> False)
       \<and> (case jfield payload ''email'' of Some (JStr email) \<Rightarrow> trim email \<noteq> [] | _ \<Rightarrow> False)
       \<and> jfield payload ''email_verified'' = Some (JBool True)
       \<and> (case jfield payload ''nonce'' of Some (JStr nonce) \<Rightarrow> isRawChallenge nonce | _ \<Rightarrow> False)
       \<and> (case claimedInt (jfield payload ''iat'') of
            Some iat \<Rightarrow> iat \<le> now + CLOCK_SKEW_SECONDS \<and> now - MAX_TOKEN_AGE_SECONDS \<le> iat | None \<Rightarrow> False)
       \<and> (case claimedInt (jfield payload ''exp'') of Some ex \<Rightarrow> now < ex | None \<Rightarrow> False))"

definition toClaims :: "(string \<times> json) list \<Rightarrow> google_claims" where
  "toClaims payload = \<lparr>gc_sub = jstr payload ''sub'', gc_email = toLowerCase (trim (jstr payload ''email'')),
     gc_nonce = jstr payload ''nonce'', gc_name = jfield payload ''name''\<rparr>"

fun rethrowGoogle :: "exn \<Rightarrow> exn" where
  "rethrowGoogle (ServiceUnavailableException b) = ServiceUnavailableException b"
| "rethrowGoogle (UnauthorizedException b) = UnauthorizedException b"
| "rethrowGoogle e = UnauthorizedException (Code ''InvalidGoogleCredential'')"

type_synonym id_token_verifier = "string \<Rightarrow> string \<Rightarrow> exn + (string \<times> json) list option"

definition verifyCredential :: "id_token_verifier \<Rightarrow> config \<Rightarrow> string \<Rightarrow> (world, google_claims) prog" where
  "verifyCredential verifyIdToken cfg credential =
     (case googleClientId cfg of
        None \<Rightarrow> Throw (ServiceUnavailableException (Code ''GoogleOAuthUnavailable''))
      | Some audience \<Rightarrow>
          tryCatch
            (bind (liftE (verifyIdToken credential audience)) (\<lambda>ticket.
             bind (get dateNow) (\<lambda>now.
             case ticket of
               None \<Rightarrow> Throw invalidGoogleCredential
             | Some payload \<Rightarrow>
                 if \<not> hasRequiredClaims now payload then Throw invalidGoogleCredential
                 else Return (toClaims payload))))
            (\<lambda>e. Throw (rethrowGoogle e)))"

section \<open>Provider identities\<close>

datatype identity_provider = Google | Github

record provider_identity =
  pi_provider :: identity_provider
  pi_providerId :: string
  pi_email :: string
  pi_username :: string

datatype resolution = Authenticated user | Created user | LinkConfirmationRequired user

text \<open>What the attempts to create an account draw at random.\<close>

record identity_draws =
  dr_id :: "nat \<Rightarrow> string"
  dr_suffix :: "nat \<Rightarrow> int"

definition isUniqueViolation :: "exn \<Rightarrow> bool" where
  "isUniqueViolation e \<longleftrightarrow> e = PostgresError ''23505''"

definition googleAlreadyLinked :: exn where
  "googleAlreadyLinked = ConflictException (Msg ''Google account is already linked'')"

definition linkGoogleIdentity :: "string \<Rightarrow> string \<Rightarrow> (world, user) prog" where
  "linkGoogleIdentity userId providerId =
     (let normalizedProviderId = trim providerId in
      if normalizedProviderId = [] then Throw (PlainError ''Provider identity is required'')
      else
      bind (attempt (atomically (update_users (\<lambda>u. u_id u = userId \<and> u_googleId u = None)
        (\<lambda>u. u\<lparr>u_googleId := Some normalizedProviderId\<rparr>)))) (\<lambda>r.
      case r of
        Inl e \<Rightarrow> Throw (if isUniqueViolation e then googleAlreadyLinked else e)
      | Inr (u # _) \<Rightarrow> Return u
      | Inr [] \<Rightarrow>
          bind (findById userId) (\<lambda>user.
          case user of
            None \<Rightarrow> Throw (ConflictException (Msg ''User not found''))
          | Some u \<Rightarrow>
              if u_googleId u = Some normalizedProviderId then Return u else Throw googleAlreadyLinked)))"

definition providerIdColumn :: "identity_provider \<Rightarrow> user \<Rightarrow> string option" where
  "providerIdColumn p u = (case p of Google \<Rightarrow> u_googleId u | Github \<Rightarrow> u_githubId u)"

definition with_provider :: "identity_provider \<Rightarrow> string \<Rightarrow> user \<Rightarrow> user" where
  "with_provider p pid u = (case p of Google \<Rightarrow> u\<lparr>u_googleId := Some pid\<rparr> | Github \<Rightarrow> u\<lparr>u_githubId := Some pid\<rparr>)"

definition findByProvider :: "identity_provider \<Rightarrow> string \<Rightarrow> (world, user option) prog" where
  "findByProvider p pid = get (\<lambda>w. List.find (\<lambda>u. providerIdColumn p u = Some pid) (users w))"

definition findByEmail :: "string \<Rightarrow> (world, user option) prog" where
  "findByEmail email = get (\<lambda>w. List.find (\<lambda>u. u_email u = email) (users w))"

definition is_word :: "char \<Rightarrow> bool" where
  "is_word c \<longleftrightarrow> is_lower c \<or> is_digit c \<or> c = CHR ''_''"

definition CANONICAL_USERNAME :: rx where
  "CANONICAL_USERNAME = rbetween 3 32 (RCls is_word)"

definition candidateName :: "identity_draws \<Rightarrow> nat \<Rightarrow> string \<Rightarrow> string" where
  "candidateName dr n username = (if n = 0 then username else take 28 username @ show_int (dr_suffix dr n))"

definition provider_user :: "identity_draws \<Rightarrow> provider_identity \<Rightarrow> string \<Rightarrow> user_status \<Rightarrow> string \<Rightarrow> nat \<Rightarrow> timestamp \<Rightarrow> user" where
  "provider_user dr ident providerId status username n now =
     with_provider (pi_provider ident) providerId
       (new_user (dr_id dr n) (pi_email ident) (candidateName dr n username) None status None now)"

text \<open>The loop over the attempts: \<open>k\<close> of the three are left, so this is attempt \<open>3 - k\<close>.\<close>

primrec createProviderUser ::
    "identity_draws \<Rightarrow> provider_identity \<Rightarrow> string \<Rightarrow> user_status \<Rightarrow> string \<Rightarrow> nat \<Rightarrow> (world, resolution) prog" where
  "createProviderUser dr ident providerId status username 0 = Throw (ConflictException (Msg ''Username unavailable''))"
| "createProviderUser dr ident providerId status username (Suc k) =
     bind (attempt (atomically (\<lambda>w. insert_user (provider_user dr ident providerId status username (3 - Suc k) (clock w)) w))) (\<lambda>r.
     case r of
       Inr createdUser \<Rightarrow> Return (Created createdUser)
     | Inl e \<Rightarrow>
         if \<not> isUniqueViolation e then Throw e
         else
         bind (findByProvider (pi_provider ident) providerId) (\<lambda>concurrentlyLinkedUser.
         case concurrentlyLinkedUser of
           Some u \<Rightarrow> Return (Authenticated u)
         | None \<Rightarrow>
             bind (findByEmail (pi_email ident)) (\<lambda>concurrentEmailUser.
             case concurrentEmailUser of
               Some u \<Rightarrow> Return (LinkConfirmationRequired u)
             | None \<Rightarrow> createProviderUser dr ident providerId status username k)))"

definition resolveProviderIdentity :: "config \<Rightarrow> identity_draws \<Rightarrow> provider_identity \<Rightarrow> (world, resolution) prog" where
  "resolveProviderIdentity cfg dr ident =
     (let providerId = trim (pi_providerId ident) in
      if providerId = [] then Throw (PlainError ''Provider identity is required'')
      else
      bind (findByProvider (pi_provider ident) providerId) (\<lambda>linkedUser.
      case linkedUser of
        Some u \<Rightarrow> Return (Authenticated u)
      | None \<Rightarrow>
          bind (findByEmail (pi_email ident)) (\<lambda>emailUser.
          case emailUser of
            Some u \<Rightarrow> Return (LinkConfirmationRequired u)
          | None \<Rightarrow>
              let username = toLowerCase (pi_username ident) in
              if \<not> matches CANONICAL_USERNAME username then Throw (PlainError ''Invalid canonical username'')
              else createProviderUser dr ident providerId
                     (if cfg ''REQUIRE_ADMIN_APPROVAL'' = Some ''true'' then U_PENDING else ACTIVE) username 3)))"

section \<open>Google sign-in\<close>

text \<open>\<open>replace(/[...]+/g, '_')\<close>: every run of matching characters becomes one.\<close>

function squash :: "(char \<Rightarrow> bool) \<Rightarrow> char \<Rightarrow> string \<Rightarrow> string" where
  "squash P r [] = []"
| "squash P r (c # cs) = (if P c then r # squash P r (dropWhile P cs) else c # squash P r cs)"
  by pat_completeness auto
termination
  by (relation "measure (\<lambda>(P, r, s). length s)") (auto simp: le_imp_less_Suc length_dropWhile_le)

definition strip :: "char \<Rightarrow> string \<Rightarrow> string" where
  "strip c s = rev (dropWhile ((=) c) (rev (dropWhile ((=) c) s)))"

definition padEnd :: "nat \<Rightarrow> char \<Rightarrow> string \<Rightarrow> string" where
  "padEnd n c s = s @ replicate (n - length s) c"

text \<open>\<open>email.slice(0, email.indexOf('@'))\<close>; without the sign the index is \<open>-1\<close>.\<close>

definition localPart :: "string \<Rightarrow> string" where
  "localPart email = (if CHR ''@'' \<in> set email then takeWhile (\<lambda>c. c \<noteq> CHR ''@'') email else butlast email)"

definition usernameForClaims :: "string \<Rightarrow> json option \<Rightarrow> exn + string" where
  "usernameForClaims email displayName =
     seqE (case displayName of
             None \<Rightarrow> Inr None | Some JNull \<Rightarrow> Inr None
           | Some (JStr s) \<Rightarrow> Inr (truthy (Some (trim s)))
           | Some _ \<Rightarrow> Inl (PlainError ''TypeError'')) (\<lambda>named.
     let source = orElse named (localPart email);
         normalized = take 32 (strip (CHR ''_'') (squash (\<lambda>c. \<not> is_word c) (CHR ''_'') (toLowerCase source)))
     in Inr (padEnd 3 (CHR ''_'') (if normalized = [] then ''user'' else normalized)))"

datatype google_outcome = GoogleSession auth_tokens | GoogleLinkConfirmationRequired

definition invalidGoogleChallenge :: exn where
  "invalidGoogleChallenge = UnauthorizedException (Code ''InvalidGoogleChallenge'')"

definition googleLogin :: "id_token_verifier \<Rightarrow> config \<Rightarrow> identity_draws \<Rightarrow> auth_env \<Rightarrow> string \<Rightarrow> (world, google_outcome) prog" where
  "googleLogin verifyIdToken cfg dr env credential =
     bind (verifyCredential verifyIdToken cfg credential) (\<lambda>claims.
     bind (verifyAndConsume (ae_crypto env) ''google'' (gc_nonce claims)) (\<lambda>consumed.
     if \<not> consumed then Throw invalidGoogleChallenge
     else
     bind (liftE (usernameForClaims (gc_email claims) (gc_name claims))) (\<lambda>username.
     bind (resolveProviderIdentity cfg dr \<lparr>pi_provider = Google, pi_providerId = gc_sub claims,
             pi_email = gc_email claims, pi_username = username\<rparr>) (\<lambda>resolution.
     case resolution of
       LinkConfirmationRequired _ \<Rightarrow> Return GoogleLinkConfirmationRequired
     | Authenticated u \<Rightarrow> bind (issueProviderSession env u) (\<lambda>s. Return (GoogleSession s))
     | Created u \<Rightarrow> bind (issueProviderSession env u) (\<lambda>s. Return (GoogleSession s))))))"

definition linkAuthenticatedUser :: "id_token_verifier \<Rightarrow> config \<Rightarrow> crypto \<Rightarrow> string \<Rightarrow> string \<Rightarrow> (world, public_user) prog" where
  "linkAuthenticatedUser verifyIdToken cfg cr userId credential =
     bind (verifyCredential verifyIdToken cfg credential) (\<lambda>claims.
     bind (verifyAndConsume cr ''google'' (gc_nonce claims)) (\<lambda>consumed.
     if \<not> consumed then Throw invalidGoogleChallenge
     else bind (linkGoogleIdentity userId (gc_sub claims)) (\<lambda>user. Return (toPublicUser user))))"

end
