(* ===== verification/SetupService.thy ===== *)
theory SetupService
  imports AuthService
begin

text \<open>
  \<open>src/setup/setup.service.ts\<close>: the first administrator. The process generates a one-time token
  at start unless one is configured; the registration runs in a transaction that holds an
  advisory lock, so it is one atomic step.
\<close>

definition configuredSetupToken :: "config \<Rightarrow> string option" where
  "configuredSetupToken cfg = truthy (cfg ''SETUP_TOKEN'')"

definition getOrGenerateBootstrapToken :: "string \<Rightarrow> world \<Rightarrow> world" where
  "getOrGenerateBootstrapToken random w =
     (case bootstrapToken w of None \<Rightarrow> w\<lparr>bootstrapToken := Some random\<rparr> | Some _ \<Rightarrow> w)"

text \<open>The constructor starts a process without a token; \<open>onModuleInit\<close> runs at its start.\<close>

definition initialAdminCreated :: "world \<Rightarrow> bool" where
  "initialAdminCreated w = (case setupState w of None \<Rightarrow> False | Some st \<Rightarrow> ss_initialAdminCreated st)"

definition setup_onModuleInit :: "config \<Rightarrow> string \<Rightarrow> (world, unit) prog" where
  "setup_onModuleInit cfg random =
     (if configuredSetupToken cfg \<noteq> None then Return ()
      else modify (\<lambda>w. if initialAdminCreated w then w else getOrGenerateBootstrapToken random w))"

definition boot :: "world \<Rightarrow> world" where
  "boot w = w\<lparr>bootstrapToken := None\<rparr>"

text \<open>\<open>INSERT ... ON CONFLICT DO NOTHING\<close> of the singleton row.\<close>

definition ensureSetupState :: "world \<Rightarrow> world" where
  "ensureSetupState w = (case setupState w of
     None \<Rightarrow> w\<lparr>setupState := Some \<lparr>ss_initialAdminCreated = False, ss_createdAt = clock w, ss_updatedAt = clock w\<rparr>\<rparr>
   | Some _ \<Rightarrow> w)"

datatype next_step = RegisterAdmin | SetupComplete

record setup_status =
  st_initialAdminCreated :: bool
  st_nextStep :: next_step

text \<open>Nothing deletes the singleton row, so the row read after the insert is there.\<close>

definition getSetupState :: "(world, setup_status) prog" where
  "getSetupState =
     bind (modify ensureSetupState) (\<lambda>_.
     bind (get setupState) (\<lambda>state.
     case state of
       None \<Rightarrow> Throw (PlainError ''TypeError'')
     | Some st \<Rightarrow> Return \<lparr>st_initialAdminCreated = ss_initialAdminCreated st,
         st_nextStep = (if ss_initialAdminCreated st then SetupComplete else RegisterAdmin)\<rparr>))"

definition expectedSetupToken :: "config \<Rightarrow> (world, string option) prog" where
  "expectedSetupToken cfg = (case configuredSetupToken cfg of Some t \<Rightarrow> Return (Some t) | None \<Rightarrow> get bootstrapToken)"

definition setupTokenMatches :: "crypto \<Rightarrow> string \<Rightarrow> string \<Rightarrow> bool" where
  "setupTokenMatches cr supplied expected \<longleftrightarrow> sha256hex cr supplied = sha256hex cr expected"

definition setupTokenInvalid :: exn where
  "setupTokenInvalid = UnauthorizedException (Code ''SetupTokenInvalid'')"

definition setupAlreadyComplete :: exn where
  "setupAlreadyComplete = ConflictException (Code ''SetupAlreadyComplete'')"

definition initAdminTx :: "string \<Rightarrow> register_dto \<Rightarrow> string \<Rightarrow> world \<Rightarrow> exn + unit \<times> world" where
  "initAdminTx newId dto passwordHash w =
     (let w1 = ensureSetupState w in
      if initialAdminCreated w1 then Inl setupAlreadyComplete
      else
      seqE (insert_user (new_user newId (rg_email dto) (rg_username dto) (Some passwordHash) ACTIVE (Some ADMIN) (clock w)) w1)
        (\<lambda>(_, w2).
        Inr ((), w2\<lparr>setupState := map_option (\<lambda>st. st\<lparr>ss_initialAdminCreated := True, ss_updatedAt := ofDate (dateNow w)\<rparr>)
                                    (setupState w2)\<rparr>)))"

definition initAdminRegister :: "crypto \<Rightarrow> config \<Rightarrow> string \<Rightarrow> register_dto \<Rightarrow> string option \<Rightarrow> (world, bool) prog" where
  "initAdminRegister cr cfg newId dto setupToken =
     bind (expectedSetupToken cfg) (\<lambda>expectedToken.
     case (expectedToken, truthy setupToken) of
       (Some expected, Some supplied) \<Rightarrow>
         if \<not> setupTokenMatches cr supplied expected then Throw setupTokenInvalid
         else
         bind (liftE (assertPasswordWithinByteLimit (rg_password dto))) (\<lambda>_.
         bind (atomically (initAdminTx newId dto (bcrypt_hash cr (rg_password dto)))) (\<lambda>_.
         Return True))
     | _ \<Rightarrow> Throw setupTokenInvalid)"

end
