(* ===== verification/System.thy ===== *)
theory System
  imports LoginProperties GoogleOAuth SetupService ServerAccessService
begin

text \<open>
  All services together on the one database: which tables the steps of each service leave
  alone, the guarantee that every atomic step of every handler gives, and what follows for
  every interleaving of them: the constraints and the grants stay valid, there is an active
  administrator from the setup on, the setup happens once, and a challenge is spent once.
\<close>

section \<open>What the account services leave alone\<close>

definition account_frame :: "world \<Rightarrow> world \<Rightarrow> bool" where
  "account_frame w w' \<longleftrightarrow> servers w' = servers w \<and> serverAccess w' = serverAccess w
     \<and> oauthChallenges w' = oauthChallenges w \<and> setupState w' = setupState w"

lemma frame_refl [simp]: "account_frame w w"
  by (simp add: account_frame_def)

lemma frame_trans: "account_frame w w' \<Longrightarrow> account_frame w' w'' \<Longrightarrow> account_frame w w''"
  by (simp add: account_frame_def)

lemma frame_simple [simp]:
  "account_frame w (delete_tokens P w)"
  "account_frame w (delete_grants Q w)"
  "account_frame w (w\<lparr>twoFactorFailures := f\<rparr>)"
  "account_frame w (recordTwoFactorFailure x w)"
  "account_frame w (prune now w)"
  "account_frame w (recordFailure cr ctx w)"
  "account_frame w (recordSuccess ctx w)"
  by (simp_all add: account_frame_def delete_tokens_def delete_grants_def recordTwoFactorFailure_def prune_def
      recordFailure_def recordSuccess_def Let_def)

lemma frame_statements:
  "update_users P f w = Inr (rows, w') \<Longrightarrow> account_frame w w'"
  "insert_user u w = Inr (x, w') \<Longrightarrow> account_frame w w'"
  "insert_token t w = Inr (y, w') \<Longrightarrow> account_frame w w'"
  by (auto simp: update_users_def insert_user_def insert_token_def Let_def account_frame_def split: if_splits)

lemma frame_consume: "consumeTx u h w = Inr (x, w') \<Longrightarrow> account_frame w w'"
  unfolding consumeTx_def by (auto simp: seqE_Inr_iff split: option.splits elim!: frame_statements)

lemma frame_consumeCode: "consumeCodeTx u st r w = Inr (x, w') \<Longrightarrow> account_frame w w'"
  unfolding consumeCodeTx_def by (auto simp: seqE_Inr_iff elim!: frame_statements)

lemma frame_forced: "forced_change x t nh w = Inr (y, w') \<Longrightarrow> account_frame w w'"
  unfolding forced_change_def
  by (auto simp: seqE_Inr_iff split: option.splits intro!: frame_trans [OF _ frame_simple(1)] elim!: frame_statements)

lemma frame_reset: "resetTx x t e w = Inr (y, w') \<Longrightarrow> account_frame w w'"
  unfolding resetTx_def
  by (auto simp: seqE_Inr_iff intro!: frame_trans [OF _ frame_simple(1)] elim!: frame_statements)

lemma frame_status:
  assumes "updateStatusTx x st w = Inr (y, w')"
  shows "account_frame w w'"
proof -
  from assms obtain rows w1 where "update_users (\<lambda>u. u_id u = x) (\<lambda>u. u\<lparr>u_status := st\<rparr>) w = Inr (rows, w1)"
    and w': "w' = w1 \<or> w' = delete_tokens (\<lambda>t. rt_userId t = x) w1"
    by (auto simp: updateStatusTx_def seqE_Inr_iff split: option.splits if_splits)
  then have "account_frame w w1" by (rule_tac frame_statements)
  then show ?thesis using w' by (auto intro: frame_trans [OF _ frame_simple(1)])
qed

lemma frame_role: "updateRoleTx x rl w = Inr (y, w') \<Longrightarrow> account_frame w w'"
  unfolding updateRoleTx_def
  by (auto simp: seqE_Inr_iff split: option.splits intro!: frame_trans [OF _ frame_simple(2)] elim!: frame_statements)

lemma frame_grant:
  assumes "grantTx i x dto seen w = Inr (y, w')"
  shows "account_frame w w'"
proof -
  from assms obtain rows where "w' = w\<lparr>modPermissions := rows\<rparr>"
    unfolding grantTx_def Let_def
    by (cases "find_user x w"; cases "grant_scope dto") (auto simp: seqE_Inr_iff split: if_splits)
  then show ?thesis by (simp add: account_frame_def)
qed

lemma frame_rotate:
  assumes "rotateTx env d st w = Inr (x, w')"
  shows "account_frame w w'"
  using assms unfolding rotateTx_def
  by (auto simp: seqE_Inr_iff split: option.splits if_splits
      intro!: frame_trans [OF frame_trans [OF frame_simple(1)] frame_simple(1)] elim!: frame_statements)

lemma frame_get [guar_simps]: "guar account_frame (get f)"
  by (simp add: guar_get)

lemmas frame_elims = frame_statements frame_consume frame_consumeCode frame_forced frame_reset frame_status
  frame_role frame_grant frame_rotate

lemma frame_helpers [guar_simps]:
  "guar account_frame (issueSession env u t)"
  "guar account_frame (consumeTempPassword u)"
  "guar account_frame (assertTwoFactorNotLocked x)"
  "guar account_frame (verifyAndConsumeBackupCode cr u tok)"
  "guar account_frame (assertAllowed cr c)"
  "guar account_frame (finishLogin ctx r)"
  "guar account_frame (failLogin cr ctx)"
  "guar account_frame (findById x)"
  "guar account_frame (findByIdentifier n)"
  "guar account_frame (loadUser x)"
  unfolding issueSession_def consumeTempPassword_def assertTwoFactorNotLocked_def verifyAndConsumeBackupCode_def
    assertAllowed_def finishLogin_def failLogin_def recordLoginSuccess_def recordLoginFailure_def sleep_def
    findById_def findByIdentifier_def loadUser_def
  by (auto intro!: guar_intros guar_atomicallyI elim!: frame_elims
      simp: guar_simps split: option.splits if_splits prod.splits)

lemma frame_admin [guar_simps]:
  "guar account_frame (listUsers q)"
  "guar account_frame (listModPermissions x)"
  "guar account_frame (updateStatus x st)"
  "guar account_frame (updateRole x rl)"
  "guar account_frame (grantModPermission i x dto)"
  "guar account_frame (revokeModPermission x pid)"
  "guar account_frame (resetPassword cr tp x)"
  "guar account_frame (removeTwoFactor x)"
  unfolding listUsers_def listModPermissions_def updateStatus_def updateRole_def grantModPermission_def
    revokeModPermission_def resetPassword_def removeTwoFactor_def Let_def
  by (auto intro!: guar_intros guar_atomicallyI elim!: frame_elims simp: guar_simps split: option.splits if_splits)

lemma frame_updatePassword [guar_simps]: "guar account_frame (updatePassword cr x op np tid tmp)"
  unfolding updatePassword_def
  by (auto intro!: guar_intros guar_atomicallyI elim!: frame_elims simp: guar_simps split: option.splits)

lemma frame_login [guar_simps]: "guar account_frame (loginUser env dto ctx)"
proof -
  have "guar account_frame (loginAccount env ctx u p t)" for u p t
    unfolding loginAccount_def by (auto intro!: guar_intros simp: guar_simps)
  then show ?thesis unfolding loginUser_def Let_def
    by (auto intro!: guar_intros simp: guar_simps split: option.splits)
qed

lemma frame_twoFactor [guar_simps]: "guar account_frame (completeTwoFactorLogin env x tok tmp fp)"
proof -
  have "guar account_frame (acceptCode env u tok tmp)" for u
    unfolding acceptCode_def by (auto intro!: guar_intros simp: guar_simps)
  then show ?thesis unfolding completeTwoFactorLogin_def
    by (auto intro!: guar_intros simp: guar_simps split: option.splits)
qed

lemma frame_auth [guar_simps]:
  "guar account_frame (updateProfile x nm)"
  "guar account_frame (registerUser cr cfg i rdto)"
  "guar account_frame (issueProviderSession env u)"
  "guar account_frame (logoutUser cr x tok)"
  "guar account_frame (logoutAll x)"
  "guar account_frame (rotateRefreshToken env tok)"
  "guar account_frame (getSessions x)"
  "guar account_frame (deleteSingleSession x tid)"
  "guar account_frame (updateUserPassword env x op np tok tmp)"
  "guar account_frame (setup2FA gu env iv sec x)"
  "guar account_frame (confirm2FA env codes x tok)"
  "guar account_frame (disable2FA env x tok)"
  unfolding registerUser_def issueProviderSession_def logoutUser_def logoutAll_def rotateRefreshToken_def createUser_def
    getSessions_def deleteSingleSession_def updateUserPassword_def setup2FA_def confirm2FA_def disable2FA_def updateProfile_def
  by (auto intro!: guar_intros guar_atomicallyI elim!: frame_elims simp: guar_simps
      split: option.splits jwt_result.splits)

lemma frame_handler: "account_handler fresh freshTemp p \<Longrightarrow> guar account_frame p"
  by (induction rule: account_handler.induct) (simp_all add: guar_simps)

section \<open>Sign-in with Google\<close>

lemma db_ok_challenges:
  "db_ok w \<Longrightarrow> oauthChallenges_unique t \<Longrightarrow> list_all challenge_check t \<Longrightarrow> db_ok (w\<lparr>oauthChallenges := t\<rparr>)"
  by (simp add: db_ok_def refs_ok_def user_exists_def server_exists_def cong: option.case_cong)

lemma account_challenges:
  "(db_ok w \<Longrightarrow> oauthChallenges_unique t \<and> list_all challenge_check t) \<Longrightarrow> account_guar w (w\<lparr>oauthChallenges := t\<rparr>)"
  by (auto simp: account_guar_def db_ok_challenges has_active_admin_def grants_ok_def)

lemma account_insert_challenge: "insert_challenge c w = Inr (x, w') \<Longrightarrow> account_guar w w'"
  by (auto simp: insert_challenge_def db_ok_def intro!: account_challenges split: if_splits)

lemma account_consume_challenge: "consumeChallenge cr pv ch w = Inr (x, w') \<Longrightarrow> account_guar w w'"
  by (auto simp: consumeChallenge_def db_ok_def intro!: account_challenges)

text \<open>A challenge with a given hash is stored; a step of the setup or of a challenge brings none back.\<close>

definition has_challenge :: "string \<Rightarrow> world \<Rightarrow> bool" where
  "has_challenge h w \<longleftrightarrow> (\<exists>c \<in> set (oauthChallenges w). oc_challengeHash c = h)"

definition once_guar :: "string \<Rightarrow> world \<Rightarrow> world \<Rightarrow> bool" where
  "once_guar h w w' \<longleftrightarrow> (has_challenge h w' \<longrightarrow> has_challenge h w) \<and> (initialAdminCreated w \<longrightarrow> initialAdminCreated w')
     \<and> (\<not> initialAdminCreated w \<longrightarrow> initialAdminCreated w' \<longrightarrow> has_active_admin w')"

definition system_guar :: "string \<Rightarrow> world \<Rightarrow> world \<Rightarrow> bool" where
  "system_guar h w w' \<longleftrightarrow> account_guar w w' \<and> once_guar h w w'"

lemma once_refl [simp]: "once_guar h w w"
  by (simp add: once_guar_def)

lemma system_refl [simp]: "system_guar h w w"
  by (simp add: system_guar_def)

lemma system_frame: "account_guar w w' \<Longrightarrow> account_frame w w' \<Longrightarrow> system_guar h w w'"
  by (simp add: system_guar_def account_frame_def once_guar_def has_challenge_def initialAdminCreated_def)

lemma guar_system_frame: "guar account_guar p \<Longrightarrow> guar account_frame p \<Longrightarrow> guar (system_guar h) p"
  by (rule guar_mono [OF guar_conj [of account_guar p account_frame]]) (auto intro: system_frame)

lemma system_get [guar_simps]: "guar (system_guar h) (get f)"
  by (simp add: guar_get)

lemma guar_createChallenge [guar_simps]:
  "hashChallenge cr ch \<noteq> h \<Longrightarrow> guar (system_guar h) (createChallenge cr i ch pv)"
  unfolding createChallenge_def
  by (auto intro!: guar_intros guar_atomicallyI simp: system_guar_def account_insert_challenge)
    (auto simp: insert_challenge_def once_guar_def has_challenge_def initialAdminCreated_def split: if_splits)

lemma guar_verifyAndConsume [guar_simps]: "guar (system_guar h) (verifyAndConsume cr pv ch)"
  unfolding verifyAndConsume_def
  by (auto intro!: guar_atomicallyI simp: system_guar_def account_consume_challenge)
    (auto simp: consumeChallenge_def once_guar_def has_challenge_def initialAdminCreated_def)

lemma guar_identity [guar_simps]:
  "guar (system_guar h) (findByProvider p x)" "guar (system_guar h) (findByEmail y)"
  "guar (system_guar h) (linkGoogleIdentity uid pid)"
  unfolding findByProvider_def findByEmail_def linkGoogleIdentity_def Let_def findById_def
  by (auto intro!: guar_intros guar_atomicallyI system_frame elim!: frame_statements account_update_users
      simp: guar_simps split: sum.splits list.splits option.splits)

lemma guar_createProviderUser [guar_simps]: "guar (system_guar h) (createProviderUser dr ident pid st nm k)"
proof (induction k)
  case (Suc k)
  then show ?case
    by (auto intro!: guar_intros guar_atomicallyI system_frame elim: frame_statements account_insert_user
        simp: guar_simps split: sum.splits option.splits)
qed simp

lemma guar_resolve [guar_simps]: "guar (system_guar h) (resolveProviderIdentity cfg dr ident)"
  unfolding resolveProviderIdentity_def Let_def
  by (auto intro!: guar_intros simp: guar_simps split: option.splits)

lemma guar_verifyCredential [guar_simps]: "guar (system_guar h) (verifyCredential V cfg cred)"
  unfolding verifyCredential_def by (auto intro!: guar_intros simp: guar_simps split: option.splits)

lemma guar_provider_session [guar_simps]: "guar (system_guar h) (issueProviderSession env u)"
  by (rule guar_system_frame) (simp_all add: guar_simps)

lemma guar_google [guar_simps]:
  "guar (system_guar h) (googleLogin V cfg dr env cred)"
  "guar (system_guar h) (linkAuthenticatedUser V cfg cr uid cred)"
  unfolding googleLogin_def linkAuthenticatedUser_def
  by (auto intro!: guar_intros simp: guar_simps split: resolution.splits)

section \<open>Setup\<close>

lemma ensureSetupState_fields [simp]:
  "users (ensureSetupState w) = users w" "initialAdminCreated (ensureSetupState w) = initialAdminCreated w"
  "account_guar w (ensureSetupState w)" "has_challenge h (ensureSetupState w) = has_challenge h w"
  by (auto simp: ensureSetupState_def initialAdminCreated_def account_guar_def has_active_admin_def grants_ok_def
      has_challenge_def split: option.splits)

lemma ensureSetupState_Some: "\<exists>st. setupState (ensureSetupState w) = Some st"
  by (cases "setupState w") (auto simp: ensureSetupState_def)

lemma account_setupState [simp]:
  "account_guar w (w\<lparr>setupState := x\<rparr>)" "account_guar w (w\<lparr>bootstrapToken := b\<rparr>)"
  by (simp_all add: account_guar_def has_active_admin_def grants_ok_def)

lemma initAdmin_outcome:
  assumes "initAdminTx i dto ph w = Inr (x, w')"
  shows "\<not> initialAdminCreated w \<and> initialAdminCreated w' \<and> has_active_admin w' \<and> account_guar w w'
    \<and> oauthChallenges w' = oauthChallenges w
    \<and> users w' = users w @ [new_user i (rg_email dto) (rg_username dto) (Some ph) ACTIVE (Some ADMIN) (clock w)]"
proof -
  let ?u = "new_user i (rg_email dto) (rg_username dto) (Some ph) ACTIVE (Some ADMIN) (clock w)"
  from assms obtain w2 where ini: "\<not> initialAdminCreated w" and ins: "insert_user ?u (ensureSetupState w) = Inr (?u, w2)"
    and w': "w' = w2\<lparr>setupState := map_option (\<lambda>st. st\<lparr>ss_initialAdminCreated := True, ss_updatedAt := ofDate (dateNow w)\<rparr>) (setupState w2)\<rparr>"
    by (auto simp: initAdminTx_def Let_def seqE_Inr_iff insert_user_def split: if_splits)
  from ins have w2: "w2 = (ensureSetupState w)\<lparr>users := users w @ [?u]\<rparr>" by (auto simp: insert_user_def split: if_splits)
  have "account_guar (ensureSetupState w) w2" by (rule account_insert_user [OF ins])
  then have "account_guar w w2" by (rule account_guar_trans [OF ensureSetupState_fields(3)])
  then have "account_guar w w'" unfolding w' by (rule account_guar_trans) simp
  moreover have "initialAdminCreated w'" using ensureSetupState_Some [of w] by (auto simp: w' w2 initialAdminCreated_def)
  moreover have "has_active_admin w'" by (simp add: w' w2 has_active_admin_def is_active_admin_def new_user_def orElse_def)
  moreover have "oauthChallenges w' = oauthChallenges w"
    by (auto simp: w' w2 ensureSetupState_def split: option.splits)
  ultimately show ?thesis using ini by (simp add: w' w2)
qed

lemma system_initAdmin: "initAdminTx i dto ph w = Inr (x, w') \<Longrightarrow> system_guar h w w'"
  by (drule initAdmin_outcome) (simp add: system_guar_def once_guar_def has_challenge_def)

lemma system_setup_steps [simp]:
  "system_guar h w (ensureSetupState w)" "system_guar h w (getOrGenerateBootstrapToken rnd w)"
  by (simp_all add: system_guar_def once_guar_def)
    (auto simp: getOrGenerateBootstrapToken_def has_challenge_def initialAdminCreated_def split: option.splits)

lemma guar_setup [guar_simps]:
  "guar (system_guar h) (setup_onModuleInit cfg rnd)"
  "guar (system_guar h) getSetupState"
  "guar (system_guar h) (initAdminRegister cr cfg i dto tok)"
  unfolding setup_onModuleInit_def getSetupState_def initAdminRegister_def expectedSetupToken_def
  by (auto intro!: guar_intros guar_atomicallyI elim!: system_initAdmin
      simp: guar_simps split: option.splits)

section \<open>Every handler\<close>

text \<open>
  The handlers of all services, with any arguments, answers of the outside and random values;
  only the challenges drawn at random avoid the hash \<open>h\<close>. Between their steps time passes or the
  process is restarted, which loses the setup token it holds in memory.
\<close>

inductive system_handler :: "string \<Rightarrow> (world, unit) prog \<Rightarrow> bool" for h :: string where
  sh_account: "account_handler (\<lambda>_. True) (\<lambda>_. True) p \<Longrightarrow> system_handler h p"
| sh_servers: "servers_handler p \<Longrightarrow> system_handler h p"
| sh_requestAccess: "system_handler h (void (requestAccess ids sid pr))"
| sh_getMyAccessRequest: "system_handler h (void (getMyAccessRequest sid pr))"
| sh_listAccessRequests: "system_handler h (void (listAccessRequests sid))"
| sh_approveAccess: "system_handler h (void (approveAccess ids sid uid))"
| sh_revokeAccess: "system_handler h (void (revokeAccess sid uid))"
| sh_challenge: "hashChallenge cr ch \<noteq> h \<Longrightarrow> system_handler h (void (createChallenge cr i ch pv))"
| sh_google: "system_handler h (void (googleLogin V cfg dr env cred))"
| sh_link: "system_handler h (void (linkAuthenticatedUser V cfg cr uid cred))"
| sh_boot: "system_handler h (void (setup_onModuleInit cfg rnd))"
| sh_status: "system_handler h (void getSetupState)"
| sh_init: "system_handler h (void (initAdminRegister cr cfg i dto tok))"

definition system_env :: "world \<Rightarrow> world \<Rightarrow> bool" where
  "system_env w w' \<longleftrightarrow> tick w w' \<or> w' = boot w"

lemma system_lifecycle: "lifecycle_guar E w w' \<Longrightarrow> system_guar h w w'"
  by (auto simp: lifecycle_guar_def lifecycle_step_def system_guar_def account_guar_def once_guar_def
      has_active_admin_def grants_ok_def has_challenge_def initialAdminCreated_def)

lemma system_access:
  assumes "access_guar w w'"
  shows "system_guar h w w'"
proof -
  from assms have "w' = w\<lparr>serverAccess := serverAccess w'\<rparr>" and ok: "db_ok w \<longrightarrow> db_ok w'"
    by (simp_all add: access_guar_def access_step_def)
  then obtain t where w': "w' = w\<lparr>serverAccess := t\<rparr>" by blast
  with ok show ?thesis
    by (simp add: system_guar_def account_guar_def once_guar_def has_active_admin_def grants_ok_def
        has_challenge_def initialAdminCreated_def)
qed

lemma guar_system_access: "guar access_guar p \<Longrightarrow> guar (system_guar h) p"
  by (erule guar_mono) (rule system_access)

lemma guar_system_handler: "system_handler h p \<Longrightarrow> guar (system_guar h) p"
proof (induction rule: system_handler.induct)
  case (sh_account p)
  then show ?case by (intro guar_system_frame) (auto intro: guar_account_handler frame_handler)
next
  case (sh_servers p)
  then show ?case by (rule guar_mono [OF guar_servers_handler system_lifecycle])
qed (auto simp: guar_simps intro: guar_system_access)

definition system_inv :: "world \<Rightarrow> bool" where
  "system_inv w \<longleftrightarrow> db_ok w \<and> grants_ok w \<and> (initialAdminCreated w \<longrightarrow> has_active_admin w)"

lemma system_env_fields:
  "system_env w w' \<Longrightarrow> db_ok w' = db_ok w \<and> users w' = users w \<and> modPermissions w' = modPermissions w
     \<and> setupState w' = setupState w \<and> oauthChallenges w' = oauthChallenges w"
  by (auto simp: system_env_def tick_def boot_def)

interpretation system: step_invariant "system_handler h" system_env "system_guar h" system_inv for h
proof unfold_locales
  show "system_handler h p \<Longrightarrow> guar (system_guar h) p" for p by (rule guar_system_handler)
  show "system_guar h s s' \<Longrightarrow> system_inv s \<Longrightarrow> system_inv s'" for s s'
    by (auto simp: system_guar_def account_guar_def once_guar_def system_inv_def)
  show "system_env s s' \<Longrightarrow> system_inv s \<Longrightarrow> system_inv s'" for s s'
    by (auto simp: system_inv_def grants_ok_def has_active_admin_def initialAdminCreated_def dest!: system_env_fields)
qed

text \<open>
  C4. The invariant of the whole system. Whatever requests of whatever services are
  interleaved, in every order of their atomic steps, with the clock and with restarts of the
  process: the schema's constraints hold, every permission grant belongs to a moderator, and
  from the moment the setup is complete there is always an active administrator.
\<close>

theorem system_invariant:
  assumes "reachable (system_handler h) system_env w0 (w, pool)" and "db_ok w0" and "grants_ok w0"
    and "initialAdminCreated w0 \<longrightarrow> has_active_admin w0"
  shows "db_ok w \<and> grants_ok w \<and> (initialAdminCreated w \<longrightarrow> has_active_admin w)"
  using system.reachable_inv [OF assms(1)] assms(2-4) by (simp add: system_inv_def)

text \<open>The demotion of the only administrator, interleaved with the setup on a fresh database.\<close>

definition first_admin :: register_dto where
  "first_admin = \<lparr>rg_email = ''root@example.org'', rg_username = ''root'', rg_password = ''secret''\<rparr>"

definition setup_config :: config where
  "setup_config = (\<lambda>k. if k = ''SETUP_TOKEN'' then Some ''token'' else None)"

definition setup_pool :: "(world, unit) prog list" where
  "setup_pool = [void (initAdminRegister sample_crypto setup_config ''root'' first_admin (Some ''token'')),
     void (updateRole ''root'' USER)]"

definition demoted_early :: "world \<times> (world, unit) prog list" where
  "demoted_early = foldl (\<lambda>c i. advance i c) (empty_world, setup_pool) [0, 1, 0]"

lemma demoted_early_reachable: "reachable (system_handler h) system_env empty_world demoted_early"
  unfolding demoted_early_def setup_pool_def
  by (intro reachable_schedule reachable_two) (auto intro: system_handler.intros account_handler.intros)

theorem system_invariant_witness:
  "initialAdminCreated (fst demoted_early) \<and> has_active_admin (fst demoted_early)"
proof -
  have "initialAdminCreated (fst demoted_early)" by code_simp
  then show ?thesis
    using system_invariant [of "[]" empty_world "fst demoted_early" "snd demoted_early"]
      demoted_early_reachable [of "[]"]
    by (simp add: empty_world_def initialAdminCreated_def grants_ok_def db_ok_def users_unique_def
        refreshTokens_unique_def oauthChallenges_unique_def servers_unique_def serverAccess_unique_def
        modPermissions_unique_def refs_ok_def)
qed

section \<open>The setup happens once\<close>

interpretation first_setup: single_use "system_handler h" system_env "system_guar h" "\<lambda>w. \<not> initialAdminCreated w"
    "\<lambda>_ _. True" "\<lambda>(i, dto, ph). initAdminTx i dto ph" for h
proof unfold_locales
  show "system_handler h p \<Longrightarrow> guar (system_guar h) p" for p by (rule guar_system_handler)
  show "system_guar h s s' \<Longrightarrow> \<not> \<not> initialAdminCreated s \<Longrightarrow> \<not> \<not> initialAdminCreated s'" for s s'
    by (simp add: system_guar_def once_guar_def)
  show "system_env s s' \<Longrightarrow> \<not> \<not> initialAdminCreated s \<Longrightarrow> \<not> \<not> initialAdminCreated s'" for s s'
    by (auto simp: initialAdminCreated_def dest!: system_env_fields)
  show "(case p of (i, dto, ph) \<Rightarrow> initAdminTx i dto ph) s = Inr x \<Longrightarrow> \<not> initialAdminCreated s"
    for p :: "string \<times> register_dto \<times> string" and s and x :: "unit \<times> world"
    by (cases p; cases x) (auto dest: initAdmin_outcome)
  show "(case p of (i, dto, ph) \<Rightarrow> initAdminTx i dto ph) s = Inr (y, s') \<Longrightarrow> \<not> \<not> initialAdminCreated s'"
    for p :: "string \<times> register_dto \<times> string" and s s' and y :: unit
    by (cases p) (auto dest: initAdmin_outcome)
qed

lemma run_expectedSetupToken:
  "run (expectedSetupToken cfg) w = (Inr (case configuredSetupToken cfg of Some t \<Rightarrow> Some t | None \<Rightarrow> bootstrapToken w), w)"
  by (auto simp: expectedSetupToken_def split: option.splits)

lemma run_initAdminRegister_Inr:
  "run (initAdminRegister cr cfg i dto tok) w = (Inr x, w') \<longleftrightarrow>
     x \<and> (\<exists>t t'. (case configuredSetupToken cfg of Some t \<Rightarrow> Some t | None \<Rightarrow> bootstrapToken w) = Some t
            \<and> truthy tok = Some t' \<and> setupTokenMatches cr t' t \<and> isPasswordWithinByteLimit (rg_password dto)
            \<and> initAdminTx i dto (bcrypt_hash cr (rg_password dto)) w = Inr ((), w'))"
  unfolding initAdminRegister_def run_bind_Inr run_expectedSetupToken
  by (auto simp: run_bind_Inr run_atomically_Inr run_liftE assertPasswordWithinByteLimit_def split: option.splits)

text \<open>
  C8. The first administrator is created once and only with the setup token. A registration
  that succeeds presented a token with the digest of the configured one (or, without one, of
  the one this process generated) and adds exactly one active administrator; from then on,
  whatever is interleaved and however often the process restarts, every further registration
  fails and the account cannot be created again.
\<close>

theorem setup_happens_once:
  assumes "run (initAdminRegister cr cfg i dto tok) w = (Inr x, w')"
    and "reachable (system_handler h) system_env w' c"
  shows "(\<exists>t t'. (if configuredSetupToken cfg \<noteq> None then configuredSetupToken cfg else bootstrapToken w) = Some t
              \<and> tok = Some t' \<and> sha256hex cr t' = sha256hex cr t)
    \<and> (\<exists>u. users w' = users w @ [u] \<and> u_role u = ADMIN \<and> u_status u = ACTIVE \<and> u_username u = rg_username dto
           \<and> u_passwordHash u = Some (bcrypt_hash cr (rg_password dto)))
    \<and> (\<exists>e. fst (run (initAdminRegister cr' cfg' i' dto' tok') (fst c)) = Inl e)"
proof -
  from assms(1) obtain t t' where t: "(case configuredSetupToken cfg of Some t \<Rightarrow> Some t | None \<Rightarrow> bootstrapToken w) = Some t"
      "truthy tok = Some t'" "setupTokenMatches cr t' t"
    and tx: "initAdminTx i dto (bcrypt_hash cr (rg_password dto)) w = Inr ((), w')"
    by (auto simp: run_initAdminRegister_Inr)
  from t(2) have "tok = Some t'" by (cases tok) (auto simp: truthy_if split: if_splits)
  moreover have "\<exists>e. fst (run (initAdminRegister cr' cfg' i' dto' tok') (fst c)) = Inl e"
  proof -
    obtain r w2 where run: "run (initAdminRegister cr' cfg' i' dto' tok') (fst c) = (r, w2)" by force
    obtain e where "initAdminTx i' dto' (bcrypt_hash cr' (rg_password dto')) (fst c) = Inl e"
      using first_setup.consumed_once [of "(i, dto, bcrypt_hash cr (rg_password dto))" w "()" w' h c
          "(i', dto', bcrypt_hash cr' (rg_password dto'))"] tx assms(2) by auto
    with run show ?thesis by (cases r) (auto simp: run_initAdminRegister_Inr)
  qed
  ultimately show ?thesis
    using t initAdmin_outcome [OF tx] by (auto simp: setupTokenMatches_def new_user_def orElse_def split: option.splits)
qed

definition set_up_world :: world where
  "set_up_world = snd (run (initAdminRegister sample_crypto setup_config ''root'' first_admin (Some ''token'')) empty_world)"

theorem setup_happens_once_witness:
  "\<exists>e. fst (run (initAdminRegister sample_crypto setup_config ''eve'' first_admin (Some ''token'')) set_up_world) = Inl e"
proof -
  have "fst (run (initAdminRegister sample_crypto setup_config ''root'' first_admin (Some ''token'')) empty_world) = Inr True"
    by code_simp
  then have "run (initAdminRegister sample_crypto setup_config ''root'' first_admin (Some ''token'')) empty_world
      = (Inr True, set_up_world)"
    by (simp add: set_up_world_def prod_eq_iff)
  from setup_happens_once [OF this reach_init, of sample_crypto setup_config "''eve''" first_admin "Some ''token''"]
  show ?thesis by simp
qed

section \<open>A challenge is spent once\<close>

definition spend :: "crypto \<Rightarrow> string \<Rightarrow> string \<Rightarrow> world \<Rightarrow> exn + unit \<times> world" where
  "spend cr ch pv w = seqE (consumeChallenge cr pv ch w) (\<lambda>(b, w'). if b then Inr ((), w') else Inl invalidGoogleChallenge)"

lemma spend_outcome:
  assumes "spend cr ch pv w = Inr (x, w')"
  shows "has_challenge (hashChallenge cr ch) w \<and> (db_ok w \<longrightarrow> \<not> has_challenge (hashChallenge cr ch) w')"
proof -
  let ?P = "spendable cr pv ch w"
  from assms obtain c where c: "c \<in> set (oauthChallenges w)" "?P c"
    and w': "w' = w\<lparr>oauthChallenges := delete_where ?P (oauthChallenges w)\<rparr>"
    by (auto simp: spend_def consumeChallenge_def list_ex_iff split: if_splits)
  have "d = c" if "db_ok w" "d \<in> set (oauthChallenges w)" "oc_challengeHash d = hashChallenge cr ch" for d
    using that c by (auto simp: db_ok_def oauthChallenges_unique_def spendable_def dest: distinct_key_unique)
  then show ?thesis using c by (auto simp: w' has_challenge_def spendable_def)
qed

interpretation challenge: single_use "system_handler (hashChallenge cr ch)" system_env "system_guar (hashChallenge cr ch)"
    "has_challenge (hashChallenge cr ch)" "\<lambda>_. db_ok" "spend cr ch" for cr ch
proof unfold_locales
  let ?h = "hashChallenge cr ch"
  show "system_handler ?h p \<Longrightarrow> guar (system_guar ?h) p" for p by (rule guar_system_handler)
  show "system_guar ?h s s' \<Longrightarrow> \<not> has_challenge ?h s \<Longrightarrow> \<not> has_challenge ?h s'" for s s'
    by (auto simp: system_guar_def once_guar_def)
  show "system_env s s' \<Longrightarrow> \<not> has_challenge ?h s \<Longrightarrow> \<not> has_challenge ?h s'" for s s'
    by (auto simp: has_challenge_def dest!: system_env_fields)
  show "spend cr ch p s = Inr x \<Longrightarrow> has_challenge ?h s" for p s and x :: "unit \<times> world"
    by (cases x) (auto dest: spend_outcome)
  show "db_ok s \<Longrightarrow> spend cr ch p s = Inr (y, s') \<Longrightarrow> \<not> has_challenge ?h s'" for p s s' and y :: unit
    by (auto dest: spend_outcome)
qed

lemma run_verifyAndConsume_True:
  "run (verifyAndConsume cr pv ch) w = (Inr True, w') \<longleftrightarrow> isOAuthChallengeProvider pv \<and> isRawChallenge ch \<and> spend cr ch pv w = Inr ((), w')"
  by (auto simp: verifyAndConsume_def run_atomically spend_def consumeChallenge_def)

lemma run_verifyAndConsume_bool: "\<exists>b. fst (run (verifyAndConsume cr pv ch) w) = Inr b"
  by (auto simp: verifyAndConsume_def run_atomically consumeChallenge_def)

text \<open>
  C22. A sign-in challenge is accepted once. After it was consumed, under any interleaving of
  all handlers (those that issue other challenges too), with the clock and with restarts, the
  same challenge is refused, so a Google credential that carries it opens no second session.
\<close>

theorem google_challenge_single_use:
  assumes "db_ok w" and "run (verifyAndConsume cr pv ch) w = (Inr True, w')"
    and "reachable (system_handler (hashChallenge cr ch)) system_env w' c"
  shows "fst (run (verifyAndConsume cr pv' ch) (fst c)) = Inr False"
proof -
  from assms(2) have "spend cr ch pv w = Inr ((), w')" by (simp add: run_verifyAndConsume_True)
  from challenge.consumed_once [OF assms(1) this assms(3), of pv']
  have "run (verifyAndConsume cr pv' ch) (fst c) \<noteq> (Inr True, w2)" for w2
    by (auto simp: run_verifyAndConsume_True)
  then show ?thesis using run_verifyAndConsume_bool [of cr pv' ch "fst c"]
    by (cases "run (verifyAndConsume cr pv' ch) (fst c)") auto
qed

definition sample_challenge :: string where
  "sample_challenge = replicate 43 (CHR ''c'')"

definition challenged_world :: world where
  "challenged_world = snd (run (createChallenge sample_crypto ''o1'' sample_challenge ''google'') sample_world)"

definition consumed_challenge_world :: world where
  "consumed_challenge_world = snd (run (verifyAndConsume sample_crypto ''google'' sample_challenge) challenged_world)"

lemma sample_challenge_consumed:
  "run (verifyAndConsume sample_crypto ''google'' sample_challenge) challenged_world = (Inr True, consumed_challenge_world)"
proof -
  have "fst (run (verifyAndConsume sample_crypto ''google'' sample_challenge) challenged_world) = Inr True" by code_simp
  then show ?thesis by (simp add: consumed_challenge_world_def prod_eq_iff)
qed

lemma challenged_world_db_ok: "db_ok challenged_world"
  by code_simp

theorem google_challenge_single_use_witness:
  "fst (run (verifyAndConsume sample_crypto ''google'' sample_challenge) consumed_challenge_world) = Inr False"
  using google_challenge_single_use [OF challenged_world_db_ok sample_challenge_consumed reach_init, of "''google''"] by simp

end
