(* ===== verification/GoogleProperties.thy ===== *)
theory GoogleProperties
  imports System
begin

text \<open>
  Properties of the sign-in with Google: the user names it derives, what a session requires,
  and the bound on its retries.
\<close>

section \<open>User names\<close>

lemma squash_all: "\<not> P r \<Longrightarrow> list_all (\<lambda>c. \<not> P c) (squash P r s)"
  by (induction P r s rule: squash.induct) auto

lemma list_all_dropWhile: "list_all Q s \<Longrightarrow> list_all Q (dropWhile P s)"
  by (induction s) auto

lemma list_all_strip: "list_all Q s \<Longrightarrow> list_all Q (strip c s)"
proof -
  assume "list_all Q s"
  then have "list_all Q (rev (dropWhile ((=) c) s))" by (metis list_all_dropWhile list_all_rev)
  then show ?thesis by (simp add: strip_def list_all_dropWhile)
qed

lemma list_all_take: "list_all Q s \<Longrightarrow> list_all Q (take n s)"
  by (auto simp: list_all_iff dest: in_set_takeD)

lemma canonical_iff: "matches CANONICAL_USERNAME s \<longleftrightarrow> 3 \<le> length s \<and> length s \<le> 32 \<and> list_all is_word s"
  by (simp add: CANONICAL_USERNAME_def matches_rbetween_cls)

lemma is_word_lower: "is_word c \<Longrightarrow> lower_char c = c"
  by (auto simp: is_word_def char_class_defs lower_char_def)

lemma canonical_lower: "list_all is_word s \<Longrightarrow> toLowerCase s = s"
  by (induction s) (auto simp: toLowerCase_def is_word_lower)

lemma digit_char: "0 \<le> k \<Longrightarrow> k < 10 \<Longrightarrow> is_digit (char_of (48 + k :: int))"
  by (simp add: is_digit_def)

lemma show_int_four:
  assumes "1000 \<le> n" and "n < 10000"
  shows "length (show_int n) = 4 \<and> list_all is_digit (show_int n)"
proof -
  have "\<not> n < 10" "\<not> n div 10 < 10" "\<not> n div 10 div 10 < 10" "n div 10 div 10 div 10 < 10" "\<not> n < 0"
    "0 \<le> n div 10 div 10 div 10" using assms by linarith+
  then have "show_int n = [char_of (48 + n div 10 div 10 div 10), char_of (48 + n div 10 div 10 mod 10),
      char_of (48 + n div 10 mod 10), char_of (48 + n mod 10)]"
    by (simp add: show_int_def show_nat.simps [of n] show_nat.simps [of "n div 10"] show_nat.simps [of "n div 10 div 10"]
        show_nat.simps [of "n div 10 div 10 div 10"] del: div_mult2_eq)
  moreover have "0 \<le> n div 10 div 10 div 10" "n div 10 div 10 div 10 < 10" using assms by linarith+
  ultimately show ?thesis by (simp add: digit_char)
qed

lemma username_canonical:
  assumes "usernameForClaims email name = Inr s"
  shows "matches CANONICAL_USERNAME s"
proof -
  obtain src where s: "s = padEnd 3 (CHR ''_'') (let n = take 32 (strip (CHR ''_'') (squash (\<lambda>c. \<not> is_word c) (CHR ''_'') src))
      in if n = [] then ''user'' else n)"
    using assms by (auto simp: usernameForClaims_def Let_def seqE_Inr_iff)
  define n where "n = take 32 (strip (CHR ''_'') (squash (\<lambda>c. \<not> is_word c) (CHR ''_'') src))"
  have u: "is_word (CHR ''_'')" "list_all is_word ''user''" by code_simp+
  have "list_all is_word n"
    using squash_all [of "\<lambda>c. \<not> is_word c" "CHR ''_''" src] u by (simp add: n_def list_all_take list_all_strip)
  moreover have "length n \<le> 32" by (simp add: n_def)
  ultimately show ?thesis using u
    by (auto simp: s n_def [symmetric] Let_def padEnd_def canonical_iff list_all_iff)
qed

lemma candidate_canonical:
  assumes "matches CANONICAL_USERNAME s" and "1000 \<le> dr_suffix dr n" and "dr_suffix dr n < 10000"
  shows "matches CANONICAL_USERNAME (candidateName dr n s)"
proof -
  have "list_all is_word (show_int (dr_suffix dr n))"
    using show_int_four [OF assms(2,3)] by (auto simp: list_all_iff is_word_def)
  with assms(1) show_int_four [OF assms(2,3)] show ?thesis
    by (auto simp: candidateName_def canonical_iff list_all_take)
qed

text \<open>
  Whatever display name or e-mail address Google reports, the user name derived from it is
  canonical: three to thirty-two of the characters a-z, 0-9 and underscore, already in lower
  case, and so is every name tried after a collision (a prefix with a four-digit suffix).
  The check of canonical names therefore never rejects a sign-in with Google.
\<close>

theorem google_username_canonical:
  assumes "usernameForClaims email name = Inr s" and "1000 \<le> dr_suffix dr n" and "dr_suffix dr n < 10000"
  shows "toLowerCase s = s \<and> matches CANONICAL_USERNAME s \<and> matches CANONICAL_USERNAME (candidateName dr n s)
     \<and> list_all is_word s \<and> 3 \<le> length s \<and> length s \<le> 32"
  using username_canonical [OF assms(1)] candidate_canonical [OF _ assms(2,3)]
  by (auto simp: canonical_iff canonical_lower)

definition sample_draws :: identity_draws where
  "sample_draws = \<lparr>dr_id = (\<lambda>n. ''g'' @ show_int (int n)), dr_suffix = (\<lambda>n. 1234 + int n)\<rparr>"

theorem google_username_canonical_witness:
  "matches CANONICAL_USERNAME ''jo_''
   \<and> matches CANONICAL_USERNAME (candidateName sample_draws 1 ''jo_smith_jr'')"
proof -
  have "usernameForClaims ''x@example.org'' (Some (JStr '' Jo Smith (jr) '')) = Inr ''jo_smith_jr''" by code_simp
  from google_username_canonical [OF this, of sample_draws 1]
  have 1: "matches CANONICAL_USERNAME (candidateName sample_draws 1 ''jo_smith_jr'')" by (simp add: sample_draws_def)
  have "usernameForClaims ''Jo_@example.org'' None = Inr ''jo_''" by code_simp
  from google_username_canonical [OF this, of sample_draws 1]
  have "matches CANONICAL_USERNAME ''jo_''" by (simp only: sample_draws_def identity_draws.simps)
  with 1 show ?thesis by blast
qed

section \<open>Who is signed in\<close>

lemma run_createProviderUser:
  assumes "run (createProviderUser dr ident pid st nm k) w = (Inr res, w')"
    and "\<forall>u \<in> set (users w). providerIdColumn (pi_provider ident) u \<noteq> Some pid \<and> u_email u \<noteq> pi_email ident"
  shows "\<exists>n. res = Created (provider_user dr ident pid st nm n (clock w))
     \<and> w' = w\<lparr>users := users w @ [provider_user dr ident pid st nm n (clock w)]\<rparr>"
  using assms(1)
proof (induction k)
  case (Suc k)
  let ?u = "provider_user dr ident pid st nm (3 - Suc k) (clock w)"
  have none: "List.find (\<lambda>u. providerIdColumn (pi_provider ident) u = Some pid) (users w) = None"
    "List.find (\<lambda>u. u_email u = pi_email ident) (users w) = None"
    using assms(2) by (auto simp: find_None_iff2)
  show ?case
  proof (cases "users_unique (users w @ [?u])")
    case True
    with Suc.prems show ?thesis
      by (cases "varchar_ok ?u") (auto simp: run_simps insert_user_def isUniqueViolation_def)
  next
    case False
    with Suc none show ?thesis
      by (cases "varchar_ok ?u") (auto simp: run_simps insert_user_def isUniqueViolation_def findByProvider_def findByEmail_def)
  qed
qed simp

lemma resolve_outcome:
  assumes "run (resolveProviderIdentity cfg dr ident) w = (Inr res, w')"
  shows "(case res of
      Authenticated u \<Rightarrow> u \<in> set (users w) \<and> providerIdColumn (pi_provider ident) u = Some (trim (pi_providerId ident)) \<and> w' = w
    | LinkConfirmationRequired u \<Rightarrow> u \<in> set (users w) \<and> u_email u = pi_email ident \<and> w' = w
    | Created u \<Rightarrow> (\<forall>x \<in> set (users w). u_email x \<noteq> pi_email ident) \<and> w' = w\<lparr>users := users w @ [u]\<rparr>
        \<and> u_email u = pi_email ident \<and> u_role u = USER
        \<and> providerIdColumn (pi_provider ident) u = Some (trim (pi_providerId ident)))"
proof -
  let ?pid = "trim (pi_providerId ident)"
  consider (linked) u where "List.find (\<lambda>u. providerIdColumn (pi_provider ident) u = Some ?pid) (users w) = Some u"
    | (mail) u where "List.find (\<lambda>u. providerIdColumn (pi_provider ident) u = Some ?pid) (users w) = None"
        "List.find (\<lambda>u. u_email u = pi_email ident) (users w) = Some u"
    | (new) "List.find (\<lambda>u. providerIdColumn (pi_provider ident) u = Some ?pid) (users w) = None"
        "List.find (\<lambda>u. u_email u = pi_email ident) (users w) = None"
    by (metis option.exhaust)
  then show ?thesis
  proof cases
    case linked
    then show ?thesis using assms find_Some_mem [OF linked]
      by (auto simp: resolveProviderIdentity_def Let_def run_bind_Inr findByProvider_def split: if_splits)
  next
    case mail
    then show ?thesis using assms find_Some_mem [OF mail(2)]
      by (auto simp: resolveProviderIdentity_def Let_def run_bind_Inr findByProvider_def findByEmail_def split: if_splits)
  next
    case new
    then have none: "\<forall>u \<in> set (users w). providerIdColumn (pi_provider ident) u \<noteq> Some ?pid \<and> u_email u \<noteq> pi_email ident"
      by (auto simp: find_None_iff2)
    obtain st nm where "run (createProviderUser dr ident ?pid st nm 3) w = (Inr res, w')"
      using assms new
      by (auto simp: resolveProviderIdentity_def Let_def run_bind_Inr findByProvider_def findByEmail_def split: if_splits)
    from run_createProviderUser [OF this none] none show ?thesis
      by (cases "pi_provider ident")
        (auto simp: provider_user_def with_provider_def providerIdColumn_def new_user_def orElse_def)
  qed
qed

lemma run_verifyCredential_Inr:
  "run (verifyCredential V cfg cred) w = (Inr claims, w') \<longleftrightarrow>
     w' = w \<and> (\<exists>aud payload. googleClientId cfg = Some aud \<and> V cred aud = Inr (Some payload)
       \<and> hasRequiredClaims (dateNow w) payload \<and> claims = toClaims payload)"
  unfolding verifyCredential_def
  by (auto simp: run_tryCatch run_bind run_liftE split: option.splits sum.splits prod.splits if_splits)

lemma run_issueProviderSession:
  "run (issueProviderSession env u) w = (Inr s, w') \<Longrightarrow> u_status u = ACTIVE \<and> \<not> u_mustChangePassword u
     \<and> \<not> u_totpEnabled u \<and> at_user s = toPublicUser u \<and> users w' = users w \<and> oauthChallenges w' = oauthChallenges w"
  unfolding issueProviderSession_def issueSession_def assertLoginAllowed_def
  by (auto simp: run_bind_Inr run_liftE run_atomically_Inr insert_token_def split: user_status.splits if_splits)

text \<open>
  C23. What a sign-in with Google requires, and whose account it opens. A session is opened only
  for a token that Google's verifier accepts for the configured client and whose claims are
  current, with a stored challenge that this sign-in uses up. The account is the one linked to
  that Google identity, active, not in recovery and without a second factor; or no account had
  the verified address and a new account with the role USER was created for it. An account
  that merely has the same address is never opened.
\<close>

theorem google_session_owner:
  assumes "db_ok w" and "run (googleLogin V cfg dr env cred) w = (Inr (GoogleSession s), w')"
  shows "\<exists>aud payload. googleClientId cfg = Some aud \<and> V cred aud = Inr (Some payload) \<and> hasRequiredClaims (dateNow w) payload
     \<and> has_challenge (hashChallenge (ae_crypto env) (gc_nonce (toClaims payload))) w
     \<and> \<not> has_challenge (hashChallenge (ae_crypto env) (gc_nonce (toClaims payload))) w'
     \<and> (\<exists>u \<in> set (users w'). at_user s = toPublicUser u \<and> u_googleId u = Some (trim (gc_sub (toClaims payload)))
          \<and> u_status u = ACTIVE \<and> \<not> u_mustChangePassword u \<and> \<not> u_totpEnabled u
          \<and> (u \<in> set (users w) \<and> users w' = users w
             \<or> (\<forall>x \<in> set (users w). u_email x \<noteq> gc_email (toClaims payload)) \<and> users w' = users w @ [u]
                \<and> u_role u = USER \<and> u_email u = gc_email (toClaims payload)))"
proof -
  from assms(2) obtain aud payload w1 w2 nm res where
    v: "googleClientId cfg = Some aud" "V cred aud = Inr (Some payload)" "hasRequiredClaims (dateNow w) payload"
    and c: "run (verifyAndConsume (ae_crypto env) ''google'' (gc_nonce (toClaims payload))) w = (Inr True, w1)"
    and r: "run (resolveProviderIdentity cfg dr \<lparr>pi_provider = Google, pi_providerId = gc_sub (toClaims payload),
             pi_email = gc_email (toClaims payload), pi_username = nm\<rparr>) w1 = (Inr res, w2)"
    and f: "run (case res of LinkConfirmationRequired _ \<Rightarrow> Return GoogleLinkConfirmationRequired
       | Authenticated u \<Rightarrow> bind (issueProviderSession env u) (\<lambda>s. Return (GoogleSession s))
       | Created u \<Rightarrow> bind (issueProviderSession env u) (\<lambda>s. Return (GoogleSession s))) w2 = (Inr (GoogleSession s), w')"
    unfolding googleLogin_def
    by (auto simp: run_bind_Inr run_verifyCredential_Inr run_liftE split: if_splits)
  from c have sp: "spend (ae_crypto env) (gc_nonce (toClaims payload)) ''google'' w = Inr ((), w1)"
    by (simp add: run_verifyAndConsume_True)
  have w1: "users w1 = users w" using sp by (auto simp: spend_def consumeChallenge_def split: if_splits)
  obtain u where u: "res = Authenticated u \<or> res = Created u" "run (issueProviderSession env u) w2 = (Inr s, w')"
    using f by (cases res) (auto simp: run_bind_Inr)
  note ses = run_issueProviderSession [OF u(2)]
  have "users w2 = users w1 \<and> u \<in> set (users w) \<or> (\<forall>x \<in> set (users w). u_email x \<noteq> gc_email (toClaims payload))
       \<and> users w2 = users w @ [u] \<and> u_role u = USER \<and> u_email u = gc_email (toClaims payload)"
    and "u_googleId u = Some (trim (gc_sub (toClaims payload)))" and "oauthChallenges w2 = oauthChallenges w1"
    using resolve_outcome [OF r] u(1) w1 by (auto simp: providerIdColumn_def)
  with v spend_outcome [OF sp] assms(1) ses w1 show ?thesis
    by (auto simp: has_challenge_def)
qed

definition google_config :: config where
  "google_config = (\<lambda>k. if k = ''GOOGLE_CLIENT_ID'' then Some ''client'' else None)"

definition sample_verifier :: id_token_verifier where
  "sample_verifier = (\<lambda>cred aud. Inr (Some [(''iss'', JStr ''accounts.google.com''), (''sub'', JStr ''g-1''),
     (''email'', JStr ''Jo@example.org''), (''email_verified'', JBool True), (''nonce'', JStr sample_challenge),
     (''iat'', JNum (Num 0)), (''exp'', JNum (Num 100))]))"

definition google_world :: world where
  "google_world = snd (run (googleLogin sample_verifier google_config sample_draws (sample_env ''a'') ''cred'') challenged_world)"

lemma sample_google_login:
  "case fst (run (googleLogin sample_verifier google_config sample_draws (sample_env ''a'') ''cred'') challenged_world) of
     Inr (GoogleSession s) \<Rightarrow> True | _ \<Rightarrow> False"
  by code_simp

theorem google_session_owner_witness:
  "\<exists>u \<in> set (users google_world). u_googleId u = Some ''g-1'' \<and> u_role u = USER \<and> u_email u = ''jo@example.org''"
proof -
  from sample_google_login obtain s where
    "run (googleLogin sample_verifier google_config sample_draws (sample_env ''a'') ''cred'') challenged_world
      = (Inr (GoogleSession s), google_world)"
    by (auto simp: google_world_def prod_eq_iff split: sum.splits google_outcome.splits)
  from google_session_owner [OF challenged_world_db_ok this] obtain u where u: "u \<in> set (users google_world)"
      "u_googleId u = Some (trim ''g-1'')"
      "u \<in> set (users challenged_world) \<or> u_role u = USER \<and> u_email u = toLowerCase (trim ''Jo@example.org'')"
    by (auto simp: sample_verifier_def toClaims_def jstr_def)
  have none: "list_all (\<lambda>u. u_googleId u = None) (users challenged_world)" by code_simp
  have t: "trim ''g-1'' = ''g-1''" "toLowerCase (trim ''Jo@example.org'') = ''jo@example.org''" by code_simp+
  from u none have "u_role u = USER \<and> u_email u = toLowerCase (trim ''Jo@example.org'')"
    unfolding list_all_iff by (metis option.distinct(1))
  with u show ?thesis unfolding t by blast
qed

section \<open>Retries\<close>

lemma ends_statement [simp]: "ends_within (Suc n) (get f)" "ends_within (Suc n) (atomically g)"
  by (auto simp: get_def atomically_def split: sum.splits)

lemma ends_createProviderUser: "ends_within (3 * k) (createProviderUser dr ident pid st nm k)"
proof (induction k)
  case (Suc k)
  let ?mail = "bind (findByEmail (pi_email ident)) (case_option (createProviderUser dr ident pid st nm k)
    (\<lambda>u. Return (LinkConfirmationRequired u)))"
  have "ends_within (1 + 3 * k) ?mail"
    by (rule ends_within_bind) (auto simp: findByEmail_def Suc split: option.splits)
  then have "ends_within (1 + (1 + 3 * k)) (bind (findByProvider (pi_provider ident) pid)
      (case_option ?mail (\<lambda>u. Return (Authenticated u))))"
    by (intro ends_within_bind) (auto simp: findByProvider_def split: option.splits)
  then have "ends_within (1 + (1 + (1 + 3 * k))) (createProviderUser dr ident pid st nm (Suc k))"
    unfolding createProviderUser.simps by (intro ends_within_bind) (auto split: sum.splits)
  then show ?case by (simp add: algebra_simps eval_nat_numeral del: createProviderUser.simps)
qed simp

text \<open>
  Resolving a provider's identity ends: two look-ups and at most three attempts of three
  statements each, whatever other requests insert or delete in between.
\<close>

theorem identity_retries_are_bounded: "ends_within 11 (resolveProviderIdentity cfg dr ident)"
proof -
  have "ends_within 9 (createProviderUser dr ident pid st nm 3)" for pid st nm
    using ends_createProviderUser [of 3 dr ident pid st nm] by simp
  then have "ends_within (Suc (Suc 9)) (resolveProviderIdentity cfg dr ident)"
    unfolding resolveProviderIdentity_def Let_def
    by (auto intro!: ends_within_Suc_bind simp: findByProvider_def findByEmail_def numeral_eq_Suc split: option.splits
        simp del: createProviderUser.simps)
  then show ?thesis by simp
qed

end
