(* ===== verification/Guards.thy ===== *)
theory Guards
  imports AuthService
begin

text \<open>
  The guards that run before every controller, in the order of \<open>src/app.module.ts\<close>: the
  origin check (\<open>common/guards/csrf-origin.guard.ts\<close>, \<open>common/cors-origin.ts\<close>), the access token
  (\<open>auth/access-token.service.ts\<close>, \<open>auth/guards/jwt-auth.guard.ts\<close>), the roles and the
  moderator permissions (\<open>roles.guard.ts\<close>, \<open>permissions.guard.ts\<close>), the throttler (a package: a
  parameter), and the guard of the second login step (\<open>pre-auth.guard.ts\<close>).

  A query that does not reach the database is the argument \<open>up = False\<close>.
\<close>

section \<open>Requests\<close>

text \<open>A header is absent, a single string, or repeated.\<close>

datatype header = NoHeader | Header string | Headers "string list"

record request =
  rq_method :: string
  rq_path :: string
  rq_protocol :: string
  rq_host :: "string option"
  rq_origin :: header
  rq_authorization :: "string option"
  rq_access_token :: "json option"
  rq_refresh_token :: "json option"
  rq_params_id :: "string option"
  rq_ip :: "string option"
  rq_remoteAddress :: "string option"

text \<open>\<open>request.user\<close>, set by the guard of the access token.\<close>

record guarded_user =
  gu_id :: string
  gu_username :: string
  gu_role :: role
  gu_temporaryAuth :: bool

definition dbSelect :: "bool \<Rightarrow> (world \<Rightarrow> 'a) \<Rightarrow> (world, 'a) prog" where
  "dbSelect up f = (if up then get f else Throw (PlainError ''database unavailable''))"

section \<open>The canonical origin\<close>

record url =
  url_protocol :: string
  url_username :: string
  url_password :: string
  url_pathname :: string
  url_search :: string
  url_hash :: string
  url_origin :: string

definition DEFAULT_ORIGIN :: string where "DEFAULT_ORIGIN = ''http://localhost:5173''"

definition getCanonicalCorsOrigin :: "(string \<Rightarrow> url option) \<Rightarrow> config \<Rightarrow> exn + string" where
  "getCanonicalCorsOrigin newURL cfg =
     (let raw = (case cfg ''CORS_ORIGIN'' of None \<Rightarrow> DEFAULT_ORIGIN | Some v \<Rightarrow> v)
      in if raw \<noteq> trim raw then Inl (PlainError ''CORS_ORIGIN must not have surrounding whitespace'')
         else if raw = [] then Inl (PlainError ''CORS_ORIGIN must not be empty'')
         else if CHR '','' \<in> set raw then
           Inl (PlainError ''CORS_ORIGIN must be exactly one origin, not a comma-separated list'')
         else if raw = ''null'' \<or> raw = ''*'' \<or> endsWith raw ''/'' then
           Inl (PlainError ''CORS_ORIGIN must be an absolute http(s) origin'')
         else case newURL raw of
           None \<Rightarrow> Inl (PlainError (''CORS_ORIGIN is not a valid URL: '' @ raw))
         | Some parsed \<Rightarrow>
             if url_protocol parsed \<noteq> ''http:'' \<and> url_protocol parsed \<noteq> ''https:'' then
               Inl (PlainError ''CORS_ORIGIN must use http: or https:'')
             else if url_username parsed \<noteq> [] \<or> url_password parsed \<noteq> [] then
               Inl (PlainError ''CORS_ORIGIN must not contain credentials'')
             else if url_pathname parsed \<noteq> ''/'' then Inl (PlainError ''CORS_ORIGIN must not contain a path'')
             else if url_search parsed \<noteq> [] then Inl (PlainError ''CORS_ORIGIN must not contain a query string'')
             else if url_hash parsed \<noteq> [] then Inl (PlainError ''CORS_ORIGIN must not contain a fragment'')
             else Inr (url_origin parsed))"

section \<open>Cross-site requests\<close>

definition MUTATING_METHODS :: "string list" where
  "MUTATING_METHODS = [''POST'', ''PUT'', ''PATCH'', ''DELETE'']"

definition isAllowedOrigin :: "string \<Rightarrow> request \<Rightarrow> string \<Rightarrow> bool" where
  "isAllowedOrigin canonicalOrigin rq origin =
     (if origin = canonicalOrigin then True
      else case rq_host rq of None \<Rightarrow> False | Some host \<Rightarrow> origin = rq_protocol rq @ ''://'' @ host)"

definition csrfOriginForbidden :: exn where
  "csrfOriginForbidden = ForbiddenException (Code ''CsrfOriginForbidden'')"

definition csrf_canActivate :: "string \<Rightarrow> bool \<Rightarrow> request \<Rightarrow> exn + unit" where
  "csrf_canActivate canonicalOrigin http rq =
     (if \<not> http then Inr ()
      else if rq_method rq \<notin> set MUTATING_METHODS then Inr ()
      else case rq_origin rq of
        NoHeader \<Rightarrow> Inr ()
      | Headers _ \<Rightarrow> Inl csrfOriginForbidden
      | Header origin \<Rightarrow> guardE (isAllowedOrigin canonicalOrigin rq origin) csrfOriginForbidden)"

section \<open>Access tokens\<close>

record access_claims =
  ac_sub :: string
  ac_username :: string
  ac_temporaryAuth :: "bool option"
  ac_exp :: int

record access_principal =
  ap_id :: string
  ap_username :: string
  ap_role :: role
  ap_mustChangePassword :: bool
  ap_temporaryAuth :: bool
  ap_exp :: int

definition claimedExp :: "json \<Rightarrow> int option" where
  "claimedExp v = (case v of
     JNum n \<Rightarrow> if isInteger n \<and> 0 < js_floor n \<and> js_floor n \<le> MAX_EXP_SECONDS then Some (js_floor n) else None
   | _ \<Rightarrow> None)"

definition parseAccessTokenClaims :: "json \<Rightarrow> access_claims option" where
  "parseAccessTokenClaims candidate = (case candidate of
     JObj ms \<Rightarrow>
       (case (jfield ms ''sub'', jfield ms ''username'', jfield ms ''type'', jfield ms ''exp'') of
          (Some (JStr sub), Some (JStr username), Some ty, Some e) \<Rightarrow>
            (case (claimedExp e, jfield ms ''temporaryAuth'') of
               (Some ex, None) \<Rightarrow>
                 if sub \<noteq> [] \<and> ty = JStr ''access''
                 then Some \<lparr>ac_sub = sub, ac_username = username, ac_temporaryAuth = None, ac_exp = ex\<rparr> else None
             | (Some ex, Some (JBool b)) \<Rightarrow>
                 if sub \<noteq> [] \<and> ty = JStr ''access''
                 then Some \<lparr>ac_sub = sub, ac_username = username, ac_temporaryAuth = Some b, ac_exp = ex\<rparr> else None
             | _ \<Rightarrow> None)
        | _ \<Rightarrow> None)
   | _ \<Rightarrow> None)"

definition accountPending :: exn where "accountPending = ForbiddenException (Code ''AccountPending'')"
definition accountBanned :: exn where "accountBanned = ForbiddenException (Code ''AccountBanned'')"

definition verifyAccess :: "crypto \<Rightarrow> bool \<Rightarrow> string \<Rightarrow> (world, access_principal) prog" where
  "verifyAccess cr up token =
     (case jwt_verify cr token of
        JwtOk verifiedPayload \<Rightarrow>
          (case parseAccessTokenClaims verifiedPayload of
             None \<Rightarrow> Throw unauthorized
           | Some payload \<Rightarrow>
               bind (attempt (dbSelect up (find_user (ac_sub payload)))) (\<lambda>r.
               case r of
                 Inl e \<Rightarrow> Throw unauthorized
               | Inr None \<Rightarrow> Throw unauthorized
               | Inr (Some u) \<Rightarrow>
                   (case u_status u of
                      U_PENDING \<Rightarrow> Throw accountPending
                    | BANNED \<Rightarrow> Throw accountBanned
                    | ACTIVE \<Rightarrow> Return \<lparr>ap_id = ac_sub payload, ap_username = ac_username payload,
                        ap_role = u_role u, ap_mustChangePassword = u_mustChangePassword u,
                        ap_temporaryAuth = (ac_temporaryAuth payload = Some True), ap_exp = ac_exp payload * 1000\<rparr>)))
      | _ \<Rightarrow> Throw unauthorized)"

text \<open>Only an exception of class \<open>ForbiddenException\<close> leaves the guard as it is.\<close>

fun rethrowForbidden :: "exn \<Rightarrow> exn" where
  "rethrowForbidden (ForbiddenException b) = ForbiddenException b"
| "rethrowForbidden e = UnauthorizedException NoBody"

definition passwordChangeRequired :: exn where
  "passwordChangeRequired = ForbiddenException (Code ''PasswordChangeRequired'')"

definition isPasswordChangeRoute :: "request \<Rightarrow> bool" where
  "isPasswordChangeRoute rq \<longleftrightarrow> rq_method rq = ''PATCH'' \<and> rq_path rq = ''/api/auth/password''"

definition principalAllowed :: "request \<Rightarrow> access_principal \<Rightarrow> exn + guarded_user" where
  "principalAllowed rq pr =
     seqE (if ap_mustChangePassword pr then
             seqE (guardE (ap_temporaryAuth pr) unauthorized) (\<lambda>_.
             guardE (isPasswordChangeRoute rq) passwordChangeRequired)
           else guardE (\<not> ap_temporaryAuth pr) unauthorized) (\<lambda>_.
     Inr \<lparr>gu_id = ap_id pr, gu_username = ap_username pr, gu_role = ap_role pr,
          gu_temporaryAuth = ap_temporaryAuth pr\<rparr>)"

definition jwt_canActivate :: "crypto \<Rightarrow> bool \<Rightarrow> bool \<Rightarrow> request \<Rightarrow> (world, guarded_user option) prog" where
  "jwt_canActivate cr up isPublic rq =
     (if isPublic then Return None
      else case rq_access_token rq of
        Some (JStr token) \<Rightarrow>
          if token = [] then Throw unauthorized
          else bind (tryCatch (bind (verifyAccess cr up token) (\<lambda>principal. liftE (principalAllowed rq principal)))
                 (\<lambda>e. Throw (rethrowForbidden e))) (\<lambda>u. Return (Some u))
      | _ \<Rightarrow> Throw unauthorized)"

section \<open>Roles and permissions\<close>

definition forbidden :: exn where "forbidden = ForbiddenException NoBody"

definition roles_canActivate :: "role list option \<Rightarrow> guarded_user option \<Rightarrow> exn + unit" where
  "roles_canActivate roles user =
     (case roles of
        None \<Rightarrow> Inr ()
      | Some rs \<Rightarrow>
          (case user of
             None \<Rightarrow> Inl forbidden
           | Some u \<Rightarrow> guardE (gu_role u = ADMIN \<or> gu_role u \<in> set rs) forbidden))"

text \<open>The rows the permission query selects: the grant, global or for the server of the route.\<close>

definition grantFor :: "string \<Rightarrow> mod_permission \<Rightarrow> string option \<Rightarrow> mod_permission_row \<Rightarrow> bool" where
  "grantFor uid permission serverId r \<longleftrightarrow> mp_userId r = uid \<and> mp_permission r = permission
     \<and> (case serverId of
          Some sid \<Rightarrow> mp_serverId r = None \<or> mp_serverId r = Some sid
        | None \<Rightarrow> mp_serverId r = None)"

definition permissionUnavailable :: exn where
  "permissionUnavailable = ServiceUnavailableException (Msg ''Permission check unavailable'')"

fun rethrowOrUnavailable :: "exn \<Rightarrow> exn" where
  "rethrowOrUnavailable (ForbiddenException b) = ForbiddenException b"
| "rethrowOrUnavailable e = ServiceUnavailableException (Msg ''Permission check unavailable'')"

definition permissions_canActivate ::
    "bool \<Rightarrow> mod_permission option \<Rightarrow> request \<Rightarrow> guarded_user option \<Rightarrow> (world, unit) prog" where
  "permissions_canActivate up permission rq user =
     (case permission of
        None \<Rightarrow> Return ()
      | Some p \<Rightarrow>
          (case user of
             None \<Rightarrow> Throw forbidden
           | Some u \<Rightarrow>
               if gu_role u = ADMIN then Return ()
               else if gu_role u \<noteq> MOD then Throw forbidden
               else
               tryCatch
                 (bind (dbSelect up (\<lambda>w. List.find (grantFor (gu_id u) p (truthy (rq_params_id rq))) (modPermissions w))) (\<lambda>row.
                  if row = None then Throw forbidden else Return ()))
                 (\<lambda>e. Throw (rethrowOrUnavailable e))))"

section \<open>The second step of a login\<close>

record pre_auth =
  pa_sub :: string
  pa_temporaryAuth :: bool
  pa_fingerprint :: "json option"

text \<open>
  The text the regular expression of the fingerprint is tried on: \<open>test\<close> converts its argument
  to a string, \<open>null\<close> counts as empty, and of the other values only a string, or arrays
  around a single one, can give 64 hexadecimal digits.
\<close>

fun testedText :: "json \<Rightarrow> string" where
  "testedText (JStr s) = s"
| "testedText (JArr [x]) = testedText x"
| "testedText _ = []"

definition FINGERPRINT :: rx where
  "FINGERPRINT = rtimes 64 (RCls is_hex)"

definition isPreAuthPayload :: "json \<Rightarrow> pre_auth option" where
  "isPreAuthPayload payload = (case payload of
     JObj ms \<Rightarrow>
       (case (jfield ms ''type'', jfield ms ''sub'') of
          (Some ty, Some (JStr sub)) \<Rightarrow>
            if ty = JStr ''pre-auth'' \<and> trim sub \<noteq> [] then
              (case (jfield ms ''temporaryAuth'', jfield ms ''temporaryCredentialFingerprint'') of
                 (None, None) \<Rightarrow> Some \<lparr>pa_sub = sub, pa_temporaryAuth = False, pa_fingerprint = None\<rparr>
               | (Some (JBool True), fp) \<Rightarrow>
                   if matches FINGERPRINT (case fp of None \<Rightarrow> [] | Some v \<Rightarrow> testedText v)
                   then Some \<lparr>pa_sub = sub, pa_temporaryAuth = True, pa_fingerprint = fp\<rparr> else None
               | _ \<Rightarrow> None)
            else None
        | _ \<Rightarrow> None)
   | _ \<Rightarrow> None)"

definition bearerToken :: "string option \<Rightarrow> string option" where
  "bearerToken authorization = (case authorization of
     None \<Rightarrow> None
   | Some a \<Rightarrow>
       (case split_on (CHR '' '') a of
          [scheme, token] \<Rightarrow>
            if toLowerCase scheme = ''bearer'' \<and> token \<noteq> [] \<and> \<not> list_ex is_ws token then Some token else None
        | _ \<Rightarrow> None))"

definition preAuth_canActivate :: "crypto \<Rightarrow> request \<Rightarrow> exn + pre_auth" where
  "preAuth_canActivate cr rq = (case bearerToken (rq_authorization rq) of
     None \<Rightarrow> Inl unauthorized
   | Some token \<Rightarrow>
       (case jwt_verify cr token of
          JwtOk payload \<Rightarrow> (case isPreAuthPayload payload of None \<Rightarrow> Inl unauthorized | Some p \<Rightarrow> Inr p)
        | _ \<Rightarrow> Inl unauthorized))"

section \<open>What a verified access token tells\<close>

lemma find_user_id: "find_user uid w = Some u \<Longrightarrow> u \<in> set (users w) \<and> u_id u = uid"
  unfolding find_user_def by (auto dest: find_Some_mem)

lemma run_dbSelect: "run (dbSelect up f) w = (if up then Inr (f w) else Inl (PlainError ''database unavailable''), w)"
  by (simp add: dbSelect_def)

lemma run_verifyAccess:
  "run (verifyAccess cr up token) w = (r, w') \<Longrightarrow> w' = w \<and>
     (\<forall>pr. r = Inr pr \<longrightarrow> (\<exists>payload claims u. jwt_verify cr token = JwtOk payload \<and> parseAccessTokenClaims payload = Some claims
        \<and> find_user (ac_sub claims) w = Some u \<and> u_status u = ACTIVE \<and> ap_id pr = u_id u \<and> ap_role pr = u_role u
        \<and> ap_mustChangePassword pr = u_mustChangePassword u \<and> ap_temporaryAuth pr = (ac_temporaryAuth claims = Some True)))"
  unfolding verifyAccess_def
  by (auto simp: run_bind run_attempt run_dbSelect dest: find_user_id
      split: jwt_result.splits option.splits user_status.splits if_splits)

end
