(* ===== verification/Config.thy ===== *)
theory Config
  imports Guards
begin

text \<open>
  Configuration that is read at start, and what every response carries: the life time of
  refresh tokens (\<open>auth/refresh-token-ttl.ts\<close>), the production checks of \<open>main.ts\<close>, the session
  cookies (\<open>auth/auth-cookies.ts\<close>) and request ids (\<open>common/request-id.middleware.ts\<close>).
\<close>

section \<open>The life time of refresh tokens\<close>

fun DURATION_UNITS_MS :: "string \<Rightarrow> int option" where
  "DURATION_UNITS_MS u =
     (if u = ''ms'' then Some 1 else if u = ''s'' then Some 1000 else if u = ''m'' then Some 60000
      else if u = ''h'' then Some 3600000 else if u = ''d'' then Some 86400000
      else if u = ''w'' then Some 604800000 else None)"

declare DURATION_UNITS_MS.simps [simp del]

definition DEFAULT_REFRESH_TOKEN_TTL :: string where "DEFAULT_REFRESH_TOKEN_TTL = ''7d''"

definition invalidTtl :: exn where "invalidTtl = PlainError ''Invalid JWT_REFRESH_EXPIRES_IN''"

text \<open>The two groups of \<open>DURATION_PATTERN\<close>: a number without leading zero, and a unit in any case.\<close>

definition DURATION_PATTERN :: "string \<Rightarrow> (string \<times> string) option" where
  "DURATION_PATTERN s =
     (let amount = takeWhile is_digit s; unit = dropWhile is_digit s
      in if amount \<noteq> [] \<and> hd amount \<noteq> CHR ''0'' \<and> DURATION_UNITS_MS (toLowerCase unit) \<noteq> None
         then Some (amount, unit) else None)"

definition parseRefreshTokenTtl :: "string option \<Rightarrow> exn + refresh_ttl" where
  "parseRefreshTokenTtl value =
     (let resolved = orElse value DEFAULT_REFRESH_TOKEN_TTL
      in if resolved = [] \<or> resolved \<noteq> trim resolved then Inl invalidTtl
         else case DURATION_PATTERN resolved of
           None \<Rightarrow> Inl invalidTtl
         | Some (digits, u) \<Rightarrow>
             let amount = js_Number digits;
                 unit = toLowerCase u;
                 milliseconds = js_mul amount (Num (of_int (orElse (DURATION_UNITS_MS unit) 0)))
             in if \<not> isSafeInteger amount \<or> \<not> isSafeInteger milliseconds then Inl invalidTtl
                else Inr \<lparr>tt_expiresIn = show_int (js_floor amount) @ unit, tt_milliseconds = js_floor milliseconds\<rparr>)"

section \<open>The checks before a production start\<close>

definition isTrimmedNonEmptyString :: "string option \<Rightarrow> bool" where
  "isTrimmedNonEmptyString v = (case v of None \<Rightarrow> False | Some s \<Rightarrow> s \<noteq> [] \<and> s = trim s)"

definition isValidJwtSecret :: "string option \<Rightarrow> bool" where
  "isValidJwtSecret v = (case v of None \<Rightarrow> False | Some s \<Rightarrow> 32 \<le> length s)"

definition isEncryptionKey :: "string option \<Rightarrow> bool" where
  "isEncryptionKey v = (case v of None \<Rightarrow> False | Some s \<Rightarrow> matches (rtimes 64 (RCls is_hex)) s)"

definition isDockerSocket :: "string \<Rightarrow> bool" where
  "isDockerSocket s \<longleftrightarrow> s \<noteq> [] \<and> startsWith s ''/'' \<and> \<not> startsWith s ''tcp://''"

definition PLACEHOLDER_JWT_SECRET :: string where
  "PLACEHOLDER_JWT_SECRET = ''your-jwt-secret-here-make-it-long-and-random''"

definition missingConfiguration :: exn where
  "missingConfiguration = PlainError ''Missing required environment configuration''"

text \<open>The \<open>hostname\<close> of a parsed URL, beside the fields the canonical origin needs.\<close>

record parsed_url = url +
  url_hostname :: string

definition runProductionPreflight :: "(string \<Rightarrow> parsed_url option) \<Rightarrow> config \<Rightarrow> exn + unit" where
  "runProductionPreflight newURL cfg =
     seqE (guardE (isTrimmedNonEmptyString (cfg ''DATABASE_URL'')) missingConfiguration) (\<lambda>_.
     seqE (case newURL (orElse (cfg ''DATABASE_URL'') []) of
             None \<Rightarrow> Inl missingConfiguration
           | Some p \<Rightarrow> guardE (url_protocol p = ''postgres:'' \<or> url_protocol p = ''postgresql:'') missingConfiguration) (\<lambda>_.
     seqE (guardE (isValidJwtSecret (cfg ''JWT_SECRET'') \<and> cfg ''JWT_SECRET'' \<noteq> Some PLACEHOLDER_JWT_SECRET
             \<and> truthy (cfg ''JWT_EXPIRES_IN'') \<noteq> None) missingConfiguration) (\<lambda>_.
     seqE (guardE (isEncryptionKey (cfg ''ENCRYPTION_KEY'')) missingConfiguration) (\<lambda>_.
     seqE (guardE (isDockerSocket (orElse (cfg ''DOCKER_SOCKET'') ''/var/run/docker.sock'')) missingConfiguration) (\<lambda>_.
     seqE (guardE (truthy (cfg ''CORS_ORIGIN'') \<noteq> None) missingConfiguration) (\<lambda>_.
     seqE (getCanonicalCorsOrigin (\<lambda>s. map_option url.truncate (newURL s)) cfg) (\<lambda>corsOrigin.
     case newURL corsOrigin of
       None \<Rightarrow> Inl (PlainError ''Invalid URL'')
     | Some p \<Rightarrow>
         guardE (url_protocol p = ''https:'' \<or> url_hostname p \<in> {''localhost'', ''127.0.0.1'', ''[::1]'', ''::1''})
           missingConfiguration)))))))"

section \<open>Cookies and request ids\<close>

definition ACCESS_TOKEN_COOKIE_MAX_AGE_MS :: int where "ACCESS_TOKEN_COOKIE_MAX_AGE_MS = 15 * 60 * 1000"

record cookie =
  ck_name :: string
  ck_value :: string
  ck_httpOnly :: bool
  ck_secure :: bool
  ck_sameSite :: string
  ck_partitioned :: bool
  ck_path :: string
  ck_maxAge :: int

definition sessionCookie :: "bool \<Rightarrow> string \<Rightarrow> string \<Rightarrow> int \<Rightarrow> cookie" where
  "sessionCookie production name value maxAge = \<lparr>ck_name = name, ck_value = value, ck_httpOnly = True,
     ck_secure = production, ck_sameSite = (if production then ''none'' else ''lax''), ck_partitioned = production,
     ck_path = ''/'', ck_maxAge = maxAge\<rparr>"

definition setAccessTokenCookie :: "bool \<Rightarrow> string \<Rightarrow> cookie list" where
  "setAccessTokenCookie production accessToken =
     [sessionCookie production ''access_token'' accessToken ACCESS_TOKEN_COOKIE_MAX_AGE_MS]"

definition setRefreshTokenCookie :: "bool \<Rightarrow> string \<Rightarrow> refresh_ttl \<Rightarrow> cookie list" where
  "setRefreshTokenCookie production refreshToken ttl =
     [sessionCookie production ''refresh_token'' refreshToken (tt_milliseconds ttl)]"

definition setAuthCookies :: "bool \<Rightarrow> auth_tokens \<Rightarrow> refresh_ttl \<Rightarrow> cookie list" where
  "setAuthCookies production tokens ttl =
     setAccessTokenCookie production (at_accessToken tokens) @ setRefreshTokenCookie production (at_refreshToken tokens) ttl"

definition clearAuthCookies :: "bool \<Rightarrow> cookie list" where
  "clearAuthCookies production =
     [sessionCookie production ''access_token'' [] 0, sessionCookie production ''refresh_token'' [] 0]"

definition is_id_char :: "char \<Rightarrow> bool" where
  "is_id_char c \<longleftrightarrow> is_alnum c \<or> c \<in> {CHR ''.'', CHR ''_'', CHR '':'', CHR ''-''}"

definition REQUEST_ID_PATTERN :: rx where
  "REQUEST_ID_PATTERN = RCat (RCls is_alnum) (rbetween 0 127 (RCls is_id_char))"

definition validRequestId :: "string option \<Rightarrow> bool" where
  "validRequestId v = (case v of None \<Rightarrow> False | Some s \<Rightarrow> matches REQUEST_ID_PATTERN s)"

text \<open>The id of a request: the supplied header when it is valid, else a random one.\<close>

definition requestIdMiddleware :: "string \<Rightarrow> string option \<Rightarrow> string" where
  "requestIdMiddleware uuid supplied = (if validRequestId supplied then orElse supplied uuid else uuid)"

end
