(* ===== verification/ConfigProperties.thy ===== *)
theory ConfigProperties
  imports Config Samples
begin

text \<open>
  The life time of refresh tokens is computed in double precision; it is shown to be exact, and
  the normalised text that the token library gets to denote the same duration.
\<close>

section \<open>Integers as doubles\<close>

lemma round_half_even_ge: "of_int n \<le> r \<Longrightarrow> n \<le> round_half_even r"
  by (auto simp: round_half_even_def Let_def le_floor_iff) linarith+

lemma round_pos_int:
  assumes "0 < n" and "n < 2 ^ 53"
  shows "round_pos (of_int n) = of_int n"
proof -
  let ?q = "ulp_exp (of_int n)"
  have "rat_of_int n < of_int (2 ^ 53)" using assms(2) unfolding of_int_less_iff .
  then have q: "?q \<le> 0" using assms(1) by (intro ulp_exp_nonpos) auto
  let ?k = "2 ^ nat (- ?q) :: int"
  have "of_int n / pow2 ?q = rat_of_int (n * ?k)"
    using pow2_nonneg_inv [OF q] by (metis times_divide_eq_right mult.right_neutral of_int_mult)
  then have "round_pos (of_int n) = of_int (n * ?k) * pow2 ?q" by (simp add: round_pos_def del: of_int_mult)
  also have "\<dots> = of_int n" using pow2_nonneg_inv [OF q] pow2_pos [of ?q] by (simp add: field_simps)
  finally show ?thesis .
qed

lemma pow2_add: "0 \<le> a \<Longrightarrow> 0 \<le> b \<Longrightarrow> pow2 (a + b) = pow2 a * pow2 b"
  by (simp add: pow2_def nat_add_distrib power_add)

lemma ilog2_ge: "2 ^ k \<le> n \<Longrightarrow> k \<le> ilog2 n"
proof (rule ccontr)
  assume "2 ^ k \<le> n" "\<not> k \<le> ilog2 n"
  then have "(2::int) ^ Suc (ilog2 n) \<le> 2 ^ k" by (intro power_increasing) auto
  with ilog2_gt [of n] \<open>2 ^ k \<le> n\<close> show False by simp
qed

lemma round_pos_large:
  assumes "2 ^ 53 \<le> n"
  shows "2 ^ 53 \<le> round_pos (of_int n)"
proof -
  let ?e = "exponent (of_int n)" and ?q = "ulp_exp (of_int n)"
  have "1 \<le> n" using assms by (rule order_trans [rotated]) simp
  then have e: "?e = int (ilog2 n)" by (simp add: exponent_def)
  have "53 \<le> ilog2 n" using assms by (intro ilog2_ge) simp
  then have q: "?q = ?e - 52" "53 \<le> ?e" by (auto simp: ulp_exp_def e)
  have "pow2 ?e \<le> of_int n" using \<open>1 \<le> n\<close> by (intro exponent_lower) simp
  moreover have pe: "pow2 ?e = pow2 52 * pow2 ?q" using q pow2_add [of 52 ?q] by simp
  ultimately have "pow2 52 \<le> of_int n / pow2 ?q" by (simp add: pos_le_divide_eq)
  then have "of_int (2 ^ 52) \<le> of_int n / pow2 ?q" by (simp add: pow2_def)
  then have "2 ^ 52 \<le> round_half_even (of_int n / pow2 ?q)" by (rule round_half_even_ge)
  then have "of_int (2 ^ 52) \<le> rat_of_int (round_half_even (of_int n / pow2 ?q))" unfolding of_int_le_iff .
  then have "of_int (2 ^ 52) * pow2 ?q \<le> round_pos (of_int n)"
    unfolding round_pos_def by (intro mult_right_mono) (auto simp: less_imp_le)
  moreover have "of_int (2 ^ 52) * pow2 ?q = pow2 ?e" unfolding pe by (simp add: pow2_def [of 52])
  moreover have "2 ^ 53 \<le> pow2 ?e" using q by (intro pow2_ge_53)
  ultimately show ?thesis by simp
qed

text \<open>The double of a positive integer is a safe integer exactly when the integer is, and then it is that integer.\<close>

lemma to_double_safe_iff:
  assumes "0 < n"
  shows "isSafeInteger (to_double (of_int n)) \<longleftrightarrow> n \<le> MAX_SAFE_INTEGER"
    and "n \<le> MAX_SAFE_INTEGER \<Longrightarrow> to_double (of_int n) = Num (of_int n)"
proof -
  have small: "to_double (of_int n) = Num (of_int n)" if "n \<le> MAX_SAFE_INTEGER"
  proof -
    have n: "n < 2 ^ 53" using that by (simp add: MAX_SAFE_INTEGER_def)
    have "ilog2 n < 1024"
    proof (rule ccontr)
      assume "\<not> ilog2 n < 1024"
      then have "(2::int) ^ 53 \<le> 2 ^ ilog2 n" by (intro power_increasing) auto
      with ilog2_le [OF assms] n show False by linarith
    qed
    then show ?thesis using round_pos_int [OF assms n] assms by (auto simp: to_double_def Let_def exponent_def)
  qed
  then show "n \<le> MAX_SAFE_INTEGER \<Longrightarrow> to_double (of_int n) = Num (of_int n)" .
  show "isSafeInteger (to_double (of_int n)) \<longleftrightarrow> n \<le> MAX_SAFE_INTEGER"
  proof
    assume safe: "isSafeInteger (to_double (of_int n))"
    show "n \<le> MAX_SAFE_INTEGER"
    proof (rule ccontr)
      assume "\<not> n \<le> MAX_SAFE_INTEGER"
      then have "2 ^ 53 \<le> n" by (simp add: MAX_SAFE_INTEGER_def)
      from round_pos_large [OF this] safe show False
        using assms by (auto simp: to_double_def Let_def MAX_SAFE_INTEGER_def split: if_splits)
    qed
  next
    assume "n \<le> MAX_SAFE_INTEGER"
    with small assms show "isSafeInteger (to_double (of_int n))" by simp
  qed
qed

section \<open>Decimal digits\<close>

lemma digits_value_append: "digits_value acc (xs @ [c]) = 10 * digits_value acc xs + (code c - 48)"
  by (induction xs arbitrary: acc) auto

lemma digit_code: "is_digit c \<Longrightarrow> 0 \<le> code c - 48 \<and> code c - 48 < 10 \<and> char_of (48 + (code c - 48)) = c"
  by (simp add: is_digit_def)

lemma digits_value_pos: "list_all is_digit a \<Longrightarrow> a \<noteq> [] \<Longrightarrow> hd a \<noteq> CHR ''0'' \<Longrightarrow> 0 < digits_value 0 a"
proof (induction a rule: rev_induct)
  case (snoc c a)
  show ?case
  proof (cases "a = []")
    case True
    have "c = CHR ''0''" if "code c = 48"
    proof -
      have "char_of (48 :: int) = CHR ''0''" by code_simp
      with that show ?thesis by (metis char_code)
    qed
    with snoc.prems True have "code c \<noteq> 48" "48 \<le> code c" by (auto simp: is_digit_def)
    with True show ?thesis by simp
  next
    case False
    with snoc show ?thesis by (auto simp: digits_value_append is_digit_def)
  qed
qed simp

text \<open>Printing the value of digits without leading zero gives the digits back.\<close>

lemma show_digits_value:
  "list_all is_digit a \<Longrightarrow> a \<noteq> [] \<Longrightarrow> hd a \<noteq> CHR ''0'' \<Longrightarrow> show_int (digits_value 0 a) = a"
proof (induction a rule: rev_induct)
  case (snoc c a)
  let ?d = "code c - 48"
  have c: "0 \<le> ?d" "?d < 10" "char_of (48 + ?d) = c" using snoc.prems digit_code [of c] by auto
  show ?case
  proof (cases "a = []")
    case True
    then show ?thesis using c by (simp add: show_int_def show_nat.simps [of ?d])
  next
    case False
    let ?v = "digits_value 0 a"
    have v: "0 < ?v" using False snoc.prems by (intro digits_value_pos) auto
    have "show_int ?v = a" using False snoc by auto
    then have "show_nat ?v = a" using v by (simp add: show_int_def)
    moreover have "(10 * ?v + ?d) div 10 = ?v" "(10 * ?v + ?d) mod 10 = ?d" using c by auto
    ultimately show ?thesis using v c
      by (simp add: digits_value_append show_int_def show_nat.simps [of "10 * ?v + ?d"])
  qed
qed simp

lemma js_Number_digits:
  assumes "list_all is_digit a" and "a \<noteq> []" and "hd a \<noteq> CHR ''0''"
  shows "js_Number a = to_double (of_int (digits_value 0 a))"
proof -
  obtain c cs where a: "a = c # cs" using assms(2) by (cases a) auto
  have ws: "\<not> is_ws x" if "is_digit x" for x using that by (auto simp: is_digit_def is_ws_def)
  have "trim a = a" using assms(1,2) ws by (intro trim_fixed) (auto simp: list_all_iff)
  moreover have tk: "takeWhile is_digit a = a" "dropWhile is_digit a = []"
    using assms(1) by (simp_all add: list_all_iff takeWhile_eq_all_conv dropWhile_eq_Nil_conv)
  then have "parse_decimal a = Some (of_int (digits_value 0 a))"
    using assms(2) unfolding parse_decimal_def Let_def tk by (simp add: pow10_def)
  moreover have "c \<noteq> CHR ''-''" "c \<noteq> CHR ''+''" "a \<noteq> ''Infinity''" using assms(1) by (auto simp: a is_digit_def)
  ultimately show ?thesis using assms(3) by (auto simp: js_Number_def a parse_signed_def Let_def split: list.splits)
qed

section \<open>The life time of refresh tokens\<close>

lemma units_text: "DURATION_UNITS_MS u = Some k \<Longrightarrow> u \<noteq> [] \<and> toLowerCase u = u \<and> \<not> is_digit (hd u) \<and> \<not> is_ws (last u) \<and> 0 < k"
  by (auto simp: DURATION_UNITS_MS.simps split: if_splits)
    (simp_all add: toLowerCase_def lower_char_def char_class_defs is_ws_def)

lemma pattern_digits:
  assumes "DURATION_PATTERN s = Some (a, u)"
  shows "s = a @ u \<and> list_all is_digit a \<and> a \<noteq> [] \<and> hd a \<noteq> CHR ''0'' \<and> (\<exists>k. DURATION_UNITS_MS (toLowerCase u) = Some k)"
  using assms by (auto simp: DURATION_PATTERN_def Let_def list_all_iff split: if_splits dest: set_takeWhileD)

lemma pattern_text:
  assumes "list_all is_digit a" and "a \<noteq> []" and "hd a \<noteq> CHR ''0''" and "DURATION_UNITS_MS u = Some k"
  shows "DURATION_PATTERN (a @ u) = Some (a, u) \<and> trim (a @ u) = a @ u"
proof -
  obtain c cs where u: "u = c # cs" "\<not> is_digit c" "toLowerCase u = u" "\<not> is_ws (last u)"
    using units_text [OF assms(4)] by (cases u) auto
  have "takeWhile is_digit (a @ u) = a" "dropWhile is_digit (a @ u) = u"
    using assms(1) u by (simp_all add: list_all_iff takeWhile_append2 dropWhile_append2)
  moreover have "\<not> is_ws (hd a)" using assms(1,2) by (cases a) (auto simp: is_digit_def is_ws_def)
  then have "trim (a @ u) = a @ u" using assms(2) u(1,4) by (intro trim_fixed) (simp add: hd_append)
  ultimately show ?thesis using assms u by (simp add: DURATION_PATTERN_def)
qed

lemma parse_text:
  assumes "list_all is_digit a" and "a \<noteq> []" and "hd a \<noteq> CHR ''0''" and "DURATION_UNITS_MS (toLowerCase u) = Some k"
    and "DURATION_PATTERN (a @ u) = Some (a, u)" and "trim (a @ u) = a @ u"
  shows "parseRefreshTokenTtl (Some (a @ u)) =
    (if digits_value 0 a * k \<le> MAX_SAFE_INTEGER
     then Inr \<lparr>tt_expiresIn = a @ toLowerCase u, tt_milliseconds = digits_value 0 a * k\<rparr> else Inl invalidTtl)"
proof -
  let ?n = "digits_value 0 a"
  have n: "0 < ?n" by (rule digits_value_pos [OF assms(1-3)])
  have k: "0 < k" using units_text [OF assms(4)] by simp
  have num: "js_Number a = to_double (of_int ?n)" by (rule js_Number_digits [OF assms(1-3)])
  note amount = to_double_safe_iff [OF n]
  have le: "?n \<le> ?n * k" using n k by (simp add: mult_le_cancel_left1)
  show ?thesis
  proof (cases "?n \<le> MAX_SAFE_INTEGER")
    case True
    have p: "0 < ?n * k" using n k by simp
    define M where "M = js_mul (js_Number a) (Num (of_int k))"
    have M: "M = to_double (of_int (?n * k))" using amount(2) [OF True] by (simp add: M_def num)
    have "isSafeInteger M \<longleftrightarrow> ?n * k \<le> MAX_SAFE_INTEGER" unfolding M by (rule to_double_safe_iff(1) [OF p])
    moreover have "?n * k \<le> MAX_SAFE_INTEGER \<Longrightarrow> js_floor M = ?n * k"
      unfolding M by (subst to_double_safe_iff(2) [OF p]) (auto simp del: of_int_mult)
    moreover have "isSafeInteger (js_Number a)" using amount(1) True num by simp
    moreover have "js_floor (js_Number a) = ?n" using amount(2) [OF True] num by simp
    ultimately show ?thesis using assms(2,5,6) show_digits_value [OF assms(1-3)]
      by (simp add: parseRefreshTokenTtl_def Let_def orElse_def assms(4) M_def [symmetric])
  next
    case False
    with le have "\<not> ?n * k \<le> MAX_SAFE_INTEGER" by linarith
    moreover have "\<not> isSafeInteger (js_Number a)" using False amount(1) num by simp
    ultimately show ?thesis
      using assms(2,5,6) unfolding parseRefreshTokenTtl_def Let_def by (auto simp: orElse_def)
  qed
qed

text \<open>
  C35. The life time of refresh tokens is exact. A configured text is accepted only as a decimal
  number without leading zero and a unit; the milliseconds then are the exact product, at
  least one and at most the largest safe integer although they are computed in doubles. The
  normalised text, which the token library reads, is the input in lower case, and reading
  it again gives the same life time: token and stored row expire together.
\<close>

theorem refresh_ttl_exact:
  assumes "parseRefreshTokenTtl (Some s) = Inr ttl"
  shows "\<exists>n u k. DURATION_UNITS_MS u = Some k \<and> 0 < n \<and> tt_milliseconds ttl = n * k
     \<and> 0 < tt_milliseconds ttl \<and> tt_milliseconds ttl \<le> MAX_SAFE_INTEGER
     \<and> tt_expiresIn ttl = show_int n @ u \<and> toLowerCase s = tt_expiresIn ttl
     \<and> parseRefreshTokenTtl (Some (tt_expiresIn ttl)) = Inr ttl"
proof -
  from assms obtain a u where pat: "DURATION_PATTERN s = Some (a, u)" and tr: "trim s = s"
    by (auto simp: parseRefreshTokenTtl_def Let_def orElse_def split: if_splits option.splits prod.splits)
  from pattern_digits [OF pat] obtain k where a: "s = a @ u" "list_all is_digit a" "a \<noteq> []" "hd a \<noteq> CHR ''0''"
    and k: "DURATION_UNITS_MS (toLowerCase u) = Some k" by blast
  let ?n = "digits_value 0 a"
  have n: "0 < ?n" by (rule digits_value_pos [OF a(2-4)])
  have kpos: "0 < k" using units_text [OF k] by simp
  from parse_text [OF a(2-4) k] pat tr a(1) assms
  have le: "?n * k \<le> MAX_SAFE_INTEGER" and ttl: "ttl = \<lparr>tt_expiresIn = a @ toLowerCase u, tt_milliseconds = ?n * k\<rparr>"
    by (auto split: if_splits)
  have low: "toLowerCase (toLowerCase u) = toLowerCase u" by simp
  have "parseRefreshTokenTtl (Some (a @ toLowerCase u)) = Inr ttl"
    using parse_text [OF a(2-4), of "toLowerCase u"] pattern_text [OF a(2-4) k] k le ttl by simp
  moreover have "toLowerCase a = a"
    using a(2) by (induction a) (auto simp: toLowerCase_def lower_char_def is_digit_def)
  then have "toLowerCase s = a @ toLowerCase u" by (simp add: a(1) toLowerCase_def)
  ultimately show ?thesis
    using k n kpos le by (intro exI [of _ ?n] exI [of _ "toLowerCase u"] exI [of _ k])
      (simp add: ttl show_digits_value [OF a(2-4)])
qed

theorem refresh_ttl_exact_witness:
  "\<exists>ttl. parseRefreshTokenTtl (Some ''14D'') = Inr ttl \<and> tt_expiresIn ttl = ''14d''
     \<and> parseRefreshTokenTtl (Some ''14d'') = Inr ttl"
proof -
  have "parseRefreshTokenTtl (Some ''14D'') = Inr \<lparr>tt_expiresIn = ''14d'', tt_milliseconds = 1209600000\<rparr>" by code_simp
  from refresh_ttl_exact [OF this] this show ?thesis by auto
qed

end
