(* ===== verification/ExceptionFilter.thy ===== *)
theory ExceptionFilter
  imports Config
begin

text \<open>
  \<open>common/filters/db-exception.filter.ts\<close>: every exception becomes one response body with a
  status, a machine-readable code, a message, details and the request id. \<open>http_cause\<close> gives the
  response object Nest builds for the exceptions the services throw.
\<close>

section \<open>Causes\<close>

text \<open>
  What \<open>getResponse()\<close> of an HTTP exception gives: a string, an array or another object. Of a thrown
  value the filter reads two things: \<open>cause.cause.code\<close>, where both are objects and the code is a
  string, and, for an \<open>HttpException\<close>, its status and response. An HTTP exception may have a cause
  with a code as well.
\<close>

datatype raw_response = RawText string | RawArray "json list" | RawRecord "(string \<times> json) list"

datatype cause_of_error = Thrown (th_causeCode: "string option") (th_http: "(int \<times> raw_response) option")

abbreviation HttpCause :: "int \<Rightarrow> raw_response \<Rightarrow> cause_of_error" where
  "HttpCause n raw \<equiv> Thrown None (Some (n, raw))"

abbreviation PostgresCause :: "string \<Rightarrow> cause_of_error" where
  "PostgresCause c \<equiv> Thrown (Some c) None"

abbreviation OtherCause :: cause_of_error where
  "OtherCause \<equiv> Thrown None None"

record error_details =
  ed_messages :: "string list option"
  ed_resource :: "string option"
  ed_numbers :: "(string \<times> jsnum) list"

record api_error =
  er_statusCode :: int
  er_error :: string
  er_message :: string
  er_details :: error_details
  er_requestId :: string

definition no_details :: error_details where
  "no_details = \<lparr>ed_messages = None, ed_resource = None, ed_numbers = []\<rparr>"

section \<open>Normalisation\<close>

definition is_code_char :: "char \<Rightarrow> bool" where
  "is_code_char c \<longleftrightarrow> is_alnum c \<or> c = CHR ''_''"

definition is_letter :: "char \<Rightarrow> bool" where
  "is_letter c \<longleftrightarrow> is_lower c \<or> is_upper c"

definition MACHINE_CODE :: rx where
  "MACHINE_CODE = RCat (RCls is_letter) (rbetween 0 63 (RCls is_code_char))"

definition isMachineCode :: "json option \<Rightarrow> string option" where
  "isMachineCode v = (case v of Some (JStr s) \<Rightarrow> if matches MACHINE_CODE s then Some s else None | _ \<Rightarrow> None)"

definition statusCodeFor :: "int \<Rightarrow> string" where
  "statusCodeFor n =
     (if n = 400 then ''BAD_REQUEST'' else if n = 401 then ''UNAUTHORIZED'' else if n = 403 then ''FORBIDDEN''
      else if n = 404 then ''NOT_FOUND'' else if n = 409 then ''CONFLICT'' else if n = 422 then ''UNPROCESSABLE_ENTITY''
      else if n = 429 then ''RATE_LIMITED'' else if n = 503 then ''SERVICE_UNAVAILABLE''
      else if 500 \<le> n then ''INTERNAL_SERVER_ERROR'' else ''HTTP_ERROR'')"

definition defaultMessageFor :: "int \<Rightarrow> string" where
  "defaultMessageFor n = (if 500 \<le> n then ''Internal server error'' else ''Request failed'')"

definition errorBody :: "int \<Rightarrow> string \<Rightarrow> error_details \<Rightarrow> string \<Rightarrow> string \<Rightarrow> api_error" where
  "errorBody statusCode message details requestId err =
     \<lparr>er_statusCode = statusCode, er_error = err, er_message = message, er_details = details, er_requestId = requestId\<rparr>"

fun strings_of :: "json list \<Rightarrow> string list" where
  "strings_of [] = []"
| "strings_of (JStr s # xs) = s # strings_of xs"
| "strings_of (_ # xs) = strings_of xs"

definition resourceDetails :: "(string \<times> json) list \<Rightarrow> error_details" where
  "resourceDetails details =
     no_details\<lparr>ed_resource := (case jfield details ''resource'' of Some (JStr s) \<Rightarrow> Some s | _ \<Rightarrow> None),
       ed_numbers := List.map_filter
         (\<lambda>k. case jfield details k of Some (JNum n) \<Rightarrow> if isFinite n then Some (k, n) else None | _ \<Rightarrow> None)
         [''availableMb'', ''requiredMb'', ''totalMb'']\<rparr>"

text \<open>\<open>record?.message ?? raw\<close>, where an absent or null message leaves the object itself.\<close>

fun rawMessage :: "raw_response \<Rightarrow> json" where
  "rawMessage (RawText s) = JStr s"
| "rawMessage (RawArray xs) = JArr xs"
| "rawMessage (RawRecord ms) =
     (case jfield ms ''message'' of None \<Rightarrow> JObj ms | Some JNull \<Rightarrow> JObj ms | Some v \<Rightarrow> v)"

fun recordField :: "raw_response \<Rightarrow> string \<Rightarrow> json option" where
  "recordField (RawText s) k = None"
| "recordField (RawArray xs) k = None"
| "recordField (RawRecord ms) k = jfield ms k"

definition REASON_PHRASES :: "string list" where
  "REASON_PHRASES = [''Bad Request'', ''Unauthorized'', ''Forbidden'', ''Not Found'', ''Conflict'']"

definition normalizePostgres :: "string \<Rightarrow> string \<Rightarrow> api_error" where
  "normalizePostgres postgresCode requestId =
     (if postgresCode = ''23505'' then errorBody 409 ''Resource already exists'' no_details requestId ''CONFLICT''
      else if postgresCode = ''23503'' then errorBody 400 ''Related resource not found'' no_details requestId ''BAD_REQUEST''
      else if postgresCode = ''42P01'' \<or> postgresCode = ''42703'' then
        errorBody 500 ''Database schema error'' no_details requestId (statusCodeFor 500)
      else errorBody 500 ''Database error'' no_details requestId (statusCodeFor 500))"

definition normalizeHttp :: "int \<Rightarrow> raw_response \<Rightarrow> string \<Rightarrow> api_error" where
  "normalizeHttp statusCode raw requestId =
     (let messages = (case rawMessage raw of JArr xs \<Rightarrow> Some (take 50 (strings_of xs)) | _ \<Rightarrow> None);
          err = (case messages of
              Some _ \<Rightarrow> ''ValidationError''
            | None \<Rightarrow> (case isMachineCode (recordField raw ''error'') of
                Some c \<Rightarrow> if c \<in> set REASON_PHRASES then statusCodeFor statusCode else c
              | None \<Rightarrow> statusCodeFor statusCode));
          message = (case messages of
              Some _ \<Rightarrow> ''Validation failed''
            | None \<Rightarrow> (case rawMessage raw of JStr s \<Rightarrow> s | _ \<Rightarrow> defaultMessageFor statusCode));
          details = (case messages of
              Some ms \<Rightarrow> no_details\<lparr>ed_messages := Some ms\<rparr>
            | None \<Rightarrow> (case recordField raw ''details'' of
                Some (JObj d) \<Rightarrow> if err = ''InsufficientResources'' then resourceDetails d else no_details
              | _ \<Rightarrow> no_details))
      in errorBody statusCode message details requestId err)"

text \<open>The code of the cause comes first; an empty one is falsy.\<close>

definition normalize :: "cause_of_error \<Rightarrow> string \<Rightarrow> api_error" where
  "normalize cause requestId =
     (if th_causeCode cause \<noteq> None \<and> th_causeCode cause \<noteq> Some []
      then normalizePostgres (the (th_causeCode cause)) requestId
      else case th_http cause of
          None \<Rightarrow> errorBody 500 ''Internal server error'' no_details requestId (statusCodeFor 500)
        | Some (n, raw) \<Rightarrow> normalizeHttp n raw requestId)"

section \<open>The exceptions of the services\<close>

definition nest_body :: "string \<Rightarrow> int \<Rightarrow> body \<Rightarrow> raw_response" where
  "nest_body description statusCode b = (case b of
     NoBody \<Rightarrow> RawRecord [(''message'', JStr description), (''statusCode'', JNum (Num (of_int statusCode)))]
   | Msg m \<Rightarrow> RawRecord [(''message'', JStr m), (''error'', JStr description), (''statusCode'', JNum (Num (of_int statusCode)))]
   | Code c \<Rightarrow> RawRecord [(''error'', JStr c)])"

text \<open>A plain \<open>HttpException\<close> (429) has its argument itself as the response.\<close>

fun http_cause :: "exn \<Rightarrow> cause_of_error" where
  "http_cause (BadRequestException b) = HttpCause 400 (nest_body ''Bad Request'' 400 b)"
| "http_cause (UnauthorizedException b) = HttpCause 401 (nest_body ''Unauthorized'' 401 b)"
| "http_cause (ForbiddenException b) = HttpCause 403 (nest_body ''Forbidden'' 403 b)"
| "http_cause (NotFoundException b) = HttpCause 404 (nest_body ''Not Found'' 404 b)"
| "http_cause (ConflictException b) = HttpCause 409 (nest_body ''Conflict'' 409 b)"
| "http_cause (InsufficientResources m d) = HttpCause 422 (RawRecord [(''statusCode'', JNum (Num 422)),
     (''error'', JStr ''InsufficientResources''), (''message'', JStr m), (''details'', JObj [(''resource'', JStr (rd_resource d)),
       (''availableMb'', JNum (Num (of_int (rd_availableMb d)))), (''requiredMb'', JNum (Num (of_int (rd_requiredMb d)))),
       (''totalMb'', JNum (Num (of_int (rd_totalMb d))))])])"
| "http_cause (TooManyRequests b) = HttpCause 429 (case b of Msg m \<Rightarrow> RawText m | Code c \<Rightarrow> RawRecord [(''error'', JStr c)]
     | NoBody \<Rightarrow> RawText [])"
| "http_cause (InternalServerErrorException b) = HttpCause 500 (nest_body ''Internal Server Error'' 500 b)"
| "http_cause (ServiceUnavailableException b) = HttpCause 503 (nest_body ''Service Unavailable'' 503 b)"
| "http_cause (RconUnavailableError m) = OtherCause"
| "http_cause (PlainError m) = OtherCause"
| "http_cause (PostgresError c) = PostgresCause c"

definition catch_exception :: "string \<Rightarrow> exn \<Rightarrow> api_error" where
  "catch_exception requestId e = normalize (http_cause e) requestId"

section \<open>Properties\<close>

declare matches.simps [simp del]

lemma machine_code_iff:
  "matches MACHINE_CODE s \<longleftrightarrow> s \<noteq> [] \<and> is_letter (hd s) \<and> length s \<le> 64 \<and> list_all is_code_char (tl s)"
proof -
  have "s \<in> lang MACHINE_CODE \<longleftrightarrow> (\<exists>c t. s = c # t \<and> is_letter c \<and> matches (rbetween 0 63 (RCls is_code_char)) t)"
    unfolding MACHINE_CODE_def lang_cls_cat matches_lang ..
  then show ?thesis by (cases s) (auto simp: matches_lang [of MACHINE_CODE] matches_rbetween_cls)
qed


lemma status_code_machine: "matches MACHINE_CODE (statusCodeFor n)"
  by (simp add: statusCodeFor_def machine_code_iff is_letter_def is_code_char_def char_class_defs)

lemma isMachineCode_Some: "isMachineCode v = Some c \<Longrightarrow> matches MACHINE_CODE c"
  by (auto simp: isMachineCode_def split: option.splits json.splits if_splits)

lemma literal_machine_codes:
  "matches MACHINE_CODE ''ValidationError''" "matches MACHINE_CODE ''CONFLICT''" "matches MACHINE_CODE ''BAD_REQUEST''"
  by (simp_all add: machine_code_iff is_letter_def is_code_char_def char_class_defs)

lemma normalizeHttp_error: "matches MACHINE_CODE (er_error (normalizeHttp n raw rid))"
  by (auto simp: normalizeHttp_def Let_def errorBody_def status_code_machine literal_machine_codes
      dest: isMachineCode_Some split: json.splits option.splits)

lemma normalizeHttp_messages:
  "case ed_messages (er_details (normalizeHttp n raw rid)) of None \<Rightarrow> True | Some ms \<Rightarrow> length ms \<le> 50"
  by (auto simp: normalizeHttp_def Let_def errorBody_def no_details_def resourceDetails_def split: json.splits option.splits)

lemma normalize_simps [simp]:
  "normalize (HttpCause n raw) rid = normalizeHttp n raw rid"
  "normalize OtherCause rid = errorBody 500 ''Internal server error'' no_details rid (statusCodeFor 500)"
  "normalize (PostgresCause c) rid = (if c = [] then normalize OtherCause rid else normalizePostgres c rid)"
  by (simp_all add: normalize_def)

definition fixed_messages :: "string set" where
  "fixed_messages = {''Internal server error'', ''Database error'', ''Database schema error'', ''Resource already exists'',
     ''Related resource not found'', ''Validation failed'', ''Request failed''}"

lemma normalizePostgres_message: "er_message (normalizePostgres c rid) \<in> fixed_messages"
  by (simp add: normalizePostgres_def errorBody_def fixed_messages_def)

lemma normalizeHttp_message:
  "er_message (normalizeHttp n raw rid) \<in> fixed_messages \<or> rawMessage raw = JStr (er_message (normalizeHttp n raw rid))"
  by (auto simp: normalizeHttp_def Let_def errorBody_def fixed_messages_def defaultMessageFor_def split: json.splits)

lemma normalize_message:
  "er_message (normalize cause rid) \<in> fixed_messages
   \<or> (\<exists>n raw. th_http cause = Some (n, raw) \<and> rawMessage raw = JStr (er_message (normalize cause rid)))"
  using normalizePostgres_message normalizeHttp_message
  by (auto simp: normalize_def errorBody_def split: option.splits) (auto simp: fixed_messages_def)

definition envelope_ok :: "string \<Rightarrow> api_error \<Rightarrow> bool" where
  "envelope_ok rid r \<longleftrightarrow> matches MACHINE_CODE (er_error r) \<and> er_requestId r = rid
     \<and> (case ed_messages (er_details r) of None \<Rightarrow> True | Some ms \<Rightarrow> length ms \<le> 50)"

lemma normalizeHttp_envelope: "envelope_ok rid (normalizeHttp n raw rid)"
  using normalizeHttp_error normalizeHttp_messages
  by (simp add: envelope_ok_def) (simp add: normalizeHttp_def Let_def errorBody_def)

lemma normalizePostgres_envelope: "envelope_ok rid (normalizePostgres c rid)"
  by (simp add: envelope_ok_def normalizePostgres_def errorBody_def no_details_def status_code_machine literal_machine_codes)

lemma normalize_envelope: "envelope_ok rid (normalize cause rid)"
proof -
  have "envelope_ok rid (errorBody 500 m no_details rid (statusCodeFor 500))" for m
    by (simp add: envelope_ok_def errorBody_def no_details_def status_code_machine)
  then show ?thesis
    by (simp add: normalize_def normalizeHttp_envelope normalizePostgres_envelope split: option.split)
qed


section \<open>Request ids\<close>

text \<open>
  The response of the filter (status, the request id header, body) and its log line. The id is the one the
  middleware attached to the request, or a new one for a request that never reached the middleware.
\<close>

record error_log =
  el_error :: string
  el_method :: string
  el_path :: string
  el_requestId :: string
  el_statusCode :: int

definition filterRequestId :: "string \<Rightarrow> string option \<Rightarrow> string" where
  "filterRequestId randomUUID attached = orElse attached randomUUID"

definition respondError :: "string \<Rightarrow> string option \<Rightarrow> request \<Rightarrow> exn \<Rightarrow> (int \<times> string \<times> api_error) \<times> error_log" where
  "respondError randomUUID attached rq e =
     (let requestId = filterRequestId randomUUID attached;
          err = catch_exception requestId e
      in ((er_statusCode err, requestId, err),
          \<lparr>el_error = er_error err, el_method = rq_method rq, el_path = rq_path rq, el_requestId = requestId,
           el_statusCode = er_statusCode err\<rparr>))"

text \<open>
  A failed request can be traced: the header, the body and the log line carry the same id, which is the one the client sent
  when that is valid; and the log line holds neither a message nor details.
\<close>

theorem error_is_traceable:
  assumes "respondError uuid (Some (requestIdMiddleware fresh supplied)) rq e = ((status, header, err), entry)"
  shows "er_requestId err = header" and "el_requestId entry = header" and "el_statusCode entry = status" and "er_statusCode err = status"
    and "validRequestId supplied \<Longrightarrow> supplied = Some header" and "\<not> validRequestId supplied \<Longrightarrow> header = fresh"
proof -
  have rid: "er_requestId (normalize c r) = r" for c r
    using normalize_envelope by (simp add: envelope_ok_def)
  from assms show "er_requestId err = header" "el_requestId entry = header" "el_statusCode entry = status" "er_statusCode err = status"
    by (auto simp: respondError_def Let_def filterRequestId_def catch_exception_def orElse_def rid)
  show "validRequestId supplied \<Longrightarrow> supplied = Some header" "\<not> validRequestId supplied \<Longrightarrow> header = fresh"
    using assms by (auto simp: respondError_def Let_def filterRequestId_def requestIdMiddleware_def validRequestId_def orElse_def
        split: option.splits)
qed

end
