(* ===== verification/Controllers.thy ===== *)
theory Controllers
  imports System Config
begin

text \<open>
  The controllers (\<open>auth.controller.ts\<close>, \<open>servers.controller.ts\<close>, \<open>server-access.controller.ts\<close>,
  \<open>admin.controller.ts\<close>, \<open>setup.controller.ts\<close>, \<open>app.controller.ts\<close>): the end points with their
  decorators, what each calls, and the whole path of a request through the guards of
  \<open>app.module.ts\<close> to its handler.
\<close>

section \<open>End points\<close>

text \<open>An end point with the parameters of its route and its validated body.\<close>

datatype endpoint =
    Register register_dto | Login login_dto | CreateOAuthChallenge string | LoginWithGoogle string
  | LinkGoogleAccount string | Profile | Logout | Refresh | LogoutAll | GetSessions | DeleteSingleSession string
  | EditUserProfile "string option" | UpdateUserPassword string string | Setup2FA | Confirm2FA string
  | Verify2FA string | Disable2FA string
  | ServersCreate create_server_dto | ServersList list_query | ServersListRequestable list_query
  | ServersGet string | ServersStart string | ServersStop string | ServersRestart string | ServersDelete string
  | RequestAccess string | GetMyAccessRequest string | ListAccessRequests string
  | ApproveAccess string string | RevokeAccess string string
  | ListUsers list_users_query | UpdateStatus string user_status | UpdateRole string role
  | ResetPassword string | RemoveTwoFactor string | ListPermissions string
  | GrantPermission string grant_dto | RevokePermission string string
  | SetupGetStatus | SetupInit register_dto "string option"
  | GetInfo | GetHealth

text \<open>\<open>@Public()\<close>\<close>

fun isPublic :: "endpoint \<Rightarrow> bool" where
  "isPublic (Register _) = True"
| "isPublic (Login _) = True"
| "isPublic (CreateOAuthChallenge _) = True"
| "isPublic (LoginWithGoogle _) = True"
| "isPublic Refresh = True"
| "isPublic (Verify2FA _) = True"
| "isPublic SetupGetStatus = True"
| "isPublic (SetupInit _ _) = True"
| "isPublic GetInfo = True"
| "isPublic GetHealth = True"
| "isPublic _ = False"

text \<open>\<open>@Roles(...)\<close>; the administration controller has it on the class.\<close>

fun requiredRoles :: "endpoint \<Rightarrow> role list option" where
  "requiredRoles (ServersCreate _) = Some [ADMIN]"
| "requiredRoles (ServersStart _) = Some [ADMIN, MOD]"
| "requiredRoles (ServersStop _) = Some [ADMIN, MOD]"
| "requiredRoles (ServersRestart _) = Some [ADMIN, MOD]"
| "requiredRoles (ServersDelete _) = Some [ADMIN]"
| "requiredRoles (ListAccessRequests _) = Some [ADMIN]"
| "requiredRoles (ApproveAccess _ _) = Some [ADMIN]"
| "requiredRoles (RevokeAccess _ _) = Some [ADMIN]"
| "requiredRoles (ListUsers _) = Some [ADMIN]"
| "requiredRoles (UpdateStatus _ _) = Some [ADMIN]"
| "requiredRoles (UpdateRole _ _) = Some [ADMIN]"
| "requiredRoles (ResetPassword _) = Some [ADMIN]"
| "requiredRoles (RemoveTwoFactor _) = Some [ADMIN]"
| "requiredRoles (ListPermissions _) = Some [ADMIN]"
| "requiredRoles (GrantPermission _ _) = Some [ADMIN]"
| "requiredRoles (RevokePermission _ _) = Some [ADMIN]"
| "requiredRoles _ = None"

text \<open>\<open>@RequiresPermission(...)\<close>\<close>

fun requiredPermission :: "endpoint \<Rightarrow> mod_permission option" where
  "requiredPermission (ServersStart _) = Some SERVER_LIFECYCLE"
| "requiredPermission (ServersStop _) = Some SERVER_LIFECYCLE"
| "requiredPermission (ServersRestart _) = Some SERVER_LIFECYCLE"
| "requiredPermission _ = None"

text \<open>The parameter \<open>:id\<close> of the route.\<close>

fun routeId :: "endpoint \<Rightarrow> string option" where
  "routeId (DeleteSingleSession i) = Some i"
| "routeId (ServersGet i) = Some i"
| "routeId (ServersStart i) = Some i"
| "routeId (ServersStop i) = Some i"
| "routeId (ServersRestart i) = Some i"
| "routeId (ServersDelete i) = Some i"
| "routeId (RequestAccess i) = Some i"
| "routeId (GetMyAccessRequest i) = Some i"
| "routeId (ListAccessRequests i) = Some i"
| "routeId (ApproveAccess i _) = Some i"
| "routeId (RevokeAccess i _) = Some i"
| "routeId (UpdateStatus i _) = Some i"
| "routeId (UpdateRole i _) = Some i"
| "routeId (ResetPassword i) = Some i"
| "routeId (RemoveTwoFactor i) = Some i"
| "routeId (ListPermissions i) = Some i"
| "routeId (GrantPermission i _) = Some i"
| "routeId (RevokePermission i _) = Some i"
| "routeId _ = None"

section \<open>Responses\<close>

record panel_info =
  in_name :: string
  in_version :: string
  in_protocolVersion :: int
  in_googleOAuth :: bool

record health =
  he_status :: string
  he_db :: string
  he_docker :: string
  he_version :: string

datatype reply =
    Empty | Message string | User public_user | Challenge2FA string | OAuthChallenge string | LinkConfirmation
  | ProfileOf guarded_user | Sessions "session_view list" | Secret "string \<times> string" | BackupCodes "string list" | Flag bool
  | Server public_server | Servers "public_server list" nat | Requestable "requestable_server list" nat
  | MyAccess my_access_request | Access access_request | Accesses "access_request list"
  | Users "public_user list" | TempPassword string | Grants "mod_permission_row list" | Grant mod_permission_row
  | Status setup_status | Info panel_info | Health health

record response =
  rs_status :: int
  rs_body :: reply
  rs_cookies :: "cookie list"

definition respond :: "int \<Rightarrow> reply \<Rightarrow> response" where
  "respond status body = \<lparr>rs_status = status, rs_body = body, rs_cookies = []\<rparr>"

definition withCookies :: "cookie list \<Rightarrow> reply \<Rightarrow> response" where
  "withCookies cs body = \<lparr>rs_status = 200, rs_body = body, rs_cookies = cs\<rparr>"

section \<open>What the handlers depend on\<close>

text \<open>
  The process: configuration, the outside (Docker, Google, whether the database answers, the
  throttler's and the validation pipe's verdict on this request), and what the request
  draws at random.
\<close>

record api_env =
  av_auth :: auth_env
  av_cfg :: config
  av_docker :: dockerode
  av_verify :: id_token_verifier
  av_draws :: identity_draws
  av_uri :: "string \<Rightarrow> string \<Rightarrow> string"
  av_production :: bool
  av_origin :: string
  av_databaseUp :: bool
  av_throttled :: bool
  av_pipe :: "exn + unit"
  av_newId :: string
  av_ids :: "nat \<Rightarrow> string"
  av_challenge :: string
  av_tempPassword :: string
  av_iv :: string
  av_secret :: string
  av_codes :: "string list"

definition throttlerException :: exn where
  "throttlerException = TooManyRequests (Msg ''ThrottlerException: Too Many Requests'')"

section \<open>The handlers\<close>

text \<open>A cookie that is no string fails the check of \<open>requireRefreshToken\<close> like an empty one.\<close>

definition refreshCookie :: "request \<Rightarrow> exn + string" where
  "refreshCookie rq = requireRefreshToken (case rq_refresh_token rq of
     None \<Rightarrow> None | Some (JStr s) \<Rightarrow> Some s | Some _ \<Rightarrow> Some [])"

definition toPrincipal :: "guarded_user \<Rightarrow> principal" where
  "toPrincipal u = \<lparr>p_id = gu_id u, p_role = gu_role u\<rparr>"

text \<open>The end points that need no account.\<close>

definition registerRoute :: "api_env \<Rightarrow> register_dto \<Rightarrow> (world, response) prog" where
  "registerRoute env dto =
     bind (registerUser (ae_crypto (av_auth env)) (av_cfg env) (av_newId env) dto) (\<lambda>_.
     Return (respond 201 (Message (''User '' @ rg_username dto @ '' created successfully''))))"

definition loginRoute :: "api_env \<Rightarrow> request \<Rightarrow> login_dto \<Rightarrow> (world, response) prog" where
  "loginRoute env rq dto =
     bind (loginUser (av_auth env) dto (Some \<lparr>lc_identifier = ld_identifier dto,
       lc_source = orElse (rq_ip rq) (orElse (rq_remoteAddress rq) ''unknown'')\<rparr>)) (\<lambda>r.
     case r of
       TwoFactorChallenge t \<Rightarrow> Return (respond 200 (Challenge2FA t))
     | Session s \<Rightarrow> Return (withCookies (setAuthCookies (av_production env) s (ae_ttl (av_auth env))) (User (at_user s))))"

definition loginWithGoogleRoute :: "api_env \<Rightarrow> string \<Rightarrow> (world, response) prog" where
  "loginWithGoogleRoute env credential =
     bind (googleLogin (av_verify env) (av_cfg env) (av_draws env) (av_auth env) credential) (\<lambda>r.
     case r of
       GoogleLinkConfirmationRequired \<Rightarrow> Return (respond 200 LinkConfirmation)
     | GoogleSession s \<Rightarrow> Return (withCookies (setAuthCookies (av_production env) s (ae_ttl (av_auth env))) (User (at_user s))))"

definition refreshRoute :: "api_env \<Rightarrow> request \<Rightarrow> (world, response) prog" where
  "refreshRoute env rq =
     bind (liftE (refreshCookie rq)) (\<lambda>raw.
     bind (rotateRefreshToken (av_auth env) raw) (\<lambda>(access, refresh).
     Return (withCookies (setAccessTokenCookie (av_production env) access
       @ setRefreshTokenCookie (av_production env) refresh (ae_ttl (av_auth env))) Empty)))"

definition verify2FARoute :: "api_env \<Rightarrow> request \<Rightarrow> string \<Rightarrow> (world, response) prog" where
  "verify2FARoute env rq token =
     bind (liftE (preAuth_canActivate (ae_crypto (av_auth env)) rq)) (\<lambda>pre.
     bind (liftE (av_pipe env)) (\<lambda>_.
     bind (completeTwoFactorLogin (av_auth env) (pa_sub pre) token (pa_temporaryAuth pre)
             (case pa_fingerprint pre of Some (JStr fp) \<Rightarrow> Some fp | _ \<Rightarrow> None)) (\<lambda>s.
     Return (withCookies (setAuthCookies (av_production env) s (ae_ttl (av_auth env))) (User (at_user s))))))"

definition getInfo :: "config \<Rightarrow> panel_info" where
  "getInfo cfg = \<lparr>in_name = orElse (cfg ''PANEL_NAME'') ''MinePanel'', in_version = orElse (cfg ''PANEL_VERSION'') ''1.0'',
     in_protocolVersion = 1, in_googleOAuth = isConfigured cfg\<rparr>"

definition getHealth :: "bool \<Rightarrow> dockerode \<Rightarrow> config \<Rightarrow> response" where
  "getHealth up dk cfg =
     (let healthy = up \<and> ping dk
      in respond (if healthy then 200 else 503)
           (Health \<lparr>he_status = (if healthy then ''ok'' else ''degraded''), he_db = (if up then ''ok'' else ''error''),
              he_docker = (if ping dk then ''ok'' else ''error''), he_version = orElse (cfg ''PANEL_VERSION'') ''1.0''\<rparr>))"

fun setupRoute :: "api_env \<Rightarrow> endpoint \<Rightarrow> (world, response) prog" where
  "setupRoute env SetupGetStatus = bind getSetupState (\<lambda>s. Return (respond 200 (Status s)))"
| "setupRoute env (SetupInit dto token) =
     bind (initAdminRegister (ae_crypto (av_auth env)) (av_cfg env) (av_newId env) dto token) (\<lambda>_.
     Return (respond 201 (Message (''Admin '' @ rg_username dto @ '' created successfully''))))"
| "setupRoute env _ = Throw unauthorized"

fun publicRoute :: "api_env \<Rightarrow> request \<Rightarrow> endpoint \<Rightarrow> (world, response) prog" where
  "publicRoute env rq (Register dto) = registerRoute env dto"
| "publicRoute env rq (Login dto) = loginRoute env rq dto"
| "publicRoute env rq (CreateOAuthChallenge provider) =
     bind (createChallenge (ae_crypto (av_auth env)) (av_newId env) (av_challenge env) provider) (\<lambda>c.
     Return (respond 200 (OAuthChallenge c)))"
| "publicRoute env rq (LoginWithGoogle credential) = loginWithGoogleRoute env credential"
| "publicRoute env rq Refresh = refreshRoute env rq"
| "publicRoute env rq (Verify2FA token) = verify2FARoute env rq token"
| "publicRoute env rq GetInfo = Return (respond 200 (Info (getInfo (av_cfg env))))"
| "publicRoute env rq GetHealth = Return (getHealth (av_databaseUp env) (av_docker env) (av_cfg env))"
| "publicRoute env rq ep = setupRoute env ep"

text \<open>The end points of the caller's own account.\<close>

definition updatePasswordRoute :: "api_env \<Rightarrow> request \<Rightarrow> guarded_user \<Rightarrow> string \<Rightarrow> string \<Rightarrow> (world, response) prog" where
  "updatePasswordRoute env rq u old new =
     bind (liftE (refreshCookie rq)) (\<lambda>token.
     bind (updateUserPassword (av_auth env) (gu_id u) old new token (gu_temporaryAuth u)) (\<lambda>(user, session).
     Return (withCookies (case session of
         None \<Rightarrow> [] | Some s \<Rightarrow> setAuthCookies (av_production env) s (ae_ttl (av_auth env))) (User user))))"

definition logoutRoute :: "api_env \<Rightarrow> request \<Rightarrow> guarded_user \<Rightarrow> (world, response) prog" where
  "logoutRoute env rq u =
     bind (liftE (refreshCookie rq)) (\<lambda>token.
     bind (logoutUser (ae_crypto (av_auth env)) (gu_id u) token) (\<lambda>_.
     Return (withCookies (clearAuthCookies (av_production env)) Empty)))"

fun accountRoute :: "api_env \<Rightarrow> request \<Rightarrow> guarded_user \<Rightarrow> endpoint \<Rightarrow> (world, response) prog" where
  "accountRoute env rq u (LinkGoogleAccount credential) =
     bind (linkAuthenticatedUser (av_verify env) (av_cfg env) (ae_crypto (av_auth env)) (gu_id u) credential) (\<lambda>p.
     Return (respond 200 (User p)))"
| "accountRoute env rq u Profile = Return (respond 200 (ProfileOf u))"
| "accountRoute env rq u Logout = logoutRoute env rq u"
| "accountRoute env rq u LogoutAll =
     bind (logoutAll (gu_id u)) (\<lambda>_. Return (withCookies (clearAuthCookies (av_production env)) Empty))"
| "accountRoute env rq u GetSessions = bind (getSessions (gu_id u)) (\<lambda>s. Return (respond 200 (Sessions s)))"
| "accountRoute env rq u (DeleteSingleSession i) =
     bind (deleteSingleSession (gu_id u) i) (\<lambda>_. Return (respond 200 Empty))"
| "accountRoute env rq u (EditUserProfile name) =
     bind (updateProfile (gu_id u) name) (\<lambda>p. Return (respond 200 (User p)))"
| "accountRoute env rq u (UpdateUserPassword old new) = updatePasswordRoute env rq u old new"
| "accountRoute env rq u Setup2FA =
     bind (setup2FA (av_uri env) (av_auth env) (av_iv env) (av_secret env) (gu_id u)) (\<lambda>s. Return (respond 200 (Secret s)))"
| "accountRoute env rq u (Confirm2FA token) =
     bind (confirm2FA (av_auth env) (av_codes env) (gu_id u) token) (\<lambda>cs. Return (respond 200 (BackupCodes cs)))"
| "accountRoute env rq u (Disable2FA token) =
     bind (disable2FA (av_auth env) (gu_id u) token) (\<lambda>b. Return (respond 200 (Flag b)))"
| "accountRoute env rq u _ = Throw unauthorized"

text \<open>Access to servers.\<close>

fun accessRoute :: "api_env \<Rightarrow> guarded_user \<Rightarrow> endpoint \<Rightarrow> (world, response) prog" where
  "accessRoute env u (RequestAccess i) =
     bind (requestAccess (av_ids env) i (toPrincipal u)) (\<lambda>r. Return (respond 201 (MyAccess r)))"
| "accessRoute env u (GetMyAccessRequest i) =
     bind (getMyAccessRequest i (toPrincipal u)) (\<lambda>r. Return (respond 200 (MyAccess r)))"
| "accessRoute env u (ListAccessRequests i) = bind (listAccessRequests i) (\<lambda>rs. Return (respond 200 (Accesses rs)))"
| "accessRoute env u (ApproveAccess i uid) =
     bind (approveAccess (av_ids env) i uid) (\<lambda>r. Return (respond 200 (Access r)))"
| "accessRoute env u (RevokeAccess i uid) = bind (revokeAccess i uid) (\<lambda>_. Return (respond 204 Empty))"
| "accessRoute env u _ = Throw unauthorized"

text \<open>Servers.\<close>

fun serversRoute :: "api_env \<Rightarrow> guarded_user \<Rightarrow> endpoint \<Rightarrow> (world, response) prog" where
  "serversRoute env u (ServersCreate dto) =
     bind (createServer (av_docker env) (av_cfg env) (av_newId env) dto (toPrincipal u)) (\<lambda>s. Return (respond 201 (Server s)))"
| "serversRoute env u (ServersList q) =
     bind (listServers q (toPrincipal u)) (\<lambda>(rows, total). Return (respond 200 (Servers rows total)))"
| "serversRoute env u (ServersListRequestable q) =
     bind (listRequestableServers q (toPrincipal u)) (\<lambda>(rows, total). Return (respond 200 (Requestable rows total)))"
| "serversRoute env u (ServersGet i) = bind (getServer i (toPrincipal u)) (\<lambda>s. Return (respond 200 (Server s)))"
| "serversRoute env u (ServersStart i) =
     bind (startServer (av_docker env) (av_cfg env) i (toPrincipal u)) (\<lambda>s. Return (respond 200 (Server s)))"
| "serversRoute env u (ServersStop i) =
     bind (stopServer (av_docker env) (av_cfg env) i (toPrincipal u)) (\<lambda>s. Return (respond 200 (Server s)))"
| "serversRoute env u (ServersRestart i) =
     bind (restartServer (av_docker env) (av_cfg env) i (toPrincipal u)) (\<lambda>s. Return (respond 200 (Server s)))"
| "serversRoute env u (ServersDelete i) =
     bind (deleteServer (av_docker env) i (toPrincipal u)) (\<lambda>_. Return (respond 202 Empty))"
| "serversRoute env u ep = accessRoute env u ep"

text \<open>Administration.\<close>

fun adminRoute :: "api_env \<Rightarrow> endpoint \<Rightarrow> (world, response) prog" where
  "adminRoute env (ListUsers q) = bind (listUsers q) (\<lambda>us. Return (respond 200 (Users us)))"
| "adminRoute env (UpdateStatus i st) = bind (updateStatus i st) (\<lambda>p. Return (respond 200 (User p)))"
| "adminRoute env (UpdateRole i rl) = bind (updateRole i rl) (\<lambda>p. Return (respond 200 (User p)))"
| "adminRoute env (ResetPassword i) =
     bind (resetPassword (ae_crypto (av_auth env)) (av_tempPassword env) i) (\<lambda>t. Return (respond 200 (TempPassword t)))"
| "adminRoute env (RemoveTwoFactor i) = bind (removeTwoFactor i) (\<lambda>p. Return (respond 200 (User p)))"
| "adminRoute env (ListPermissions i) = bind (listModPermissions i) (\<lambda>gs. Return (respond 200 (Grants gs)))"
| "adminRoute env (GrantPermission i dto) =
     bind (grantModPermission (av_newId env) i dto) (\<lambda>g. Return (respond 201 (Grant g)))"
| "adminRoute env (RevokePermission i permId) =
     bind (revokeModPermission i permId) (\<lambda>_. Return (respond 204 Empty))"
| "adminRoute env _ = Throw unauthorized"

fun isAccountEndpoint :: "endpoint \<Rightarrow> bool" where
  "isAccountEndpoint (LinkGoogleAccount _) = True"
| "isAccountEndpoint Profile = True"
| "isAccountEndpoint Logout = True"
| "isAccountEndpoint LogoutAll = True"
| "isAccountEndpoint GetSessions = True"
| "isAccountEndpoint (DeleteSingleSession _) = True"
| "isAccountEndpoint (EditUserProfile _) = True"
| "isAccountEndpoint (UpdateUserPassword _ _) = True"
| "isAccountEndpoint Setup2FA = True"
| "isAccountEndpoint (Confirm2FA _) = True"
| "isAccountEndpoint (Disable2FA _) = True"
| "isAccountEndpoint _ = False"

fun isAdminEndpoint :: "endpoint \<Rightarrow> bool" where
  "isAdminEndpoint (ListUsers _) = True"
| "isAdminEndpoint (UpdateStatus _ _) = True"
| "isAdminEndpoint (UpdateRole _ _) = True"
| "isAdminEndpoint (ResetPassword _) = True"
| "isAdminEndpoint (RemoveTwoFactor _) = True"
| "isAdminEndpoint (ListPermissions _) = True"
| "isAdminEndpoint (GrantPermission _ _) = True"
| "isAdminEndpoint (RevokePermission _ _) = True"
| "isAdminEndpoint _ = False"

definition handlerOf :: "api_env \<Rightarrow> request \<Rightarrow> guarded_user option \<Rightarrow> endpoint \<Rightarrow> (world, response) prog" where
  "handlerOf env rq user ep =
     (if isPublic ep then publicRoute env rq ep
      else case user of
        None \<Rightarrow> Throw unauthorized
      | Some u \<Rightarrow> if isAccountEndpoint ep then accountRoute env rq u ep
                 else if isAdminEndpoint ep then adminRoute env ep else serversRoute env u ep)"

section \<open>The path of a request\<close>

text \<open>
  The global guards in the order of \<open>app.module.ts\<close>, then the validation pipe, then the handler.
  The second step of a login has a guard of its own, which runs before the pipe.
\<close>

definition guards :: "api_env \<Rightarrow> endpoint \<Rightarrow> request \<Rightarrow> (world, guarded_user option) prog" where
  "guards env ep rq =
     bind (liftE (csrf_canActivate (av_origin env) True rq)) (\<lambda>_.
     bind (jwt_canActivate (ae_crypto (av_auth env)) (av_databaseUp env) (isPublic ep) rq) (\<lambda>user.
     bind (liftE (roles_canActivate (requiredRoles ep) user)) (\<lambda>_.
     bind (permissions_canActivate (av_databaseUp env) (requiredPermission ep) rq user) (\<lambda>_.
     if av_throttled env then Throw throttlerException else Return user))))"

definition api :: "api_env \<Rightarrow> endpoint \<Rightarrow> request \<Rightarrow> (world, response) prog" where
  "api env ep rq =
     bind (guards env ep rq) (\<lambda>user.
     bind (if (case ep of Verify2FA _ \<Rightarrow> True | _ \<Rightarrow> False) then Return () else liftE (av_pipe env)) (\<lambda>_.
     handlerOf env rq user ep))"

end
