(* ===== verification/ApiProperties.thy ===== *)
theory ApiProperties
  imports Controllers
begin

text \<open>
  Who may do what through the HTTP interface: every request passes the guards before its handler
  runs, so what a handler changes is tied to the account, the role and the permissions of its
  caller as the database has them at that moment.
\<close>

section \<open>The guards\<close>

text \<open>The account a request is made for: its token is valid and the account may use it on this route.\<close>

definition authenticated :: "crypto \<Rightarrow> request \<Rightarrow> world \<Rightarrow> user \<Rightarrow> bool" where
  "authenticated cr rq w u \<longleftrightarrow> (\<exists>token payload claims. rq_access_token rq = Some (JStr token) \<and> token \<noteq> []
     \<and> jwt_verify cr token = JwtOk payload \<and> parseAccessTokenClaims payload = Some claims
     \<and> find_user (ac_sub claims) w = Some u \<and> u_status u = ACTIVE
     \<and> u_mustChangePassword u = (ac_temporaryAuth claims = Some True)
     \<and> (u_mustChangePassword u \<longrightarrow> rq_method rq = ''PATCH'' \<and> rq_path rq = ''/api/auth/password''))"

definition may_use :: "endpoint \<Rightarrow> world \<Rightarrow> user \<Rightarrow> bool" where
  "may_use ep w u \<longleftrightarrow> (\<forall>rs. requiredRoles ep = Some rs \<longrightarrow> u_role u = ADMIN \<or> u_role u \<in> set rs)
     \<and> (\<forall>p. requiredPermission ep = Some p \<longrightarrow> u_role u = ADMIN
          \<or> u_role u = MOD \<and> (\<exists>g \<in> set (modPermissions w). grantFor (u_id u) p (truthy (routeId ep)) g))"

lemma principalAllowed_Inr:
  "principalAllowed rq pr = Inr g \<longleftrightarrow> ap_mustChangePassword pr = ap_temporaryAuth pr
     \<and> (ap_mustChangePassword pr \<longrightarrow> isPasswordChangeRoute rq)
     \<and> g = \<lparr>gu_id = ap_id pr, gu_username = ap_username pr, gu_role = ap_role pr, gu_temporaryAuth = ap_temporaryAuth pr\<rparr>"
  by (auto simp: principalAllowed_def seqE_Inr_iff)

lemma run_jwt:
  assumes "run (jwt_canActivate cr up pub rq) w = (r, w')"
  shows "w' = w" and "r = Inr user \<Longrightarrow> \<not> pub \<Longrightarrow>
    \<exists>g u. user = Some g \<and> authenticated cr rq w u \<and> gu_id g = u_id u \<and> gu_role g = u_role u"
proof -
  have "w' = w \<and> (r = Inr user \<longrightarrow> \<not> pub \<longrightarrow>
      (\<exists>g u. user = Some g \<and> authenticated cr rq w u \<and> gu_id g = u_id u \<and> gu_role g = u_role u))"
  proof (cases "\<exists>token. rq_access_token rq = Some (JStr token) \<and> token \<noteq> [] \<and> \<not> pub")
    case True
    then obtain token where t: "rq_access_token rq = Some (JStr token)" "token \<noteq> []" "\<not> pub" by blast
    obtain r1 w1 where v: "run (verifyAccess cr up token) w = (r1, w1)" by force
    note ver = run_verifyAccess [OF v]
    show ?thesis
    proof (cases r1)
      case (Inl e)
      then show ?thesis using assms t v ver by (auto simp: jwt_canActivate_def run_bind run_tryCatch)
    next
      case (Inr pr)
      then obtain payload claims u where c: "jwt_verify cr token = JwtOk payload" "parseAccessTokenClaims payload = Some claims"
        "find_user (ac_sub claims) w = Some u" "u_status u = ACTIVE" "ap_id pr = u_id u" "ap_role pr = u_role u"
        "ap_mustChangePassword pr = u_mustChangePassword u" "ap_temporaryAuth pr = (ac_temporaryAuth claims = Some True)"
        using ver by blast
      show ?thesis
      proof (cases "principalAllowed rq pr")
        case (Inl e)
        then show ?thesis using assms t v ver Inr by (auto simp: jwt_canActivate_def run_bind run_tryCatch run_liftE)
      next
        case (Inr g)
        have "authenticated cr rq w u"
          unfolding authenticated_def using t c Inr by (auto simp: principalAllowed_Inr isPasswordChangeRoute_def)
        moreover have "gu_id g = u_id u" "gu_role g = u_role u" using Inr c by (auto simp: principalAllowed_Inr)
        ultimately show ?thesis using assms t v ver \<open>r1 = Inr pr\<close> Inr
          by (auto simp: jwt_canActivate_def run_bind run_tryCatch run_liftE)
      qed
    qed
  next
    case False
    then show ?thesis using assms by (auto simp: jwt_canActivate_def split: option.splits json.splits if_splits)
  qed
  then show "w' = w" "r = Inr user \<Longrightarrow> \<not> pub \<Longrightarrow>
    \<exists>g u. user = Some g \<and> authenticated cr rq w u \<and> gu_id g = u_id u \<and> gu_role g = u_role u" by blast+
qed

lemma run_permissions:
  assumes "run (permissions_canActivate up perm rq (Some g)) w = (r, w')"
  shows "w' = w \<and> (r = Inr () \<longrightarrow> (\<forall>p. perm = Some p \<longrightarrow> gu_role g = ADMIN
     \<or> gu_role g = MOD \<and> (\<exists>x \<in> set (modPermissions w). grantFor (gu_id g) p (truthy (rq_params_id rq)) x)))"
  using assms unfolding permissions_canActivate_def
  by (auto simp: run_tryCatch run_bind run_dbSelect find_None_iff2 dest: find_Some_mem split: option.splits if_splits)

lemma run_permissions_state: "snd (run (permissions_canActivate up perm rq user) w) = w"
  unfolding permissions_canActivate_def
  by (auto simp: run_tryCatch run_bind run_dbSelect split: option.splits)

lemma guards_keep_state: "snd (run (guards env ep rq) w) = w"
proof -
  have j: "snd (run (jwt_canActivate cr up pub rq) w) = w" for cr up pub
    using run_jwt(1) [of cr up pub rq w] by (metis prod.collapse)
  show ?thesis unfolding guards_def
    using j run_permissions_state
    by (auto simp: run_bind run_liftE split: prod.splits sum.splits) (metis snd_conv)+
qed

lemma guards_authorise:
  assumes "run (guards env ep rq) w = (Inr user, w1)" and "\<not> isPublic ep" and "rq_params_id rq = routeId ep"
  shows "\<exists>g u. user = Some g \<and> gu_id g = u_id u \<and> gu_role g = u_role u
     \<and> authenticated (ae_crypto (av_auth env)) rq w u \<and> may_use ep w u"
proof -
  from assms(1) obtain w2 w3 where j: "run (jwt_canActivate (ae_crypto (av_auth env)) (av_databaseUp env) (isPublic ep) rq) w = (Inr user, w2)"
    and ro: "roles_canActivate (requiredRoles ep) user = Inr ()"
    and p: "run (permissions_canActivate (av_databaseUp env) (requiredPermission ep) rq user) w2 = (Inr (), w3)"
    unfolding guards_def by (auto simp: run_bind_Inr run_liftE split: if_splits)
  from run_jwt [OF j] assms(2) obtain g u where g: "w2 = w" "user = Some g"
    "authenticated (ae_crypto (av_auth env)) rq w u" "gu_id g = u_id u" "gu_role g = u_role u" by blast
  have "may_use ep w u"
    using run_permissions [OF p [unfolded g]] ro g(2,4,5) assms(3)
    by (auto simp: may_use_def roles_canActivate_def)
  with g show ?thesis by blast
qed

lemma run_api:
  "run (api env ep rq) w = (r, w') \<Longrightarrow> (\<exists>e. r = Inl e \<and> w' = w)
     \<or> (\<exists>user. run (guards env ep rq) w = (Inr user, w) \<and> run (handlerOf env rq user ep) w = (r, w'))"
  using guards_keep_state [of env ep rq w] unfolding api_def
  by (auto simp: run_bind run_liftE split: prod.splits sum.splits if_splits)

text \<open>
  C6. No request reaches a protected handler unless its caller may use it. A request to an end point
  that is not public either fails and changes nothing, or carries a valid access token of an
  active account with one of the required roles (looked up in the database, not in the
  token); a moderator needs the required permission, global or for the server of the route;
  and an account in forced recovery needs a temporary session and can only change its
  password.
\<close>

theorem api_refuses_strangers:
  assumes "run (api env ep rq) w = (r, w')" and "\<not> isPublic ep" and "rq_params_id rq = routeId ep"
  shows "(\<exists>e. r = Inl e) \<and> w' = w
    \<or> (\<exists>u \<in> set (users w). u_status u = ACTIVE \<and> authenticated (ae_crypto (av_auth env)) rq w u \<and> may_use ep w u)"
proof -
  from run_api [OF assms(1)] show ?thesis
  proof
    assume "\<exists>user. run (guards env ep rq) w = (Inr user, w) \<and> run (handlerOf env rq user ep) w = (r, w')"
    then obtain user where g: "run (guards env ep rq) w = (Inr user, w)" by blast
    from guards_authorise [OF this assms(2,3)] obtain u
      where u: "authenticated (ae_crypto (av_auth env)) rq w u" "may_use ep w u" by blast
    then have "u \<in> set (users w)" "u_status u = ACTIVE" by (auto simp: authenticated_def dest: find_user_id)
    with u show ?thesis by blast
  qed blast
qed

section \<open>Privileges\<close>

text \<open>
  A step that touches no server and no permission grant, gives or takes no role or status from
  an account, and creates accounts with the role USER only.
\<close>

definition same_rights :: "user \<Rightarrow> user \<Rightarrow> bool" where
  "same_rights u u' \<longleftrightarrow> u_id u' = u_id u \<and> u_role u' = u_role u \<and> u_status u' = u_status u"

definition privileges_kept :: "world \<Rightarrow> world \<Rightarrow> bool" where
  "privileges_kept w w' \<longleftrightarrow> servers w' = servers w \<and> modPermissions w' = modPermissions w
     \<and> (\<forall>u \<in> set (users w). \<exists>u' \<in> set (users w'). same_rights u u')
     \<and> (\<forall>u' \<in> set (users w'). (\<exists>u \<in> set (users w). same_rights u u') \<or> u_role u' = USER)"

lemma same_rights_refl [simp]: "same_rights u u"
  by (simp add: same_rights_def)

lemma same_rights_mem [intro]:
  "u \<in> A \<Longrightarrow> \<exists>u' \<in> A. same_rights u u'" "u \<in> A \<Longrightarrow> \<exists>u' \<in> A. same_rights u' u"
  by (auto intro: bexI [of _ u])

lemma same_rights_trans: "same_rights u u' \<Longrightarrow> same_rights u' u'' \<Longrightarrow> same_rights u u''"
  by (simp add: same_rights_def)

lemma priv_refl [simp]: "privileges_kept w w"
  by (auto simp: privileges_kept_def)

lemma priv_trans:
  assumes "privileges_kept w w'" and "privileges_kept w' w''"
  shows "privileges_kept w w''"
proof -
  have "(\<exists>u \<in> set (users w). same_rights u u'') \<or> u_role u'' = USER" if "u'' \<in> set (users w'')" for u''
  proof -
    from that assms(2) consider u' where "u' \<in> set (users w')" "same_rights u' u''" | "u_role u'' = USER"
      by (auto simp: privileges_kept_def)
    then show ?thesis
    proof cases
      case 1
      with assms(1) have "(\<exists>u \<in> set (users w). same_rights u u') \<or> u_role u' = USER"
        unfolding privileges_kept_def by blast
      then show ?thesis
      proof
        assume "u_role u' = USER"
        then show ?thesis using 1(2) by (simp add: same_rights_def)
      qed (use 1(2) same_rights_trans in blast)
    qed blast
  qed
  moreover have "\<exists>u'' \<in> set (users w''). same_rights u u''" if "u \<in> set (users w)" for u
    using that assms unfolding privileges_kept_def by (metis same_rights_trans)
  ultimately show ?thesis using assms by (simp add: privileges_kept_def)
qed

lemma priv_same:
  "users w' = users w \<Longrightarrow> modPermissions w' = modPermissions w \<Longrightarrow> servers w' = servers w \<Longrightarrow> privileges_kept w w'"
  by (auto simp: privileges_kept_def)

lemma priv_simple [simp]:
  "privileges_kept w (delete_tokens P w)"
  "privileges_kept w (w\<lparr>twoFactorFailures := f\<rparr>)"
  "privileges_kept w (recordTwoFactorFailure x w)"
  "privileges_kept w (prune now w)"
  "privileges_kept w (recordFailure cr ctx w)"
  "privileges_kept w (recordSuccess ctx w)"
  "privileges_kept w (ensureSetupState w)"
  by (rule priv_same; simp add: delete_tokens_def recordTwoFactorFailure_def prune_def recordFailure_def
      recordSuccess_def Let_def ensureSetupState_def split: option.splits)+

lemma priv_update_users:
  assumes "update_users P f w = Inr (rows, w')" and "\<And>u. P u \<Longrightarrow> same_rights u (f u)"
  shows "privileges_kept w w'"
proof -
  let ?g = "\<lambda>u. if P u then touch w (f u) else u"
  from assms(1) have w': "w' = w\<lparr>users := map ?g (users w)\<rparr>"
    by (auto simp: update_users_def Let_def update_where_def split: if_splits)
  have "same_rights u (?g u)" for u using assms(2) [of u] by (auto simp: touch_def same_rights_def)
  then have "\<exists>u' \<in> ?g ` set (users w). same_rights u u'" "\<exists>v \<in> set (users w). same_rights v (?g u)" if "u \<in> set (users w)" for u
    using that by blast+
  then show ?thesis by (simp add: w' privileges_kept_def del: if_image_distrib)
qed

lemma priv_statements:
  "insert_user u w = Inr (x, w') \<Longrightarrow> u_role u = USER \<Longrightarrow> privileges_kept w w'"
  "insert_token t w = Inr (y, w') \<Longrightarrow> privileges_kept w w'"
  "insert_challenge c w = Inr (y, w') \<Longrightarrow> privileges_kept w w'"
  "consumeChallenge cr pv ch w = Inr (b, w') \<Longrightarrow> privileges_kept w w'"
  by (auto simp: insert_user_def insert_token_def insert_challenge_def consumeChallenge_def privileges_kept_def split: if_splits
      dest: same_rights_mem)

lemma priv_tx:
  "consumeTx u h w = Inr (x, w') \<Longrightarrow> privileges_kept w w'"
  "consumeCodeTx i st r w = Inr (b, w') \<Longrightarrow> privileges_kept w w'"
  "forced_change i t nh w = Inr (y, w') \<Longrightarrow> privileges_kept w w'"
  unfolding consumeTx_def consumeCodeTx_def forced_change_def
  by (auto simp: seqE_Inr_iff split: option.splits intro!: priv_trans [OF _ priv_simple(1)] elim!: priv_update_users simp: same_rights_def)

lemma priv_rotate: "rotateTx env d st w = Inr (x, w') \<Longrightarrow> privileges_kept w w'"
  unfolding rotateTx_def
  by (auto simp: seqE_Inr_iff split: option.splits if_splits
      intro!: priv_trans [OF priv_trans [OF priv_simple(1)] priv_simple(1)] elim!: priv_statements)

lemma priv_get [guar_simps]: "guar privileges_kept (get f)"
  by (simp add: guar_get)

lemmas priv_elims = priv_update_users priv_statements priv_tx priv_rotate

lemma priv_helpers [guar_simps]:
  "guar privileges_kept (issueSession env u t)"
  "guar privileges_kept (consumeTempPassword u)"
  "guar privileges_kept (assertTwoFactorNotLocked x)"
  "guar privileges_kept (verifyAndConsumeBackupCode cr u tok)"
  "guar privileges_kept (assertAllowed cr c)"
  "guar privileges_kept (finishLogin ctx r)"
  "guar privileges_kept (failLogin cr ctx)"
  "guar privileges_kept (findById x)"
  "guar privileges_kept (findByIdentifier n)"
  unfolding issueSession_def consumeTempPassword_def assertTwoFactorNotLocked_def verifyAndConsumeBackupCode_def
    assertAllowed_def finishLogin_def failLogin_def recordLoginSuccess_def recordLoginFailure_def sleep_def
    findById_def findByIdentifier_def
  by (auto intro!: guar_intros guar_atomicallyI elim!: priv_elims
      simp: guar_simps split: option.splits if_splits prod.splits)

lemma priv_login [guar_simps]:
  "guar privileges_kept (loginUser env dto ctx)"
  "guar privileges_kept (completeTwoFactorLogin env x tok tmp fp)"
proof -
  have "guar privileges_kept (loginAccount env ctx u p t)" for u p t
    unfolding loginAccount_def by (auto intro!: guar_intros simp: guar_simps)
  then show "guar privileges_kept (loginUser env dto ctx)" unfolding loginUser_def Let_def
    by (auto intro!: guar_intros simp: guar_simps split: option.splits)
  have "guar privileges_kept (acceptCode env u tok tmp)" for u
    unfolding acceptCode_def by (auto intro!: guar_intros simp: guar_simps)
  then show "guar privileges_kept (completeTwoFactorLogin env x tok tmp fp)" unfolding completeTwoFactorLogin_def
    by (auto intro!: guar_intros simp: guar_simps split: option.splits)
qed

lemma priv_updatePassword [guar_simps]: "guar privileges_kept (updatePassword cr x op np tid tmp)"
  unfolding updatePassword_def
  by (auto intro!: guar_intros guar_atomicallyI elim!: priv_elims simp: guar_simps same_rights_def split: option.splits)

lemma priv_auth [guar_simps]:
  "guar privileges_kept (updateProfile x nm)"
  "guar privileges_kept (registerUser cr cfg i rdto)"
  "guar privileges_kept (issueProviderSession env u)"
  "guar privileges_kept (logoutUser cr x tok)"
  "guar privileges_kept (logoutAll x)"
  "guar privileges_kept (rotateRefreshToken env tok)"
  "guar privileges_kept (getSessions x)"
  "guar privileges_kept (deleteSingleSession x tid)"
  "guar privileges_kept (updateUserPassword env x op np tok tmp)"
  "guar privileges_kept (setup2FA gu env iv sec x)"
  "guar privileges_kept (confirm2FA env codes x tok)"
  "guar privileges_kept (disable2FA env x tok)"
  unfolding registerUser_def issueProviderSession_def logoutUser_def logoutAll_def rotateRefreshToken_def createUser_def
    getSessions_def deleteSingleSession_def updateUserPassword_def setup2FA_def confirm2FA_def disable2FA_def updateProfile_def
  by (auto intro!: guar_intros guar_atomicallyI elim!: priv_elims
      simp: guar_simps same_rights_def new_user_def orElse_def split: option.splits jwt_result.splits)

lemma provider_role: "u_role (provider_user dr ident pid st nm n now) = USER"
  by (simp add: provider_user_def with_provider_def new_user_def orElse_def split: identity_provider.splits)

lemma priv_createProviderUser [guar_simps]: "guar privileges_kept (createProviderUser dr ident pid st nm k)"
proof (induction k)
  case (Suc k)
  then show ?case
    by (auto intro!: guar_intros guar_atomicallyI elim!: priv_elims
        simp: guar_simps findByProvider_def findByEmail_def provider_role split: sum.splits option.splits)
qed simp

lemma priv_google [guar_simps]:
  "guar privileges_kept (createChallenge cr i ch pv)"
  "guar privileges_kept (verifyAndConsume cr pv ch)"
  "guar privileges_kept (resolveProviderIdentity cfg dr ident)"
  "guar privileges_kept (verifyCredential V cfg cred)"
  "guar privileges_kept (linkGoogleIdentity uid pid)"
  unfolding createChallenge_def verifyAndConsume_def resolveProviderIdentity_def verifyCredential_def
    linkGoogleIdentity_def Let_def findByProvider_def findByEmail_def
  by (auto intro!: guar_intros guar_atomicallyI elim!: priv_elims simp: guar_simps same_rights_def
      split: option.splits sum.splits list.splits)

lemma priv_google_setup [guar_simps]:
  "guar privileges_kept (googleLogin V cfg dr env cred)"
  "guar privileges_kept (linkAuthenticatedUser V cfg cr uid cred)"
  "guar privileges_kept getSetupState"
  unfolding googleLogin_def linkAuthenticatedUser_def getSetupState_def
  by (auto intro!: guar_intros guar_atomicallyI elim!: priv_elims simp: guar_simps
      split: resolution.splits option.splits)

lemma priv_access: "guar access_guar p \<Longrightarrow> guar privileges_kept p"
proof (erule guar_mono)
  fix w w' assume "access_guar w w'"
  then obtain t where "w' = w\<lparr>serverAccess := t\<rparr>" by (auto simp: access_guar_def access_step_def)
  then show "privileges_kept w w'" by (simp add: priv_same)
qed

lemma priv_public_routes [guar_simps]:
  "guar privileges_kept (registerRoute env rdto)"
  "guar privileges_kept (loginRoute env rq dto)"
  "guar privileges_kept (loginWithGoogleRoute env cred)"
  "guar privileges_kept (refreshRoute env rq)"
  "guar privileges_kept (verify2FARoute env rq tok)"
  "guar privileges_kept (updatePasswordRoute env rq g old new)"
  "guar privileges_kept (logoutRoute env rq g)"
  unfolding registerRoute_def loginRoute_def loginWithGoogleRoute_def refreshRoute_def verify2FARoute_def
    updatePasswordRoute_def logoutRoute_def
  by (auto intro!: guar_intros simp: guar_simps split: login_response.splits google_outcome.splits prod.splits)

lemma priv_server_reads [guar_simps]:
  "guar privileges_kept (listServers q pr)" "guar privileges_kept (listRequestableServers q pr)"
  "guar privileges_kept (getServer i pr)" "guar privileges_kept (requestAccess ids i pr)"
  "guar privileges_kept (getMyAccessRequest i pr)"
  unfolding listServers_def listRequestableServers_def getServer_def loadVisibleServer_def
  by (auto intro!: guar_intros priv_access simp: guar_simps split: option.splits)

lemma priv_publicRoute: "\<forall>dto tok. ep \<noteq> SetupInit dto tok \<Longrightarrow> guar privileges_kept (publicRoute env rq ep)"
  by (cases ep) (simp_all add: guar_simps guar_bindI)

lemma priv_accountRoute: "guar privileges_kept (accountRoute env rq g ep)"
  by (cases ep) (simp_all add: guar_simps guar_bindI)

lemma priv_serversRoute: "requiredRoles ep = None \<Longrightarrow> guar privileges_kept (serversRoute env g ep)"
  by (cases ep) (simp_all add: guar_simps guar_bindI split: prod.splits)

lemma admin_endpoint_roles: "isAdminEndpoint ep \<Longrightarrow> requiredRoles ep = Some [ADMIN]"
  by (cases ep) auto

lemma required_roles_cases:
  "requiredRoles ep = Some rs \<Longrightarrow> rs = [ADMIN] \<or> rs = [ADMIN, MOD] \<and> requiredPermission ep = Some SERVER_LIFECYCLE
     \<and> (\<exists>sid. routeId ep = Some sid \<and> ep \<in> {ServersStart sid, ServersStop sid, ServersRestart sid})"
  by (cases ep) auto

text \<open>
  C7. Privileges change only by the hand of those who have them. If a request changes any
  server, any permission grant, or the role or status of any account, or creates an account
  with another role than USER, then it is the setup, or its caller is an active administrator,
  or it is a start, stop or restart by an active moderator who holds the permission for
  server life cycles, globally or for that server.
\<close>

theorem privileges_need_authority:
  assumes "run (api env ep rq) w = (r, w')" and "rq_params_id rq = routeId ep" and "\<not> privileges_kept w w'"
  shows "(\<exists>dto tok. ep = SetupInit dto tok)
    \<or> (\<exists>u \<in> set (users w). u_status u = ACTIVE \<and> authenticated (ae_crypto (av_auth env)) rq w u
         \<and> (u_role u = ADMIN
            \<or> u_role u = MOD \<and> (\<exists>sid. ep \<in> {ServersStart sid, ServersStop sid, ServersRestart sid}
                \<and> (\<exists>g \<in> set (modPermissions w). mp_userId g = u_id u \<and> mp_permission g = SERVER_LIFECYCLE
                     \<and> mp_serverId g \<in> {None, Some sid}))))"
proof (rule ccontr)
  assume no: "\<not> ?thesis"
  from run_api [OF assms(1)] assms(3) obtain user
    where g: "run (guards env ep rq) w = (Inr user, w)" and h: "run (handlerOf env rq user ep) w = (r, w')"
    by auto
  have *: "privileges_kept w w'" if "guar privileges_kept (handlerOf env rq user ep)"
    using guar_run [OF that, of w] h by (metis priv_refl priv_trans snd_conv)
  show False
  proof (cases "isPublic ep \<or> requiredRoles ep = None")
    case True
    then have "guar privileges_kept (handlerOf env rq user ep)"
      using no priv_publicRoute [of ep] priv_accountRoute priv_serversRoute [of ep]
      by (cases user) (auto simp: handlerOf_def dest: admin_endpoint_roles)
    with * assms(3) show False by blast
  next
    case False
    then obtain rs where rs: "requiredRoles ep = Some rs" and np: "\<not> isPublic ep" by auto
    from guards_authorise [OF g np assms(2)] obtain u where u: "authenticated (ae_crypto (av_auth env)) rq w u" "may_use ep w u"
      by blast
    then have mem: "u \<in> set (users w)" "u_status u = ACTIVE" by (auto simp: authenticated_def dest: find_user_id)
    have nadm: "u_role u \<noteq> ADMIN" using no u mem by blast
    from required_roles_cases [OF rs] show False
    proof
      assume "rs = [ADMIN]"
      then show False using u(2) rs nadm by (auto simp: may_use_def)
    next
      assume "rs = [ADMIN, MOD] \<and> requiredPermission ep = Some SERVER_LIFECYCLE
        \<and> (\<exists>sid. routeId ep = Some sid \<and> ep \<in> {ServersStart sid, ServersStop sid, ServersRestart sid})"
      then obtain sid where sid: "routeId ep = Some sid" "ep \<in> {ServersStart sid, ServersStop sid, ServersRestart sid}"
        and p: "requiredPermission ep = Some SERVER_LIFECYCLE" by blast
      from u(2) p nadm obtain x where x: "u_role u = MOD" "x \<in> set (modPermissions w)"
        "grantFor (u_id u) SERVER_LIFECYCLE (truthy (Some sid)) x" by (auto simp: may_use_def sid(1))
      then have "mp_userId x = u_id u \<and> mp_permission x = SERVER_LIFECYCLE \<and> mp_serverId x \<in> {None, Some sid}"
        by (auto simp: grantFor_def truthy_if split: option.splits if_splits)
      with no u mem x sid(2) show False by blast
    qed
  qed
qed

section \<open>Requests from other sites\<close>

definition foreign_origin :: "string \<Rightarrow> request \<Rightarrow> bool" where
  "foreign_origin canonical rq = (case rq_origin rq of
     NoHeader \<Rightarrow> False
   | Headers _ \<Rightarrow> True
   | Header site \<Rightarrow> site \<noteq> canonical
       \<and> (case rq_host rq of None \<Rightarrow> True | Some host \<Rightarrow> site \<noteq> rq_protocol rq @ ''://'' @ host))"

text \<open>
  C24. A request that changes state and names another origin is refused. Whatever the end point and
  the session cookies, a POST, PUT, PATCH or DELETE whose Origin header is neither the
  configured origin nor the address the request was sent to, or is repeated, fails with 403
  before any other check and changes nothing; and a request is refused this way only then.
\<close>

theorem foreign_origin_refused:
  "(rq_method rq \<in> {''POST'', ''PUT'', ''PATCH'', ''DELETE''} \<and> foreign_origin (av_origin env) rq) =
   (csrf_canActivate (av_origin env) True rq = Inl (ForbiddenException (Code ''CsrfOriginForbidden'')))
   \<and> (if rq_method rq \<in> {''POST'', ''PUT'', ''PATCH'', ''DELETE''} \<and> foreign_origin (av_origin env) rq
      then run (api env ep rq) w = (Inl (ForbiddenException (Code ''CsrfOriginForbidden'')), w)
      else csrf_canActivate (av_origin env) True rq = Inr ())"
  by (auto simp: api_def guards_def csrf_canActivate_def csrfOriginForbidden_def MUTATING_METHODS_def isAllowedOrigin_def
      foreign_origin_def guardE_def split: option.splits header.splits)

section \<open>Instances\<close>

definition sample_api :: api_env where
  "sample_api = \<lparr>av_auth = sample_env ''a'', av_cfg = no_config, av_docker = willing_dockerode,
     av_verify = (\<lambda>_ _. Inr None), av_draws = \<lparr>dr_id = (\<lambda>_. ''g''), dr_suffix = (\<lambda>_. 1000)\<rparr>, av_uri = (\<lambda>_ s. s),
     av_production = True, av_origin = ''https://panel.example'', av_databaseUp = True, av_throttled = False,
     av_pipe = Inr (), av_newId = ''n1'', av_ids = (\<lambda>_. ''n2''), av_challenge = sample_challenge,
     av_tempPassword = ''tmp'', av_iv = ''iv'', av_secret = ''s'', av_codes = []\<rparr>"

definition root_request :: request where
  "root_request = \<lparr>rq_method = ''PATCH'', rq_path = ''/api/admin/users/bob/role'', rq_protocol = ''https'',
     rq_host = Some ''api.example'', rq_origin = Header ''https://panel.example'', rq_authorization = None,
     rq_access_token = Some (JStr ''access.root.x''), rq_refresh_token = None, rq_params_id = Some ''bob'', rq_ip = None, rq_remoteAddress = None\<rparr>"

definition promoted_world :: world where
  "promoted_world = snd (run (api sample_api (UpdateRole ''bob'' MOD) root_request) sample_world)"

lemma run_promotion: "run (api sample_api (UpdateRole ''bob'' MOD) root_request) sample_world
    = (fst (run (api sample_api (UpdateRole ''bob'' MOD) root_request) sample_world), promoted_world)"
  by (simp add: promoted_world_def)

lemma promotion_changes_rights: "\<not> privileges_kept sample_world promoted_world"
proof -
  have "list_all (\<lambda>u. u_role u \<noteq> USER) (users promoted_world)" by code_simp
  moreover have "list_ex (\<lambda>u. u_role u = USER) (users sample_world)" by code_simp
  ultimately show ?thesis
    by (fastforce simp: privileges_kept_def same_rights_def list_all_iff list_ex_iff)
qed

theorem api_refuses_strangers_witness:
  "\<exists>u \<in> set (users sample_world). u_status u = ACTIVE \<and> may_use (UpdateRole ''bob'' MOD) sample_world u"
  using api_refuses_strangers [OF run_promotion] promotion_changes_rights
  by (auto simp: root_request_def)

theorem privileges_need_authority_witness:
  "\<exists>u \<in> set (users sample_world). u_role u = ADMIN \<and> authenticated sample_crypto root_request sample_world u"
  using privileges_need_authority [OF run_promotion _ promotion_changes_rights]
  by (auto simp: root_request_def sample_api_def sample_env_crypto)

end
