(* ===== verification/Gateway.thy ===== *)
theory Gateway
  imports Guards
begin

text \<open>
  The live metrics: admission of Engine.IO connections (\<open>gateway/socket-reservation.service.ts\<close>,
  \<open>gateway/socket-io.adapter.ts\<close>), the metrics themselves (\<open>gateway/system-metrics.service.ts\<close>) and
  the gateway (\<open>gateway/events.gateway.ts\<close>) that authenticates sockets, keeps the room of
  administrators and polls while there are any.

  The state is the database together with the in-memory state of the two services; a Socket.IO socket is
  the record of the data the gateway attaches to it, with the members of Socket.IO it reads
  (whether it is connected, whether it is in the room). Timers are part of the state and fire as
  events of their own; \<open>socket.disconnect(true)\<close> ends the connection and leaves all rooms, and the
  gateway's \<open>handleDisconnect\<close> follows as an event.
\<close>

section \<open>State\<close>

datatype auth_status = AuthPending | Verifying | AuthenticatedSocket

record expiry_timer =
  et_firesAt :: int
  et_rearm :: bool
  et_exp :: int

record gsocket =
  gs_engineId :: string
  gs_status :: auth_status
  gs_deadline :: bool
  gs_listener :: bool
  gs_principal :: "access_principal option"
  gs_accessToken :: "string option"
  gs_expiry :: "expiry_timer option"
  gs_connected :: bool
  gs_room :: bool

record system_stats =
  sy_totalRamMb :: int
  sy_usedRamMb :: int
  sy_freeDiskMb :: int
  sy_cpuCount :: int

text \<open>
  \<open>gw_sockets\<close> has every socket there ever was, since a pending verification still refers to it;
  \<open>gw_tracked\<close> are the keys of the gateway's own map. \<open>gw_closed\<close> are the raw connections that
  were told to close, \<open>gw_emitted\<close> the deliveries of snapshots, \<open>gw_tickDue\<close> a poll that was queued,
  and \<open>gw_performance\<close> the monotonic clock \<open>performance.now()\<close> of the process, which is not the wall clock.
\<close>

record gateway =
  gw_world :: world
  gw_performance :: int
  gw_reservations :: "(string \<times> bool) list"
  gw_closed :: "string list"
  gw_sockets :: "(string \<times> gsocket) list"
  gw_tracked :: "string list"
  gw_adminCount :: int
  gw_pollGeneration :: int
  gw_inFlight :: bool
  gw_pendingImmediate :: bool
  gw_tickDue :: bool
  gw_live :: bool
  gw_interval :: bool
  gw_cached :: "(system_stats \<times> int) option"
  gw_emitted :: "(string \<times> system_stats) list"

text \<open>A program of the other services, as a program on the larger state.\<close>

primrec liftW :: "(world, 'a) prog \<Rightarrow> (gateway, 'a) prog" where
  "liftW (Return x) = Return x"
| "liftW (Throw e) = Throw e"
| "liftW (Step u k) = Step (\<lambda>g. g\<lparr>gw_world := u (gw_world g)\<rparr>) (\<lambda>g. liftW (k (gw_world g)))"

section \<open>Reservations\<close>

definition PENDING_CAP :: nat where "PENDING_CAP = 100"
definition AUTH_DEADLINE_MS :: int where "AUTH_DEADLINE_MS = 5000"

definition close_raw :: "string \<Rightarrow> gateway \<Rightarrow> gateway" where
  "close_raw i g = g\<lparr>gw_closed := gw_closed g @ [i]\<rparr>"

definition reserve :: "string \<Rightarrow> gateway \<Rightarrow> gateway" where
  "reserve i g =
     (if i = [] then close_raw i g
      else if PENDING_CAP \<le> length (gw_reservations g) \<or> map_of (gw_reservations g) i \<noteq> None then close_raw i g
      else g\<lparr>gw_reservations := gw_reservations g @ [(i, False)]\<rparr>)"

definition claim :: "string \<Rightarrow> gateway \<Rightarrow> bool \<times> gateway" where
  "claim i g = (case map_of (gw_reservations g) i of
     Some False \<Rightarrow> (True, g\<lparr>gw_reservations := AList.update i True (gw_reservations g)\<rparr>)
   | _ \<Rightarrow> (False, g))"

definition release :: "string \<Rightarrow> bool \<Rightarrow> gateway \<Rightarrow> bool \<times> gateway" where
  "release i closeRaw g = (case map_of (gw_reservations g) i of
     None \<Rightarrow> (False, g)
   | Some _ \<Rightarrow>
       let g1 = g\<lparr>gw_reservations := AList.delete i (gw_reservations g)\<rparr>
       in (True, if closeRaw then close_raw i g1 else g1))"

definition reservations_onModuleDestroy :: "gateway \<Rightarrow> gateway" where
  "reservations_onModuleDestroy g = foldl (\<lambda>g i. snd (release i True g)) g (map fst (gw_reservations g))"

section \<open>Admission of connections\<close>

definition allowRequest :: "(string \<Rightarrow> url option) \<Rightarrow> string \<Rightarrow> header \<Rightarrow> bool \<Rightarrow> bool" where
  "allowRequest newURL canonicalOrigin origin hasCookie =
     (case origin of
        NoHeader \<Rightarrow> \<not> hasCookie
      | Headers _ \<Rightarrow> False
      | Header s \<Rightarrow>
          if s \<noteq> trim s \<or> s = [] then False
          else case newURL s of None \<Rightarrow> False | Some u \<Rightarrow> url_origin u = canonicalOrigin)"

section \<open>Metrics\<close>

definition isSafeNonNegativeInteger :: "int option \<Rightarrow> bool" where
  "isSafeNonNegativeInteger v = (case v of None \<Rightarrow> False | Some n \<Rightarrow> 0 \<le> n \<and> n \<le> MAX_SAFE_INTEGER)"

definition snapshotOf :: "host_info \<Rightarrow> disk_info \<Rightarrow> int option \<Rightarrow> system_stats option" where
  "snapshotOf hostInfo diskInfo freeRam =
     (case (fst hostInfo, snd hostInfo, freeRam, snd diskInfo) of
        (Some totalRamMb, Some cpuCount, Some freeRamMb, Some freeDiskMb) \<Rightarrow>
          if \<not> isSafeNonNegativeInteger (Some totalRamMb) \<or> \<not> isSafeNonNegativeInteger (Some cpuCount)
             \<or> \<not> isSafeNonNegativeInteger (Some freeRamMb) \<or> \<not> isSafeNonNegativeInteger (Some freeDiskMb)
             \<or> totalRamMb \<le> 0 \<or> cpuCount \<le> 0 \<or> totalRamMb < freeRamMb
          then None
          else Some \<lparr>sy_totalRamMb = totalRamMb, sy_usedRamMb = totalRamMb - freeRamMb,
                     sy_freeDiskMb = freeDiskMb, sy_cpuCount = cpuCount\<rparr>
      | _ \<Rightarrow> None)"

definition collectSnapshot :: "dockerode \<Rightarrow> config \<Rightarrow> (world, system_stats option) prog" where
  "collectSnapshot dk cfg =
     tryCatch
       (bind (getHostInfo dk) (\<lambda>hostInfo.
        bind (liftE (getHostDiskInfo dk cfg)) (\<lambda>diskInfo.
        Return (snapshotOf hostInfo diskInfo (getHostFreeMemoryMb dk)))))
       (\<lambda>_. Return None)"

section \<open>Tokens of a connection\<close>

definition COOKIE_HEADER_MAX_BYTES :: nat where "COOKIE_HEADER_MAX_BYTES = 16 * 1024"
definition TOKEN_MAX_BYTES :: nat where "TOKEN_MAX_BYTES = 8192"
definition POLL_INTERVAL_MS :: int where "POLL_INTERVAL_MS = 10000"
definition CACHE_TTL_MS :: int where "CACHE_TTL_MS = 10000"
definition MAX_TIMEOUT_MS :: int where "MAX_TIMEOUT_MS = 2147483647"

datatype cookie_result = Token string | Invalid | Absent

text \<open>
  \<open>decodeURIComponent\<close>: percent escapes of UTF-8. Escapes of characters above U+00FF, which no string of
  the model has, count as malformed; no signed token contains them.
\<close>

fun decodeURIComponent :: "string \<Rightarrow> string option" where
  "decodeURIComponent [] = Some []"
| "decodeURIComponent (c # cs) =
     (if c \<noteq> CHR ''%'' then map_option ((#) c) (decodeURIComponent cs)
      else case cs of
        a # b # ds \<Rightarrow>
          if \<not> (is_hex a \<and> is_hex b) then None
          else if 16 * hex_digit a + hex_digit b < 128
          then map_option ((#) (char_of (16 * hex_digit a + hex_digit b))) (decodeURIComponent ds)
          else (case ds of
            p # a' # b' # es \<Rightarrow>
              if p = CHR ''%'' \<and> is_hex a' \<and> is_hex b' \<and> 16 * hex_digit a + hex_digit b \<in> {194, 195}
                 \<and> 128 \<le> 16 * hex_digit a' + hex_digit b' \<and> 16 * hex_digit a' + hex_digit b' < 192
              then map_option ((#) (char_of (64 * (16 * hex_digit a + hex_digit b - 192)
                     + (16 * hex_digit a' + hex_digit b' - 128)))) (decodeURIComponent es)
              else None
          | _ \<Rightarrow> None)
      | _ \<Rightarrow> None)"

fun cookieToken :: "string list \<Rightarrow> string option \<Rightarrow> cookie_result" where
  "cookieToken [] token = (case token of None \<Rightarrow> Absent | Some t \<Rightarrow> Token t)"
| "cookieToken (part # parts) token =
     (if CHR ''='' \<notin> set part then cookieToken parts token
      else if trim (takeWhile (\<lambda>c. c \<noteq> CHR ''='') part) \<noteq> ''access_token'' then cookieToken parts token
      else
        let rawValue = trim (tl (dropWhile (\<lambda>c. c \<noteq> CHR ''='') part))
        in if rawValue = [] then Invalid
           else case decodeURIComponent rawValue of
             None \<Rightarrow> Invalid
           | Some decoded \<Rightarrow>
               if TOKEN_MAX_BYTES < byteLength decoded then Invalid
               else if token \<noteq> None then Invalid
               else cookieToken parts (Some decoded))"

definition parseAccessCookie :: "header \<Rightarrow> cookie_result" where
  "parseAccessCookie cookieHeader = (case cookieHeader of
     NoHeader \<Rightarrow> Absent
   | Headers _ \<Rightarrow> Invalid
   | Header s \<Rightarrow>
       if COOKIE_HEADER_MAX_BYTES < byteLength s then Invalid else cookieToken (split_on (CHR '';'') s) None)"

definition parseAuthPayload :: "json \<Rightarrow> cookie_result" where
  "parseAuthPayload data = (case data of
     JObj [(k, JStr value)] \<Rightarrow>
       if k = ''accessToken'' \<and> value \<noteq> [] \<and> byteLength value \<le> TOKEN_MAX_BYTES then Token value else Invalid
   | _ \<Rightarrow> Invalid)"

definition isEligibleForMetrics :: "access_principal \<Rightarrow> bool" where
  "isEligibleForMetrics p \<longleftrightarrow> ap_role p = ADMIN \<and> \<not> ap_temporaryAuth p \<and> \<not> ap_mustChangePassword p"

section \<open>Steps on sockets\<close>

definition socket_of :: "gateway \<Rightarrow> string \<Rightarrow> gsocket option" where
  "socket_of g sid = map_of (gw_sockets g) sid"

definition set_socket :: "string \<Rightarrow> (gsocket \<Rightarrow> gsocket) \<Rightarrow> gateway \<Rightarrow> gateway" where
  "set_socket sid f g = g\<lparr>gw_sockets := map (\<lambda>(i, s). if i = sid then (i, f s) else (i, s)) (gw_sockets g)\<rparr>"

definition stopPolling :: "gateway \<Rightarrow> gateway" where
  "stopPolling g = g\<lparr>gw_interval := False, gw_cached := None, gw_pollGeneration := gw_pollGeneration g + 1,
     gw_pendingImmediate := False\<rparr>"

definition dropPrincipal :: "string \<Rightarrow> gateway \<Rightarrow> gateway" where
  "dropPrincipal sid g =
     (let g1 = (set_socket sid (\<lambda>s. s\<lparr>gs_principal := None\<rparr>) g)\<lparr>gw_adminCount := max 0 (gw_adminCount g - 1)\<rparr>
      in if gw_adminCount g1 = 0 then stopPolling g1 else g1)"

definition cleanupSocket :: "string \<Rightarrow> gateway \<Rightarrow> gateway" where
  "cleanupSocket sid g = (case socket_of g sid of
     None \<Rightarrow> g
   | Some s \<Rightarrow>
       let g1 = set_socket sid (\<lambda>s. s\<lparr>gs_deadline := False, gs_listener := False, gs_expiry := None\<rparr>) g;
           g2 = (if gs_principal s \<noteq> None then dropPrincipal sid g1 else g1);
           g3 = set_socket sid (\<lambda>s. s\<lparr>gs_room := False\<rparr>) g2
       in if gs_engineId s \<noteq> [] then snd (release (gs_engineId s) False g3) else g3)"

text \<open>\<open>socket.disconnect(true)\<close>\<close>

definition disconnect :: "string \<Rightarrow> gateway \<Rightarrow> gateway" where
  "disconnect sid g = (case socket_of g sid of
     None \<Rightarrow> g
   | Some s \<Rightarrow> close_raw (gs_engineId s) (set_socket sid (\<lambda>s. s\<lparr>gs_connected := False, gs_room := False\<rparr>) g))"

definition disconnectSilent :: "string \<Rightarrow> gateway \<Rightarrow> gateway" where
  "disconnectSilent sid g = disconnect sid (cleanupSocket sid g)"

definition nowMs :: "gateway \<Rightarrow> int" where
  "nowMs g = dateNow (gw_world g)"

definition armExpiry :: "string \<Rightarrow> int \<Rightarrow> gateway \<Rightarrow> bool \<times> gateway" where
  "armExpiry sid ex g =
     (let ms = ex - nowMs g
      in if ms \<le> 0 then (False, disconnectSilent sid g)
         else (True, set_socket sid (\<lambda>s. s\<lparr>gs_expiry := Some \<lparr>et_firesAt = nowMs g + min ms MAX_TIMEOUT_MS,
                 et_rearm = (MAX_TIMEOUT_MS < ms), et_exp = ex\<rparr>\<rparr>) g))"

definition emitCacheIfFresh :: "string \<Rightarrow> gateway \<Rightarrow> gateway" where
  "emitCacheIfFresh sid g = (case gw_cached g of
     None \<Rightarrow> g
   | Some (snapshot, cachedAt) \<Rightarrow>
       if gw_performance g - cachedAt < CACHE_TTL_MS then g\<lparr>gw_emitted := gw_emitted g @ [(sid, snapshot)]\<rparr> else g)"

text \<open>The result tells whether an immediate poll is to start.\<close>

definition startPollingIfNeeded :: "gateway \<Rightarrow> bool \<times> gateway" where
  "startPollingIfNeeded g =
     (if gw_interval g then (False, g)
      else if gw_inFlight g then (False, g\<lparr>gw_interval := True, gw_pendingImmediate := True\<rparr>)
      else (True, g\<lparr>gw_interval := True\<rparr>))"

definition join_room :: "string \<Rightarrow> access_principal \<Rightarrow> string \<Rightarrow> gateway \<Rightarrow> gateway" where
  "join_room sid pr token g =
     (set_socket sid (\<lambda>s. s\<lparr>gs_status := AuthenticatedSocket, gs_principal := Some pr,
        gs_accessToken := Some token, gs_room := True\<rparr>) g)\<lparr>gw_adminCount := gw_adminCount g + 1\<rparr>"

definition onAuthSuccess :: "string \<Rightarrow> access_principal \<Rightarrow> string \<Rightarrow> gateway \<Rightarrow> bool \<times> gateway" where
  "onAuthSuccess sid pr token g =
     (case socket_of g sid of
        None \<Rightarrow> (False, g)
      | Some s \<Rightarrow>
     if \<not> gw_live g then (False, g)
     else if gs_engineId s = [] \<or> \<not> fst (release (gs_engineId s) False g) then (False, disconnectSilent sid g)
     else
     let g1 = snd (release (gs_engineId s) False g) in
     if \<not> gs_connected s then (False, g1)
     else
     let g2 = set_socket sid (\<lambda>s. s\<lparr>gs_deadline := False\<rparr>) g1 in
     if \<not> isEligibleForMetrics pr then (False, disconnect sid g2)
     else
     case armExpiry sid (ap_exp pr) (join_room sid pr token g2) of
       (False, g3) \<Rightarrow> (False, g3)
     | (True, g3) \<Rightarrow> startPollingIfNeeded (emitCacheIfFresh sid g3))"

section \<open>Handlers\<close>

text \<open>The synchronous part of \<open>handleConnection\<close>; the result is the token to verify, if any.\<close>

definition new_socket :: "string \<Rightarrow> gsocket" where
  "new_socket engineId = \<lparr>gs_engineId = engineId, gs_status = AuthPending, gs_deadline = False, gs_listener = False,
     gs_principal = None, gs_accessToken = None, gs_expiry = None, gs_connected = True, gs_room = False\<rparr>"

definition admitSocket :: "string \<Rightarrow> string \<Rightarrow> header \<Rightarrow> gateway \<Rightarrow> string option \<times> gateway" where
  "admitSocket sid engineId cookieHeader g =
     (if socket_of g sid \<noteq> None then (None, g)
      else
      let (claimed, g1) = claim engineId g;
          g2 = g1\<lparr>gw_sockets := gw_sockets g1 @ [(sid, new_socket engineId)], gw_tracked := sid # gw_tracked g1\<rparr>
      in if \<not> claimed then (None, disconnectSilent sid g2)
         else
         let g3 = set_socket sid (\<lambda>s. s\<lparr>gs_deadline := True\<rparr>) g2
         in case parseAccessCookie cookieHeader of
              Invalid \<Rightarrow> (None, disconnectSilent sid g3)
            | Token t \<Rightarrow> (Some t, set_socket sid (\<lambda>s. s\<lparr>gs_status := Verifying\<rparr>) g3)
            | Absent \<Rightarrow> (None, set_socket sid (\<lambda>s. s\<lparr>gs_listener := True\<rparr>) g3))"

definition authListener :: "string \<Rightarrow> json \<Rightarrow> gateway \<Rightarrow> string option \<times> gateway" where
  "authListener sid payload g = (case socket_of g sid of
     None \<Rightarrow> (None, g)
   | Some s \<Rightarrow>
       if \<not> gs_listener s then (None, g)
       else if gs_status s \<noteq> AuthPending then (None, disconnectSilent sid g)
       else
       let g1 = set_socket sid (\<lambda>s. s\<lparr>gs_status := Verifying\<rparr>) g
       in case parseAuthPayload payload of
            Token t \<Rightarrow> (Some t, g1)
          | _ \<Rightarrow> (None, disconnectSilent sid g1))"

definition onStep :: "(gateway \<Rightarrow> 'a \<times> gateway) \<Rightarrow> (gateway, 'a) prog" where
  "onStep f = Step (\<lambda>g. snd (f g)) (\<lambda>g. Return (fst (f g)))"

definition sockets_in_room :: "gateway \<Rightarrow> (string \<times> gsocket) list" where
  "sockets_in_room g = filter (\<lambda>(i, s). gs_room s) (gw_sockets g)"

text \<open>Grouping the sockets of the room by their token, in the order of first occurrence.\<close>

definition tokens_in_room :: "gateway \<Rightarrow> (string \<times> string list) list" where
  "tokens_in_room g =
     (let known = List.map_filter (\<lambda>(i, s). map_option (\<lambda>t. (t, i)) (gs_accessToken s)) (sockets_in_room g)
      in map (\<lambda>t. (t, map snd (filter (\<lambda>(t', _). t' = t) known))) (remdups (map fst known)))"

definition beginRevalidation :: "int \<Rightarrow> gateway \<Rightarrow> (string \<times> string list) list option \<times> gateway" where
  "beginRevalidation generation g =
     (if generation \<noteq> gw_pollGeneration g \<or> \<not> gw_live g then (None, g)
      else if sockets_in_room g = [] then (None, g)
      else
      let g1 = foldl (\<lambda>g (i, s). if gs_accessToken s = None then disconnectSilent i g else g) g (sockets_in_room g)
      in if tokens_in_room g = [] then (None, g1) else (Some (tokens_in_room g), g1))"

definition disconnectAll :: "string list \<Rightarrow> gateway \<Rightarrow> gateway" where
  "disconnectAll sids g = foldl (\<lambda>g i. disconnectSilent i g) g sids"

primrec verifyTokens :: "crypto \<Rightarrow> bool \<Rightarrow> (string \<times> string list) list \<Rightarrow> (gateway, unit) prog" where
  "verifyTokens cr up [] = Return ()"
| "verifyTokens cr up (ts # rest) =
     bind (attempt (liftW (verifyAccess cr up (fst ts)))) (\<lambda>r.
     bind (case r of
         Inl _ \<Rightarrow> modify (disconnectAll (snd ts))
       | Inr pr \<Rightarrow> if isEligibleForMetrics pr then Return () else modify (disconnectAll (snd ts))) (\<lambda>_.
     verifyTokens cr up rest))"

definition revalidateAdmins :: "crypto \<Rightarrow> bool \<Rightarrow> int \<Rightarrow> (gateway, bool) prog" where
  "revalidateAdmins cr up generation =
     bind (onStep (beginRevalidation generation)) (\<lambda>tokens.
     case tokens of
       None \<Rightarrow> Return False
     | Some ts \<Rightarrow>
         bind (verifyTokens cr up ts) (\<lambda>_.
         get (\<lambda>g. generation = gw_pollGeneration g \<and> gw_live g \<and> sockets_in_room g \<noteq> [])))"

definition dropCache :: "gateway \<Rightarrow> gateway" where
  "dropCache g = g\<lparr>gw_cached := None\<rparr>"

text \<open>
  The first snapshot after an authentication (\<open>immediate\<close>) is emitted to every socket of the room.
  The periodic ones are volatile: Socket.IO drops the packet of a socket whose transport is not
  ready, and \<open>writable\<close> tells which ones are ready at that moment.
\<close>

definition deliver :: "bool \<Rightarrow> (string \<Rightarrow> bool) \<Rightarrow> system_stats \<Rightarrow> gateway \<Rightarrow> gateway" where
  "deliver immediate writable snapshot g = g\<lparr>gw_cached := Some (snapshot, gw_performance g),
     gw_emitted := gw_emitted g @ map (\<lambda>(i, s). (i, snapshot))
       (if immediate then sockets_in_room g else filter (\<lambda>(i, s). writable i) (sockets_in_room g))\<rparr>"

definition finishTick :: "gateway \<Rightarrow> gateway" where
  "finishTick g =
     (let g1 = g\<lparr>gw_inFlight := False\<rparr>
      in if gw_pendingImmediate g1 \<and> gw_live g1 then g1\<lparr>gw_pendingImmediate := False, gw_tickDue := True\<rparr> else g1)"

definition poll :: "dockerode \<Rightarrow> config \<Rightarrow> crypto \<Rightarrow> bool \<Rightarrow> (string \<Rightarrow> bool) \<Rightarrow> bool \<Rightarrow> int \<Rightarrow> (gateway, unit) prog" where
  "poll dk cfg cr up writable immediate generation =
     bind (revalidateAdmins cr up generation) (\<lambda>valid.
     if \<not> valid then modify dropCache
     else
     bind (liftW (collectSnapshot dk cfg)) (\<lambda>snapshot.
     case snapshot of
       None \<Rightarrow> modify dropCache
     | Some stats \<Rightarrow>
         bind (get (\<lambda>g. generation = gw_pollGeneration g \<and> gw_live g)) (\<lambda>current.
         if \<not> current then Return ()
         else
         bind (revalidateAdmins cr up generation) (\<lambda>stillValid.
         if \<not> stillValid then modify dropCache else modify (deliver immediate writable stats)))))"

definition metrics_tick :: "dockerode \<Rightarrow> config \<Rightarrow> crypto \<Rightarrow> bool \<Rightarrow> (string \<Rightarrow> bool) \<Rightarrow> bool \<Rightarrow> (gateway, unit) prog" where
  "metrics_tick dk cfg cr up writable immediate =
     bind (onStep (\<lambda>g. if gw_inFlight g then (None, g)
                       else (Some (gw_pollGeneration g), g\<lparr>gw_inFlight := True, gw_tickDue := False\<rparr>))) (\<lambda>started.
     case started of
       None \<Rightarrow> Return ()
     | Some generation \<Rightarrow>
         bind (attempt (poll dk cfg cr up writable immediate generation)) (\<lambda>r.
         bind (modify finishTick) (\<lambda>_.
         case r of Inl e \<Rightarrow> Throw e | Inr _ \<Rightarrow> Return ())))"

definition authenticateSocket :: "dockerode \<Rightarrow> config \<Rightarrow> crypto \<Rightarrow> bool \<Rightarrow> string \<Rightarrow> string \<Rightarrow> (gateway, unit) prog" where
  "authenticateSocket dk cfg cr up sid token =
     bind (attempt (liftW (verifyAccess cr up token))) (\<lambda>r.
     case r of
       Inl _ \<Rightarrow> modify (disconnectSilent sid)
     | Inr pr \<Rightarrow>
         bind (onStep (onAuthSuccess sid pr token)) (\<lambda>startTick.
         if startTick then metrics_tick dk cfg cr up (\<lambda>_. True) True else Return ()))"

definition handleConnection :: "dockerode \<Rightarrow> config \<Rightarrow> crypto \<Rightarrow> bool \<Rightarrow> string \<Rightarrow> string \<Rightarrow> header \<Rightarrow> (gateway, unit) prog" where
  "handleConnection dk cfg cr up sid engineId cookieHeader =
     bind (onStep (admitSocket sid engineId cookieHeader)) (\<lambda>token.
     case token of None \<Rightarrow> Return () | Some t \<Rightarrow> authenticateSocket dk cfg cr up sid t)"

definition authEvent :: "dockerode \<Rightarrow> config \<Rightarrow> crypto \<Rightarrow> bool \<Rightarrow> string \<Rightarrow> json \<Rightarrow> (gateway, unit) prog" where
  "authEvent dk cfg cr up sid payload =
     bind (onStep (authListener sid payload)) (\<lambda>token.
     case token of None \<Rightarrow> Return () | Some t \<Rightarrow> authenticateSocket dk cfg cr up sid t)"

text \<open>The connection of a socket ended: Socket.IO has taken it out of its rooms before the event.\<close>

definition lose_connection :: "string \<Rightarrow> gateway \<Rightarrow> gateway" where
  "lose_connection sid g = set_socket sid (\<lambda>s. s\<lparr>gs_connected := False, gs_room := False\<rparr>) g"

definition handleDisconnect :: "string \<Rightarrow> gateway \<Rightarrow> gateway" where
  "handleDisconnect sid g = (case socket_of g sid of
     None \<Rightarrow> g
   | Some s \<Rightarrow>
       let g1 = (cleanupSocket sid g)\<lparr>gw_tracked := removeAll sid (gw_tracked g)\<rparr>
       in if gs_principal s = None then close_raw (gs_engineId s) g1 else g1)"

definition deadlineFires :: "string \<Rightarrow> gateway \<Rightarrow> gateway" where
  "deadlineFires sid g = (case socket_of g sid of
     Some s \<Rightarrow> if gs_deadline s then disconnectSilent sid g else g | None \<Rightarrow> g)"

definition expiryFires :: "string \<Rightarrow> gateway \<Rightarrow> gateway" where
  "expiryFires sid g = (case socket_of g sid of
     Some s \<Rightarrow>
       (case gs_expiry s of
          Some t \<Rightarrow>
            if nowMs g < et_firesAt t then g
            else if et_rearm t then snd (armExpiry sid (et_exp t) g) else disconnectSilent sid g
        | None \<Rightarrow> g)
   | None \<Rightarrow> g)"

definition gateway_onModuleDestroy :: "gateway \<Rightarrow> gateway" where
  "gateway_onModuleDestroy g =
     (let g1 = stopPolling (g\<lparr>gw_live := False, gw_pollGeneration := gw_pollGeneration g + 1\<rparr>);
          g2 = foldl (\<lambda>g sid. cleanupSocket sid g) g1 (gw_tracked g1)
      in g2\<lparr>gw_tracked := []\<rparr>)"

end
