(* ===== verification/GatewayProperties.thy ===== *)
theory GatewayProperties
  imports Gateway Samples
begin

text \<open>
  Properties of the live metrics, over every interleaving of connections, messages, timers, polls
  and changes of the database: the count of administrators is right, only eligible
  administrators are in the room and receive snapshots, polling runs exactly while there are
  any, and the number of pending connections is bounded.
\<close>

section \<open>Sockets\<close>

primrec count_admins :: "(string \<times> gsocket) list \<Rightarrow> nat" where
  "count_admins [] = 0"
| "count_admins (x # xs) = (if gs_principal (snd x) \<noteq> None then 1 else 0) + count_admins xs"

definition admins :: "gateway \<Rightarrow> nat" where
  "admins g = count_admins (gw_sockets g)"

lemma count_admins_append [simp]: "count_admins (xs @ ys) = count_admins xs + count_admins ys"
  by (induction xs) auto

lemma socket_of_set_socket [simp]:
  "socket_of (set_socket sid f g) i = (if i = sid then map_option f (socket_of g i) else socket_of g i)"
proof -
  have "map_of (map (\<lambda>(i, s). if i = sid then (i, f s) else (i, s)) xs) i
      = (if i = sid then map_option f (map_of xs i) else map_of xs i)" for xs
    by (induction xs) auto
  then show ?thesis by (simp add: socket_of_def set_socket_def)
qed

lemma keys_set_socket [simp]: "map fst (gw_sockets (set_socket sid f g)) = map fst (gw_sockets g)"
  by (auto simp: set_socket_def)

lemma set_socket_fields [simp]:
  "gw_world (set_socket sid f g) = gw_world g" "gw_reservations (set_socket sid f g) = gw_reservations g"
  "gw_adminCount (set_socket sid f g) = gw_adminCount g" "gw_interval (set_socket sid f g) = gw_interval g"
  "gw_live (set_socket sid f g) = gw_live g" "gw_emitted (set_socket sid f g) = gw_emitted g"
  "gw_cached (set_socket sid f g) = gw_cached g" "gw_inFlight (set_socket sid f g) = gw_inFlight g"
  "gw_pollGeneration (set_socket sid f g) = gw_pollGeneration g"
  by (simp_all add: set_socket_def)

lemma admins_set_socket:
  assumes "distinct (map fst (gw_sockets g))" and "socket_of g sid = Some s"
  shows "admins (set_socket sid f g) + (if gs_principal s \<noteq> None then 1 else 0)
       = admins g + (if gs_principal (f s) \<noteq> None then 1 else 0)"
proof -
  let ?u = "map (\<lambda>(i, s). if i = sid then (i, f s) else (i, s))"
  have "distinct (map fst xs) \<Longrightarrow> map_of xs sid = Some s \<Longrightarrow>
      count_admins (?u xs) + (if gs_principal s \<noteq> None then 1 else 0)
        = count_admins xs + (if gs_principal (f s) \<noteq> None then 1 else 0)" for xs
  proof (induction xs)
    case (Cons x xs)
    obtain i t where x: "x = (i, t)" by force
    show ?case
    proof (cases "i = sid")
      case True
      have "?u xs = xs" using Cons.prems(1) x True by (intro map_idI) (auto, metis fst_conv image_eqI)
      with Cons.prems True x show ?thesis by simp
    next
      case False
      with Cons x show ?thesis by auto
    qed
  qed simp
  then show ?thesis using assms by (simp add: admins_def set_socket_def socket_of_def)
qed

lemma admins_same: "(\<And>s. gs_principal (f s) = gs_principal s) \<Longrightarrow> admins (set_socket sid f g) = admins g"
proof -
  assume f: "\<And>s. gs_principal (f s) = gs_principal s"
  have "count_admins (map (\<lambda>(i, s). if i = sid then (i, f s) else (i, s)) xs) = count_admins xs" for xs
    by (induction xs) (auto simp: f split: if_splits)
  then show ?thesis by (simp add: admins_def set_socket_def)
qed

section \<open>The invariant\<close>

definition socket_ok :: "gateway \<Rightarrow> gsocket \<Rightarrow> bool" where
  "socket_ok g s \<longleftrightarrow> (gs_room s \<longrightarrow> gs_principal s \<noteq> None \<and> gs_accessToken s \<noteq> None \<and> gs_connected s)
     \<and> (\<forall>p. gs_principal s = Some p \<longrightarrow> isEligibleForMetrics p \<and> map_of (gw_reservations g) (gs_engineId s) = None)"

definition core_inv :: "gateway \<Rightarrow> bool" where
  "core_inv g \<longleftrightarrow> distinct (map fst (gw_sockets g)) \<and> gw_adminCount g = int (admins g)
     \<and> (\<forall>sid s. socket_of g sid = Some s \<longrightarrow> socket_ok g s)
     \<and> length (gw_reservations g) \<le> PENDING_CAP \<and> distinct (map fst (gw_reservations g))"

definition poll_inv :: "gateway \<Rightarrow> bool" where
  "poll_inv g \<longleftrightarrow> (gw_interval g \<longrightarrow> 0 < gw_adminCount g) \<and> (gw_live g \<longrightarrow> 0 < gw_adminCount g \<longrightarrow> gw_interval g)"

definition gateway_inv :: "gateway \<Rightarrow> bool" where
  "gateway_inv g \<longleftrightarrow> core_inv g \<and> poll_inv g"

lemma core_invI:
  "distinct (map fst (gw_sockets g)) \<Longrightarrow> gw_adminCount g = int (admins g) \<Longrightarrow>
   (\<And>sid s. socket_of g sid = Some s \<Longrightarrow> socket_ok g s) \<Longrightarrow> length (gw_reservations g) \<le> PENDING_CAP \<Longrightarrow>
   distinct (map fst (gw_reservations g)) \<Longrightarrow> core_inv g"
  by (simp add: core_inv_def)

lemma core_socket: "core_inv g \<Longrightarrow> socket_of g sid = Some s \<Longrightarrow> socket_ok g s"
  by (simp add: core_inv_def)

text \<open>A change of a socket that leaves its principal, and keeps what being in the room requires.\<close>

lemma core_set_socket:
  assumes "core_inv g" and "\<And>s. gs_principal (f s) = gs_principal s \<and> gs_engineId (f s) = gs_engineId s"
    and "\<And>s. socket_of g sid = Some s \<Longrightarrow> gs_room (f s) \<Longrightarrow>
           gs_room s \<and> gs_accessToken (f s) = gs_accessToken s \<and> gs_connected (f s) = gs_connected s"
  shows "core_inv (set_socket sid f g)"
proof (rule core_invI)
  show "gw_adminCount (set_socket sid f g) = int (admins (set_socket sid f g))"
    using assms(1,2) by (simp add: core_inv_def admins_same)
  fix i s assume s: "socket_of (set_socket sid f g) i = Some s"
  show "socket_ok (set_socket sid f g) s"
  proof (cases "i = sid")
    case True
    with s obtain t where t: "socket_of g sid = Some t" "s = f t" by auto
    from core_socket [OF assms(1) t(1)] assms(2) [of t] assms(3) [OF t(1)] t(2) show ?thesis
      by (auto simp: socket_ok_def)
  next
    case False
    with s core_socket [OF assms(1), of i s] show ?thesis by (simp add: socket_ok_def)
  qed
qed (use assms(1) in \<open>simp_all add: core_inv_def\<close>)

lemma poll_set_socket [simp]: "poll_inv (set_socket sid f g) = poll_inv g"
  by (simp add: poll_inv_def)

text \<open>Changes outside the sockets and the reservations.\<close>

lemma core_other:
  assumes "core_inv g" and "gw_sockets g' = gw_sockets g" and "gw_reservations g' = gw_reservations g"
    and "gw_adminCount g' = gw_adminCount g"
  shows "core_inv g'"
  using assms by (simp add: core_inv_def admins_def socket_of_def socket_ok_def)

lemma socket_ok_fewer: "socket_ok g s \<Longrightarrow> (\<And>i. map_of (gw_reservations g) i = None \<Longrightarrow> map_of (gw_reservations g') i = None) \<Longrightarrow> socket_ok g' s"
  by (auto simp: socket_ok_def)

lemma close_raw_fields [simp]:
  "gw_sockets (close_raw i g) = gw_sockets g" "gw_reservations (close_raw i g) = gw_reservations g"
  "gw_adminCount (close_raw i g) = gw_adminCount g" "gw_interval (close_raw i g) = gw_interval g"
  "gw_live (close_raw i g) = gw_live g" "gw_emitted (close_raw i g) = gw_emitted g" "socket_of (close_raw i g) = socket_of g"
  "gw_world (close_raw i g) = gw_world g"
  by (simp_all add: close_raw_def socket_of_def fun_eq_iff)

lemma core_close_raw [simp]: "core_inv (close_raw i g) = core_inv g"
  by (auto intro: core_other)

lemma release_fields [simp]:
  "gw_sockets (snd (release i c g)) = gw_sockets g" "gw_adminCount (snd (release i c g)) = gw_adminCount g"
  "gw_interval (snd (release i c g)) = gw_interval g" "gw_live (snd (release i c g)) = gw_live g"
  "gw_emitted (snd (release i c g)) = gw_emitted g" "socket_of (snd (release i c g)) = socket_of g"
  "gw_world (snd (release i c g)) = gw_world g"
  by (auto simp: release_def Let_def socket_of_def close_raw_def split: option.splits)

lemma release_reservations:
  "gw_reservations (snd (release i c g)) = AList.delete i (gw_reservations g)"
proof (cases "map_of (gw_reservations g) i")
  case None
  then have "AList.delete i (gw_reservations g) = gw_reservations g"
    by (simp add: delete_id map_of_eq_None_iff)
  with None show ?thesis by (simp add: release_def)
qed (simp add: release_def Let_def close_raw_def)

lemma core_release: "core_inv g \<Longrightarrow> core_inv (snd (release i c g))"
proof (rule core_invI)
  assume g: "core_inv g"
  show "socket_ok (snd (release i c g)) s" if "socket_of (snd (release i c g)) sid = Some s" for sid s
    using core_socket [OF g, of sid s] that
    by (auto intro!: socket_ok_fewer [of g] simp: release_reservations delete_conv')
  have "length (AList.delete i (gw_reservations g)) \<le> length (gw_reservations g)" by (simp add: length_delete_le)
  with g show "length (gw_reservations (snd (release i c g))) \<le> PENDING_CAP"
    by (simp add: release_reservations core_inv_def)
  show "distinct (map fst (gw_reservations (snd (release i c g))))"
    using g by (simp add: release_reservations core_inv_def distinct_delete)
qed (simp_all add: core_inv_def admins_def)

section \<open>Ending a connection\<close>

text \<open>How many administrators there are after the socket \<open>sid\<close> has been cleaned up.\<close>

definition is_admin_socket :: "string \<Rightarrow> gateway \<Rightarrow> bool" where
  "is_admin_socket sid g \<longleftrightarrow> (\<exists>s. socket_of g sid = Some s \<and> gs_principal s \<noteq> None)"

lemma stopPolling_fields [simp]:
  "gw_sockets (stopPolling g) = gw_sockets g" "gw_reservations (stopPolling g) = gw_reservations g"
  "gw_adminCount (stopPolling g) = gw_adminCount g" "gw_interval (stopPolling g) = False"
  "gw_live (stopPolling g) = gw_live g" "gw_emitted (stopPolling g) = gw_emitted g" "socket_of (stopPolling g) = socket_of g"
  "gw_world (stopPolling g) = gw_world g"
  by (simp_all add: stopPolling_def socket_of_def fun_eq_iff)

lemma core_stopPolling [simp]: "core_inv (stopPolling g) = core_inv g"
  by (auto intro: core_other)

lemma admins_pos: "is_admin_socket sid g \<Longrightarrow> 0 < admins g"
proof -
  have "map_of xs sid = Some s \<Longrightarrow> gs_principal s \<noteq> None \<Longrightarrow> 0 < count_admins xs" for xs s
    by (induction xs) (auto split: if_splits)
  then show "is_admin_socket sid g \<Longrightarrow> 0 < admins g" by (auto simp: is_admin_socket_def admins_def socket_of_def)
qed

text \<open>A change of one socket together with the count of administrators.\<close>

definition admin_weight :: "gsocket \<Rightarrow> int" where
  "admin_weight s = (if gs_principal s \<noteq> None then 1 else 0)"

lemma core_change:
  assumes "core_inv g" and "socket_of g sid = Some s" and "socket_ok g (f s)"
    and "n = gw_adminCount g - admin_weight s + admin_weight (f s)"
  shows "core_inv ((set_socket sid f g)\<lparr>gw_adminCount := n\<rparr>)" (is "core_inv ?g1")
proof (rule core_invI)
  have so: "socket_of ?g1 = socket_of (set_socket sid f g)" by (simp add: socket_of_def fun_eq_iff)
  have "admins ?g1 = admins (set_socket sid f g)" by (simp add: admins_def)
  with admins_set_socket [of g sid s f] assms show "gw_adminCount ?g1 = int (admins ?g1)"
    by (simp add: core_inv_def admin_weight_def split: if_splits)
  fix i t assume t: "socket_of ?g1 i = Some t"
  have "socket_ok g t"
  proof (cases "i = sid")
    case True
    with t assms(2,3) show ?thesis by (simp add: so)
  next
    case False
    with t core_socket [OF assms(1), of i t] show ?thesis by (simp add: so)
  qed
  then show "socket_ok ?g1 t" by (simp add: socket_ok_def)
next
  have "map fst (gw_sockets ?g1) = map fst (gw_sockets g)"
    using keys_set_socket [of sid f g] by (simp del: keys_set_socket)
  then show "distinct (map fst (gw_sockets ?g1))" using assms(1) by (simp only: core_inv_def)
qed (use assms(1) in \<open>simp_all add: core_inv_def\<close>)

lemma dropPrincipal_core:
  assumes "core_inv g" and "is_admin_socket sid g" and "\<And>s. socket_of g sid = Some s \<Longrightarrow> \<not> gs_room s"
  shows "core_inv (dropPrincipal sid g)"
    and "gw_adminCount (dropPrincipal sid g) = gw_adminCount g - 1"
    and "gw_interval (dropPrincipal sid g) = (gw_interval g \<and> gw_adminCount g \<noteq> 1)"
proof -
  let ?g1 = "(set_socket sid (\<lambda>s. s\<lparr>gs_principal := None\<rparr>) g)\<lparr>gw_adminCount := max 0 (gw_adminCount g - 1)\<rparr>"
  from assms(2) obtain s where s: "socket_of g sid = Some s" "gs_principal s \<noteq> None" by (auto simp: is_admin_socket_def)
  have n: "gw_adminCount g = int (admins g)" "0 < admins g"
    using assms(1) admins_pos [OF assms(2)] by (simp_all add: core_inv_def)
  have "core_inv ?g1"
    using assms(3) [OF s(1)] s(2) n by (intro core_change [OF assms(1) s(1)]) (auto simp: socket_ok_def admin_weight_def)
  then show "core_inv (dropPrincipal sid g)" using core_stopPolling [of ?g1] unfolding dropPrincipal_def Let_def by presburger
  show "gw_adminCount (dropPrincipal sid g) = gw_adminCount g - 1"
    and "gw_interval (dropPrincipal sid g) = (gw_interval g \<and> gw_adminCount g \<noteq> 1)"
    using n by (auto simp: dropPrincipal_def Let_def)
qed

lemma leave_dropPrincipal:
  "set_socket sid (\<lambda>s. s\<lparr>gs_room := False\<rparr>) (dropPrincipal sid g)
     = dropPrincipal sid (set_socket sid (\<lambda>s. s\<lparr>gs_room := False\<rparr>) g)"
proof -
  have "map (\<lambda>(i, s). if i = sid then (i, s\<lparr>gs_room := False\<rparr>) else (i, s)) (map (\<lambda>(i, s). if i = sid then (i, s\<lparr>gs_principal := None\<rparr>) else (i, s)) xs)
      = map (\<lambda>(i, s). if i = sid then (i, s\<lparr>gs_principal := None\<rparr>) else (i, s)) (map (\<lambda>(i, s). if i = sid then (i, s\<lparr>gs_room := False\<rparr>) else (i, s)) xs)" for xs
    by auto
  then show ?thesis by (cases g) (simp add: dropPrincipal_def Let_def stopPolling_def set_socket_def)
qed

lemma dropPrincipal_fields [simp]:
  "gw_live (dropPrincipal sid g) = gw_live g" "gw_emitted (dropPrincipal sid g) = gw_emitted g"
  by (simp_all add: dropPrincipal_def Let_def)

lemma cleanup_core:
  assumes "core_inv g"
  shows "core_inv (cleanupSocket sid g)
    \<and> gw_adminCount (cleanupSocket sid g) = gw_adminCount g - (if is_admin_socket sid g then 1 else 0)
    \<and> gw_interval (cleanupSocket sid g) = (gw_interval g \<and> \<not> (is_admin_socket sid g \<and> gw_adminCount g = 1))
    \<and> gw_live (cleanupSocket sid g) = gw_live g \<and> gw_emitted (cleanupSocket sid g) = gw_emitted g"
proof (cases "socket_of g sid")
  case (Some s)
  define f :: "gsocket \<Rightarrow> gsocket" where "f = (\<lambda>s. s\<lparr>gs_room := False\<rparr>)"
  define h where "h = set_socket sid f (set_socket sid (\<lambda>s. s\<lparr>gs_deadline := False, gs_listener := False, gs_expiry := None\<rparr>) g)"
  define d where "d = (if gs_principal s \<noteq> None then dropPrincipal sid h else h)"
  have eq: "cleanupSocket sid g = (if gs_engineId s \<noteq> [] then snd (release (gs_engineId s) False d) else d)"
    using Some by (simp add: cleanupSocket_def Let_def d_def h_def f_def leave_dropPrincipal [symmetric])
  have h: "core_inv h"
    unfolding h_def f_def using assms by (intro core_set_socket) auto
  have ha: "is_admin_socket sid h = is_admin_socket sid g" "gw_adminCount h = gw_adminCount g" "gw_interval h = gw_interval g"
      "gw_live h = gw_live g" "gw_emitted h = gw_emitted g" "\<And>t. socket_of h sid = Some t \<Longrightarrow> \<not> gs_room t"
    using Some by (auto simp: h_def f_def is_admin_socket_def)
  have pr: "is_admin_socket sid g = (gs_principal s \<noteq> None)" using Some by (simp add: is_admin_socket_def)
  have d: "core_inv d" "gw_adminCount d = gw_adminCount g - (if is_admin_socket sid g then 1 else 0)"
      "gw_interval d = (gw_interval g \<and> \<not> (is_admin_socket sid g \<and> gw_adminCount g = 1))"
      "gw_live d = gw_live g" "gw_emitted d = gw_emitted g"
    using h ha pr dropPrincipal_core [OF h _ ha(6)] by (auto simp: d_def)
  then show ?thesis by (auto simp: eq core_release)
qed (use assms in \<open>simp_all add: cleanupSocket_def is_admin_socket_def\<close>)

section \<open>Quiet steps\<close>

text \<open>A step that keeps the invariant and delivers nothing.\<close>

definition quiet :: "gateway \<Rightarrow> gateway \<Rightarrow> bool" where
  "quiet g g' \<longleftrightarrow> (gateway_inv g \<longrightarrow> gateway_inv g' \<and> gw_emitted g' = gw_emitted g)"

lemma quiet_refl [simp]: "quiet g g"
  by (simp add: quiet_def)

lemma quiet_trans: "quiet g h \<Longrightarrow> quiet h k \<Longrightarrow> quiet g k"
  by (simp add: quiet_def)

lemma quiet_foldl: "(\<And>g x. quiet g (f g x)) \<Longrightarrow> quiet g (foldl f g xs)"
  by (induction xs arbitrary: g) (auto intro: quiet_trans)

lemma adminCount_nonneg: "core_inv g \<Longrightarrow> 0 \<le> gw_adminCount g"
  by (simp add: core_inv_def)

lemma quiet_cleanup: "quiet g (cleanupSocket sid g)"
proof (unfold quiet_def, intro impI)
  assume g: "gateway_inv g"
  then have c: "core_inv g" and p: "poll_inv g" by (simp_all add: gateway_inv_def)
  note cleanup_core [OF c, of sid]
  moreover have "is_admin_socket sid g \<Longrightarrow> 0 < gw_adminCount g"
    using admins_pos [of sid g] c by (simp add: core_inv_def)
  ultimately show "gateway_inv (cleanupSocket sid g) \<and> gw_emitted (cleanupSocket sid g) = gw_emitted g"
    using p by (auto simp: gateway_inv_def poll_inv_def)
qed

lemma quiet_set_socket:
  "(\<And>s. gs_principal (f s) = gs_principal s \<and> gs_engineId (f s) = gs_engineId s) \<Longrightarrow>
   (\<And>s. gs_room (f s) \<Longrightarrow> gs_room s \<and> gs_accessToken (f s) = gs_accessToken s \<and> gs_connected (f s) = gs_connected s) \<Longrightarrow>
   quiet g (set_socket sid f g)"
  by (simp add: quiet_def gateway_inv_def core_set_socket)

lemma quiet_close_raw [simp]: "quiet g (close_raw i g)"
  by (simp add: quiet_def gateway_inv_def poll_inv_def)

lemma quiet_release: "quiet g (snd (release i c g))"
  by (simp add: quiet_def gateway_inv_def poll_inv_def core_release)

lemma quiet_disconnect: "quiet g (disconnect sid g)"
  by (auto simp: disconnect_def split: option.splits intro!: quiet_trans [OF quiet_set_socket quiet_close_raw])

lemma quiet_disconnectSilent: "quiet g (disconnectSilent sid g)"
  unfolding disconnectSilent_def by (rule quiet_trans [OF quiet_cleanup quiet_disconnect])

lemma quiet_arm: "quiet g (snd (armExpiry sid ex g))"
  by (auto simp: armExpiry_def Let_def quiet_disconnectSilent intro!: quiet_set_socket)

lemmas quiet_intros = quiet_cleanup quiet_set_socket quiet_release quiet_disconnect quiet_disconnectSilent quiet_arm

lemma quiet_deadline: "quiet g (deadlineFires sid g)"
  by (auto simp: deadlineFires_def quiet_intros split: option.splits)

lemma quiet_expiry: "quiet g (expiryFires sid g)"
  by (auto simp: expiryFires_def quiet_intros split: option.splits)

lemma quiet_disconnectAll: "quiet g (disconnectAll sids g)"
  unfolding disconnectAll_def by (rule quiet_foldl) (rule quiet_disconnectSilent)

lemma quiet_begin: "quiet g (snd (beginRevalidation gen g))"
  by (auto simp: beginRevalidation_def Let_def quiet_disconnectSilent intro!: quiet_foldl split: prod.splits)

lemma quiet_untracked: "quiet g (g\<lparr>gw_tracked := ts\<rparr>)"
  by (auto simp: quiet_def gateway_inv_def poll_inv_def intro: core_other)

lemma quiet_handleDisconnect: "quiet g (handleDisconnect sid g)"
proof (cases "socket_of g sid")
  case (Some s)
  have "quiet g ((cleanupSocket sid g)\<lparr>gw_tracked := removeAll sid (gw_tracked g)\<rparr>)"
    by (rule quiet_trans [OF quiet_cleanup quiet_untracked])
  with Some show ?thesis by (auto simp: handleDisconnect_def Let_def intro: quiet_trans)
qed (simp add: handleDisconnect_def)

lemma quiet_shutdown: "quiet g (gateway_onModuleDestroy g)"
proof -
  let ?g1 = "stopPolling (g\<lparr>gw_live := False, gw_pollGeneration := gw_pollGeneration g + 1\<rparr>)"
  have "quiet g ?g1" by (auto simp: quiet_def gateway_inv_def poll_inv_def intro: core_other)
  moreover have "quiet ?g1 (foldl (\<lambda>g sid. cleanupSocket sid g) ?g1 (gw_tracked ?g1))"
    by (rule quiet_foldl) (rule quiet_cleanup)
  ultimately show ?thesis
    by (auto simp: gateway_onModuleDestroy_def Let_def intro: quiet_trans quiet_untracked)
qed

section \<open>Steps that deliver\<close>

definition receives :: "gateway \<Rightarrow> string \<Rightarrow> bool" where
  "receives g i = (case socket_of g i of
     None \<Rightarrow> False
   | Some s \<Rightarrow> gs_room s \<and> gs_connected s
       \<and> (case gs_principal s of None \<Rightarrow> False | Some p \<Rightarrow> isEligibleForMetrics p))"

definition gateway_step :: "gateway \<Rightarrow> gateway \<Rightarrow> bool" where
  "gateway_step g g' \<longleftrightarrow> (gateway_inv g \<longrightarrow> gateway_inv g'
     \<and> (\<exists>new. gw_emitted g' = gw_emitted g @ new \<and> list_all (\<lambda>d. receives g' (fst d)) new))"

lemma quiet_step: "quiet g g' \<Longrightarrow> gateway_step g g'"
  by (auto simp: quiet_def gateway_step_def)

lemma room_receives: "core_inv g \<Longrightarrow> socket_of g i = Some s \<Longrightarrow> gs_room s \<Longrightarrow> receives g i"
  using core_socket [of g i s] by (auto simp: receives_def socket_ok_def)

lemma deliver_step: "gateway_step g (deliver im wr stats g)" (is "gateway_step g ?g")
proof (unfold gateway_step_def, intro impI conjI exI)
  let ?to = "if im then sockets_in_room g else filter (\<lambda>(i, s). wr i) (sockets_in_room g)"
  assume g: "gateway_inv g"
  then have c: "core_inv ?g" by (auto simp: gateway_inv_def deliver_def intro: core_other)
  with g show "gateway_inv ?g" by (simp add: gateway_inv_def poll_inv_def deliver_def)
  show "gw_emitted ?g = gw_emitted g @ map (\<lambda>(i, s). (i, stats)) ?to"
    by (simp add: deliver_def)
  have "receives ?g i" if "(i, s) \<in> set (gw_sockets g)" "gs_room s" for i s
  proof (rule room_receives [OF c _ that(2)])
    from g that(1) show "socket_of ?g i = Some s"
      by (simp add: gateway_inv_def core_inv_def socket_of_def deliver_def)
  qed
  then show "list_all (\<lambda>d. receives ?g (fst d)) (map (\<lambda>(i, s). (i, stats)) ?to)"
    by (auto simp: list_all_iff sockets_in_room_def)
qed

lemma release_True: "fst (release i c g) \<longleftrightarrow> map_of (gw_reservations g) i \<noteq> None"
  by (auto simp: release_def Let_def split: option.splits)

lemma join_core:
  assumes "core_inv g" and "socket_of g sid = Some s" and "gs_connected s" and "isEligibleForMetrics pr"
    and "gs_principal s = None" and "map_of (gw_reservations g) (gs_engineId s) = None"
  shows "core_inv (join_room sid pr token g)"
  unfolding join_room_def using assms(3-6)
  by (intro core_change [OF assms(1,2)]) (auto simp: socket_ok_def admin_weight_def)

lemma join_room_fields [simp]:
  "gw_adminCount (join_room sid pr token g) = gw_adminCount g + 1" "gw_interval (join_room sid pr token g) = gw_interval g"
  "gw_live (join_room sid pr token g) = gw_live g" "gw_emitted (join_room sid pr token g) = gw_emitted g"
  by (simp_all add: join_room_def)

lemma socket_of_join:
  "socket_of g sid = Some s \<Longrightarrow> \<exists>t. socket_of (join_room sid pr token g) sid = Some t \<and> gs_principal t = Some pr \<and> gs_room t"
proof -
  have "socket_of (join_room sid pr token g) = socket_of (set_socket sid (\<lambda>s. s\<lparr>gs_status := AuthenticatedSocket,
      gs_principal := Some pr, gs_accessToken := Some token, gs_room := True\<rparr>) g)"
    by (simp add: join_room_def socket_of_def fun_eq_iff)
  then show "socket_of g sid = Some s \<Longrightarrow> ?thesis" by simp
qed

text \<open>
  The socket has joined and the administrators outnumber by one what the poll was started for: whichever
  way it continues, the poll fits the count again.
\<close>

lemma joined_expired:
  assumes "core_inv g" and "poll_inv h" and "is_admin_socket sid g"
    and "gw_adminCount g = gw_adminCount h + 1" "gw_interval g = gw_interval h" "gw_live g = gw_live h"
    and "gw_emitted g = gw_emitted h"
  shows "gateway_inv (disconnectSilent sid g) \<and> gw_emitted (disconnectSilent sid g) = gw_emitted h"
proof -
  have "gateway_inv (cleanupSocket sid g) \<and> gw_emitted (cleanupSocket sid g) = gw_emitted h"
    using cleanup_core [OF assms(1), of sid] assms(2-) by (auto simp: gateway_inv_def poll_inv_def)
  with quiet_disconnect [of "cleanupSocket sid g" sid] show ?thesis by (simp add: quiet_def disconnectSilent_def)
qed

lemma startPolling_fields [simp]:
  "gw_sockets (snd (startPollingIfNeeded g)) = gw_sockets g" "gw_adminCount (snd (startPollingIfNeeded g)) = gw_adminCount g"
  "gw_reservations (snd (startPollingIfNeeded g)) = gw_reservations g" "gw_interval (snd (startPollingIfNeeded g))"
  "gw_emitted (snd (startPollingIfNeeded g)) = gw_emitted g"
  by (simp_all add: startPollingIfNeeded_def)

lemma emitCache_fields [simp]:
  "gw_sockets (emitCacheIfFresh sid g) = gw_sockets g" "gw_adminCount (emitCacheIfFresh sid g) = gw_adminCount g"
  "gw_reservations (emitCacheIfFresh sid g) = gw_reservations g"
  by (auto simp: emitCacheIfFresh_def split: option.splits)

lemma emitCache_emitted: "\<exists>new. gw_emitted (emitCacheIfFresh sid g) = gw_emitted g @ new \<and> list_all (\<lambda>d. fst d = sid) new"
  by (auto simp: emitCacheIfFresh_def split: option.splits)

lemma joined_polls:
  assumes "core_inv g" and "0 < gw_adminCount g" and "receives g sid"
  defines "g' \<equiv> snd (startPollingIfNeeded (emitCacheIfFresh sid g))"
  shows "gateway_inv g' \<and> (\<exists>new. gw_emitted g' = gw_emitted g @ new \<and> list_all (\<lambda>d. receives g' (fst d)) new)"
proof -
  have "core_inv g'" unfolding g'_def by (rule core_other [OF assms(1)]) simp_all
  moreover have "poll_inv g'" using assms(2) by (simp add: g'_def poll_inv_def)
  moreover have "receives g' = receives g" by (simp add: g'_def receives_def socket_of_def fun_eq_iff)
  moreover obtain new where "gw_emitted g' = gw_emitted g @ new" "list_all (\<lambda>d. fst d = sid) new"
    using emitCache_emitted [of sid g] by (auto simp: g'_def)
  ultimately show ?thesis using assms(3) by (auto simp: gateway_inv_def list_all_iff)
qed

lemma join_step:
  assumes "gateway_inv h" and "socket_of h sid = Some s" and "gs_connected s" and "isEligibleForMetrics pr"
    and "gs_principal s = None" and "map_of (gw_reservations h) (gs_engineId s) = None"
  shows "gateway_step h (snd (case armExpiry sid ex (join_room sid pr token h) of
       (False, g3) \<Rightarrow> (False, g3) | (True, g3) \<Rightarrow> startPollingIfNeeded (emitCacheIfFresh sid g3)))"
proof -
  define j where "j = join_room sid pr token h"
  have j: "core_inv j" "gw_adminCount j = gw_adminCount h + 1" "gw_interval j = gw_interval h" "gw_live j = gw_live h"
      "gw_emitted j = gw_emitted h" "is_admin_socket sid j"
    using assms join_core [of h sid s pr token] socket_of_join [OF assms(2), of pr token]
    by (auto simp: j_def gateway_inv_def is_admin_socket_def)
  obtain t where t: "socket_of j sid = Some t" "gs_room t" using socket_of_join [OF assms(2)] by (auto simp: j_def)
  show ?thesis
  proof (cases "ex - nowMs j \<le> 0")
    case True
    with joined_expired [of j h sid] j assms(1) show ?thesis
      by (auto simp: armExpiry_def Let_def gateway_step_def gateway_inv_def simp flip: j_def)
  next
    case False
    define k where "k = snd (armExpiry sid ex j)"
    have k: "core_inv k" "gw_adminCount k = gw_adminCount j" "gw_emitted k = gw_emitted j" "armExpiry sid ex j = (True, k)"
      using False j(1) by (auto simp: k_def armExpiry_def Let_def intro: core_set_socket)
    obtain t' where "socket_of k sid = Some t'" "gs_room t'" using t False by (auto simp: k_def armExpiry_def Let_def)
    then have "receives k sid" by (rule room_receives [OF k(1)])
    with joined_polls [OF k(1)] k j adminCount_nonneg [of h] assms(1) show ?thesis
      by (simp add: gateway_step_def gateway_inv_def flip: j_def)
  qed
qed

lemma onAuthSuccess_step: "gateway_step g (snd (onAuthSuccess sid pr token g))"
proof (cases "socket_of g sid")
  case (Some s)
  define g1 where "g1 = snd (release (gs_engineId s) False g)"
  define g2 where "g2 = set_socket sid (\<lambda>s. s\<lparr>gs_deadline := False\<rparr>) g1"
  have q1: "quiet g g1" unfolding g1_def by (rule quiet_release)
  have q2: "quiet g g2" unfolding g2_def by (rule quiet_trans [OF q1 quiet_set_socket]) auto
  have "gateway_step g (snd (onAuthSuccess sid pr token g))"
    if c: "gw_live g" "gs_engineId s \<noteq> []" "fst (release (gs_engineId s) False g)" "gs_connected s" "isEligibleForMetrics pr"
  proof (unfold gateway_step_def, intro impI)
    assume g: "gateway_inv g"
    with q2 have g2: "gateway_inv g2" "gw_emitted g2 = gw_emitted g" by (auto simp: quiet_def)
    have s2: "socket_of g2 sid = Some (s\<lparr>gs_deadline := False\<rparr>)" using Some by (simp add: g2_def g1_def)
    have np: "gs_principal s = None"
      using g core_socket [of g sid s] Some c(3) by (auto simp: gateway_inv_def socket_ok_def release_True)
    have nr: "map_of (gw_reservations g2) (gs_engineId s) = None"
      by (simp add: g2_def g1_def release_reservations delete_conv')
    from join_step [OF g2(1) s2, of pr "ap_exp pr" token] c np nr g2 Some
    show "gateway_inv (snd (onAuthSuccess sid pr token g)) \<and> (\<exists>new. gw_emitted (snd (onAuthSuccess sid pr token g)) = gw_emitted g @ new
        \<and> list_all (\<lambda>d. receives (snd (onAuthSuccess sid pr token g)) (fst d)) new)"
      by (simp add: gateway_step_def onAuthSuccess_def Let_def flip: g1_def g2_def)
  qed
  moreover have "quiet g (snd (onAuthSuccess sid pr token g))"
    if "\<not> (gw_live g \<and> gs_engineId s \<noteq> [] \<and> fst (release (gs_engineId s) False g) \<and> gs_connected s \<and> isEligibleForMetrics pr)"
    using that Some q1 quiet_trans [OF q2 quiet_disconnect]
    by (auto simp: onAuthSuccess_def Let_def quiet_disconnectSilent simp flip: g1_def g2_def)
  ultimately show ?thesis by (blast intro: quiet_step)
qed (simp add: onAuthSuccess_def quiet_step)

section \<open>Admission\<close>

text \<open>Engine.IO gives every connection a new identifier: none of a socket there already is.\<close>

definition engine_connection :: "string \<Rightarrow> gateway \<Rightarrow> gateway" where
  "engine_connection i g = (if i \<in> gs_engineId ` snd ` set (gw_sockets g) then g else reserve i g)"

lemma core_reservations:
  assumes "core_inv g" and "length rs \<le> PENDING_CAP" and "distinct (map fst rs)"
    and "\<And>sid s. socket_of g sid = Some s \<Longrightarrow> map_of (gw_reservations g) (gs_engineId s) = None \<Longrightarrow> map_of rs (gs_engineId s) = None"
  shows "core_inv (g\<lparr>gw_reservations := rs\<rparr>)"
proof (rule core_invI)
  fix sid s assume "socket_of (g\<lparr>gw_reservations := rs\<rparr>) sid = Some s"
  then have s: "socket_of g sid = Some s" by (simp add: socket_of_def)
  with core_socket [OF assms(1) s] assms(4) [OF s] show "socket_ok (g\<lparr>gw_reservations := rs\<rparr>) s" by (auto simp: socket_ok_def)
qed (use assms in \<open>simp_all add: core_inv_def admins_def\<close>)

lemma quiet_engine_connection: "quiet g (engine_connection i g)"
proof -
  have "core_inv (g\<lparr>gw_reservations := gw_reservations g @ [(i, False)]\<rparr>)"
    if "core_inv g" "i \<notin> gs_engineId ` snd ` set (gw_sockets g)" "length (gw_reservations g) < PENDING_CAP"
       "map_of (gw_reservations g) i = None"
  proof (rule core_reservations [OF that(1)])
    show "distinct (map fst (gw_reservations g @ [(i, False)]))"
      using that(1,4) by (auto simp: core_inv_def map_of_eq_None_iff)
    fix sid s assume s: "socket_of g sid = Some s" "map_of (gw_reservations g) (gs_engineId s) = None"
    from s(1) have "(sid, s) \<in> set (gw_sockets g)" by (simp add: socket_of_def map_of_SomeD)
    then have "gs_engineId s \<in> gs_engineId ` snd ` set (gw_sockets g)" by force
    with that(2) have "gs_engineId s \<noteq> i" by metis
    with s(2) show "map_of (gw_reservations g @ [(i, False)]) (gs_engineId s) = None" by (simp add: map_add_None)
  qed (use that(3) in simp)
  then show ?thesis
    by (auto simp: engine_connection_def reserve_def quiet_def gateway_inv_def poll_inv_def not_le)
qed

lemma claim_True: "fst (claim i g) \<Longrightarrow> map_of (gw_reservations g) i = Some False"
  by (auto simp: claim_def split: option.splits bool.splits)

lemma quiet_claim: "quiet g (snd (claim i g))"
proof (cases "map_of (gw_reservations g) i = Some False")
  case True
  have i: "i \<in> fst ` set (gw_reservations g)" using True by (metis map_of_SomeD fst_conv image_eqI)
  then have ks: "map fst (AList.update i True (gw_reservations g)) = map fst (gw_reservations g)"
    by (simp add: update_keys)
  have "core_inv (g\<lparr>gw_reservations := AList.update i True (gw_reservations g)\<rparr>)" if "core_inv g"
  proof (rule core_reservations [OF that])
    show "length (AList.update i True (gw_reservations g)) \<le> PENDING_CAP"
      using that arg_cong [OF ks, of length] by (simp add: core_inv_def)
    show "distinct (map fst (AList.update i True (gw_reservations g)))" using that by (simp add: ks core_inv_def)
    fix s assume "map_of (gw_reservations g) (gs_engineId s) = None"
    with i show "map_of (AList.update i True (gw_reservations g)) (gs_engineId s) = None"
      by (auto simp: update_conv' map_of_eq_None_iff)
  qed
  with True show ?thesis by (auto simp: claim_def quiet_def gateway_inv_def poll_inv_def)
next
  case False
  then have "snd (claim i g) = g" by (auto simp: claim_def split: option.splits bool.splits)
  then show ?thesis by simp
qed

lemma quiet_new_socket:
  assumes "socket_of g sid = None"
  shows "quiet g (g\<lparr>gw_sockets := gw_sockets g @ [(sid, new_socket e)], gw_tracked := ts\<rparr>)" (is "quiet g ?g")
proof -
  have so: "socket_of ?g i = (if i = sid then Some (new_socket e) else socket_of g i)" for i
    using assms by (auto simp: socket_of_def map_add_def split: option.splits)
  have "core_inv ?g" if "core_inv g"
  proof (rule core_invI)
    fix i s assume "socket_of ?g i = Some s"
    then have "s = new_socket e \<or> socket_of g i = Some s" by (simp only: so split: if_splits) simp_all
    with core_socket [OF that, of i s] show "socket_ok ?g s"
      by (auto simp: socket_ok_def new_socket_def)
  qed (use assms that in \<open>auto simp: core_inv_def admins_def new_socket_def socket_of_def map_of_eq_None_iff\<close>)
  then show ?thesis by (auto simp: quiet_def gateway_inv_def poll_inv_def)
qed

lemma quiet_admit: "quiet g (snd (admitSocket sid e hdr g))"
proof (cases "socket_of g sid = None")
  case True
  define g1 where "g1 = snd (claim e g)"
  define g2 where "g2 = g1\<lparr>gw_sockets := gw_sockets g1 @ [(sid, new_socket e)], gw_tracked := sid # gw_tracked g1\<rparr>"
  have "gw_sockets g1 = gw_sockets g" by (auto simp: g1_def claim_def split: option.splits bool.splits)
  then have "quiet g1 g2" unfolding g2_def using True by (intro quiet_new_socket) (simp add: socket_of_def)
  then have q2: "quiet g g2" using quiet_claim [of g e] by (auto simp: g1_def intro: quiet_trans)
  have q3: "quiet g (set_socket sid (\<lambda>s. s\<lparr>gs_deadline := True\<rparr>) g2)"
    by (rule quiet_trans [OF q2 quiet_set_socket]) auto
  have "snd (admitSocket sid e hdr g) = snd (
     if \<not> fst (claim e g) then (None, disconnectSilent sid g2)
     else
       let g3 = set_socket sid (\<lambda>s. s\<lparr>gs_deadline := True\<rparr>) g2
       in case parseAccessCookie hdr of
            Invalid \<Rightarrow> (None, disconnectSilent sid g3)
          | Token t \<Rightarrow> (Some t, set_socket sid (\<lambda>s. s\<lparr>gs_status := Verifying\<rparr>) g3)
          | Absent \<Rightarrow> (None, set_socket sid (\<lambda>s. s\<lparr>gs_listener := True\<rparr>) g3))"
    using True by (simp add: admitSocket_def Let_def split_beta g1_def g2_def)
  also have "quiet g \<dots>"
    using quiet_trans [OF q2 quiet_disconnectSilent] quiet_trans [OF q3 quiet_disconnectSilent]
    by (auto simp: Let_def split: cookie_result.splits intro!: quiet_trans [OF q3 quiet_set_socket])
  finally show ?thesis .
qed (simp add: admitSocket_def)

lemma quiet_authListener: "quiet g (snd (authListener sid payload g))"
proof (cases "socket_of g sid")
  case (Some s)
  have q: "quiet g (set_socket sid (\<lambda>s. s\<lparr>gs_status := Verifying\<rparr>) g)" by (rule quiet_set_socket) auto
  from Some quiet_trans [OF q quiet_disconnectSilent] q show ?thesis
    by (auto simp: authListener_def Let_def quiet_disconnectSilent split: cookie_result.splits)
qed (simp add: authListener_def)

section \<open>Handlers\<close>

lemma quiet_world: "quiet g (g\<lparr>gw_world := w\<rparr>)"
  by (auto simp: quiet_def gateway_inv_def poll_inv_def intro: core_other)

lemma guar_liftW: "(\<And>g w. G g (g\<lparr>gw_world := w\<rparr>)) \<Longrightarrow> guar G (liftW p)"
  by (induction p) auto

lemma guar_onStep: "(\<And>g. G g (snd (f g))) \<Longrightarrow> guar G (onStep f)"
  by (simp add: onStep_def)

lemma guar_modifyI: "(\<And>g. G g (f g)) \<Longrightarrow> guar G (modify f)"
  by (simp add: guar_simps)

lemma step_refl [simp]: "gateway_step g g"
  by (simp add: quiet_step)

lemma quiet_dropCache: "quiet g (dropCache g)"
  by (auto simp: quiet_def gateway_inv_def poll_inv_def dropCache_def intro: core_other)

lemma quiet_inFlight: "quiet g (g\<lparr>gw_inFlight := b, gw_tickDue := c\<rparr>)"
  by (auto simp: quiet_def gateway_inv_def poll_inv_def intro: core_other)

lemma quiet_finishTick: "quiet g (finishTick g)"
  by (auto simp: quiet_def gateway_inv_def poll_inv_def finishTick_def Let_def intro: core_other)

lemmas gateway_steps = quiet_step [OF quiet_world] quiet_step [OF quiet_begin] quiet_step [OF quiet_disconnectAll]
  quiet_step [OF quiet_disconnectSilent] quiet_step [OF quiet_dropCache] quiet_step [OF quiet_inFlight]
  quiet_step [OF quiet_finishTick] quiet_step [OF quiet_admit] quiet_step [OF quiet_authListener] deliver_step onAuthSuccess_step

lemma verifyTokens_guar: "guar gateway_step (verifyTokens cr up ts)"
  by (induction ts)
    (auto intro!: guar_bindI guar_liftW guar_modifyI gateway_steps simp: guar_attempt split: sum.splits)

lemma revalidate_guar: "guar gateway_step (revalidateAdmins cr up gen)"
  unfolding revalidateAdmins_def
  by (auto intro!: guar_bindI guar_onStep gateway_steps simp: guar_get verifyTokens_guar split: option.splits)

lemma poll_guar: "guar gateway_step (poll dk cfg cr up wr im gen)"
  unfolding poll_def
  by (auto intro!: guar_bindI guar_liftW guar_modifyI gateway_steps simp: guar_get revalidate_guar split: option.splits)

lemma metrics_tick_guar: "guar gateway_step (metrics_tick dk cfg cr up wr im)"
  unfolding metrics_tick_def
  by (auto intro!: guar_bindI guar_onStep guar_modifyI gateway_steps simp: guar_attempt poll_guar split: option.splits sum.splits)

lemma authenticate_guar: "guar gateway_step (authenticateSocket dk cfg cr up sid token)"
  unfolding authenticateSocket_def
  by (auto intro!: guar_bindI guar_liftW guar_onStep guar_modifyI gateway_steps simp: guar_attempt metrics_tick_guar split: sum.splits)

text \<open>
  Everything that happens to the gateway: raw connections come, close or time out, sockets connect, send
  their token, disconnect, time out or expire, the interval fires, and the process shuts down.
\<close>

inductive gateway_handler :: "(gateway, unit) prog \<Rightarrow> bool" where
  gh_reserve: "gateway_handler (modify (engine_connection i))"
| gh_release: "gateway_handler (modify (\<lambda>g. snd (release i closeRaw g)))"
| gh_connect: "gateway_handler (handleConnection dk cfg cr up sid e hdr)"
| gh_auth: "gateway_handler (authEvent dk cfg cr up sid payload)"
| gh_disconnect: "gateway_handler (modify (\<lambda>g. handleDisconnect sid (lose_connection sid g)))"
| gh_deadline: "gateway_handler (modify (deadlineFires sid))"
| gh_expiry: "gateway_handler (modify (expiryFires sid))"
| gh_tick: "gateway_handler (metrics_tick dk cfg cr up writable immediate)"
| gh_destroy: "gateway_handler (modify gateway_onModuleDestroy)"
| gh_reservations_destroy: "gateway_handler (modify reservations_onModuleDestroy)"

text \<open>Meanwhile the other services change the database as they like, and the monotonic clock runs.\<close>

definition gateway_env :: "gateway \<Rightarrow> gateway \<Rightarrow> bool" where
  "gateway_env g g' \<longleftrightarrow> (\<exists>w t. gw_performance g \<le> t \<and> g' = g\<lparr>gw_world := w, gw_performance := t\<rparr>)"

lemma gateway_handler_guar: "gateway_handler p \<Longrightarrow> guar gateway_step p"
proof (induction rule: gateway_handler.induct)
  case (gh_disconnect sid)
  have "quiet g (lose_connection sid g)" for g unfolding lose_connection_def by (rule quiet_set_socket) auto
  then show ?case by (auto intro!: guar_modifyI quiet_step intro: quiet_trans [OF _ quiet_handleDisconnect])
next
  case gh_reservations_destroy
  show ?case unfolding reservations_onModuleDestroy_def
    by (auto intro!: guar_modifyI quiet_step quiet_foldl quiet_release)
qed (auto intro!: guar_modifyI guar_bindI guar_onStep gateway_steps quiet_step [OF quiet_engine_connection]
    quiet_step [OF quiet_release] quiet_step [OF quiet_deadline] quiet_step [OF quiet_expiry] quiet_step [OF quiet_shutdown]
    simp: handleConnection_def authEvent_def authenticate_guar metrics_tick_guar split: option.splits)

interpretation metrics: step_invariant gateway_handler gateway_env gateway_step gateway_inv
proof unfold_locales
  show "gateway_handler p \<Longrightarrow> guar gateway_step p" for p by (rule gateway_handler_guar)
  show "gateway_step s s' \<Longrightarrow> gateway_inv s \<Longrightarrow> gateway_inv s'" for s s' by (simp add: gateway_step_def)
  show "gateway_env s s' \<Longrightarrow> gateway_inv s \<Longrightarrow> gateway_inv s'" for s s'
    by (auto simp: gateway_env_def gateway_inv_def poll_inv_def intro: core_other)
qed

section \<open>Every interleaving\<close>

text \<open>The gateway when the process starts.\<close>

definition gateway_start :: "world \<Rightarrow> gateway" where
  "gateway_start w = \<lparr>gw_world = w, gw_performance = 0, gw_reservations = [], gw_closed = [], gw_sockets = [], gw_tracked = [],
     gw_adminCount = 0, gw_pollGeneration = 0, gw_inFlight = False, gw_pendingImmediate = False, gw_tickDue = False,
     gw_live = True, gw_interval = False, gw_cached = None, gw_emitted = []\<rparr>"

lemma gateway_start_inv: "gateway_inv (gateway_start w)"
  by (simp add: gateway_inv_def core_inv_def poll_inv_def gateway_start_def admins_def socket_of_def)

text \<open>
  C25. The live metrics stay consistent however connections, tokens, timers, polls, disconnections and
  changes of the database interleave: the gateway's count of administrators is the number of sockets with an
  authenticated principal, while the process lives it polls the host exactly when there is at least
  one, every socket in the room is connected and was accepted as an eligible administrator, and never more than
  a hundred connections wait to be authenticated.
\<close>

theorem metrics_invariant:
  assumes "reachable gateway_handler gateway_env (gateway_start w) (g, ps)"
  shows "gw_adminCount g = int (admins g) \<and> (gw_live g \<longrightarrow> (gw_interval g \<longleftrightarrow> 0 < admins g))
    \<and> length (gw_reservations g) \<le> 100 \<and> list_all (\<lambda>(i, s). gs_room s \<longrightarrow> receives g i) (gw_sockets g)"
proof -
  have inv: "gateway_inv g" using metrics.reachable_inv [OF assms gateway_start_inv] by simp
  then have "receives g i" if "(i, s) \<in> set (gw_sockets g)" "gs_room s" for i s
    using that by (auto intro: room_receives simp: gateway_inv_def core_inv_def socket_of_def)
  with inv show ?thesis
    by (auto simp: gateway_inv_def core_inv_def poll_inv_def list_all_iff PENDING_CAP_def)
qed

text \<open>A connection is made, its cookie verified, and its socket joins the room.\<close>

definition sample_connection :: "gateway \<times> (gateway, unit) prog list" where
  "sample_connection = foldl (\<lambda>c i. advance i c) (gateway_start sample_world,
     [modify (engine_connection ''e1''),
      handleConnection willing_dockerode no_config sample_crypto True ''s1'' ''e1'' (Header ''access_token=access.root.x'')])
     [0, 1, 1]"

lemma sample_connection_reachable: "reachable gateway_handler gateway_env (gateway_start sample_world) sample_connection"
  unfolding sample_connection_def by (intro reachable_schedule reachable_two gh_reserve gh_connect)

theorem metrics_invariant_witness:
  "gw_adminCount (fst (advance 1 sample_connection)) = int (admins (fst (advance 1 sample_connection)))
     \<and> admins (fst (advance 1 sample_connection)) = 1 \<and> gw_interval (fst (advance 1 sample_connection))"
proof -
  let ?c = "advance 1 sample_connection"
  have "reachable gateway_handler gateway_env (gateway_start sample_world) (fst ?c, snd ?c)"
    using reachable_advance [OF sample_connection_reachable] by simp
  note metrics_invariant [OF this]
  moreover have "admins (fst ?c) = 1 \<and> gw_live (fst ?c)" by code_simp
  ultimately show ?thesis by simp
qed

text \<open>
  Metrics reach administrators only: whatever is interleaved with what, a step of any handler delivers
  snapshots only to sockets that are then connected, in the room and accepted for an
  administrator with neither a temporary credential nor a password to change.
\<close>

theorem metrics_only_to_admins:
  assumes "reachable gateway_handler gateway_env (gateway_start w) (g, ps)" and "i < length ps" and "ps ! i = Step u k"
  shows "\<exists>new. gw_emitted (u g) = gw_emitted g @ new \<and> list_all (\<lambda>d. receives (u g) (fst d)) new"
  using metrics.reachable_inv [OF assms(1) gateway_start_inv] metrics.reachable_step_G [OF assms]
  by (auto simp: gateway_step_def)

theorem metrics_only_to_admins_witness:
  "case snd sample_connection ! 1 of
     Step u k \<Rightarrow> (\<exists>new. gw_emitted (u (fst sample_connection)) = gw_emitted (fst sample_connection) @ new
        \<and> list_all (\<lambda>d. receives (u (fst sample_connection)) (fst d)) new)
   | _ \<Rightarrow> False"
proof -
  have r: "reachable gateway_handler gateway_env (gateway_start sample_world) (fst sample_connection, snd sample_connection)"
    using sample_connection_reachable by simp
  have "1 < length (snd sample_connection)" by code_simp
  moreover have "case snd sample_connection ! 1 of Step u k \<Rightarrow> True | _ \<Rightarrow> False" by code_simp
  ultimately show ?thesis using metrics_only_to_admins [OF r, of 1] by (auto split: prog.splits)
qed

end
