(* ===== verification/MetricsDelivery.thy ===== *)
theory MetricsDelivery
  imports GatewayProperties
begin

text \<open>
  What one poll of the metrics does when nothing interferes with it: it disconnects every socket of the
  room whose token is no longer that of an administrator and delivers the snapshot to exactly the others.
\<close>

section \<open>The room\<close>

definition roomtok :: "gateway \<Rightarrow> (string \<times> string option) list" where
  "roomtok g = map (\<lambda>(i, s). (i, gs_accessToken s)) (sockets_in_room g)"

lemma roomtok_cong: "gw_sockets g' = gw_sockets g \<Longrightarrow> roomtok g' = roomtok g"
  by (simp add: roomtok_def sockets_in_room_def)

lemma roomtok_Nil: "roomtok g = [] \<longleftrightarrow> sockets_in_room g = []"
  by (simp add: roomtok_def)

lemma roomtok_same:
  assumes "\<And>s. gs_room (f s) = gs_room s \<and> gs_accessToken (f s) = gs_accessToken s"
  shows "roomtok (set_socket sid f g) = roomtok g"
proof -
  have "map (\<lambda>(i, s). (i, gs_accessToken s)) (filter (\<lambda>(i, s). gs_room s) (map (\<lambda>(i, s). if i = sid then (i, f s) else (i, s)) xs))
      = map (\<lambda>(i, s). (i, gs_accessToken s)) (filter (\<lambda>(i, s). gs_room s) xs)" for xs
    by (induction xs) (auto simp: assms split: if_splits)
  then show ?thesis by (simp add: roomtok_def sockets_in_room_def set_socket_def)
qed

lemma roomtok_leave:
  assumes "\<And>s. \<not> gs_room (f s)"
  shows "roomtok (set_socket sid f g) = filter (\<lambda>x. fst x \<noteq> sid) (roomtok g)"
proof -
  have "map (\<lambda>(i, s). (i, gs_accessToken s)) (filter (\<lambda>(i, s). gs_room s) (map (\<lambda>(i, s). if i = sid then (i, f s) else (i, s)) xs))
      = filter (\<lambda>x. fst x \<noteq> sid) (map (\<lambda>(i, s). (i, gs_accessToken s)) (filter (\<lambda>(i, s). gs_room s) xs))" for xs
    by (induction xs) (auto simp: assms)
  then show ?thesis by (simp add: roomtok_def sockets_in_room_def set_socket_def)
qed

lemma roomtok_mem: "x \<in> set (roomtok g) \<longleftrightarrow> (\<exists>s. (fst x, s) \<in> set (gw_sockets g) \<and> gs_room s \<and> gs_accessToken s = snd x)"
  by (cases x) (force simp: roomtok_def sockets_in_room_def)

lemma room_member:
  assumes "gateway_inv g" and "x \<in> set (roomtok g)"
  obtains s where "socket_of g (fst x) = Some s" "gs_room s" "gs_accessToken s = snd x" "snd x \<noteq> None" "is_admin_socket (fst x) g"
proof -
  from assms(2) obtain s where s: "(fst x, s) \<in> set (gw_sockets g)" "gs_room s" "gs_accessToken s = snd x"
    by (auto simp: roomtok_mem)
  with assms(1) have so: "socket_of g (fst x) = Some s" by (simp add: socket_of_def gateway_inv_def core_inv_def)
  with assms(1) s core_socket [of g "fst x" s] have "snd x \<noteq> None" "is_admin_socket (fst x) g"
    by (auto simp: gateway_inv_def socket_ok_def is_admin_socket_def)
  with so s that show thesis by blast
qed

lemma room_token_unique: "gateway_inv g \<Longrightarrow> (i, s) \<in> set (gw_sockets g) \<Longrightarrow> (i, s') \<in> set (gw_sockets g) \<Longrightarrow> s' = s"
  by (auto simp: gateway_inv_def core_inv_def dest: eq_key_imp_eq_value)

lemma room_admins: "gateway_inv g \<Longrightarrow> roomtok g \<noteq> [] \<Longrightarrow> 0 < gw_adminCount g"
proof -
  assume g: "gateway_inv g" "roomtok g \<noteq> []"
  then obtain x where "x \<in> set (roomtok g)" by (cases "roomtok g") auto
  with g(1) have "is_admin_socket (fst x) g" by (metis room_member)
  with g(1) admins_pos [of "fst x" g] show "0 < gw_adminCount g" by (simp add: gateway_inv_def core_inv_def)
qed

section \<open>Disconnecting\<close>

lemma cleanup_room:
  shows "roomtok (cleanupSocket sid g) = filter (\<lambda>x. fst x \<noteq> sid) (roomtok g)"
    and "gw_world (cleanupSocket sid g) = gw_world g"
    and "gw_pollGeneration (cleanupSocket sid g) \<noteq> gw_pollGeneration g \<Longrightarrow> gw_adminCount (cleanupSocket sid g) = 0"
proof -
  let ?q = "\<lambda>s. s\<lparr>gs_deadline := False, gs_listener := False, gs_expiry := None\<rparr>"
  define h where "h = set_socket sid ?q g"
  define d where "d = (if is_admin_socket sid g then dropPrincipal sid h else h)"
  define l where "l = set_socket sid (\<lambda>s. s\<lparr>gs_room := False\<rparr>) d"
  have rh: "roomtok h = roomtok g" unfolding h_def by (rule roomtok_same) simp
  have "roomtok (dropPrincipal sid h) = roomtok (set_socket sid (\<lambda>s. s\<lparr>gs_principal := None\<rparr>) h)"
    by (rule roomtok_cong) (simp add: dropPrincipal_def Let_def)
  then have rd: "roomtok d = roomtok g" by (simp add: d_def rh roomtok_same)
  have l: "roomtok l = filter (\<lambda>x. fst x \<noteq> sid) (roomtok g)" unfolding l_def by (simp add: roomtok_leave rd)
  have d: "gw_world d = gw_world g" "gw_pollGeneration d \<noteq> gw_pollGeneration g \<Longrightarrow> gw_adminCount d = 0"
    by (auto simp: d_def h_def dropPrincipal_def Let_def stopPolling_def split: if_splits)
  have rel: "gw_pollGeneration (snd (release i c k)) = gw_pollGeneration k" for i c k
    by (auto simp: release_def Let_def close_raw_def split: option.splits)
  have cl: "cleanupSocket sid g = (case socket_of g sid of None \<Rightarrow> g | Some s \<Rightarrow>
      if gs_engineId s \<noteq> [] then snd (release (gs_engineId s) False l) else l)"
    by (auto simp: cleanupSocket_def Let_def l_def d_def h_def is_admin_socket_def split: option.splits)
  have none: "filter (\<lambda>x. fst x \<noteq> sid) (roomtok g) = roomtok g" if "socket_of g sid = None"
    using that by (intro filter_True ballI) (force simp: roomtok_mem socket_of_def map_of_eq_None_iff)
  show "roomtok (cleanupSocket sid g) = filter (\<lambda>x. fst x \<noteq> sid) (roomtok g)"
    using l none by (auto simp: cl roomtok_cong [of "snd (release i False l)" l for i] split: option.splits)
  show "gw_world (cleanupSocket sid g) = gw_world g" using d(1) by (auto simp: cl l_def split: option.splits)
  show "gw_adminCount (cleanupSocket sid g) = 0" if "gw_pollGeneration (cleanupSocket sid g) \<noteq> gw_pollGeneration g"
    using d(2) that by (auto simp: cl l_def rel split: option.splits if_splits)
qed

lemma disconnect_fields [simp]:
  "gw_world (disconnect sid g) = gw_world g" "gw_pollGeneration (disconnect sid g) = gw_pollGeneration g"
  "gw_adminCount (disconnect sid g) = gw_adminCount g" "gw_live (disconnect sid g) = gw_live g"
  by (auto simp: disconnect_def close_raw_def split: option.splits)

lemma disconnect_room: "roomtok (disconnect sid g) = filter (\<lambda>x. fst x \<noteq> sid) (roomtok g)"
proof (cases "socket_of g sid")
  case None
  then have "filter (\<lambda>x. fst x \<noteq> sid) (roomtok g) = roomtok g"
    by (intro filter_True ballI) (force simp: roomtok_mem socket_of_def map_of_eq_None_iff)
  with None show ?thesis by (simp add: disconnect_def)
qed (simp add: disconnect_def roomtok_leave roomtok_cong [OF close_raw_fields(1)])

definition is_connected :: "gateway \<Rightarrow> string \<Rightarrow> bool" where
  "is_connected g sid = (case socket_of g sid of None \<Rightarrow> False | Some s \<Rightarrow> gs_connected s)"

lemma disconnect_connected: "is_connected (disconnect sid g) i = (is_connected g i \<and> i \<noteq> sid)"
  by (cases "socket_of g sid") (auto simp: disconnect_def is_connected_def)

lemma connected_set_socket: "(\<And>s. gs_connected (f s) = gs_connected s) \<Longrightarrow> is_connected (set_socket sid f g) = is_connected g"
  by (auto simp: is_connected_def fun_eq_iff split: option.splits)

lemma connected_other [simp]:
  "is_connected (stopPolling g) = is_connected g" "is_connected (snd (release e c g)) = is_connected g"
  "is_connected (g\<lparr>gw_adminCount := n\<rparr>) = is_connected g" "is_connected (g\<lparr>gw_world := w\<rparr>) = is_connected g"
  by (simp_all add: is_connected_def fun_eq_iff) (simp_all add: socket_of_def)

lemma connected_dropPrincipal [simp]: "is_connected (dropPrincipal sid g) = is_connected g"
  by (simp add: dropPrincipal_def Let_def connected_set_socket)

lemma cleanup_connected: "is_connected (cleanupSocket sid g) = is_connected g"
  by (simp add: cleanupSocket_def Let_def connected_set_socket split: option.split)

text \<open>
  A step that takes sockets out of the room, disconnecting them, keeps the others, and changes the generation
  of the poll only when nobody is left. No socket is connected again.
\<close>

definition sheds :: "(string \<times> string option \<Rightarrow> bool) \<Rightarrow> gateway \<Rightarrow> gateway \<Rightarrow> bool" where
  "sheds P g g' \<longleftrightarrow> (gateway_inv g \<longrightarrow> gateway_inv g' \<and> gw_world g' = gw_world g \<and> gw_emitted g' = gw_emitted g
     \<and> gw_live g' = gw_live g \<and> roomtok g' = filter P (roomtok g)
     \<and> (roomtok g' \<noteq> [] \<longrightarrow> gw_pollGeneration g' = gw_pollGeneration g)
     \<and> (\<forall>i. is_connected g' i \<longrightarrow> is_connected g i)
     \<and> (\<forall>x \<in> set (roomtok g). \<not> P x \<longrightarrow> \<not> is_connected g' (fst x)))"

lemma sheds_refl: "(\<And>x. x \<in> set (roomtok g) \<Longrightarrow> P x) \<Longrightarrow> sheds P g g"
  by (simp add: sheds_def)

lemma sheds_trans:
  assumes a: "sheds P g h" and b: "sheds Q h k"
  shows "sheds (\<lambda>x. P x \<and> Q x) g k"
proof (unfold sheds_def, intro impI conjI ballI allI)
  assume g: "gateway_inv g"
  note a' = a [unfolded sheds_def, rule_format, OF g]
  note b' = b [unfolded sheds_def, rule_format, OF conjunct1 [OF a']]
  have r: "roomtok h = filter P (roomtok g)" "roomtok k = filter Q (roomtok h)" using a' b' by blast+
  show "roomtok k = filter (\<lambda>x. P x \<and> Q x) (roomtok g)" using r by (simp add: conj_commute)
  show "gw_pollGeneration k = gw_pollGeneration g" if "roomtok k \<noteq> []"
  proof -
    from that r(2) have "roomtok h \<noteq> []" by (metis filter.simps(1))
    with that a' b' show ?thesis by metis
  qed
  show "\<not> is_connected k (fst x)" if "x \<in> set (roomtok g)" "\<not> (P x \<and> Q x)" for x
  proof (cases "P x")
    case True
    with that r(1) have "x \<in> set (roomtok h)" "\<not> Q x" by auto
    with b' show ?thesis by blast
  next
    case False
    with that a' b' show ?thesis by blast
  qed
qed (use a b in \<open>simp_all add: sheds_def\<close>)

lemma sheds_mono: "sheds P g h \<Longrightarrow> (\<And>x. x \<in> set (roomtok g) \<Longrightarrow> P x = Q x) \<Longrightarrow> sheds Q g h"
  by (simp add: sheds_def cong: filter_cong)

lemma sheds_disconnectSilent: "sheds (\<lambda>x. fst x \<noteq> sid) g (disconnectSilent sid g)"
proof (unfold sheds_def, intro impI conjI)
  assume g: "gateway_inv g"
  let ?g = "disconnectSilent sid g" and ?c = "cleanupSocket sid g"
  show inv: "gateway_inv ?g" and "gw_emitted ?g = gw_emitted g"
    using quiet_disconnectSilent [of g sid] g by (simp_all add: quiet_def)
  show "gw_world ?g = gw_world g" by (simp add: disconnectSilent_def cleanup_room)
  show "gw_live ?g = gw_live g" using g cleanup_core [of g sid] by (simp add: disconnectSilent_def gateway_inv_def)
  show "roomtok ?g = filter (\<lambda>x. fst x \<noteq> sid) (roomtok g)"
    by (simp add: disconnectSilent_def disconnect_room cleanup_room)
  show "gw_pollGeneration ?g = gw_pollGeneration g" if "roomtok ?g \<noteq> []"
  proof (rule ccontr)
    assume "gw_pollGeneration ?g \<noteq> gw_pollGeneration g"
    then have "gw_adminCount ?g = 0" using cleanup_room(3) [of sid g] by (simp add: disconnectSilent_def)
    with room_admins [OF inv that] show False by simp
  qed
qed (simp_all add: disconnectSilent_def disconnect_connected cleanup_connected)

lemma sheds_disconnectAll: "sheds (\<lambda>x. fst x \<notin> set sids) g (disconnectAll sids g)"
proof (induction sids arbitrary: g)
  case (Cons i sids)
  show ?case
    using sheds_trans [OF sheds_disconnectSilent [of i g] Cons.IH] by (simp add: disconnectAll_def)
qed (simp add: disconnectAll_def sheds_def)

section \<open>Verifying the tokens again\<close>

lemma run_liftW: "run (liftW p) g = (fst (run p (gw_world g)), g\<lparr>gw_world := snd (run p (gw_world g))\<rparr>)"
  by (induction p arbitrary: g) auto

definition token_good :: "crypto \<Rightarrow> bool \<Rightarrow> world \<Rightarrow> string \<Rightarrow> bool" where
  "token_good cr up w t = (case fst (run (verifyAccess cr up t) w) of Inl _ \<Rightarrow> False | Inr pr \<Rightarrow> isEligibleForMetrics pr)"

lemma token_good_users: "users w = users w' \<Longrightarrow> token_good cr up w = token_good cr up w'"
  by (auto simp: token_good_def fun_eq_iff verifyAccess_def run_bind run_attempt run_dbSelect find_user_def
      split: jwt_result.splits option.splits user_status.splits)

lemma verify_keeps: "snd (run (verifyAccess cr up t) w) = w"
  using run_verifyAccess [of cr up t w] by (cases "run (verifyAccess cr up t) w") auto

definition kept :: "crypto \<Rightarrow> bool \<Rightarrow> world \<Rightarrow> (string \<times> string list) list \<Rightarrow> string \<Rightarrow> bool" where
  "kept cr up w ts i \<longleftrightarrow> (\<forall>(t, sids) \<in> set ts. i \<in> set sids \<longrightarrow> token_good cr up w t)"

lemma run_verifyTokens:
  "gateway_inv g \<Longrightarrow> \<exists>g'. run (verifyTokens cr up ts) g = (Inr (), g') \<and> sheds (\<lambda>x. kept cr up (gw_world g) ts (fst x)) g g'"
proof (induction ts arbitrary: g)
  case (Cons ts rest)
  let ?w = "gw_world g"
  define h where "h = (if token_good cr up ?w (fst ts) then g else disconnectAll (snd ts) g)"
  have run: "run (verifyTokens cr up (ts # rest)) g = run (verifyTokens cr up rest) h"
    by (auto simp: run_simps run_liftW verify_keeps h_def token_good_def split: sum.splits)
  have h: "sheds (\<lambda>x. fst x \<in> set (snd ts) \<longrightarrow> token_good cr up ?w (fst ts)) g h"
    by (auto simp: h_def intro: sheds_refl sheds_mono [OF sheds_disconnectAll])
  with Cons.prems have "gateway_inv h" "gw_world h = ?w" by (simp_all add: sheds_def)
  with Cons.IH [of h] obtain g' where g': "run (verifyTokens cr up rest) h = (Inr (), g')"
      "sheds (\<lambda>x. kept cr up ?w rest (fst x)) h g'" by auto
  have "sheds (\<lambda>x. kept cr up ?w (ts # rest) (fst x)) g g'"
    by (rule sheds_mono [OF sheds_trans [OF h g'(2)]]) (auto simp: kept_def)
  with run g'(1) show ?case by auto
qed (auto simp: kept_def intro: sheds_refl)

definition member_good :: "crypto \<Rightarrow> bool \<Rightarrow> world \<Rightarrow> string option \<Rightarrow> bool" where
  "member_good cr up w t = (case t of None \<Rightarrow> False | Some token \<Rightarrow> token_good cr up w token)"

text \<open>The tokens collected from the room decide about each of its sockets.\<close>

lemma room_known:
  assumes "gateway_inv g"
  shows "List.map_filter (\<lambda>(i, s). map_option (\<lambda>t. (t, i)) (gs_accessToken s)) (sockets_in_room g)
       = map (\<lambda>x. (the (snd x), fst x)) (roomtok g)"
proof -
  have "gs_accessToken s \<noteq> None" if "(i, s) \<in> set (sockets_in_room g)" for i s
    using room_member [OF assms, of "(i, gs_accessToken s)"] that by (force simp: roomtok_def)
  then show ?thesis
    by (auto simp: roomtok_def List.map_filter_def comp_def split_beta option.map_sel intro!: map_cong filter_True)
qed

lemma kept_room:
  assumes "gateway_inv g" and "x \<in> set (roomtok g)"
  shows "kept cr up w (tokens_in_room g) (fst x) = member_good cr up w (snd x)"
proof -
  obtain s t where s: "socket_of g (fst x) = Some s" "gs_accessToken s = Some t" "snd x = Some t"
    using room_member [OF assms] by (metis option.exhaust)
  have uniq: "y = x" if "y \<in> set (roomtok g)" "fst y = fst x" for y
    using room_member [OF assms(1) that(1)] s that(2) by (metis option.inject prod_eqI)
  have "(t', sids) \<in> set (tokens_in_room g) \<and> fst x \<in> set sids \<longrightarrow> t' = t" for t' sids
    using uniq s(3) by (auto simp: tokens_in_room_def Let_def room_known [OF assms(1)])
  moreover have "\<exists>sids. (t, sids) \<in> set (tokens_in_room g) \<and> fst x \<in> set sids"
  proof -
    have tk: "(t, fst x) \<in> set (map (\<lambda>x. (the (snd x), fst x)) (roomtok g))"
      using assms(2) s(3) by (metis (no_types, lifting) image_eqI list.set_map option.sel)
    let ?sids = "map snd (filter (\<lambda>(t', _). t' = t) (map (\<lambda>x. (the (snd x), fst x)) (roomtok g)))"
    have "(t, ?sids) \<in> set (tokens_in_room g)"
      unfolding tokens_in_room_def Let_def room_known [OF assms(1)] using tk
      by (metis (no_types, lifting) fst_conv image_eqI list.set_map set_remdups)
    moreover from tk have "fst x \<in> set ?sids"
      by (auto simp: image_iff)
    ultimately show ?thesis by blast
  qed
  ultimately show ?thesis using s(3) by (auto simp: kept_def member_good_def)
qed

lemma begin_room:
  assumes "gateway_inv g" and "gw_live g" and "roomtok g \<noteq> []"
  shows "beginRevalidation (gw_pollGeneration g) g = (Some (tokens_in_room g), g)"
proof -
  have "foldl (\<lambda>g (i, s). if gs_accessToken s = None then disconnectSilent i g else g) h xs = h"
    if "\<And>i s. (i, s) \<in> set xs \<Longrightarrow> gs_accessToken s \<noteq> None" for h and xs :: "(string \<times> gsocket) list"
    using that
  proof (induction xs)
    case (Cons x xs)
    obtain i s where x: "x = (i, s)" by force
    have "gs_accessToken s \<noteq> None" using Cons.prems [of i s] x by simp
    moreover have "foldl (\<lambda>g (i, s). if gs_accessToken s = None then disconnectSilent i g else g) h xs = h"
      by (rule Cons.IH) (use Cons.prems in auto)
    ultimately show ?case by (auto simp: x)
  qed simp
  moreover have "gs_accessToken s \<noteq> None" if "(i, s) \<in> set (sockets_in_room g)" for i s
    using room_member [OF assms(1), of "(i, gs_accessToken s)"] that by (force simp: roomtok_def)
  ultimately have "foldl (\<lambda>g (i, s). if gs_accessToken s = None then disconnectSilent i g else g) g (sockets_in_room g) = g"
    by blast
  moreover have "tokens_in_room g \<noteq> []" using assms(3) by (simp add: tokens_in_room_def Let_def room_known [OF assms(1)])
  ultimately show ?thesis using assms by (simp add: beginRevalidation_def roomtok_Nil)
qed

lemma run_revalidate:
  assumes "gateway_inv g" and "gw_live g"
  shows "\<exists>g'. run (revalidateAdmins cr up (gw_pollGeneration g)) g = (Inr (roomtok g' \<noteq> []), g')
    \<and> sheds (\<lambda>x. member_good cr up (gw_world g) (snd x)) g g'"
proof (cases "roomtok g = []")
  case True
  then show ?thesis
    by (intro exI [of _ g]) (auto simp: revalidateAdmins_def onStep_def beginRevalidation_def sheds_def simp flip: roomtok_Nil)
next
  case False
  obtain g' where g': "run (verifyTokens cr up (tokens_in_room g)) g = (Inr (), g')"
      "sheds (\<lambda>x. kept cr up (gw_world g) (tokens_in_room g) (fst x)) g g'"
    using run_verifyTokens [OF assms(1)] by blast
  have "sheds (\<lambda>x. member_good cr up (gw_world g) (snd x)) g g'"
    by (rule sheds_mono [OF g'(2)]) (simp add: kept_room [OF assms(1)])
  moreover from this have "(gw_pollGeneration g = gw_pollGeneration g' \<and> gw_live g' \<and> sockets_in_room g' \<noteq> []) = (roomtok g' \<noteq> [])"
    using assms by (auto simp: sheds_def simp flip: roomtok_Nil)
  ultimately show ?thesis
    using g'(1) by (intro exI [of _ g']) (simp add: revalidateAdmins_def onStep_def begin_room [OF assms False] run_bind)
qed

section \<open>One poll\<close>

definition snapshot_now :: "dockerode \<Rightarrow> config \<Rightarrow> system_stats option" where
  "snapshot_now dk cfg = (case (dk_info dk, getHostDiskInfo dk cfg) of
     (Inr info, Inr diskInfo) \<Rightarrow> snapshotOf (hostInfoOf info) diskInfo (getHostFreeMemoryMb dk)
   | _ \<Rightarrow> None)"

lemma run_collectSnapshot:
  "\<exists>w'. run (collectSnapshot dk cfg) w = (Inr (snapshot_now dk cfg), w') \<and> users w' = users w"
  by (auto simp: collectSnapshot_def getHostInfo_def dcall_def snapshot_now_def run_simps split: sum.splits)

lemma settled_connected:
  assumes "gateway_inv h" and "roomtok h = room" and "set room \<subseteq> set (roomtok g)"
    and "\<And>x. x \<in> set (roomtok g) \<Longrightarrow> x \<notin> set room \<Longrightarrow> \<not> is_connected h (fst x)"
  shows "\<forall>x \<in> set (roomtok g). is_connected h (fst x) \<longleftrightarrow> x \<in> set room"
proof -
  have "is_connected h (fst x)" if "x \<in> set room" for x
  proof (rule room_member [OF assms(1), of x])
    fix s assume "socket_of h (fst x) = Some s" "gs_room s"
    with assms(1) room_receives [of h "fst x" s] show ?thesis
      by (auto simp: gateway_inv_def receives_def is_connected_def split: option.splits)
  qed (use that assms(2) in simp)
  with assms(4) show ?thesis by blast
qed

lemma run_poll:
  assumes "gateway_inv g" and "gw_live g"
    and room_def: "room = filter (\<lambda>x. member_good cr up (gw_world g) (snd x)) (roomtok g)"
  shows "\<exists>g'. run (poll dk cfg cr up wr im (gw_pollGeneration g)) g = (Inr (), g')
    \<and> gw_emitted g' = gw_emitted g @ (case snapshot_now dk cfg of None \<Rightarrow> []
         | Some stats \<Rightarrow> map (\<lambda>x. (fst x, stats)) (filter (\<lambda>x. im \<or> wr (fst x)) room))
    \<and> (\<forall>x \<in> set (roomtok g). is_connected g' (fst x) \<longleftrightarrow> x \<in> set room)"
proof -
  obtain g1 where r1: "run (revalidateAdmins cr up (gw_pollGeneration g)) g = (Inr (roomtok g1 \<noteq> []), g1)"
      and "sheds (\<lambda>x. member_good cr up (gw_world g) (snd x)) g g1"
    using run_revalidate [OF assms(1,2)] by blast
  with assms have g1: "gateway_inv g1" "gw_live g1" "gw_world g1 = gw_world g" "gw_emitted g1 = gw_emitted g" "roomtok g1 = room"
      "roomtok g1 \<noteq> [] \<Longrightarrow> gw_pollGeneration g1 = gw_pollGeneration g"
      and off1: "\<And>x. x \<in> set (roomtok g) \<Longrightarrow> x \<notin> set room \<Longrightarrow> \<not> is_connected g1 (fst x)"
    by (auto simp: sheds_def room_def)
  obtain w' where rc: "run (collectSnapshot dk cfg) (gw_world g1) = (Inr (snapshot_now dk cfg), w')" "users w' = users (gw_world g1)"
    using run_collectSnapshot by blast
  define g2 where "g2 = g1\<lparr>gw_world := w'\<rparr>"
  have g2: "gateway_inv g2" "gw_live g2" "gw_emitted g2 = gw_emitted g" "roomtok g2 = room" "gw_pollGeneration g2 = gw_pollGeneration g1"
    using g1 quiet_world [of g1 w'] roomtok_cong [of g2 g1] by (simp_all add: g2_def quiet_def)
  obtain g3 where r3: "run (revalidateAdmins cr up (gw_pollGeneration g2)) g2 = (Inr (roomtok g3 \<noteq> []), g3)"
      and "sheds (\<lambda>x. member_good cr up w' (snd x)) g2 g3"
    using run_revalidate [OF g2(1,2)] by (auto simp: g2_def)
  moreover have "member_good cr up w' = member_good cr up (gw_world g)"
    using token_good_users [OF rc(2), of cr up] g1(3) by (auto simp: member_good_def split: option.splits)
  ultimately have g3: "gw_emitted g3 = gw_emitted g" "roomtok g3 = room" "gateway_inv g3"
      and "\<And>i. is_connected g3 i \<Longrightarrow> is_connected g2 i"
    using g2 by (auto simp: sheds_def room_def)
  then have off3: "\<And>x. x \<in> set (roomtok g) \<Longrightarrow> x \<notin> set room \<Longrightarrow> \<not> is_connected g3 (fst x)"
    using off1 by (auto simp: g2_def is_connected_def socket_of_def)
  have del: "gw_emitted (deliver im wr stats g3) = gw_emitted g @ map (\<lambda>x. (fst x, stats)) (filter (\<lambda>x. im \<or> wr (fst x)) room)" for stats
    using g3(1) by (simp add: deliver_def g3(2) [symmetric] roomtok_def filter_map o_def case_prod_unfold)
  have sub: "set room \<subseteq> set (roomtok g)" by (auto simp: room_def)
  have conn: "is_connected (dropCache h) = is_connected h" "is_connected (deliver im wr stats h) = is_connected h" for h stats
    by (auto simp: dropCache_def deliver_def is_connected_def socket_of_def fun_eq_iff)
  have con1: "\<forall>x \<in> set (roomtok g). is_connected g1 (fst x) \<longleftrightarrow> x \<in> set room"
    by (rule settled_connected [OF g1(1,5) sub off1])
  then have con2: "\<forall>x \<in> set (roomtok g). is_connected g2 (fst x) \<longleftrightarrow> x \<in> set room"
    by (simp add: g2_def is_connected_def socket_of_def)
  have con3: "\<forall>x \<in> set (roomtok g). is_connected g3 (fst x) \<longleftrightarrow> x \<in> set room"
    by (rule settled_connected [OF g3(3,2) sub off3])
  have c: "run (liftW (collectSnapshot dk cfg)) g1 = (Inr (snapshot_now dk cfg), g2)" by (simp add: run_liftW rc g2_def)
  show ?thesis
  proof (cases "room = []")
    case True
    then have r1': "run (revalidateAdmins cr up (gw_pollGeneration g)) g = (Inr False, g1)" using r1 g1(5) by simp
    from True have "(case snapshot_now dk cfg of None \<Rightarrow> []
        | Some stats \<Rightarrow> map (\<lambda>x. (fst x, stats)) (filter (\<lambda>x. im \<or> wr (fst x)) room)) = []"
      by (simp split: option.split)
    with r1' con1 show ?thesis
      by (intro exI [of _ "dropCache g1"]) (simp add: poll_def run_bind conn g1(4) dropCache_def [of g1, THEN arg_cong [where f = gw_emitted]])
  next
    case False
    with g1(5,6) have gen: "gw_pollGeneration g1 = gw_pollGeneration g" by simp
    have r3': "run (revalidateAdmins cr up (gw_pollGeneration g)) g2 = (Inr True, g3)" using r3 g3(2) g2(5) gen False by simp
    from False g1(5) have r1': "run (revalidateAdmins cr up (gw_pollGeneration g)) g = (Inr True, g1)" using r1 by simp
    show ?thesis
    proof (cases "snapshot_now dk cfg")
      case None
      have "gw_emitted (dropCache g2) = gw_emitted g" by (simp add: dropCache_def g2(3))
      with None r1' c con2 show ?thesis by (simp add: poll_def run_bind conn)
    next
      case (Some stats)
      with r1' c r3' g2(2,5) gen del con3 show ?thesis by (simp add: poll_def run_bind conn)
    qed
  qed
qed

text \<open>The administrators in the room whose token is still good in the database.\<close>

definition good_admins :: "crypto \<Rightarrow> bool \<Rightarrow> gateway \<Rightarrow> string list" where
  "good_admins cr up g = map fst (filter (\<lambda>(i, s). gs_room s \<and> member_good cr up (gw_world g) (gs_accessToken s)) (gw_sockets g))"

lemma good_admins_room: "good_admins cr up g = map fst (filter (\<lambda>x. member_good cr up (gw_world g) (snd x)) (roomtok g))"
proof -
  have "map fst (filter (\<lambda>(i, s). gs_room s \<and> P (gs_accessToken s)) xs)
      = map fst (filter (\<lambda>x. P (snd x)) (map (\<lambda>(i, s). (i, gs_accessToken s)) (filter (\<lambda>(i, s). gs_room s) xs)))"
    for P and xs :: "(string \<times> gsocket) list"
    by (induction xs) auto
  then show ?thesis by (simp add: good_admins_def roomtok_def sockets_in_room_def)
qed

text \<open>
  C26. A poll that nothing interferes with ends without an error. It delivers the snapshot of the host, when the
  host has one, only to sockets of the room whose access token still belongs to an active
  administrator: to all of them when the poll is the immediate one after an authentication, and to those
  whose transport is ready when it is a periodic one, whose packets are volatile. An administrator who was
  banned, demoted or told to change the password gets nothing, although the socket was accepted, and of the sockets
  of the room exactly those whose token is no longer good are disconnected.
\<close>

theorem poll_delivers_exactly:
  assumes "gateway_inv g" and "gw_live g" and "\<not> gw_inFlight g"
  shows "fst (run (metrics_tick dk cfg cr up writable immediate) g) = Inr ()
    \<and> gw_emitted (snd (run (metrics_tick dk cfg cr up writable immediate) g)) = gw_emitted g @
      (case snapshot_now dk cfg of None \<Rightarrow> []
       | Some stats \<Rightarrow> map (\<lambda>i. (i, stats)) (filter (\<lambda>i. immediate \<or> writable i) (good_admins cr up g)))
    \<and> list_all (\<lambda>(i, s). gs_room s \<longrightarrow>
        (is_connected (snd (run (metrics_tick dk cfg cr up writable immediate) g)) i \<longleftrightarrow> i \<in> set (good_admins cr up g)))
        (gw_sockets g)"
proof -
  let ?h = "g\<lparr>gw_inFlight := True, gw_tickDue := False\<rparr>"
  let ?room = "filter (\<lambda>x. member_good cr up (gw_world g) (snd x)) (roomtok g)"
  have h: "roomtok ?h = roomtok g" by (rule roomtok_cong) simp
  have inv: "gateway_inv ?h" using assms(1) quiet_inFlight [where g = g and b = True and c = False] by (simp add: quiet_def)
  obtain g' where g': "run (poll dk cfg cr up writable immediate (gw_pollGeneration ?h)) ?h = (Inr (), g')"
      "gw_emitted g' = gw_emitted g @ (case snapshot_now dk cfg of None \<Rightarrow> []
         | Some stats \<Rightarrow> map (\<lambda>x. (fst x, stats)) (filter (\<lambda>x. immediate \<or> writable (fst x)) ?room))"
      "\<forall>x \<in> set (roomtok g). is_connected g' (fst x) \<longleftrightarrow> x \<in> set ?room"
    using run_poll [OF inv, of ?room cr up dk cfg writable immediate] assms(2) h by auto
  have run: "run (metrics_tick dk cfg cr up writable immediate) g = (Inr (), finishTick g')"
    using assms(3) g'(1) by (simp add: metrics_tick_def onStep_def run_bind run_attempt)
  have fin: "gw_emitted (finishTick g') = gw_emitted g'" "is_connected (finishTick g') = is_connected g'"
    by (simp_all add: finishTick_def Let_def is_connected_def socket_of_def fun_eq_iff)
  have ga: "i \<in> set (good_admins cr up g) \<longleftrightarrow> (i, gs_accessToken s) \<in> set ?room" if m: "(i, s) \<in> set (gw_sockets g)" "gs_room s" for i s
  proof
    assume "i \<in> set (good_admins cr up g)"
    then obtain t where t: "(i, t) \<in> set ?room" by (auto simp: good_admins_room)
    then obtain s' where "(i, s') \<in> set (gw_sockets g)" "gs_accessToken s' = t" by (auto simp: roomtok_mem)
    with t room_token_unique [OF assms(1) m(1)] show "(i, gs_accessToken s) \<in> set ?room" by metis
  qed (force simp: good_admins_room)
  have "is_connected g' i \<longleftrightarrow> i \<in> set (good_admins cr up g)" if "(i, s) \<in> set (gw_sockets g)" "gs_room s" for i s
    using g'(3) [rule_format, of "(i, gs_accessToken s)"] that ga [OF that] by (auto simp: roomtok_mem)
  then show ?thesis
    using g'(2) by (auto simp: run fin good_admins_room filter_map o_def list_all_iff split: option.splits)
qed

text \<open>
  An administrator in the room, and one who has been demoted since the socket was accepted.
\<close>

definition admin_socket :: "string \<Rightarrow> string \<Rightarrow> gsocket" where
  "admin_socket e uid = (new_socket e)\<lparr>gs_status := AuthenticatedSocket,
     gs_principal := Some \<lparr>ap_id = uid, ap_username = uid, ap_role = ADMIN, ap_mustChangePassword = False,
       ap_temporaryAuth = False, ap_exp = 2000000000000\<rparr>,
     gs_accessToken := Some (''access.'' @ uid @ ''.x''), gs_room := True\<rparr>"

definition sample_gateway :: gateway where
  "sample_gateway = \<lparr>gw_world = sample_world, gw_performance = 0, gw_reservations = [], gw_closed = [],
     gw_sockets = [(''s1'', admin_socket ''e1'' ''root''), (''s2'', admin_socket ''e2'' ''bob'')], gw_tracked = [''s1'', ''s2''],
     gw_adminCount = 2, gw_pollGeneration = 0, gw_inFlight = False, gw_pendingImmediate = False, gw_tickDue = False,
     gw_live = True, gw_interval = True, gw_cached = None, gw_emitted = []\<rparr>"

lemma sample_gateway_inv: "gateway_inv sample_gateway"
  by (auto simp: gateway_inv_def core_inv_def poll_inv_def sample_gateway_def admins_def admin_socket_def new_socket_def
      socket_of_def socket_ok_def isEligibleForMetrics_def PENDING_CAP_def split: if_splits)

lemma sample_good_admins: "good_admins sample_crypto True sample_gateway = [''s1'']"
  by code_simp

lemma sample_snapshot: "snapshot_now willing_dockerode no_config
    = Some \<lparr>sy_totalRamMb = 16384, sy_usedRamMb = 8192, sy_freeDiskMb = 19531, sy_cpuCount = 8\<rparr>"
  by code_simp

theorem poll_delivers_exactly_witness:
  "gw_emitted (snd (run (metrics_tick willing_dockerode no_config sample_crypto True (\<lambda>_. False) True) sample_gateway))
     = [(''s1'', \<lparr>sy_totalRamMb = 16384, sy_usedRamMb = 8192, sy_freeDiskMb = 19531, sy_cpuCount = 8\<rparr>)]
   \<and> \<not> is_connected (snd (run (metrics_tick willing_dockerode no_config sample_crypto True (\<lambda>_. False) True) sample_gateway)) ''s2''"
proof -
  have live: "gw_live sample_gateway" "\<not> gw_inFlight sample_gateway" "gw_emitted sample_gateway = []"
    and s2: "(''s2'', admin_socket ''e2'' ''bob'') \<in> set (gw_sockets sample_gateway)" "gs_room (admin_socket ''e2'' ''bob'')"
    by (simp_all add: sample_gateway_def admin_socket_def)
  note p = poll_delivers_exactly [OF sample_gateway_inv live(1,2), of willing_dockerode no_config sample_crypto True
      "\<lambda>_. False" True, unfolded sample_good_admins sample_snapshot live(3)]
  from p s2 show ?thesis by (auto simp: list_all_iff)
qed

end
