(* ===== verification/Dto.thy ===== *)
theory Dto
  imports GoogleOAuth
begin

text \<open>
  The bodies and queries the API accepts: the DTO classes under \<open>auth/dto\<close>, \<open>admin/dto\<close> and
  \<open>servers/dto\<close>, as the validation pipe of \<open>main.ts\<close> applies them. A class is the list of its
  properties with their transformations and the decorators of \<open>class-validator\<close>; the pipe transforms
  the members of the body, refuses members that are not declared, and checks every property. The answer lists
  the violated rules, of which only the status is kept here. A body is the list of the members of a JSON object.
\<close>

section \<open>Rules\<close>

datatype rule =
    IsNotEmpty | IsString | MinLength nat | MaxLength nat | Matches "string \<Rightarrow> bool" | IsIn "string list"
  | IsInt | Min int | Max int | IsBoolean | IsEmail | IsUUID | PasswordByteLimit

text \<open>What the library \<open>class-validator\<close> decides by itself.\<close>

record validator =
  vl_isEmail :: "string \<Rightarrow> bool"
  vl_isUUID :: "string \<Rightarrow> bool"

fun length_within :: "(nat \<Rightarrow> bool) \<Rightarrow> json option \<Rightarrow> bool" where
  "length_within P (Some (JStr s)) = P (length s)"
| "length_within P _ = False"

fun satisfies :: "validator \<Rightarrow> json option \<Rightarrow> rule \<Rightarrow> bool" where
  "satisfies vl v IsNotEmpty = (v \<noteq> None \<and> v \<noteq> Some JNull \<and> v \<noteq> Some (JStr []))"
| "satisfies vl v (MinLength n) = length_within (\<lambda>l. n \<le> l) v"
| "satisfies vl v (MaxLength n) = length_within (\<lambda>l. l \<le> n) v"
| "satisfies vl (Some (JStr s)) IsString = True"
| "satisfies vl (Some (JStr s)) (Matches P) = P s"
| "satisfies vl (Some (JStr s)) (IsIn vs) = (s \<in> set vs)"
| "satisfies vl (Some (JStr s)) IsEmail = vl_isEmail vl s"
| "satisfies vl (Some (JStr s)) IsUUID = vl_isUUID vl s"
| "satisfies vl (Some (JStr s)) PasswordByteLimit = isPasswordWithinByteLimit s"
| "satisfies vl (Some (JNum n)) IsInt = isInteger n"
| "satisfies vl (Some (JNum n)) (Min m) = (n = Num (of_int m) \<or> js_gt n (of_int m))"
| "satisfies vl (Some (JNum n)) (Max m) = js_le n (of_int m)"
| "satisfies vl (Some (JBool b)) IsBoolean = True"
| "satisfies vl _ _ = False"

section \<open>Transformations\<close>

definition typeError :: exn where "typeError = PlainError ''TypeError''"

text \<open>\<open>value?.f()\<close> for a method of strings: other values have no such method.\<close>

fun onText :: "(string \<Rightarrow> string) \<Rightarrow> json option \<Rightarrow> exn + json option" where
  "onText f None = Inr None"
| "onText f (Some JNull) = Inr None"
| "onText f (Some (JStr s)) = Inr (Some (JStr (f s)))"
| "onText f (Some _) = Inl typeError"

text \<open>\<open>value?.replace(/[<>&"]/g, '')\<close>\<close>

definition removeMarkup :: "string \<Rightarrow> string" where
  "removeMarkup s = filter (\<lambda>c. c \<notin> {CHR ''<'', CHR ''>'', CHR ''&'', CHR 0x22}) s"

text \<open>Two \<open>Transform\<close> decorators on a property; the library decides which runs first.\<close>

definition trimAndStrip :: "bool \<Rightarrow> json option \<Rightarrow> exn + json option" where
  "trimAndStrip trimFirst v =
     (if trimFirst then seqE (onText trim v) (onText removeMarkup) else seqE (onText removeMarkup v) (onText trim))"

definition canonicalText :: "json option \<Rightarrow> exn + json option" where
  "canonicalText = onText (\<lambda>s. toLowerCase (trim s))"

text \<open>\<open>@Type(() => Number)\<close> on a query string\<close>

fun asNumber :: "json option \<Rightarrow> exn + json option" where
  "asNumber (Some (JStr s)) = Inr (Some (JNum (js_Number s)))"
| "asNumber v = Inr v"

section \<open>The pipe\<close>

record field =
  fd_name :: string
  fd_optional :: bool
  fd_transform :: "json option \<Rightarrow> exn + json option"
  fd_rules :: "rule list"

definition required :: "string \<Rightarrow> (json option \<Rightarrow> exn + json option) \<Rightarrow> rule list \<Rightarrow> field" where
  "required n t rs = \<lparr>fd_name = n, fd_optional = False, fd_transform = t, fd_rules = rs\<rparr>"

definition optional :: "string \<Rightarrow> (json option \<Rightarrow> exn + json option) \<Rightarrow> rule list \<Rightarrow> field" where
  "optional n t rs = \<lparr>fd_name = n, fd_optional = True, fd_transform = t, fd_rules = rs\<rparr>"

definition accepts :: "validator \<Rightarrow> field \<Rightarrow> json option \<Rightarrow> bool" where
  "accepts vl f v \<longleftrightarrow>
     (fd_optional f \<and> (v = None \<or> v = Some JNull)) \<or> list_all (satisfies vl v) (fd_rules f)"

primrec transformAll :: "field list \<Rightarrow> (string \<times> json) list \<Rightarrow> exn + (string \<times> json option) list" where
  "transformAll [] body = Inr []"
| "transformAll (f # fs) body =
     seqE (fd_transform f (jfield body (fd_name f))) (\<lambda>v.
     seqE (transformAll fs body) (\<lambda>vs. Inr ((fd_name f, v) # vs)))"

definition invalidBody :: exn where "invalidBody = BadRequestException NoBody"

definition member_of :: "(string \<times> json option) list \<Rightarrow> string \<Rightarrow> json option" where
  "member_of vs n = (case map_of vs n of None \<Rightarrow> None | Some v \<Rightarrow> v)"

definition validationPipe :: "validator \<Rightarrow> field list \<Rightarrow> (string \<times> json) list
    \<Rightarrow> exn + (string \<times> json option) list" where
  "validationPipe vl fds body =
     seqE (transformAll fds body) (\<lambda>vs.
     seqE (guardE (list_all (\<lambda>m. fst m \<in> set (map fd_name fds)) body) invalidBody) (\<lambda>_.
     seqE (guardE (list_all (\<lambda>f. accepts vl f (member_of vs (fd_name f))) fds) invalidBody) (\<lambda>_.
     Inr vs)))"

section \<open>Reading a validated member\<close>

definition text_of :: "(string \<times> json option) list \<Rightarrow> string \<Rightarrow> string option" where
  "text_of vs n = (case member_of vs n of Some (JStr s) \<Rightarrow> Some s | _ \<Rightarrow> None)"

definition int_of :: "(string \<times> json option) list \<Rightarrow> string \<Rightarrow> int option" where
  "int_of vs n = (case member_of vs n of Some (JNum x) \<Rightarrow> Some (js_floor x) | _ \<Rightarrow> None)"

definition bool_of :: "(string \<times> json option) list \<Rightarrow> string \<Rightarrow> bool option" where
  "bool_of vs n = (case member_of vs n of Some (JBool b) \<Rightarrow> Some b | _ \<Rightarrow> None)"

definition named :: "('a \<Rightarrow> string) \<Rightarrow> 'a list \<Rightarrow> string option \<Rightarrow> 'a option" where
  "named name xs v = (case v of None \<Rightarrow> None | Some s \<Rightarrow> List.find (\<lambda>x. name x = s) xs)"

text \<open>A value of an enumeration that the rules have already admitted.\<close>

definition orInvalid :: "'a option \<Rightarrow> exn + 'a" where
  "orInvalid v = (case v of None \<Rightarrow> Inl invalidBody | Some x \<Rightarrow> Inr x)"

fun access_type_name :: "access_type \<Rightarrow> string" where
  "access_type_name OPEN = ''OPEN''"
| "access_type_name REQUEST = ''REQUEST''"
| "access_type_name PRIVATE = ''PRIVATE''"

section \<open>Accounts\<close>

definition is_ident :: "char \<Rightarrow> bool" where
  "is_ident c \<longleftrightarrow> is_alnum c \<or> c = CHR ''_''"

text \<open>\<open>/^[a-zA-Z0-9_]+$/\<close>\<close>

definition USERNAME_PATTERN :: "string \<Rightarrow> bool" where
  "USERNAME_PATTERN = matches (rplus (RCls is_ident))"

definition CreateUserDto :: "field list" where
  "CreateUserDto =
     [required ''email'' canonicalText [IsNotEmpty, IsEmail, MaxLength 254],
      required ''username'' canonicalText [IsNotEmpty, MinLength 3, MaxLength 32, Matches USERNAME_PATTERN],
      required ''password'' Inr [IsNotEmpty, MinLength 8, PasswordByteLimit]]"

definition parseCreateUserDto :: "validator \<Rightarrow> (string \<times> json) list \<Rightarrow> exn + register_dto" where
  "parseCreateUserDto vl body =
     seqE (validationPipe vl CreateUserDto body) (\<lambda>vs.
     Inr \<lparr>rg_email = orElse (text_of vs ''email'') [], rg_username = orElse (text_of vs ''username'') [],
          rg_password = orElse (text_of vs ''password'') []\<rparr>)"

definition LoginUserDto :: "field list" where
  "LoginUserDto =
     [required ''identifier'' canonicalText [IsNotEmpty, MaxLength 254, MinLength 3],
      required ''password'' Inr [IsNotEmpty, MinLength 8, PasswordByteLimit]]"

definition parseLoginUserDto :: "validator \<Rightarrow> (string \<times> json) list \<Rightarrow> exn + login_dto" where
  "parseLoginUserDto vl body =
     seqE (validationPipe vl LoginUserDto body) (\<lambda>vs.
     Inr \<lparr>ld_identifier = orElse (text_of vs ''identifier'') [], ld_password = orElse (text_of vs ''password'') []\<rparr>)"

definition EditUserDto :: "field list" where
  "EditUserDto = [optional ''username'' canonicalText
     [IsNotEmpty, IsString, MinLength 3, MaxLength 32, Matches USERNAME_PATTERN]]"

definition parseEditUserDto :: "validator \<Rightarrow> (string \<times> json) list \<Rightarrow> exn + string option" where
  "parseEditUserDto vl body = seqE (validationPipe vl EditUserDto body) (\<lambda>vs. Inr (text_of vs ''username''))"

definition UpdatePasswordDTO :: "field list" where
  "UpdatePasswordDTO =
     [required ''oldPassword'' Inr [IsNotEmpty, PasswordByteLimit],
      required ''newPassword'' Inr [IsNotEmpty, MinLength 8, PasswordByteLimit]]"

definition parseUpdatePasswordDTO :: "validator \<Rightarrow> (string \<times> json) list \<Rightarrow> exn + string \<times> string" where
  "parseUpdatePasswordDTO vl body =
     seqE (validationPipe vl UpdatePasswordDTO body) (\<lambda>vs.
     Inr (orElse (text_of vs ''oldPassword'') [], orElse (text_of vs ''newPassword'') []))"

text \<open>\<open>/^(?:\d{6}|[a-f0-9]{8}-[a-f0-9]{8})$/\<close>\<close>

definition TOKEN_PATTERN :: rx where
  "TOKEN_PATTERN = RAlt (rtimes 6 (RCls is_digit))
     (RCat (rtimes 8 (RCls is_hex_lower)) (RCat (RCls (\<lambda>c. c = CHR ''-'')) (rtimes 8 (RCls is_hex_lower))))"

definition TwoFactorTokenDto :: "field list" where
  "TwoFactorTokenDto = [required ''token'' Inr [IsString, IsNotEmpty, MaxLength 17, Matches (matches TOKEN_PATTERN)]]"

definition CreateOAuthChallengeDto :: "field list" where
  "CreateOAuthChallengeDto = [required ''provider'' Inr [IsString, IsIn [''google'']]]"

definition GoogleCredentialDto :: "field list" where
  "GoogleCredentialDto = [required ''credential'' Inr [IsString, IsNotEmpty, MaxLength 8192]]"

section \<open>Administration\<close>

text \<open>\<open>/\S+/\<close>, not anchored\<close>

definition has_visible :: "string \<Rightarrow> bool" where
  "has_visible s \<longleftrightarrow> list_ex (\<lambda>c. \<not> is_ws c) s"

definition UserParamDto :: "field list" where
  "UserParamDto = [required ''id'' Inr [IsString, IsNotEmpty, Matches has_visible]]"

definition AdminPermissionParamDto :: "field list" where
  "AdminPermissionParamDto =
     [required ''id'' Inr [IsString, IsNotEmpty, Matches has_visible],
      required ''permId'' Inr [IsString, IsNotEmpty, Matches has_visible]]"

fun role_name :: "role \<Rightarrow> string" where
  "role_name ADMIN = ''ADMIN''"
| "role_name MOD = ''MOD''"
| "role_name USER = ''USER''"

fun user_status_name :: "user_status \<Rightarrow> string" where
  "user_status_name ACTIVE = ''ACTIVE''"
| "user_status_name U_PENDING = ''PENDING''"
| "user_status_name BANNED = ''BANNED''"

definition roles :: "role list" where "roles = [ADMIN, MOD, USER]"
definition user_statuses :: "user_status list" where "user_statuses = [ACTIVE, U_PENDING, BANNED]"

definition UpdateUserRoleDto :: "field list" where
  "UpdateUserRoleDto = [required ''role'' Inr [IsIn (map role_name roles)]]"

definition parseUpdateUserRoleDto :: "validator \<Rightarrow> (string \<times> json) list \<Rightarrow> exn + role" where
  "parseUpdateUserRoleDto vl body =
     seqE (validationPipe vl UpdateUserRoleDto body) (\<lambda>vs.
     orInvalid (named role_name roles (text_of vs ''role'')))"

definition UpdateUserStatusDto :: "field list" where
  "UpdateUserStatusDto = [required ''status'' Inr [IsIn (map user_status_name user_statuses)]]"

definition parseUpdateUserStatusDto :: "validator \<Rightarrow> (string \<times> json) list \<Rightarrow> exn + user_status" where
  "parseUpdateUserStatusDto vl body =
     seqE (validationPipe vl UpdateUserStatusDto body) (\<lambda>vs.
     orInvalid (named user_status_name user_statuses (text_of vs ''status'')))"

definition ListUsersQueryDto :: "field list" where
  "ListUsersQueryDto =
     [optional ''status'' Inr [IsIn (map user_status_name user_statuses)], optional ''role'' Inr [IsIn (map role_name roles)]]"

definition parseListUsersQueryDto :: "validator \<Rightarrow> (string \<times> json) list \<Rightarrow> exn + list_users_query" where
  "parseListUsersQueryDto vl query =
     seqE (validationPipe vl ListUsersQueryDto query) (\<lambda>vs.
     Inr \<lparr>lu_status = named user_status_name user_statuses (text_of vs ''status''),
          lu_role = named role_name roles (text_of vs ''role'')\<rparr>)"

fun permission_name :: "mod_permission \<Rightarrow> string" where
  "permission_name SERVER_LIFECYCLE = ''SERVER_LIFECYCLE''"
| "permission_name SERVER_CONFIG = ''SERVER_CONFIG''"
| "permission_name PLUGIN_MANAGEMENT = ''PLUGIN_MANAGEMENT''"
| "permission_name WHITELIST_MANAGEMENT = ''WHITELIST_MANAGEMENT''"
| "permission_name USER_MANAGEMENT = ''USER_MANAGEMENT''"
| "permission_name FILE_MANAGER = ''FILE_MANAGER''"

definition permissions :: "mod_permission list" where
  "permissions = [SERVER_LIFECYCLE, SERVER_CONFIG, PLUGIN_MANAGEMENT, WHITELIST_MANAGEMENT, USER_MANAGEMENT, FILE_MANAGER]"

text \<open>\<open>isStringValue(value) ? value.trim() : value\<close>\<close>

fun trimText :: "json option \<Rightarrow> exn + json option" where
  "trimText (Some (JStr s)) = Inr (Some (JStr (trim s)))"
| "trimText v = Inr v"

definition GrantModPermissionDto :: "field list" where
  "GrantModPermissionDto =
     [required ''permission'' Inr [IsIn (map permission_name permissions)],
      optional ''serverId'' trimText [IsString, IsNotEmpty]]"

definition parseGrantModPermissionDto :: "validator \<Rightarrow> (string \<times> json) list \<Rightarrow> exn + grant_dto" where
  "parseGrantModPermissionDto vl body =
     seqE (validationPipe vl GrantModPermissionDto body) (\<lambda>vs.
     seqE (orInvalid (named permission_name permissions (text_of vs ''permission''))) (\<lambda>p.
     Inr \<lparr>gr_permission = p, gr_serverId = text_of vs ''serverId''\<rparr>))"

section \<open>Servers\<close>

definition providers :: "server_provider list" where "providers = [VANILLA, PAPER, PURPUR, FABRIC, FORGE]"
definition difficulties :: "server_difficulty list" where "difficulties = [PEACEFUL, EASY, NORMAL, HARD]"
definition gamemodes :: "server_gamemode list" where "gamemodes = [SURVIVAL, CREATIVE, ADVENTURE, SPECTATOR]"
definition access_types :: "access_type list" where "access_types = [OPEN, REQUEST, PRIVATE]"

text \<open>\<open>/^\d+\.\d+(\.\d+)?$/\<close>\<close>

definition VERSION_PATTERN :: rx where
  "VERSION_PATTERN = RCat (rplus (RCls is_digit)) (RCat (RCls (\<lambda>c. c = CHR ''.'')) (RCat (rplus (RCls is_digit))
     (ropt (RCat (RCls (\<lambda>c. c = CHR ''.'')) (rplus (RCls is_digit))))))"

definition CreateServerDto :: "bool \<Rightarrow> field list" where
  "CreateServerDto trimFirst =
     [required ''name'' (trimAndStrip trimFirst) [IsNotEmpty, MinLength 1, MaxLength 50],
      required ''provider'' Inr [IsIn (map provider_name providers), IsNotEmpty],
      required ''version'' (onText trim) [IsNotEmpty, Matches (matches VERSION_PATTERN)],
      required ''port'' Inr [IsInt, Min 25565, Max 25665, IsNotEmpty],
      optional ''maxPlayers'' Inr [IsInt, Min 1, Max 10000],
      optional ''difficulty'' Inr [IsIn (map difficulty_name difficulties)],
      optional ''gamemode'' Inr [IsIn (map gamemode_name gamemodes)],
      optional ''pvp'' Inr [IsBoolean],
      optional ''memoryLimitMb'' Inr [IsInt, Min 512],
      optional ''motd'' (trimAndStrip trimFirst) [MaxLength 59],
      optional ''levelSeed'' (onText trim) [MaxLength 100],
      optional ''onlineMode'' Inr [IsBoolean],
      optional ''viewDistance'' Inr [IsInt, Min 2, Max 32],
      optional ''accessType'' Inr [IsIn (map access_type_name access_types)],
      optional ''allowFlight'' Inr [IsBoolean]]"

definition parseCreateServerDto :: "validator \<Rightarrow> bool \<Rightarrow> (string \<times> json) list \<Rightarrow> exn + create_server_dto" where
  "parseCreateServerDto vl trimFirst body =
     seqE (validationPipe vl (CreateServerDto trimFirst) body) (\<lambda>vs.
     seqE (orInvalid (named provider_name providers (text_of vs ''provider''))) (\<lambda>provider.
         Inr \<lparr>cd_name = orElse (text_of vs ''name'') [], cd_provider = provider,
              cd_version = orElse (text_of vs ''version'') [], cd_port = orElse (int_of vs ''port'') 0,
              cd_maxPlayers = int_of vs ''maxPlayers'',
              cd_difficulty = named difficulty_name difficulties (text_of vs ''difficulty''),
              cd_gamemode = named gamemode_name gamemodes (text_of vs ''gamemode''), cd_pvp = bool_of vs ''pvp'',
              cd_memoryLimitMb = int_of vs ''memoryLimitMb'', cd_motd = text_of vs ''motd'',
              cd_levelSeed = text_of vs ''levelSeed'', cd_onlineMode = bool_of vs ''onlineMode'',
              cd_viewDistance = int_of vs ''viewDistance'',
              cd_accessType = named access_type_name access_types (text_of vs ''accessType''),
              cd_allowFlight = bool_of vs ''allowFlight''\<rparr>))"

definition ListServersQueryDto :: "field list" where
  "ListServersQueryDto =
     [optional ''limit'' asNumber [IsInt, Min 1, Max 100], optional ''offset'' asNumber [IsInt, Min 0]]"

definition parseListServersQueryDto :: "validator \<Rightarrow> (string \<times> json) list \<Rightarrow> exn + list_query" where
  "parseListServersQueryDto vl query =
     seqE (validationPipe vl ListServersQueryDto query) (\<lambda>vs.
     Inr \<lparr>q_limit = nat (orElse (int_of vs ''limit'') 20), q_offset = nat (orElse (int_of vs ''offset'') 0)\<rparr>)"

definition ServerParamDto :: "field list" where
  "ServerParamDto = [required ''id'' Inr [IsString, IsNotEmpty, MinLength 1]]"

definition ServerUserParamDto :: "field list" where
  "ServerUserParamDto =
     [required ''id'' Inr [IsString, IsNotEmpty, MinLength 1], required ''userId'' Inr [IsUUID]]"

end
