(* ===== verification/DtoProperties.thy ===== *)
theory DtoProperties
  imports Dto
begin

text \<open>
  What the services may rely on once a body has passed the validation pipe: the ranges of a new server, and
  from them the confinement of its container; and that user names arrive in their canonical form.
\<close>

section \<open>The pipe\<close>

lemma transformAll_names: "transformAll fds body = Inr vs \<Longrightarrow> map fst vs = map fd_name fds"
  by (induction fds arbitrary: vs) (auto simp: seqE_Inr_iff)

lemma transformAll_member:
  "transformAll fds body = Inr vs \<Longrightarrow> distinct (map fd_name fds) \<Longrightarrow> f \<in> set fds \<Longrightarrow>
   fd_transform f (jfield body (fd_name f)) = Inr (member_of vs (fd_name f))"
proof (induction fds arbitrary: vs)
  case (Cons g fds)
  from Cons.prems(1) obtain v ws where v: "fd_transform g (jfield body (fd_name g)) = Inr v"
      "transformAll fds body = Inr ws" "vs = (fd_name g, v) # ws" by (auto simp: seqE_Inr_iff)
  show ?case
  proof (cases "fd_name f = fd_name g")
    case True
    with Cons.prems(2,3) have "f = g" by (auto simp: image_iff)
    with v show ?thesis by (simp add: member_of_def)
  next
    case False
    with Cons.prems v Cons.IH [OF v(2)] show ?thesis by (auto simp: member_of_def)
  qed
qed simp

lemma pipe_member:
  assumes "validationPipe vl fds body = Inr vs" and "distinct (map fd_name fds)" and "f \<in> set fds"
  shows "fd_transform f (jfield body (fd_name f)) = Inr (member_of vs (fd_name f))"
    and "accepts vl f (member_of vs (fd_name f))"
proof -
  from assms(1) have t: "transformAll fds body = Inr vs" and a: "list_all (\<lambda>f. accepts vl f (member_of vs (fd_name f))) fds"
    by (auto simp: validationPipe_def seqE_Inr_iff)
  show "fd_transform f (jfield body (fd_name f)) = Inr (member_of vs (fd_name f))"
    using transformAll_member [OF t assms(2,3)] .
  show "accepts vl f (member_of vs (fd_name f))" using a assms(3) by (simp add: list_all_iff)
qed

text \<open>What single rules say about the value that is read.\<close>

lemma js_range: "isInteger x \<Longrightarrow> x = Num (of_int a) \<or> js_gt x (of_int a) \<Longrightarrow> a \<le> js_floor x"
  by (cases x) (auto simp: le_floor_iff)

lemma js_below: "isInteger x \<Longrightarrow> js_le x (of_int b) \<Longrightarrow> js_floor x \<le> b"
  by (cases x) (auto simp: js_le_def floor_le_iff)

lemma int_min:
  assumes "accepts vl f (member_of vs n)" and "int_of vs n = Some i" and "IsInt \<in> set (fd_rules f)" and "Min a \<in> set (fd_rules f)"
  shows "a \<le> i"
proof -
  from assms(2) obtain x where x: "member_of vs n = Some (JNum x)" "i = js_floor x"
    by (auto simp: int_of_def split: option.splits json.splits)
  with assms have "satisfies vl (Some (JNum x)) IsInt" "satisfies vl (Some (JNum x)) (Min a)"
    by (auto simp: accepts_def list_all_iff)
  with x(2) show ?thesis using js_range [of x a] by simp
qed

lemma int_max:
  assumes "accepts vl f (member_of vs n)" and "int_of vs n = Some i" and "IsInt \<in> set (fd_rules f)" and "Max b \<in> set (fd_rules f)"
  shows "i \<le> b"
proof -
  from assms(2) obtain x where x: "member_of vs n = Some (JNum x)" "i = js_floor x"
    by (auto simp: int_of_def split: option.splits json.splits)
  with assms have "satisfies vl (Some (JNum x)) IsInt" "satisfies vl (Some (JNum x)) (Max b)"
    by (auto simp: accepts_def list_all_iff)
  with x(2) show ?thesis using js_below [of x b] by simp
qed

lemma int_present:
  assumes "accepts vl f (member_of vs n)" and "\<not> fd_optional f" and "IsInt \<in> set (fd_rules f)"
  obtains i where "int_of vs n = Some i"
proof -
  from assms have "satisfies vl (member_of vs n) IsInt" by (auto simp: accepts_def list_all_iff)
  then obtain x where "member_of vs n = Some (JNum x)" by (cases "(vl, member_of vs n, IsInt)" rule: satisfies.cases) auto
  with that show thesis by (auto simp: int_of_def)
qed

lemma text_rule:
  assumes "accepts vl f (member_of vs n)" and "text_of vs n = Some s" and "r \<in> set (fd_rules f)"
  shows "satisfies vl (Some (JStr s)) r"
proof -
  from assms(2) have "member_of vs n = Some (JStr s)" by (auto simp: text_of_def split: option.splits json.splits)
  with assms show ?thesis by (auto simp: accepts_def list_all_iff)
qed

lemma text_present:
  assumes "accepts vl f (member_of vs n)" and "\<not> fd_optional f"
    and "MinLength k \<in> set (fd_rules f) \<or> Matches P \<in> set (fd_rules f) \<or> IsIn xs \<in> set (fd_rules f) \<or> IsEmail \<in> set (fd_rules f)"
  obtains s where "text_of vs n = Some s"
proof -
  from assms have "satisfies vl (member_of vs n) (MinLength k) \<or> satisfies vl (member_of vs n) (Matches P)
      \<or> satisfies vl (member_of vs n) (IsIn xs) \<or> satisfies vl (member_of vs n) IsEmail"
    by (auto simp: accepts_def list_all_iff)
  then obtain s where "member_of vs n = Some (JStr s)"
    by (cases "member_of vs n"; cases "the (member_of vs n)") auto
  with that show thesis by (auto simp: text_of_def)
qed

lemma named_complete: "s \<in> set (map name xs) \<Longrightarrow> \<exists>x. named name xs (Some s) = Some x"
  by (cases "List.find (\<lambda>x. name x = s) xs") (auto simp: named_def find_None_iff2)

section \<open>A new server\<close>

lemma server_fields_distinct: "distinct (map fd_name (CreateServerDto tf))"
  by (simp add: CreateServerDto_def required_def optional_def)

lemma CreateServerDto_fields:
  "required ''name'' (trimAndStrip tf) [IsNotEmpty, MinLength 1, MaxLength 50] \<in> set (CreateServerDto tf)"
  "required ''version'' (onText trim) [IsNotEmpty, Matches (matches VERSION_PATTERN)] \<in> set (CreateServerDto tf)"
  "required ''port'' Inr [IsInt, Min 25565, Max 25665, IsNotEmpty] \<in> set (CreateServerDto tf)"
  "optional ''memoryLimitMb'' Inr [IsInt, Min 512] \<in> set (CreateServerDto tf)"
  "optional ''maxPlayers'' Inr [IsInt, Min 1, Max 10000] \<in> set (CreateServerDto tf)"
  "optional ''viewDistance'' Inr [IsInt, Min 2, Max 32] \<in> set (CreateServerDto tf)"
  by (simp_all add: CreateServerDto_def)

lemma server_dto_in_range:
  assumes "parseCreateServerDto vl tf body = Inr dto"
  shows "1 \<le> length (cd_name dto)" and "length (cd_name dto) \<le> 50" and "matches VERSION_PATTERN (cd_version dto)"
    and "25565 \<le> cd_port dto" and "cd_port dto \<le> 25665" and "512 \<le> orElse (cd_memoryLimitMb dto) 2048"
    and "1 \<le> orElse (cd_maxPlayers dto) 20" and "orElse (cd_maxPlayers dto) 20 \<le> 10000"
    and "2 \<le> orElse (cd_viewDistance dto) 10" and "orElse (cd_viewDistance dto) 10 \<le> 32"
proof -
  from assms obtain vs where vs: "validationPipe vl (CreateServerDto tf) body = Inr vs"
    and dto: "cd_name dto = orElse (text_of vs ''name'') []" "cd_version dto = orElse (text_of vs ''version'') []"
      "cd_port dto = orElse (int_of vs ''port'') 0" "cd_memoryLimitMb dto = int_of vs ''memoryLimitMb''"
      "cd_maxPlayers dto = int_of vs ''maxPlayers''" "cd_viewDistance dto = int_of vs ''viewDistance''"
    by (auto simp: parseCreateServerDto_def seqE_Inr_iff)
  note acc = CreateServerDto_fields [THEN pipe_member(2) [OF vs server_fields_distinct]]
  from acc(1) obtain nm where nm: "text_of vs ''name'' = Some nm"
    by (rule text_present [where k = 1]) (auto simp: required_def)
  from text_rule [OF acc(1) [unfolded required_def, simplified] nm, of "MinLength 1"] text_rule [OF acc(1) [unfolded required_def, simplified] nm, of "MaxLength 50"] nm
  show "1 \<le> length (cd_name dto)" "length (cd_name dto) \<le> 50" by (simp_all add: dto orElse_def)
  from acc(2) obtain ve where ve: "text_of vs ''version'' = Some ve"
    by (rule text_present [where P = "matches VERSION_PATTERN"]) (auto simp: required_def)
  from text_rule [OF acc(2) [unfolded required_def, simplified] ve, of "Matches (matches VERSION_PATTERN)"] ve
  show "matches VERSION_PATTERN (cd_version dto)" by (simp add: dto orElse_def)
  from acc(3) obtain po where po: "int_of vs ''port'' = Some po" by (rule int_present) (auto simp: required_def)
  from int_min [OF acc(3) [unfolded required_def, simplified] po, of 25565] int_max [OF acc(3) [unfolded required_def, simplified] po, of 25665] po
  show "25565 \<le> cd_port dto" "cd_port dto \<le> 25665" by (simp_all add: dto orElse_def)
  show "512 \<le> orElse (cd_memoryLimitMb dto) 2048"
    using int_min [OF acc(4), of _ 512] by (auto simp: dto orElse_def optional_def split: option.splits)
  show "1 \<le> orElse (cd_maxPlayers dto) 20" "orElse (cd_maxPlayers dto) 20 \<le> 10000"
    using int_min [OF acc(5), of _ 1] int_max [OF acc(5), of _ 10000] by (auto simp: dto orElse_def optional_def split: option.splits)
  show "2 \<le> orElse (cd_viewDistance dto) 10" "orElse (cd_viewDistance dto) 10 \<le> 32"
    using int_min [OF acc(6), of _ 2] int_max [OF acc(6), of _ 32] by (auto simp: dto orElse_def optional_def split: option.splits)
qed

section \<open>Its container\<close>

text \<open>The characters that can occur in a match.\<close>

primrec rx_within :: "(char \<Rightarrow> bool) \<Rightarrow> rx \<Rightarrow> bool" where
  "rx_within Q RZero = True"
| "rx_within Q REps = True"
| "rx_within Q (RCls P) = (\<forall>c. P c \<longrightarrow> Q c)"
| "rx_within Q (RCat r q) = (rx_within Q r \<and> rx_within Q q)"
| "rx_within Q (RAlt r q) = (rx_within Q r \<and> rx_within Q q)"
| "rx_within Q (RStar r) = rx_within Q r"

lemma rx_within_lang: "rx_within Q r \<Longrightarrow> s \<in> lang r \<Longrightarrow> list_all Q s"
proof (induction r arbitrary: s)
  case (RStar r)
  from RStar.prems(2) [unfolded lang.simps] show ?case
    by (induction rule: star_lang.induct) (use RStar.IH RStar.prems(1) in auto)
qed auto

definition single_line :: "string \<Rightarrow> bool" where
  "single_line s = list_all (\<lambda>c. \<not> is_crlf c) s"

lemma single_line_append [simp]: "single_line (s @ t) = (single_line s \<and> single_line t)"
  and single_line_Cons [simp]: "single_line (c # s) = (\<not> is_crlf c \<and> single_line s)"
  and single_line_Nil [simp]: "single_line []"
  by (simp_all add: single_line_def)

lemma digit_line: "is_digit c \<Longrightarrow> \<not> is_crlf c"
  by (auto simp: is_digit_def is_crlf_def)

lemma version_line: "matches VERSION_PATTERN s \<Longrightarrow> single_line s"
proof -
  assume "matches VERSION_PATTERN s"
  moreover have "\<not> is_crlf (CHR ''.'')" by code_simp
  then have "rx_within (\<lambda>c. \<not> is_crlf c) VERSION_PATTERN" by (auto simp: VERSION_PATTERN_def digit_line)
  ultimately show "single_line s" using rx_within_lang by (simp add: matches_lang single_line_def)
qed

lemma version_nonblank: "matches VERSION_PATTERN s \<Longrightarrow> trim s = s \<and> s \<noteq> []"
proof -
  assume m: "matches VERSION_PATTERN s"
  have "rx_within (\<lambda>c. \<not> is_ws c) VERSION_PATTERN"
    by (auto simp: VERSION_PATTERN_def is_digit_def is_ws_def)
  then have "list_all (\<lambda>c. \<not> is_ws c) s" using m rx_within_lang by (simp add: matches_lang)
  moreover have "s \<noteq> []" using m by (auto simp: VERSION_PATTERN_def)
  ultimately show "trim s = s \<and> s \<noteq> []" by (auto simp: list_all_iff intro!: trim_fixed)
qed

lemma show_nat_line: "0 \<le> n \<Longrightarrow> single_line (show_nat n)"
proof (induction n rule: show_nat.induct)
  case (1 n)
  have "\<not> is_crlf (char_of (48 + m))" if "0 \<le> m" "m < 10" for m :: int
  proof -
    have "m = 0 \<or> m = 1 \<or> m = 2 \<or> m = 3 \<or> m = 4 \<or> m = 5 \<or> m = 6 \<or> m = 7 \<or> m = 8 \<or> m = 9" using that by arith
    then show ?thesis by (auto simp: is_crlf_def)
  qed
  moreover have "0 \<le> n mod 10" "n mod 10 < 10" by auto
  ultimately show ?case using 1 by (subst show_nat.simps) (auto simp: pos_imp_zdiv_nonneg_iff)
qed

lemma show_int_line: "single_line (show_int n)"
  by (simp add: show_int_def show_nat_line is_crlf_def)

lemma collapse_line: "single_line (collapse_crlf s)"
  by (induction s rule: collapse_crlf.induct) (auto simp: is_crlf_def split: list.splits)

lemma env_text_line: "single_line key \<Longrightarrow> list_all single_line (env_text key v)"
  by (auto simp: env_text_def collapse_line is_crlf_def split: option.splits)

lemma provider_line: "single_line (provider_name pv)"
  by (cases pv) (simp_all add: is_crlf_def)

lemma difficulty_line: "single_line (toLowerCase (difficulty_name df))"
  by (cases df; simp; code_simp)

lemma gamemode_line: "single_line (toLowerCase (gamemode_name gm))"
  by (cases gm; simp; code_simp)

lemma env_bool_line: "single_line (env_bool b)"
  by (cases b) (simp_all add: env_bool_def is_crlf_def)

lemmas names_line = provider_line difficulty_line gamemode_line env_bool_line

lemma buildEnv_lines: "single_line (sv_version r) \<Longrightarrow> list_all single_line (buildEnv r)"
proof -
  assume v: "single_line (sv_version r)"
  have "single_line ''MOTD''" "single_line ''SEED''" by code_simp+
  note env_text_line [OF this(1)] env_text_line [OF this(2)]
  then show ?thesis unfolding buildEnv_def by (simp add: v names_line show_int_line is_crlf_def)
qed

lemma network_named:
  "readDockerConfig cfg = Inr dc \<Longrightarrow> dc_network dc \<noteq> ''host'' \<and> dc_network dc \<noteq> ''none'' \<and> \<not> startsWith (dc_network dc) ''container:''"
  by (auto simp: readDockerConfig_def readNetwork_def Let_def seqE_Inr_iff)

lemma container_name_chars: "matches CONTAINER_NAME_PATTERN sid \<Longrightarrow> CHR ''/'' \<notin> set sid"
proof -
  have upto: "rx_within Q (rupto n r) = (n = 0 \<or> rx_within Q r)" for Q n r by (induction n) auto
  have "rx_within (\<lambda>c. c \<noteq> CHR ''/'') CONTAINER_NAME_PATTERN"
    by (auto simp: CONTAINER_NAME_PATTERN_def upto char_class_defs)
  then show "matches CONTAINER_NAME_PATTERN sid \<Longrightarrow> CHR ''/'' \<notin> set sid"
    using rx_within_lang by (fastforce simp: matches_lang list_all_iff)
qed

text \<open>
  C27. What an administrator can ask for is confined: whatever body the pipe accepts for a new server, under a valid
  configuration of Docker whose port range includes the default one, and with an identifier of the shape the
  database generates, the container specification is built (no guard of the Docker service refuses it), and
  the container is unprivileged, without added capabilities, on a named network, with one bind mount that is a direct
  child of the data directory, with at least 512 MiB, a port of the range, and an environment in which no entry spans lines.
\<close>

theorem accepted_server_is_confined:
  assumes "parseCreateServerDto vl trimFirst body = Inr dto" and "readDockerConfig cfg = Inr dc"
    and "dc_portMin dc \<le> 25565" and "25665 \<le> dc_portMax dc" and "matches CONTAINER_NAME_PATTERN sid"
  shows "\<exists>spec. containerSpec cfg (new_server sid dto pr now) = Inr spec
    \<and> \<not> cc_Privileged spec \<and> cc_CapAdd spec = []
    \<and> cc_NetworkMode spec \<noteq> ''host'' \<and> cc_NetworkMode spec \<noteq> ''none'' \<and> \<not> startsWith (cc_NetworkMode spec) ''container:''
    \<and> cc_Binds spec = [strip_trailing_seps (dc_mcDataBindSource dc) @ ''/'' @ sid @ '':/data''] \<and> CHR ''/'' \<notin> set sid
    \<and> 512 * 1024 * 1024 \<le> cc_Memory spec \<and> list_all single_line (cc_Env spec)
    \<and> cc_PortBindings spec = [(CONTAINER_PORT, show_int (cd_port dto))] \<and> 25565 \<le> cd_port dto \<and> cd_port dto \<le> 25665"
proof -
  note range = server_dto_in_range [OF assms(1)]
  let ?r = "new_server sid dto pr now"
  have r: "sv_port ?r = cd_port dto" "sv_memoryLimitMb ?r = orElse (cd_memoryLimitMb dto) 2048" "sv_version ?r = cd_version dto"
      "sv_id ?r = sid"
    by (simp_all add: new_server_def)
  have "validateServerForCreate ?r dc = Inr ()"
    using range assms(3,4) version_nonblank [OF range(3)]
    by (simp add: validateServerForCreate_def r MIN_MEMORY_MB_def)
  moreover have "resolveDataDir (dc_mcDataBindSource dc) sid = Inr (strip_trailing_seps (dc_mcDataBindSource dc) @ ''/'' @ sid)"
    using assms(5) by (simp add: resolveDataDir_def)
  moreover have "list_all single_line (buildEnv ?r)"
    by (rule buildEnv_lines) (simp add: r version_line [OF range(3)])
  ultimately show ?thesis
    using network_named [OF assms(2)] container_name_chars [OF assms(5)] range(4-6)
    by (simp add: containerSpec_def assms(2) r)
qed

definition sample_body :: "(string \<times> json) list" where
  "sample_body = [(''name'', JStr '' <b>Survival ''), (''provider'', JStr ''PAPER''), (''version'', JStr ''1.21.1''),
     (''port'', JNum (Num 25570)), (''motd'', JStr ''hello'')]"

definition any_validator :: validator where
  "any_validator = \<lparr>vl_isEmail = (\<lambda>s. CHR ''@'' \<in> set s), vl_isUUID = (\<lambda>s. length s = 36)\<rparr>"

definition sample_dto :: create_server_dto where
  "sample_dto = (case parseCreateServerDto any_validator True sample_body of Inr dto \<Rightarrow> dto | Inl _ \<Rightarrow> undefined)"

lemma sample_accepted: "parseCreateServerDto any_validator True sample_body = Inr sample_dto"
proof -
  have "case parseCreateServerDto any_validator True sample_body of Inr dto \<Rightarrow> True | Inl _ \<Rightarrow> False" by code_simp
  then show ?thesis by (auto simp: sample_dto_def split: sum.splits)
qed

lemma default_docker_config: "\<exists>dc. readDockerConfig no_config = Inr dc \<and> dc_portMin dc \<le> 25565 \<and> 25665 \<le> dc_portMax dc"
proof -
  have "case readDockerConfig no_config of Inr dc \<Rightarrow> dc_portMin dc \<le> 25565 \<and> 25665 \<le> dc_portMax dc | Inl _ \<Rightarrow> False" by code_simp
  then show ?thesis by (auto split: sum.splits)
qed

theorem accepted_server_is_confined_witness:
  "\<exists>spec. containerSpec no_config (new_server ''s9'' sample_dto root_principal 0) = Inr spec
     \<and> \<not> cc_Privileged spec \<and> list_all single_line (cc_Env spec)"
proof -
  obtain dc where dc: "readDockerConfig no_config = Inr dc" "dc_portMin dc \<le> 25565" "25665 \<le> dc_portMax dc"
    using default_docker_config by blast
  have "matches CONTAINER_NAME_PATTERN ''s9''" by code_simp
  from accepted_server_is_confined [OF sample_accepted dc this] show ?thesis by blast
qed

section \<open>User names\<close>

lemma ident_lower_word: "is_ident c \<Longrightarrow> lower_char c = c \<Longrightarrow> is_word c"
proof (rule ccontr)
  assume c: "is_ident c" "lower_char c = c" "\<not> is_word c"
  then have u: "65 \<le> code c" "code c \<le> 90" by (auto simp: is_ident_def is_word_def char_class_defs)
  then have "lower_char c = char_of (code c + 32)" by (simp add: lower_char_def)
  then have "code (lower_char c) = code c + 32" using u by simp
  with c(2) show False by simp
qed

lemma canonical_name:
  assumes "USERNAME_PATTERN s" and "toLowerCase s = s" and "3 \<le> length s" and "length s \<le> 32"
  shows "matches CANONICAL_USERNAME s"
proof -
  have "list_all is_ident s" using assms(1) by (simp add: USERNAME_PATTERN_def matches_rplus_cls)
  moreover have "lower_char c = c" if "c \<in> set s" for c
    using assms(2) that by (auto simp: toLowerCase_def map_idI dest: map_eq_conv [THEN iffD1, where g1 = "\<lambda>x. x", simplified])
  ultimately have "list_all is_word s" by (auto simp: list_all_iff intro: ident_lower_word)
  with assms(3,4) show ?thesis by (simp add: CANONICAL_USERNAME_def matches_rbetween_cls)
qed

lemma username_member_canonical:
  assumes "fd_transform f (jfield body n) = Inr (member_of vs n)" and "accepts vl f (member_of vs n)"
    and "fd_transform f = canonicalText" and "{MinLength 3, MaxLength 32, Matches USERNAME_PATTERN} \<subseteq> set (fd_rules f)"
    and "text_of vs n = Some s"
  shows "matches CANONICAL_USERNAME s"
proof (rule canonical_name)
  have m: "member_of vs n = Some (JStr s)" using assms(5) by (auto simp: text_of_def split: option.splits json.splits)
  with assms(1,3) show "toLowerCase s = s"
    by (cases "(\<lambda>s. toLowerCase (trim s), jfield body n)" rule: onText.cases) (auto simp: canonicalText_def)
  note rule = text_rule [OF assms(2,5)]
  show "USERNAME_PATTERN s" "3 \<le> length s" "length s \<le> 32"
    using rule [of "Matches USERNAME_PATTERN"] rule [of "MinLength 3"] rule [of "MaxLength 32"] assms(4) by simp_all
qed

lemma registered_name_canonical:
  assumes "parseCreateUserDto vl body = Inr dto"
  shows "matches CANONICAL_USERNAME (rg_username dto)"
proof -
  let ?f = "required ''username'' canonicalText [IsNotEmpty, MinLength 3, MaxLength 32, Matches USERNAME_PATTERN]"
  from assms obtain vs where vs: "validationPipe vl CreateUserDto body = Inr vs" and u: "rg_username dto = orElse (text_of vs ''username'') []"
    by (auto simp: parseCreateUserDto_def seqE_Inr_iff)
  have f: "?f \<in> set CreateUserDto" "distinct (map fd_name CreateUserDto)" by (simp_all add: CreateUserDto_def required_def)
  note m = pipe_member [OF vs f(2,1), unfolded required_def, simplified]
  obtain s where s: "text_of vs ''username'' = Some s" by (rule text_present [OF m(2), where k = 3]) auto
  from username_member_canonical [where f = ?f, unfolded required_def, simplified, OF m s] u s show ?thesis
    by (simp add: orElse_def)
qed

lemma edited_name_canonical:
  assumes "parseEditUserDto vl body = Inr (Some s)"
  shows "matches CANONICAL_USERNAME s"
proof -
  let ?f = "optional ''username'' canonicalText [IsNotEmpty, IsString, MinLength 3, MaxLength 32, Matches USERNAME_PATTERN]"
  from assms obtain vs where vs: "validationPipe vl EditUserDto body = Inr vs" and s: "text_of vs ''username'' = Some s"
    by (auto simp: parseEditUserDto_def seqE_Inr_iff)
  have f: "?f \<in> set EditUserDto" "distinct (map fd_name EditUserDto)" by (simp_all add: EditUserDto_def optional_def)
  note m = pipe_member [OF vs f(2,1), unfolded optional_def, simplified]
  from username_member_canonical [where f = ?f, unfolded optional_def, simplified, OF m s] show ?thesis .
qed

text \<open>
  A member that is transformed as text but is a number, a boolean, an array or an object ends the pipe with a
  \<open>TypeError\<close>, which the exception filter answers like any unexpected error, and not as an invalid body.
\<close>

lemma non_text_identifier_fails:
  "parseLoginUserDto vl [(''identifier'', JNum n), (''password'', JStr s)] = Inl typeError"
  by (simp add: parseLoginUserDto_def validationPipe_def LoginUserDto_def required_def canonicalText_def jfield_def)

end
