(* ===== verification/Migrate.thy ===== *)
theory Migrate
  imports Config
begin

text \<open>
  \<open>db/migrate.ts\<close> and the start of the process in \<open>main.ts\<close>. What is on disk is a parameter: the text of the
  journal is represented by what \<open>JSON.parse\<close> makes of it. The migration itself runs in any number of processes on one
  database; each is a state machine that advances at its \<open>await\<close>s, and PostgreSQL's session-level advisory lock
  is the state they share: one session holds it at a time, and it is free again when that session unlocks it or ends.
\<close>

section \<open>Paths\<close>

text \<open>An absolute POSIX path as the list of its segments, after \<open>path.resolve\<close>.\<close>

definition segments :: "string \<Rightarrow> string list" where
  "segments p = filter (\<lambda>s. s \<noteq> []) (split_on (CHR ''/'') p)"

fun normalise :: "string list \<Rightarrow> string list \<Rightarrow> string list" where
  "normalise acc [] = rev acc"
| "normalise acc (s # ss) =
     (if s = ''.'' then normalise acc ss
      else if s = ''..'' then normalise (tl acc) ss
      else normalise (s # acc) ss)"

definition isAbsolute :: "string \<Rightarrow> bool" where
  "isAbsolute p \<longleftrightarrow> startsWith p ''/''"

text \<open>\<open>path.resolve(folder, p)\<close>\<close>

definition resolve :: "string list \<Rightarrow> string \<Rightarrow> string list" where
  "resolve folder p = (if isAbsolute p then normalise [] (segments p) else normalise [] (folder @ segments p))"

fun common_prefix :: "string list \<Rightarrow> string list \<Rightarrow> nat" where
  "common_prefix (x # xs) (y # ys) = (if x = y then Suc (common_prefix xs ys) else 0)"
| "common_prefix _ _ = 0"

fun join_path :: "string list \<Rightarrow> string" where
  "join_path [] = []"
| "join_path [s] = s"
| "join_path (s # ss) = s @ ''/'' @ join_path ss"

text \<open>\<open>path.relative(from, to)\<close>\<close>

definition relative :: "string list \<Rightarrow> string list \<Rightarrow> string" where
  "relative from to =
     (let n = common_prefix from to
      in join_path (replicate (length from - n) ''..'' @ drop n to))"

section \<open>What is validated before\<close>

definition is_tag_char :: "char \<Rightarrow> bool" where
  "is_tag_char c \<longleftrightarrow> is_alnum c \<or> c = CHR ''_'' \<or> c = CHR ''-''"

definition isJournalTag :: "string \<Rightarrow> bool" where
  "isJournalTag tag \<longleftrightarrow> isTrimmedNonEmptyString (Some tag) \<and> matches (rplus (RCls is_tag_char)) tag
     \<and> \<not> isAbsolute tag \<and> CHR ''/'' \<notin> set tag \<and> CHR 0x5C \<notin> set tag"

text \<open>The tag of an entry that \<open>isJournalEntry\<close> accepts.\<close>

definition journalEntry :: "json \<Rightarrow> string option" where
  "journalEntry entry = (case entry of
     JObj ms \<Rightarrow> (case jfield ms ''tag'' of Some (JStr tag) \<Rightarrow> if isJournalTag tag then Some tag else None | _ \<Rightarrow> None)
   | _ \<Rightarrow> None)"

text \<open>The tags of a value that \<open>isJournal\<close> accepts.\<close>

definition journalTags :: "json \<Rightarrow> string list option" where
  "journalTags value = (case value of
     JObj ms \<Rightarrow>
       (case jfield ms ''entries'' of
          Some (JArr es) \<Rightarrow> if list_all (\<lambda>e. journalEntry e \<noteq> None) es then Some (List.map_filter journalEntry es) else None
        | _ \<Rightarrow> None)
   | _ \<Rightarrow> None)"

definition validateDatabaseUrl :: "(string \<Rightarrow> parsed_url option) \<Rightarrow> string \<Rightarrow> exn + unit" where
  "validateDatabaseUrl newURL url =
     seqE (guardE (isTrimmedNonEmptyString (Some url)) (PlainError ''Invalid database URL'')) (\<lambda>_.
     case newURL url of
       None \<Rightarrow> Inl (PlainError ''Invalid database URL'')
     | Some parsed \<Rightarrow> guardE (url_protocol parsed = ''postgres:'' \<or> url_protocol parsed = ''postgresql:'')
         (PlainError ''Invalid database URL''))"

text \<open>
  The disk: whether a path can be read and is a directory, a journal that is missing (\<open>None\<close>), not JSON
  (\<open>Some None\<close>) or a value, and which files exist.
\<close>

record disk =
  dsk_stat :: "string list \<Rightarrow> bool option"
  dsk_journal :: "string list \<Rightarrow> json option option"
  dsk_access :: "string list \<Rightarrow> bool"

definition checkEntry :: "disk \<Rightarrow> string list \<Rightarrow> string \<Rightarrow> exn + unit" where
  "checkEntry d folder tag =
     (let sqlPath = resolve folder (tag @ ''.sql''); relativePath = relative folder sqlPath
      in if relativePath = [] \<or> startsWith relativePath ''../'' \<or> isAbsolute relativePath
         then Inl (PlainError ''Invalid migration journal'')
         else guardE (dsk_access d sqlPath) (PlainError ''Missing migration file''))"

primrec checkEntries :: "disk \<Rightarrow> string list \<Rightarrow> string list \<Rightarrow> exn + unit" where
  "checkEntries d folder [] = Inr ()"
| "checkEntries d folder (tag # tags) = seqE (checkEntry d folder tag) (\<lambda>_. checkEntries d folder tags)"

definition validateMigrationsFolder :: "disk \<Rightarrow> string list \<Rightarrow> exn + unit" where
  "validateMigrationsFolder d folder =
     (case dsk_stat d folder of
        Some True \<Rightarrow>
          (case dsk_journal d (folder @ [''meta'', ''_journal.json'']) of
             None \<Rightarrow> Inl (PlainError ''Missing migration journal'')
           | Some None \<Rightarrow> Inl (PlainError ''Invalid migration journal'')
           | Some (Some journal) \<Rightarrow>
               (case journalTags journal of
                  None \<Rightarrow> Inl (PlainError ''Invalid migration journal'')
                | Some tags \<Rightarrow> checkEntries d folder tags))
      | _ \<Rightarrow> Inl (PlainError ''Invalid migration folder''))"

section \<open>One process\<close>

text \<open>
  Where a process is: before it opens the lock client, at the lock query, before it opens and wraps the
  migration client, at the migration, at the unlock query, and at the ends of its clients.
\<close>

datatype phase =
    OpenLock | AwaitLock | OpenMigration | WrapMigration | AwaitMigrate | AwaitUnlock | EndLock | EndMigration | Ended

text \<open>
  \<open>pr_migrated\<close> records that drizzle's \<open>migrate\<close> has returned to this process without an error; no decision
  of the program reads it.
\<close>

record process =
  pr_phase :: phase
  pr_lockClient :: bool
  pr_migrationClient :: bool
  pr_failed :: bool
  pr_migrated :: bool

definition new_process :: process where
  "new_process = \<lparr>pr_phase = OpenLock, pr_lockClient = False, pr_migrationClient = False, pr_failed = False,
     pr_migrated = False\<rparr>"

text \<open>The \<open>finally\<close> blocks end the clients that were opened.\<close>

definition afterLock :: "process \<Rightarrow> process" where
  "afterLock p = p\<lparr>pr_phase := (if pr_migrationClient p then EndMigration else Ended)\<rparr>"

text \<open>
  The process \<open>i\<close> goes on after the operation it waits for has succeeded or failed; \<open>lock\<close> is the
  session that holds the advisory lock. A successful lock query needs a free lock: until then it stays pending. Ending
  a client that fails is ignored, like a failing unlock.
\<close>

fun proceed :: "nat \<Rightarrow> bool \<Rightarrow> nat option \<times> process \<Rightarrow> (nat option \<times> process) option" where
  "proceed i ok (lock, p) =
     (case pr_phase p of
        OpenLock \<Rightarrow>
          Some (lock, if ok then p\<lparr>pr_lockClient := True, pr_phase := AwaitLock\<rparr>
                      else p\<lparr>pr_failed := True, pr_phase := Ended\<rparr>)
      | AwaitLock \<Rightarrow>
          if \<not> ok then Some (lock, p\<lparr>pr_failed := True, pr_phase := EndLock\<rparr>)
          else if lock \<noteq> None then None
          else Some (Some i, p\<lparr>pr_phase := OpenMigration\<rparr>)
      | OpenMigration \<Rightarrow>
          Some (lock, if ok then p\<lparr>pr_migrationClient := True, pr_phase := WrapMigration\<rparr>
                      else p\<lparr>pr_failed := True, pr_phase := AwaitUnlock\<rparr>)
      | WrapMigration \<Rightarrow>
          Some (lock, if ok then p\<lparr>pr_phase := AwaitMigrate\<rparr> else p\<lparr>pr_failed := True, pr_phase := AwaitUnlock\<rparr>)
      | AwaitMigrate \<Rightarrow>
          Some (lock, if ok then p\<lparr>pr_migrated := True, pr_phase := AwaitUnlock\<rparr>
                      else p\<lparr>pr_failed := True, pr_phase := AwaitUnlock\<rparr>)
      | AwaitUnlock \<Rightarrow> Some (if ok \<and> lock = Some i then None else lock, p\<lparr>pr_phase := EndLock\<rparr>)
      | EndLock \<Rightarrow>
          Some (if ok \<and> lock = Some i then None else lock, afterLock (p\<lparr>pr_lockClient := \<not> ok\<rparr>))
      | EndMigration \<Rightarrow> Some (lock, p\<lparr>pr_migrationClient := \<not> ok, pr_phase := Ended\<rparr>)
      | Ended \<Rightarrow> None)"

declare proceed.simps [simp del]

text \<open>The result of \<open>runProductionMigrations\<close> once the process has ended.\<close>

definition migration_result :: "process \<Rightarrow> exn + unit" where
  "migration_result p = guardE (\<not> pr_failed p) (PlainError ''Database migration failed'')"

section \<open>Any number of processes\<close>

record cluster =
  cl_lock :: "nat option"
  cl_procs :: "process list"

definition cluster_start :: "nat \<Rightarrow> cluster" where
  "cluster_start n = \<lparr>cl_lock = None, cl_procs = replicate n new_process\<rparr>"

inductive cluster_step :: "nat \<Rightarrow> bool \<Rightarrow> cluster \<Rightarrow> cluster \<Rightarrow> bool" where
  proceeds: "i < length (cl_procs c) \<Longrightarrow> proceed i ok (cl_lock c, cl_procs c ! i) = Some (lock, p) \<Longrightarrow>
    cluster_step i ok c \<lparr>cl_lock = lock, cl_procs = (cl_procs c)[i := p]\<rparr>"

inductive_cases cluster_stepE: "cluster_step i ok c c'"

section \<open>The session that holds the lock\<close>

text \<open>
  The advisory lock belongs to the session of the connection that took it, so it is lost with that connection. The
  client of the lock has one connection, so the unlock query runs in the session of the lock query. The client itself
  closes a connection that has been idle for \<open>idle_timeout\<close> seconds (zero: never) and one older than
  \<open>max_lifetime\<close> (\<open>null\<close>: never), both only while no query runs on it; the lock connection is idle while the
  migration runs on the other client. The next query opens a new connection, in a new session.
\<close>

record client_options =
  co_max :: nat
  co_idleTimeout :: nat
  co_maxLifetime :: "nat option"

definition LOCK_CLIENT_OPTIONS :: client_options where
  "LOCK_CLIENT_OPTIONS = \<lparr>co_max = 1, co_idleTimeout = 0, co_maxLifetime = None\<rparr>"

definition closes_idle_connections :: "client_options \<Rightarrow> bool" where
  "closes_idle_connections opts \<longleftrightarrow> co_idleTimeout opts \<noteq> 0 \<or> co_maxLifetime opts \<noteq> None"

definition lock_connection_idle :: "process \<Rightarrow> bool" where
  "lock_connection_idle p \<longleftrightarrow> pr_lockClient p \<and> pr_phase p \<notin> {AwaitLock, AwaitUnlock}"

definition session_ends :: "nat \<Rightarrow> cluster \<Rightarrow> cluster" where
  "session_ends i c = c\<lparr>cl_lock := (if cl_lock c = Some i then None else cl_lock c)\<rparr>"

text \<open>
  What happens to the processes: one of them goes on, the client of one closes its idle lock connection, or the
  server or the network ends a lock connection.
\<close>

datatype cluster_event = Proceeds nat bool | ClientCloses nat | ConnectionLost nat

inductive cluster_event_step :: "cluster_event \<Rightarrow> cluster \<Rightarrow> cluster \<Rightarrow> bool" where
  goes_on: "cluster_step i ok c c' \<Longrightarrow> cluster_event_step (Proceeds i ok) c c'"
| closes: "i < length (cl_procs c) \<Longrightarrow> closes_idle_connections LOCK_CLIENT_OPTIONS \<Longrightarrow> lock_connection_idle (cl_procs c ! i) \<Longrightarrow>
    cluster_event_step (ClientCloses i) c (session_ends i c)"
| lost: "i < length (cl_procs c) \<Longrightarrow> pr_lockClient (cl_procs c ! i) \<Longrightarrow>
    cluster_event_step (ConnectionLost i) c (session_ends i c)"

inductive_cases cluster_event_stepE: "cluster_event_step e c c'"

inductive cluster_run :: "cluster \<Rightarrow> cluster_event list \<Rightarrow> cluster \<Rightarrow> bool" for c0 :: cluster where
  run_start: "cluster_run c0 [] c0"
| run_step: "cluster_run c0 es c \<Longrightarrow> cluster_event_step e c c' \<Longrightarrow> cluster_run c0 (e # es) c'"

section \<open>The start of the process\<close>

text \<open>
  \<open>main\<close> and \<open>bootstrap\<close> up to the creation of the application: in production the configuration is checked
  and the database migrated first, and an exception ends the process with the status 1. The migration of this process is
  its state machine: while it has not ended, \<open>bootstrap\<close> waits for it. The creation of the application is an outcome.
\<close>

datatype start_result = Serving | Waiting | ExitedWith nat

definition startup :: "(string \<Rightarrow> parsed_url option) \<Rightarrow> config \<Rightarrow> bool \<Rightarrow> disk \<Rightarrow> string list \<Rightarrow> process \<Rightarrow> exn + unit \<Rightarrow> start_result" where
  "startup newURL cfg production d folder p created =
     (case (if \<not> production then Inr ()
            else seqE (runProductionPreflight newURL cfg) (\<lambda>_.
                 seqE (validateDatabaseUrl newURL (orElse (cfg ''DATABASE_URL'') [])) (\<lambda>_.
                 validateMigrationsFolder d folder))) of
        Inl _ \<Rightarrow> ExitedWith 1
      | Inr _ \<Rightarrow>
          if production \<and> pr_phase p \<noteq> Ended then Waiting
          else case seqE (if production then migration_result p else Inr ()) (\<lambda>_. created) of
              Inr _ \<Rightarrow> Serving
            | Inl _ \<Rightarrow> ExitedWith 1)"

end
