(* ===== verification/MigrateProperties.thy ===== *)
theory MigrateProperties
  imports Migrate Samples
begin

text \<open>
  The migration under one advisory lock: exclusion and progress of any number of processes, the journal's file
  names, and what a production start has done before it serves.
\<close>

section \<open>Exclusion\<close>

text \<open>The phases between a granted lock query and the end of the unlock query.\<close>

definition holding :: "process \<Rightarrow> bool" where
  "holding p \<longleftrightarrow> pr_phase p \<in> {OpenMigration, WrapMigration, AwaitMigrate, AwaitUnlock}"

text \<open>The clients a process has open are those it still has to end.\<close>

definition process_ok :: "process \<Rightarrow> bool" where
  "process_ok p \<longleftrightarrow>
     (pr_phase p \<notin> {OpenLock, EndMigration, Ended} \<longrightarrow> pr_lockClient p) \<and>
     (pr_migrationClient p \<longrightarrow> pr_phase p \<notin> {OpenLock, AwaitLock, OpenMigration})"

lemma proceed_ok: "proceed i ok (lock, p) = Some (lock', p') \<Longrightarrow> process_ok p \<Longrightarrow> process_ok p'"
  by (auto simp: process_ok_def afterLock_def proceed.simps split: phase.splits if_splits)

lemma step_length: "cluster_step i ok c c' \<Longrightarrow> length (cl_procs c') = length (cl_procs c)"
  by (auto elim: cluster_stepE)

text \<open>
  In a run a process is sure of the lock while it is between the two queries and its lock connection has not
  been lost.
\<close>

definition sure_of_lock :: "cluster_event list \<Rightarrow> cluster \<Rightarrow> bool" where
  "sure_of_lock es c \<longleftrightarrow> (\<forall>i < length (cl_procs c). process_ok (cl_procs c ! i) \<and>
     (holding (cl_procs c ! i) \<longrightarrow> ConnectionLost i \<notin> set es \<longrightarrow> cl_lock c = Some i))"

lemma lock_client_keeps_its_session: "\<not> closes_idle_connections LOCK_CLIENT_OPTIONS"
  by (simp add: closes_idle_connections_def LOCK_CLIENT_OPTIONS_def)

lemma session_ends_procs [simp]: "cl_procs (session_ends i c) = cl_procs c"
  by (simp add: session_ends_def)

lemma proceed_lock_other:
  "proceed i ok (lock, p) = Some (lock', p') \<Longrightarrow> lock = Some j \<Longrightarrow> j \<noteq> i \<Longrightarrow> lock' = Some j"
  by (auto simp: afterLock_def proceed.simps split: phase.splits if_splits)

lemma proceed_holding:
  "proceed i ok (lock, p) = Some (lock', p') \<Longrightarrow> holding p' \<Longrightarrow> (holding p \<Longrightarrow> lock = Some i) \<Longrightarrow> lock' = Some i"
  by (auto simp: holding_def afterLock_def proceed.simps split: phase.splits if_splits)

lemma sure_of_lock_step:
  assumes "sure_of_lock es c" and "cluster_event_step e c c'"
  shows "sure_of_lock (e # es) c'"
  using assms(2)
proof (cases rule: cluster_event_step.cases)
  case (goes_on i ok)
  then obtain lock p where i: "i < length (cl_procs c)" and step: "proceed i ok (cl_lock c, cl_procs c ! i) = Some (lock, p)"
    and c': "c' = \<lparr>cl_lock = lock, cl_procs = (cl_procs c)[i := p]\<rparr>"
    by (auto elim: cluster_stepE)
  have "process_ok p" using assms(1) i proceed_ok [OF step] by (auto simp: sure_of_lock_def)
  moreover have "lock = Some i" if "holding p" "ConnectionLost i \<notin> set es"
    using assms(1) i that by (auto simp: sure_of_lock_def intro: proceed_holding [OF step])
  moreover have "lock = Some j" if "j < length (cl_procs c)" "j \<noteq> i" "holding (cl_procs c ! j)" "ConnectionLost j \<notin> set es" for j
    using assms(1) that by (auto simp: sure_of_lock_def intro: proceed_lock_other [OF step])
  ultimately show ?thesis
    using assms(1) i by (auto simp: sure_of_lock_def c' goes_on nth_list_update)
next
  case closes
  then show ?thesis using lock_client_keeps_its_session by simp
next
  case (lost i)
  with assms(1) show ?thesis by (auto simp: sure_of_lock_def session_ends_def)
qed

lemma sure_of_lock_run: "cluster_run (cluster_start n) es c \<Longrightarrow> sure_of_lock es c \<and> length (cl_procs c) = n"
proof (induction rule: cluster_run.induct)
  case run_start
  show ?case by (auto simp: sure_of_lock_def cluster_start_def new_process_def process_ok_def holding_def)
next
  case (run_step es c e c')
  have "length (cl_procs c') = length (cl_procs c)"
    using run_step.hyps(2) by (cases rule: cluster_event_step.cases) (auto dest: step_length)
  with run_step sure_of_lock_step show ?case by auto
qed

text \<open>
  C28. However many processes start at once and whichever of their queries and calls fail, while one of them is
  between its granted lock query and the end of its unlock query, in particular while it applies migrations, no
  other process is; and it has its lock client open all that time. This holds as long as the server and the network
  keep the lock connections of the two processes: the lock belongs to the session of that connection, and the program does not
  notice when the connection is lost during the migration. The client never closes it by itself, because it is
  configured without an idle time-out and without a limit of its life time.
\<close>

theorem migrations_are_exclusive:
  assumes "cluster_run (cluster_start n) es c" "i < n" "j < n"
    and "holding (cl_procs c ! i)" "holding (cl_procs c ! j)"
    and "ConnectionLost i \<notin> set es" "ConnectionLost j \<notin> set es"
  shows "i = j \<and> pr_lockClient (cl_procs c ! i)"
proof -
  have "cl_lock c = Some i" "cl_lock c = Some j" "process_ok (cl_procs c ! i)"
    using sure_of_lock_run [OF assms(1)] assms(2-) unfolding sure_of_lock_def by metis+
  with assms(4) show ?thesis by (auto simp: process_ok_def holding_def)
qed

text \<open>Runs of a concrete cluster: a list of the processes that move and the outcomes they see.\<close>

fun drive :: "(nat \<times> bool) list \<Rightarrow> cluster \<Rightarrow> cluster option" where
  "drive [] c = Some c"
| "drive ((i, ok) # ms) c =
     (if i < length (cl_procs c) then
        case proceed i ok (cl_lock c, cl_procs c ! i) of
          Some (lock, p) \<Rightarrow> drive ms \<lparr>cl_lock = lock, cl_procs = (cl_procs c)[i := p]\<rparr>
        | None \<Rightarrow> None
      else None)"

lemma drive_run: "cluster_run c0 es c \<Longrightarrow> drive ms c = Some c' \<Longrightarrow> cluster_run c0 (rev (map (\<lambda>(i, ok). Proceeds i ok) ms) @ es) c'"
proof (induction ms c arbitrary: es rule: drive.induct)
  case (2 i ok ms c)
  from 2(3) obtain lock p where i: "i < length (cl_procs c)"
    and p: "proceed i ok (cl_lock c, cl_procs c ! i) = Some (lock, p)"
    and rest: "drive ms \<lparr>cl_lock = lock, cl_procs = (cl_procs c)[i := p]\<rparr> = Some c'"
    by (auto split: if_splits option.splits prod.splits)
  have "cluster_run c0 (Proceeds i ok # es) \<lparr>cl_lock = lock, cl_procs = (cl_procs c)[i := p]\<rparr>"
    using 2(2) goes_on [OF cluster_step.proceeds [OF i p]] by (rule run_step)
  from 2(1) [OF i p refl this rest] show ?case by simp
qed simp

definition migrating_cluster :: cluster where
  "migrating_cluster = \<lparr>cl_lock = Some 0,
     cl_procs = [\<lparr>pr_phase = AwaitMigrate, pr_lockClient = True, pr_migrationClient = True, pr_failed = False, pr_migrated = False\<rparr>,
                 \<lparr>pr_phase = AwaitLock, pr_lockClient = True, pr_migrationClient = False, pr_failed = False, pr_migrated = False\<rparr>]\<rparr>"

lemma migrating_cluster_run:
  "cluster_run (cluster_start 2) (rev (map (\<lambda>(i, ok). Proceeds i ok) [(0, True), (0, True), (1, True), (0, True), (0, True)]) @ [])
     migrating_cluster"
  by (rule drive_run [OF run_start])
    (simp add: proceed.simps migrating_cluster_def cluster_start_def new_process_def numeral_2_eq_2)

theorem migrations_are_exclusive_witness:
  "holding (cl_procs migrating_cluster ! 0) \<and> pr_lockClient (cl_procs migrating_cluster ! 0)"
  using migrations_are_exclusive [OF migrating_cluster_run, of 0 0]
  by (simp add: migrating_cluster_def holding_def)

text \<open>
  Without that condition the exclusion fails: when the connection of the first process is lost while it migrates, the
  second one gets the lock, and both apply migrations.
\<close>

definition both_migrating :: cluster where
  "both_migrating = \<lparr>cl_lock = Some 1,
     cl_procs = [\<lparr>pr_phase = AwaitMigrate, pr_lockClient = True, pr_migrationClient = True, pr_failed = False, pr_migrated = False\<rparr>,
                 \<lparr>pr_phase = AwaitMigrate, pr_lockClient = True, pr_migrationClient = True, pr_failed = False, pr_migrated = False\<rparr>]\<rparr>"

lemma lost_connection_breaks_exclusion:
  "\<exists>es. cluster_run (cluster_start 2) es both_migrating \<and> holding (cl_procs both_migrating ! 0) \<and> holding (cl_procs both_migrating ! 1)"
proof -
  have "cluster_event_step (ConnectionLost 0) migrating_cluster (session_ends 0 migrating_cluster)"
    by (rule lost) (simp_all add: migrating_cluster_def)
  note run = run_step [OF migrating_cluster_run this]
  have "drive [(1, True), (1, True), (1, True)] (session_ends 0 migrating_cluster) = Some both_migrating"
    by (simp add: proceed.simps migrating_cluster_def session_ends_def both_migrating_def)
  from drive_run [OF run this] show ?thesis by (intro exI conjI) (auto simp: both_migrating_def holding_def)
qed

section \<open>Progress\<close>

text \<open>How many awaited operations a process has left at most.\<close>

primrec remaining :: "phase \<Rightarrow> nat" where
  "remaining OpenLock = 8"
| "remaining AwaitLock = 7"
| "remaining OpenMigration = 6"
| "remaining WrapMigration = 5"
| "remaining AwaitMigrate = 4"
| "remaining AwaitUnlock = 3"
| "remaining EndLock = 2"
| "remaining EndMigration = 1"
| "remaining Ended = 0"

definition work :: "cluster \<Rightarrow> nat" where
  "work c = sum_list (map (remaining \<circ> pr_phase) (cl_procs c))"

lemma proceed_remaining:
  "proceed i ok (lock, p) = Some (lock', p') \<Longrightarrow> remaining (pr_phase p') < remaining (pr_phase p)"
  by (auto simp: afterLock_def proceed.simps split: phase.splits if_splits)

lemma step_work: "cluster_step i ok c c' \<Longrightarrow> work c' < work c"
proof (elim cluster_stepE)
  fix lock p
  assume i: "i < length (cl_procs c)" and step: "proceed i ok (cl_lock c, cl_procs c ! i) = Some (lock, p)"
    and c': "c' = \<lparr>cl_lock = lock, cl_procs = (cl_procs c)[i := p]\<rparr>"
  let ?f = "remaining \<circ> pr_phase"
  have split: "cl_procs c = take i (cl_procs c) @ cl_procs c ! i # drop (Suc i) (cl_procs c)"
    using i by (rule id_take_nth_drop)
  have "work c = sum_list (map ?f (take i (cl_procs c))) + ?f (cl_procs c ! i) + sum_list (map ?f (drop (Suc i) (cl_procs c)))"
    unfolding work_def by (subst split) simp
  moreover have "work c' = sum_list (map ?f (take i (cl_procs c))) + ?f p + sum_list (map ?f (drop (Suc i) (cl_procs c)))"
    using i by (simp add: work_def c' upd_conv_take_nth_drop)
  ultimately show ?thesis using proceed_remaining [OF step] by simp
qed

text \<open>
  A run of \<open>k\<close> steps in which every lock client that is ended does end; any other operation may fail.
\<close>

inductive orderly :: "cluster \<Rightarrow> nat \<Rightarrow> cluster \<Rightarrow> bool" for c0 :: cluster where
  begins: "orderly c0 0 c0"
| continues: "orderly c0 k c \<Longrightarrow> cluster_step i ok c c' \<Longrightarrow> (pr_phase (cl_procs c ! i) = EndLock \<longrightarrow> ok) \<Longrightarrow>
    orderly c0 (Suc k) c'"

lemma orderly_work: "orderly c0 k c \<Longrightarrow> k + work c \<le> work c0"
  by (induction rule: orderly.induct) (auto dest: step_work)

text \<open>The holder of the lock has not ended its lock client.\<close>

definition lock_live :: "cluster \<Rightarrow> bool" where
  "lock_live c \<longleftrightarrow> (case cl_lock c of None \<Rightarrow> True
     | Some i \<Rightarrow> i < length (cl_procs c) \<and> pr_phase (cl_procs c ! i) \<in> {OpenMigration, WrapMigration, AwaitMigrate, AwaitUnlock, EndLock})"

lemma proceed_live:
  "proceed i ok (lock, p) = Some (lock', p') \<Longrightarrow> pr_phase p = EndLock \<longrightarrow> ok \<Longrightarrow> lock' = Some j \<Longrightarrow>
     (j = i \<and> pr_phase p' \<in> {OpenMigration, WrapMigration, AwaitMigrate, AwaitUnlock, EndLock} \<or> lock = Some j \<and> j \<noteq> i) \<or>
     (lock = Some i \<and> pr_phase p \<notin> {OpenMigration, WrapMigration, AwaitMigrate, AwaitUnlock, EndLock})"
  by (cases p) (auto simp: afterLock_def proceed.simps split: phase.splits if_splits)

lemma lock_live_step:
  "cluster_step i ok c c' \<Longrightarrow> (pr_phase (cl_procs c ! i) = EndLock \<longrightarrow> ok) \<Longrightarrow> lock_live c \<Longrightarrow> lock_live c'"
proof (elim cluster_stepE)
  fix lock p
  assume ok: "pr_phase (cl_procs c ! i) = EndLock \<longrightarrow> ok" and live: "lock_live c" and i: "i < length (cl_procs c)"
    and step: "proceed i ok (cl_lock c, cl_procs c ! i) = Some (lock, p)"
    and c': "c' = \<lparr>cl_lock = lock, cl_procs = (cl_procs c)[i := p]\<rparr>"
  show ?thesis
  proof (cases lock)
    case (Some j)
    from proceed_live [OF step ok Some] live i show ?thesis
      by (auto simp: lock_live_def c' Some nth_list_update)
  qed (simp add: lock_live_def c')
qed

lemma lock_live_orderly: "orderly (cluster_start n) k c \<Longrightarrow> lock_live c"
proof (induction rule: orderly.induct)
  case begins
  show ?case by (simp add: lock_live_def cluster_start_def)
qed (auto intro: lock_live_step)

lemma can_move: "i < length (cl_procs c) \<Longrightarrow> pr_phase (cl_procs c ! i) \<noteq> Ended \<Longrightarrow>
    pr_phase (cl_procs c ! i) = AwaitLock \<longrightarrow> cl_lock c = None \<Longrightarrow> \<exists>c'. cluster_step i True c c'"
proof -
  assume i: "i < length (cl_procs c)" and "pr_phase (cl_procs c ! i) \<noteq> Ended"
    and "pr_phase (cl_procs c ! i) = AwaitLock \<longrightarrow> cl_lock c = None"
  then obtain lock p where "proceed i True (cl_lock c, cl_procs c ! i) = Some (lock, p)"
    by (cases "pr_phase (cl_procs c ! i)") (auto simp: proceed.simps)
  with i show ?thesis by (blast intro: cluster_step.proceeds)
qed

text \<open>A cluster in which no awaited operation can succeed has nothing left to do.\<close>

lemma stuck_ended:
  assumes live: "lock_live c" and stuck: "\<And>i c'. \<not> cluster_step i True c c'"
  shows "cl_lock c = None \<and> (\<forall>p \<in> set (cl_procs c). pr_phase p = Ended)"
proof -
  have free: "cl_lock c = None"
  proof (rule ccontr)
    assume "cl_lock c \<noteq> None"
    then obtain i where "cl_lock c = Some i" by blast
    with live have "i < length (cl_procs c)"
      "pr_phase (cl_procs c ! i) \<in> {OpenMigration, WrapMigration, AwaitMigrate, AwaitUnlock, EndLock}"
      by (auto simp: lock_live_def)
    with can_move [of i c] stuck show False by auto
  qed
  with can_move stuck show ?thesis by (metis in_set_conv_nth)
qed

lemma work_start: "work (cluster_start n) = 8 * n"
  by (simp add: work_def cluster_start_def new_process_def sum_list_replicate)

text \<open>
  C29. The processes of a deployment always finish their migrations: as long as ending a lock client works, and whatever
  else fails, a run of \<open>n\<close> processes has at most \<open>8 * n\<close> steps, and a state in which no awaited operation
  can succeed is one where every process has ended and the lock is free. No process waits for ever for a lock that
  nobody will release.
\<close>

theorem migrations_finish:
  assumes "orderly (cluster_start n) k c"
  shows "k \<le> 8 * n \<and> ((\<forall>i c'. \<not> cluster_step i True c c') \<longrightarrow>
    cl_lock c = None \<and> (\<forall>p \<in> set (cl_procs c). pr_phase p = Ended))"
  using orderly_work [OF assms] stuck_ended [OF lock_live_orderly [OF assms]] by (auto simp: work_start)

definition one_locked :: cluster where
  "one_locked = \<lparr>cl_lock = Some 0,
     cl_procs = [\<lparr>pr_phase = OpenMigration, pr_lockClient = True, pr_migrationClient = False, pr_failed = False, pr_migrated = False\<rparr>]\<rparr>"

lemma one_locked_orderly: "orderly (cluster_start 1) 2 one_locked"
proof -
  let ?c1 = "\<lparr>cl_lock = None, cl_procs = [new_process\<lparr>pr_lockClient := True, pr_phase := AwaitLock\<rparr>]\<rparr>"
  have "cluster_step 0 True (cluster_start 1) ?c1"
    using cluster_step.proceeds [of 0 "cluster_start 1" True None "new_process\<lparr>pr_lockClient := True, pr_phase := AwaitLock\<rparr>"]
    by (simp add: proceed.simps cluster_start_def new_process_def)
  moreover have "cluster_step 0 True ?c1 one_locked"
    using cluster_step.proceeds [of 0 ?c1 True "Some 0" "hd (cl_procs one_locked)"]
    by (simp add: proceed.simps new_process_def one_locked_def)
  ultimately show ?thesis
    using orderly.continues [OF orderly.continues [OF orderly.begins]] by (fastforce simp: numeral_2_eq_2)
qed

theorem migrations_finish_witness: "orderly (cluster_start 1) 2 one_locked \<and> (2::nat) \<le> 8 * 1 \<and> (\<exists>i c'. cluster_step i True one_locked c')"
  using migrations_finish [OF one_locked_orderly] one_locked_orderly by (auto simp: one_locked_def)

section \<open>The journal\<close>

lemma normalise_plain: "\<forall>s \<in> set ss. s \<noteq> ''.'' \<and> s \<noteq> ''..'' \<Longrightarrow> normalise acc ss = rev acc @ ss"
  by (induction ss arbitrary: acc) auto

lemma common_prefix_append: "common_prefix xs (xs @ ys) = length xs"
  by (induction xs) (cases ys; auto)+

lemma relative_child: "relative folder (folder @ [s]) = s"
  by (simp add: relative_def common_prefix_append)

text \<open>A folder after \<open>path.resolve\<close>: its segments name entries.\<close>

definition resolved :: "string list \<Rightarrow> bool" where
  "resolved folder \<longleftrightarrow> (\<forall>s \<in> set folder. s \<notin> {[], ''.'', ''..''} \<and> CHR ''/'' \<notin> set s)"

lemma journal_tag_chars: "isJournalTag tag \<Longrightarrow> tag \<noteq> [] \<and> list_all is_tag_char tag"
  by (simp add: isJournalTag_def matches_rplus_cls)

lemma tag_file_name: "isJournalTag tag \<Longrightarrow> CHR ''/'' \<notin> set (tag @ ''.sql'') \<and> tag @ ''.sql'' \<notin> {[], ''.'', ''..''}"
  by (auto simp: isJournalTag_def)

lemma tag_relative: "isJournalTag tag \<Longrightarrow> \<not> isAbsolute (tag @ ''.sql'')"
  by (cases tag) (auto simp: isAbsolute_def startsWith_def isJournalTag_def)

lemma tag_no_parent: "isJournalTag tag \<Longrightarrow> \<not> startsWith (tag @ ''.sql'') ''../''"
proof -
  assume "isJournalTag tag"
  from journal_tag_chars [OF this] obtain c cs where "tag = c # cs" "is_tag_char c" by (cases tag) auto
  moreover have "\<not> is_tag_char CHR ''.''" by code_simp
  ultimately show ?thesis by (auto simp: startsWith_def)
qed

lemma resolve_tag:
  assumes "isJournalTag tag" "resolved folder"
  shows "resolve folder (tag @ ''.sql'') = folder @ [tag @ ''.sql'']"
proof -
  from tag_file_name [OF assms(1)] have "segments (tag @ ''.sql'') = [tag @ ''.sql'']"
    by (simp add: segments_def split_on_no_sep)
  moreover have "\<not> isAbsolute (tag @ ''.sql'')" by (rule tag_relative [OF assms(1)])
  ultimately show ?thesis
    using tag_file_name [OF assms(1)] assms(2) by (simp add: resolve_def normalise_plain resolved_def)
qed

lemma checkEntry_eq:
  assumes "isJournalTag tag" "resolved folder"
  shows "checkEntry d folder tag = guardE (dsk_access d (folder @ [tag @ ''.sql''])) (PlainError ''Missing migration file'')"
  by (simp add: checkEntry_def resolve_tag [OF assms] relative_child tag_relative tag_no_parent assms(1))

lemma checkEntries_eq:
  "list_all isJournalTag tags \<Longrightarrow> resolved folder \<Longrightarrow> checkEntries d folder tags =
     guardE (\<forall>tag \<in> set tags. dsk_access d (folder @ [tag @ ''.sql''])) (PlainError ''Missing migration file'')"
  by (induction tags) (auto simp: checkEntry_eq guardE_def)

lemma journalEntry_valid: "journalEntry e = Some tag \<Longrightarrow> isJournalTag tag"
  unfolding journalEntry_def by (cases e) (auto split: option.splits json.splits if_splits)

lemma journalTags_valid: "journalTags j = Some tags \<Longrightarrow> list_all isJournalTag tags"
proof -
  assume "journalTags j = Some tags"
  then obtain es where "tags = List.map_filter journalEntry es"
    unfolding journalTags_def by (cases j) (auto split: option.splits json.splits if_splits)
  then have "\<forall>tag \<in> set tags. \<exists>e. journalEntry e = Some tag" by (auto simp: map_filter_def)
  then show ?thesis by (auto simp: list_all_iff dest: journalEntry_valid)
qed

text \<open>
  C30. For a journal whose tags are accepted, checking its entries with \<open>path.resolve\<close> and \<open>path.relative\<close> is
  equivalent to asking whether every file \<open><tag>.sql\<close> exists directly in the migrations folder: no accepted tag leads
  anywhere else on the disk, and the journal is never rejected for where a tag leads.
\<close>

theorem journal_stays_in_folder:
  assumes "dsk_stat d folder = Some True" "dsk_journal d (folder @ [''meta'', ''_journal.json'']) = Some (Some journal)"
    and "journalTags journal = Some tags" "resolved folder"
  shows "validateMigrationsFolder d folder =
    guardE (\<forall>tag \<in> set tags. dsk_access d (folder @ [tag @ ''.sql''])) (PlainError ''Missing migration file'')"
  using assms checkEntries_eq [OF journalTags_valid [OF assms(3)] assms(4)] by (simp add: validateMigrationsFolder_def)

definition sample_disk :: disk where
  "sample_disk = \<lparr>dsk_stat = (\<lambda>_. Some True),
     dsk_journal = (\<lambda>_. Some (Some (JObj [(''entries'', JArr [JObj [(''tag'', JStr ''0000_init'')]])]))),
     dsk_access = (\<lambda>p. p = [''app'', ''drizzle'', ''0000_init.sql''])\<rparr>"

theorem journal_stays_in_folder_witness:
  "validateMigrationsFolder sample_disk [''app'', ''drizzle''] = Inr ()"
proof -
  have "journalTags (JObj [(''entries'', JArr [JObj [(''tag'', JStr ''0000_init'')]])]) = Some [''0000_init'']"
    by code_simp
  then show ?thesis
    using journal_stays_in_folder [of sample_disk "[''app'', ''drizzle'']" _ "[''0000_init'']"]
    by (simp add: sample_disk_def resolved_def)
qed

section \<open>The start\<close>

lemma preflight_database_url:
  "runProductionPreflight newURL cfg = Inr () \<Longrightarrow> validateDatabaseUrl newURL (orElse (cfg ''DATABASE_URL'') []) = Inr ()"
  by (auto simp: runProductionPreflight_def validateDatabaseUrl_def seqE_Inr_iff isTrimmedNonEmptyString_def orElse_def
      split: option.splits)

text \<open>A migration that has ended without a failure has been applied, and one that was applied does not fail any more.\<close>

definition outcome_ok :: "process \<Rightarrow> bool" where
  "outcome_ok p \<longleftrightarrow> (if pr_phase p \<in> {OpenLock, AwaitLock, OpenMigration, WrapMigration, AwaitMigrate}
     then \<not> pr_failed p \<and> \<not> pr_migrated p else pr_failed p = (\<not> pr_migrated p))"

lemma proceed_outcome: "proceed i ok (lock, p) = Some (lock', p') \<Longrightarrow> outcome_ok p \<Longrightarrow> outcome_ok p'"
  by (auto simp: outcome_ok_def afterLock_def proceed.simps split: phase.splits if_splits)

lemma outcome_run: "cluster_run (cluster_start n) es c \<Longrightarrow> list_all outcome_ok (cl_procs c)"
proof (induction rule: cluster_run.induct)
  case run_start
  show ?case by (auto simp: list_all_iff cluster_start_def new_process_def outcome_ok_def)
next
  case (run_step es c e c')
  from run_step.hyps(2) show ?case
  proof (cases rule: cluster_event_step.cases)
    case (goes_on i ok)
    then obtain lock p where "i < length (cl_procs c)" and step: "proceed i ok (cl_lock c, cl_procs c ! i) = Some (lock, p)"
      and c': "c' = \<lparr>cl_lock = lock, cl_procs = (cl_procs c)[i := p]\<rparr>"
      by (auto elim: cluster_stepE)
    with run_step.IH proceed_outcome [OF step] set_update_subset_insert [of "cl_procs c" i p] show ?thesis
      by (auto simp: list_all_iff c')
  qed (use run_step.IH in simp_all)
qed

text \<open>
  C31. A production process serves exactly when its configuration passed the preflight, every file of the migration
  journal was present, the migrations were applied by this process, whose migration has ended, and the application
  came up. This is so in every state that any number of starting processes reach on one database, whatever fails and
  whatever connection is lost: a process whose migration failed at any point, or has not ended, does not serve. The database URL that the
  preflight accepts is never rejected again by the migration.
\<close>

theorem production_serves_only_migrated:
  assumes "cluster_run (cluster_start n) es c" and "i < n"
  shows "startup newURL cfg True d folder (cl_procs c ! i) created = Serving \<longleftrightarrow>
     runProductionPreflight newURL cfg = Inr () \<and> validateMigrationsFolder d folder = Inr ()
     \<and> pr_migrated (cl_procs c ! i) \<and> pr_phase (cl_procs c ! i) = Ended \<and> created = Inr ()"
proof -
  have "outcome_ok (cl_procs c ! i)"
    using outcome_run [OF assms(1)] sure_of_lock_run [OF assms(1)] assms(2) by (simp add: list_all_length)
  then show ?thesis
    using preflight_database_url [of newURL cfg]
    by (auto simp: startup_def seqE_Inr_iff seqE_Inl_iff migration_result_def guardE_def outcome_ok_def split: sum.splits)
qed

definition migrated_cluster :: cluster where
  "migrated_cluster = \<lparr>cl_lock = None,
     cl_procs = [\<lparr>pr_phase = Ended, pr_lockClient = False, pr_migrationClient = False, pr_failed = False, pr_migrated = True\<rparr>]\<rparr>"

lemma migrated_cluster_run:
  "cluster_run (cluster_start 1) (rev (map (\<lambda>(i, ok). Proceeds i ok) (replicate 4 (0, True) @ [(0, True), (0, False), (0, True), (0, True)])) @ [])
     migrated_cluster"
  by (rule drive_run [OF run_start])
    (simp add: proceed.simps afterLock_def migrated_cluster_def cluster_start_def new_process_def numeral_eq_Suc)

definition production_url :: "string \<Rightarrow> parsed_url option" where
  "production_url s = (if s = ''postgres://db/minepanel''
     then Some \<lparr>url_protocol = ''postgres:'', url_username = [], url_password = [], url_pathname = ''/minepanel'', url_search = [],
       url_hash = [], url_origin = ''null'', url_hostname = ''db''\<rparr>
     else if s = ''https://panel.example''
     then Some \<lparr>url_protocol = ''https:'', url_username = [], url_password = [], url_pathname = ''/'', url_search = [],
       url_hash = [], url_origin = ''https://panel.example'', url_hostname = ''panel.example''\<rparr>
     else None)"

definition production_config :: config where
  "production_config = map_of [(''DATABASE_URL'', ''postgres://db/minepanel''), (''JWT_SECRET'', replicate 32 CHR ''s''),
     (''JWT_EXPIRES_IN'', ''15m''), (''ENCRYPTION_KEY'', replicate 64 CHR ''a''), (''CORS_ORIGIN'', ''https://panel.example'')]"

lemma production_checks:
  "runProductionPreflight production_url production_config = Inr () \<and> validateMigrationsFolder sample_disk [''app'', ''drizzle''] = Inr ()"
  by code_simp

theorem production_serves_only_migrated_witness:
  "startup production_url production_config True sample_disk [''app'', ''drizzle''] (cl_procs migrated_cluster ! 0) (Inr ()) = Serving
   \<and> startup production_url production_config True sample_disk [''app'', ''drizzle''] (cl_procs migrating_cluster ! 0) (Inr ()) \<noteq> Serving"
  using production_serves_only_migrated [OF migrated_cluster_run, of 0 production_url production_config sample_disk "[''app'', ''drizzle'']" "Inr ()"]
    production_serves_only_migrated [OF migrating_cluster_run, of 0 production_url production_config sample_disk "[''app'', ''drizzle'']" "Inr ()"]
    production_checks
  by (simp add: migrated_cluster_def migrating_cluster_def)

end
