(* ===== verification/AppModules.thy ===== *)
theory AppModules
  imports MigrateProperties
begin

text \<open>
  The factories of \<open>docker.module.ts\<close> and \<open>db.module.ts\<close> that run when the application is created. The environment of
  the process is a map; the constructor of the Docker client reads the environment as it is at that moment.
\<close>

type_synonym environment = "string \<Rightarrow> string option"

definition createDocker ::
  "config \<Rightarrow> (environment \<Rightarrow> string \<times> int \<Rightarrow> exn + 'client) \<Rightarrow> ('client \<Rightarrow> exn + unit) \<Rightarrow> environment \<Rightarrow>
     (exn + 'client) \<times> environment" where
  "createDocker cfg createDockerClient pingDocker env =
     (let socketPath = orElse (cfg ''DOCKER_SOCKET'') ''/var/run/docker.sock'';
          ambientDockerHost = env ''DOCKER_HOST'';
          env1 = (if ambientDockerHost \<noteq> None then env(''DOCKER_HOST'' := None) else env);
          constructed = createDockerClient env1 (socketPath, DOCKER_REQUEST_TIMEOUT_MS);
          env2 = (case ambientDockerHost of
                    Some host \<Rightarrow> env1(''DOCKER_HOST'' \<mapsto> host)
                  | None \<Rightarrow> env1(''DOCKER_HOST'' := None))
      in (seqE constructed (\<lambda>docker. case pingDocker docker of Inr _ \<Rightarrow> Inr docker | Inl _ \<Rightarrow> Inr docker), env2))"

definition connectDatabase :: "exn + unit \<Rightarrow> 'db \<Rightarrow> exn + 'db" where
  "connectDatabase selected db =
     (case selected of Inr _ \<Rightarrow> Inr db | Inl _ \<Rightarrow> Inl (PlainError ''Database connection failed''))"

text \<open>
  The client is built from the configured socket without an ambient \<open>DOCKER_HOST\<close>; the environment afterwards is the
  one before, also when the constructor throws; a daemon that does not answer is no failure.
\<close>

theorem docker_client_ignores_ambient_host:
  "createDocker cfg createDockerClient pingDocker env =
     (createDockerClient (env(''DOCKER_HOST'' := None))
        (orElse (cfg ''DOCKER_SOCKET'') ''/var/run/docker.sock'', DOCKER_REQUEST_TIMEOUT_MS), env)"
proof (cases "env ''DOCKER_HOST''")
  case None
  then have "env(''DOCKER_HOST'' := None) = env" by auto
  with None show ?thesis
    by (cases "createDockerClient env (orElse (cfg ''DOCKER_SOCKET'') ''/var/run/docker.sock'', DOCKER_REQUEST_TIMEOUT_MS)")
      (auto simp: createDocker_def Let_def split: sum.splits)
next
  case (Some host)
  then have "env(''DOCKER_HOST'' := None, ''DOCKER_HOST'' \<mapsto> host) = env" by auto
  with Some show ?thesis
    by (cases "createDockerClient (env(''DOCKER_HOST'' := None))
        (orElse (cfg ''DOCKER_SOCKET'') ''/var/run/docker.sock'', DOCKER_REQUEST_TIMEOUT_MS)")
      (auto simp: createDocker_def Let_def split: sum.splits)
qed

text \<open>
  The whole start: the outcome of the creation of the application is that of its two factories, so a production process
  that serves has passed the preflight, migrated its database, connected to it and built a Docker client.
\<close>

theorem serving_process_is_connected:
  assumes "startup newURL cfg True d folder ended
     (seqE (connectDatabase selected db) (\<lambda>_. seqE (fst (createDocker cfg createDockerClient pingDocker env)) (\<lambda>_. Inr ()))) = Serving"
  shows "runProductionPreflight newURL cfg = Inr () \<and> pr_phase ended = Ended \<and> \<not> pr_failed ended \<and> selected = Inr () \<and>
    (\<exists>docker. createDockerClient (env(''DOCKER_HOST'' := None))
       (orElse (cfg ''DOCKER_SOCKET'') ''/var/run/docker.sock'', DOCKER_REQUEST_TIMEOUT_MS) = Inr docker)"
  using assms
  by (auto simp: startup_def seqE_Inr_iff connectDatabase_def docker_client_ignores_ambient_host migration_result_def
      split: sum.splits if_splits)

section \<open>The wiring of the application\<close>

text \<open>What \<open>bootstrap\<close> sets on the application between its creation and \<open>listen\<close>.\<close>

datatype middleware = Helmet | CookieParser | RequestId

record swagger_document =
  sd_path :: string
  sd_title :: string
  sd_description :: string
  sd_version :: string

record nest_application =
  na_trustProxy :: int
  na_middleware :: "middleware list"
  na_whitelist :: bool
  na_transform :: bool
  na_forbidNonWhitelisted :: bool
  na_dbExceptionFilter :: bool
  na_shutdownHooks :: bool
  na_corsOrigin :: string
  na_corsCredentials :: bool
  na_socketIoAdapter :: bool
  na_prefix :: string
  na_unprefixed :: "string list"
  na_swagger :: swagger_document
  na_port :: string

definition wireApplication :: "(string \<Rightarrow> url option) \<Rightarrow> config \<Rightarrow> exn + nest_application" where
  "wireApplication newURL cfg =
     seqE (getCanonicalCorsOrigin newURL cfg) (\<lambda>canonicalOrigin.
     Inr \<lparr>na_trustProxy = 1, na_middleware = [Helmet, CookieParser, RequestId],
          na_whitelist = True, na_transform = True, na_forbidNonWhitelisted = True,
          na_dbExceptionFilter = True, na_shutdownHooks = True,
          na_corsOrigin = canonicalOrigin, na_corsCredentials = True, na_socketIoAdapter = True,
          na_prefix = ''api'', na_unprefixed = [''/health''],
          na_swagger = \<lparr>sd_path = ''docs'', sd_title = orElse (cfg ''PANEL_NAME'') ''MinePanel'' @ '' API'',
            sd_description = orElse (cfg ''PANEL_DESCRIPTION'') ''Minecraft server management panel API'',
            sd_version = orElse (cfg ''PANEL_VERSION'') ''N/A''\<rparr>,
          na_port = orElse (cfg ''PORT'') ''3000''\<rparr>)"

text \<open>Where Nest serves a route of a controller.\<close>

definition servedAt :: "nest_application \<Rightarrow> string \<Rightarrow> string" where
  "servedAt app route = (if route \<in> set (na_unprefixed app) then route else ''/'' @ na_prefix app @ route)"

text \<open>
  The wiring agrees with the guards: the one route that an account in recovery may use is served where the guard
  looks for it, the health route is served without the prefix, and browsers may send credentials from exactly the origin that the
  origin guard accepts.
\<close>

theorem wiring_agrees_with_guards:
  assumes "wireApplication newURL cfg = Inr app"
  shows "rq_method rq = ''PATCH'' \<and> rq_path rq = servedAt app ''/auth/password'' \<longleftrightarrow> isPasswordChangeRoute rq"
    and "servedAt app ''/health'' = ''/health''"
    and "rq_origin rq = Header (na_corsOrigin app) \<Longrightarrow> getCanonicalCorsOrigin newURL cfg = Inr canonical \<Longrightarrow>
         csrf_canActivate canonical True rq = Inr ()"
proof -
  from assms have app: "na_prefix app = ''api''" "na_unprefixed app = [''/health'']" "getCanonicalCorsOrigin newURL cfg = Inr (na_corsOrigin app)"
    by (auto simp: wireApplication_def seqE_Inr_iff)
  show "rq_method rq = ''PATCH'' \<and> rq_path rq = servedAt app ''/auth/password'' \<longleftrightarrow> isPasswordChangeRoute rq"
    by (auto simp: servedAt_def app isPasswordChangeRoute_def)
  show "servedAt app ''/health'' = ''/health''" by (simp add: servedAt_def app)
  show "rq_origin rq = Header (na_corsOrigin app) \<Longrightarrow> getCanonicalCorsOrigin newURL cfg = Inr canonical \<Longrightarrow>
      csrf_canActivate canonical True rq = Inr ()"
    by (auto simp: app csrf_canActivate_def isAllowedOrigin_def guardE_def)
qed

end
