(* ===== verification/Postbuild.thy ===== *)
theory Postbuild
  imports Migrate
begin

text \<open>
  \<open>scripts/postbuild.mjs\<close>: the specifiers \<open>require('src/...')\<close> in the compiled files become relative paths, and the
  build fails when one is left. The regular expression is global, so its \<open>test\<close> starts where the last successful one
  ended, also in another file; that index is part of the model.
\<close>

section \<open>The regular expression\<close>

definition is_quote :: "char \<Rightarrow> bool" where
  "is_quote c \<longleftrightarrow> c = CHR 0x27 \<or> c = CHR 0x22"

text \<open>
  A match of \<open>require\((['"])(src\/[^'"]+)\1\)\<close> at the start of a text: the quote, the specifier and the rest of the
  text.
\<close>

definition matchSpecifier :: "string \<Rightarrow> (char \<times> string \<times> string) option" where
  "matchSpecifier s =
     (if \<not> startsWith s ''require('' then None
      else case drop 8 s of
        [] \<Rightarrow> None
      | quote # t \<Rightarrow>
          if is_quote quote \<and> startsWith t ''src/'' \<and> takeWhile (\<lambda>c. \<not> is_quote c) (drop 4 t) \<noteq> [] then
            (case dropWhile (\<lambda>c. \<not> is_quote c) (drop 4 t) of
               close # paren # rest \<Rightarrow>
                 if close = quote \<and> paren = CHR '')''
                 then Some (quote, ''src/'' @ takeWhile (\<lambda>c. \<not> is_quote c) (drop 4 t), rest) else None
             | _ \<Rightarrow> None)
          else None)"

lemma matchSpecifier_shorter:
  assumes "matchSpecifier s = Some (quote, spec, rest)"
  shows "length rest < length s"
proof -
  from assms obtain t close paren where t: "drop 8 s = quote # t"
    and r: "dropWhile (\<lambda>c. \<not> is_quote c) (drop 4 t) = close # paren # rest"
    by (auto simp: matchSpecifier_def split: if_splits list.splits)
  have "length (close # paren # rest) \<le> length (drop 4 t)"
    using length_dropWhile_le [of "\<lambda>c. \<not> is_quote c" "drop 4 t"] unfolding r .
  moreover have "length (quote # t) \<le> length s" using t by (metis length_drop diff_le_self)
  ultimately show ?thesis by simp
qed

section \<open>Rewriting\<close>

text \<open>\<open>source.replace(SPECIFIER_RE, replacement)\<close>\<close>

function replaceSpecifiers :: "(char \<Rightarrow> string \<Rightarrow> string) \<Rightarrow> string \<Rightarrow> string" where
  "replaceSpecifiers f s =
     (case matchSpecifier s of
        Some (quote, spec, rest) \<Rightarrow> f quote spec @ replaceSpecifiers f rest
      | None \<Rightarrow> (case s of [] \<Rightarrow> [] | c # cs \<Rightarrow> c # replaceSpecifiers f cs))"
  by pat_completeness auto

termination replaceSpecifiers
  by (relation "measure (\<lambda>(f, s). length s)") (auto dest: matchSpecifier_shorter)

declare replaceSpecifiers.simps [simp del]

text \<open>The path of a target relative to the folder of a file, both as segments.\<close>

definition relativeTo :: "string list \<Rightarrow> string list \<Rightarrow> string" where
  "relativeTo fromFile target =
     (let rel = relative (butlast fromFile) target in if startsWith rel ''.'' then rel else ''./'' @ rel)"

definition addSuffix :: "string list \<Rightarrow> string \<Rightarrow> string list" where
  "addSuffix p suffix = butlast p @ [last p @ suffix]"

definition rewriteFile :: "(string list \<Rightarrow> bool) \<Rightarrow> string list \<Rightarrow> string list \<Rightarrow> string \<Rightarrow> string" where
  "rewriteFile existsSync distRoot file source =
     replaceSpecifiers (\<lambda>quote spec.
       let target = resolve distRoot spec
       in if \<not> existsSync (addSuffix target ''.js'') \<and> \<not> existsSync (addSuffix target ''.d.ts'')
          then ''require('' @ [quote] @ spec @ [quote] @ '')''
          else ''require('' @ [quote] @ relativeTo file target @ [quote] @ '')'') source"

section \<open>The check that nothing is left\<close>

text \<open>Where a match at or after the start of a text ends, counted from a given index.\<close>

fun findMatch :: "nat \<Rightarrow> string \<Rightarrow> nat option" where
  "findMatch i s =
     (case matchSpecifier s of
        Some (quote, spec, rest) \<Rightarrow> Some (i + (length s - length rest))
      | None \<Rightarrow> (case s of [] \<Rightarrow> None | c # cs \<Rightarrow> findMatch (Suc i) cs))"

declare findMatch.simps [simp del]

text \<open>\<open>jsFiles.filter((file) => SPECIFIER_RE.test(...))\<close>, from a value of \<open>lastIndex\<close>.\<close>

fun leftovers :: "nat \<Rightarrow> (string list \<times> string) list \<Rightarrow> string list list" where
  "leftovers lastIndex [] = []"
| "leftovers lastIndex ((file, source) # files) =
     (case findMatch lastIndex (drop lastIndex source) of
        Some stop \<Rightarrow> file # leftovers stop files
      | None \<Rightarrow> leftovers 0 files)"

text \<open>The files after the script, or its error.\<close>

definition postbuild :: "(string list \<Rightarrow> bool) \<Rightarrow> string list \<Rightarrow> (string list \<times> string) list \<Rightarrow> exn + (string list \<times> string) list" where
  "postbuild existsSync distRoot files =
     (let written = map (\<lambda>(file, source). (file, rewriteFile existsSync distRoot file source)) files
      in if leftovers 0 written \<noteq> [] then Inl (PlainError ''Post-build: unresolved src/ specifiers'') else Inr written)"

section \<open>What a successful build ships\<close>

definition has_specifier :: "string \<Rightarrow> bool" where
  "has_specifier s \<longleftrightarrow> (\<exists>i \<le> length s. matchSpecifier (drop i s) \<noteq> None)"

lemma has_specifier_Cons:
  "has_specifier (c # cs) \<longleftrightarrow> matchSpecifier (c # cs) \<noteq> None \<or> has_specifier cs"
proof
  assume "has_specifier (c # cs)"
  then obtain i where "i \<le> length (c # cs)" "matchSpecifier (drop i (c # cs)) \<noteq> None" by (auto simp: has_specifier_def)
  then show "matchSpecifier (c # cs) \<noteq> None \<or> has_specifier cs" by (cases i) (auto simp: has_specifier_def)
next
  assume "matchSpecifier (c # cs) \<noteq> None \<or> has_specifier cs"
  then show "has_specifier (c # cs)"
  proof
    assume "matchSpecifier (c # cs) \<noteq> None"
    then have "0 \<le> length (c # cs) \<and> matchSpecifier (drop 0 (c # cs)) \<noteq> None" by simp
    then show ?thesis unfolding has_specifier_def by blast
  next
    assume "has_specifier cs"
    then obtain i where "i \<le> length cs" "matchSpecifier (drop i cs) \<noteq> None" by (auto simp: has_specifier_def)
    then have "Suc i \<le> length (c # cs) \<and> matchSpecifier (drop (Suc i) (c # cs)) \<noteq> None" by simp
    then show ?thesis unfolding has_specifier_def by blast
  qed
qed

lemma matchSpecifier_Nil: "matchSpecifier [] = None"
  by (simp add: matchSpecifier_def startsWith_def)

lemma findMatch_iff: "findMatch i s \<noteq> None \<longleftrightarrow> has_specifier s"
proof (induction s arbitrary: i)
  case Nil
  show ?case by (subst findMatch.simps) (simp add: matchSpecifier_Nil has_specifier_def)
next
  case (Cons c cs)
  then show ?case by (subst findMatch.simps) (auto simp: has_specifier_Cons split: option.splits)
qed

lemma leftovers_iff: "leftovers 0 files \<noteq> [] \<longleftrightarrow> (\<exists>(file, source) \<in> set files. has_specifier source)"
proof (induction files)
  case (Cons f files)
  obtain name source where "f = (name, source)" by (cases f)
  with Cons findMatch_iff [of 0 source] show ?case by (auto split: option.splits)
qed simp

text \<open>
  The build fails exactly when a written file still has a specifier of the source tree, although the test of one file
  starts at an index left by another: nothing has matched before the first file that has one. So every file of a
  successful build is free of them.
\<close>

theorem successful_build_has_no_specifiers:
  assumes "postbuild existsSync distRoot files = Inr shipped"
  shows "\<forall>(file, source) \<in> set shipped. \<not> has_specifier source"
  using assms leftovers_iff [of shipped] by (auto simp: postbuild_def Let_def split: if_splits)

text \<open>A file without specifiers is not changed.\<close>

lemma replaceSpecifiers_unchanged: "\<not> has_specifier s \<Longrightarrow> replaceSpecifiers f s = s"
proof (induction s)
  case Nil
  show ?case by (subst replaceSpecifiers.simps) (simp add: matchSpecifier_Nil)
next
  case (Cons c cs)
  then show ?case by (subst replaceSpecifiers.simps) (auto simp: has_specifier_Cons split: option.splits)
qed

lemma rewriteFile_unchanged: "\<not> has_specifier source \<Longrightarrow> rewriteFile existsSync distRoot file source = source"
  unfolding rewriteFile_def by (rule replaceSpecifiers_unchanged)

end
