(* ===== verification/LintTypes.thy ===== *)
theory LintTypes
  imports JsString
begin

text \<open>
  The syntax trees that the lint rules of \<open>tools/oxlint/anti-slop\<close> inspect, and
  \<open>shared/dictionary-types.ts\<close>, the type analysis two of them share. A type node keeps what the rules read of
  it; a list of type arguments that is missing and one that is empty are the same to every rule, and are one empty
  list here.
\<close>

section \<open>Type nodes\<close>

datatype ts_type =
    TSUnknownKeyword
  | TSAnyKeyword
  | TSObjectKeyword
  | TSNeverKeyword
  | TSStringKeyword
  | TSNumberKeyword
  | TSSymbolKeyword
  | TSParenthesizedType ts_type
  | TSTypeOperator string ts_type
  | TSOptionalType ts_type
  | TSRestType ts_type
  | TSArrayType ts_type
  | TSTypeReference "string option" "ts_type list"
  | TSTypeLiteral "ts_member list"
  | TSMappedType string ts_type "ts_type option" "ts_type option"
  | TSUnionType "ts_type list"
  | TSIntersectionType "ts_type list"
  | TSConditionalType ts_type ts_type ts_type ts_type
  | TSIndexedAccessType ts_type ts_type
  | TSTupleType "ts_type list"
  | TSNamedTupleMember ts_type
  | TSFunctionType "ts_type list" ts_type
  | TSConstructorType "ts_type list" ts_type
  | TSImportType "ts_type list"
  | TSTypeQuery "ts_type list"
  | TSTemplateLiteralType "ts_type list"
  | TSTypePredicate "ts_type option"
  | TSInferType string "ts_type option" "ts_type option"
  | TSOtherType string "ts_type list"
and ts_member =
    TSPropertySignature bool "ts_type option"
  | TSIndexSignature "ts_type list" ts_type
  | TSCallSignatureDeclaration "ts_type list" "ts_type option"
  | TSConstructSignatureDeclaration "ts_type list" "ts_type option"
  | TSMethodSignature "ts_type list" "ts_type option"

text \<open>
  A reference has the name of its identifier, none for a qualified name. A mapped type has its key, the constraint
  of the key, the name type and the annotation; functions and signatures have the types among their parameters and
  the type they return; an index signature the types of its parameters and its annotation. \<open>TSOtherType\<close> is every
  type node that no rule tells apart, by its \<open>type\<close> and the types in it.
\<close>

section \<open>Declarations\<close>

record alias_declaration =
  ad_typeParameters :: "(string \<times> ts_type option) list"
  ad_typeAnnotation :: ts_type

record interface_declaration =
  id_extends :: nat
  id_body :: "ts_member list"

datatype import_specifier =
    ImportSpecifier string string
  | ImportDefaultSpecifier string
  | ImportNamespaceSpecifier string

primrec local_name :: "import_specifier \<Rightarrow> string" where
  "local_name (ImportSpecifier localName imported) = localName"
| "local_name (ImportDefaultSpecifier localName) = localName"
| "local_name (ImportNamespaceSpecifier localName) = localName"

datatype module_item =
    ImportDeclaration string "import_specifier list"
  | TSTypeAliasDeclaration string alias_declaration
  | TSInterfaceDeclaration string interface_declaration
  | TSEnumDeclaration string
  | ClassDeclaration "string option"
  | FunctionDeclaration "string option"
  | OtherNode

datatype statement =
    ExportNamedDeclaration "module_item option"
  | ExportDefaultDeclaration module_item
  | Statement module_item

section \<open>The type environment of a module\<close>

definition BUILT_INS :: "string set" where
  "BUILT_INS = {''Record'', ''Readonly'', ''Partial'', ''Required'', ''Pick'', ''Omit'', ''PropertyKey'', ''NonNullable''}"

definition TRANSPARENT_WRAPPERS :: "string set" where
  "TRANSPARENT_WRAPPERS = {''Readonly'', ''Partial'', ''Required'', ''NonNullable''}"

record type_environment =
  te_aliases :: "(string \<times> alias_declaration) list"
  te_interfaces :: "(string \<times> interface_declaration list) list"
  te_shadowedBuiltIns :: "string set"

primrec declaredStatement :: "statement \<Rightarrow> module_item option" where
  "declaredStatement (ExportNamedDeclaration d) = d"
| "declaredStatement (ExportDefaultDeclaration d) = Some d"
| "declaredStatement (Statement d) = Some d"

definition shadow :: "string \<Rightarrow> type_environment \<Rightarrow> type_environment" where
  "shadow name env = (if name \<in> BUILT_INS then env\<lparr>te_shadowedBuiltIns := insert name (te_shadowedBuiltIns env)\<rparr> else env)"

fun declareIn :: "module_item option \<Rightarrow> type_environment \<Rightarrow> type_environment" where
  "declareIn (Some (ImportDeclaration source specifiers)) env = fold (shadow \<circ> local_name) specifiers env"
| "declareIn (Some (TSTypeAliasDeclaration name d)) env =
     shadow name
       (if map_of (te_aliases env) name = None then env\<lparr>te_aliases := AList.update name d (te_aliases env)\<rparr>
        else env\<lparr>te_shadowedBuiltIns := insert name (te_shadowedBuiltIns env)\<rparr>)"
| "declareIn (Some (TSInterfaceDeclaration name d)) env =
     shadow name
       (env\<lparr>te_interfaces := AList.update name
          ((case map_of (te_interfaces env) name of None \<Rightarrow> [] | Some ds \<Rightarrow> ds) @ [d]) (te_interfaces env)\<rparr>)"
| "declareIn (Some (TSEnumDeclaration name)) env = shadow name env"
| "declareIn (Some (ClassDeclaration (Some name))) env = shadow name env"
| "declareIn (Some (FunctionDeclaration (Some name))) env = shadow name env"
| "declareIn _ env = env"

definition createTypeEnvironment :: "statement list \<Rightarrow> type_environment" where
  "createTypeEnvironment body =
     fold (declareIn \<circ> declaredStatement) body \<lparr>te_aliases = [], te_interfaces = [], te_shadowedBuiltIns = {}\<rparr>"

definition isBuiltIn :: "string \<Rightarrow> type_environment \<Rightarrow> bool" where
  "isBuiltIn name env \<longleftrightarrow> name \<in> BUILT_INS \<and> name \<notin> te_shadowedBuiltIns env"

definition isTransparent :: "string \<Rightarrow> type_environment \<Rightarrow> bool" where
  "isTransparent name env \<longleftrightarrow> name \<in> TRANSPARENT_WRAPPERS \<and> isBuiltIn name env"

section \<open>Empty types\<close>

fun unwrapTransparentType :: "ts_type \<Rightarrow> ts_type" where
  "unwrapTransparentType (TSParenthesizedType t) = unwrapTransparentType t"
| "unwrapTransparentType (TSTypeOperator op t) =
     (if op = ''readonly'' then unwrapTransparentType t else TSTypeOperator op t)"
| "unwrapTransparentType t = t"

definition isUnappliedReferenceTo :: "ts_type \<Rightarrow> string \<Rightarrow> bool" where
  "isUnappliedReferenceTo type name \<longleftrightarrow> unwrapTransparentType type = TSTypeReference (Some name) []"

definition isNeverType :: "ts_type \<Rightarrow> bool" where
  "isNeverType type \<longleftrightarrow> unwrapTransparentType type = TSNeverKeyword"

fun isEffectivelyEmptyMember :: "ts_member \<Rightarrow> bool" where
  "isEffectivelyEmptyMember (TSPropertySignature True (Some t)) = isNeverType t"
| "isEffectivelyEmptyMember _ = False"

definition isEffectivelyEmptyTypeLiteral :: "ts_member list \<Rightarrow> bool" where
  "isEffectivelyEmptyTypeLiteral members \<longleftrightarrow> members = [] \<or> list_all isEffectivelyEmptyMember members"

definition isEffectivelyEmptyInterface :: "interface_declaration list \<Rightarrow> bool" where
  "isEffectivelyEmptyInterface ds = (case ds of
     [d] \<Rightarrow> id_extends d = 0 \<and> (id_body d = [] \<or> list_all isEffectivelyEmptyMember (id_body d))
   | _ \<Rightarrow> False)"

section \<open>Substitutions for the parameters of an alias\<close>

type_synonym substitutions = "(string \<times> ts_type) list"

function resolvedSubstitutionArgument :: "ts_type \<Rightarrow> substitutions \<Rightarrow> string set \<Rightarrow> ts_type" where
  "resolvedSubstitutionArgument type base resolving =
     (case unwrapTransparentType type of
        TSTypeReference (Some name) args \<Rightarrow>
          if name \<in> resolving then type
          else (case map_of base name of
                  None \<Rightarrow> type
                | Some substitution \<Rightarrow> resolvedSubstitutionArgument substitution base (insert name resolving))
      | _ \<Rightarrow> type)"
  by pat_completeness auto

lemma fewer_names:
  assumes "map_of base name = Some v" "name \<notin> seen"
  shows "card (set (map fst base) - insert name seen) < card (set (map fst base) - seen)"
proof (rule psubset_card_mono)
  have "name \<in> set (map fst base)" using map_of_SomeD [OF assms(1)] by force
  with assms(2) show "set (map fst base) - insert name seen \<subset> set (map fst base) - seen" by blast
qed simp

termination resolvedSubstitutionArgument
  by (relation "measure (\<lambda>(type, base, resolving). card (set (map fst base) - resolving))")
    (simp_all add: fewer_names del: set_map)

declare resolvedSubstitutionArgument.simps [simp del]

fun bindParameters :: "(string \<times> ts_type option) list \<Rightarrow> ts_type list \<Rightarrow> substitutions \<Rightarrow> substitutions option" where
  "bindParameters [] args acc = Some acc"
| "bindParameters ((name, dflt) # ps) args acc =
     (case (case args of [] \<Rightarrow> dflt | a # _ \<Rightarrow> Some a) of
        None \<Rightarrow> None
      | Some argument \<Rightarrow>
          bindParameters ps (tl args) (AList.update name (resolvedSubstitutionArgument argument acc {}) acc))"

definition aliasSubstitution :: "alias_declaration \<Rightarrow> ts_type list \<Rightarrow> substitutions \<Rightarrow> substitutions option" where
  "aliasSubstitution d args base = bindParameters (ad_typeParameters d) args base"

section \<open>Unsafe dictionary values\<close>

text \<open>
  The analysis follows substitutions and aliases without a bound of its own, so it can recurse until the stack is
  exhausted. The first argument is the depth of calls the stack allows; \<open>None\<close> is the \<open>RangeError\<close> of a stack
  that was not deep enough. \<open>someM\<close> is \<open>Array.some\<close> and \<open>everyM\<close> is \<open>Array.every\<close>, which stop at the first
  decisive element; \<open>mapM\<close> is \<open>Array.map\<close>.
\<close>

fun someM :: "('a \<Rightarrow> bool option) \<Rightarrow> 'a list \<Rightarrow> bool option" where
  "someM f [] = Some False"
| "someM f (x # xs) = Option.bind (f x) (\<lambda>b. if b then Some True else someM f xs)"

fun everyM :: "('a \<Rightarrow> bool option) \<Rightarrow> 'a list \<Rightarrow> bool option" where
  "everyM f [] = Some True"
| "everyM f (x # xs) = Option.bind (f x) (\<lambda>b. if b then everyM f xs else Some False)"

fun mapM :: "('a \<Rightarrow> 'b option) \<Rightarrow> 'a list \<Rightarrow> 'b list option" where
  "mapM f [] = Some []"
| "mapM f (x # xs) = Option.bind (f x) (\<lambda>y. Option.bind (mapM f xs) (\<lambda>ys. Some (y # ys)))"

datatype unsafe_value = AnyValue | EmptyObjectValue | ObjectValue | UnionValue | UnknownValue

definition first_argument :: "ts_type list \<Rightarrow> ts_type option" where
  "first_argument args = (case args of [] \<Rightarrow> None | a # _ \<Rightarrow> Some a)"

definition intersectionValue :: "unsafe_value option list \<Rightarrow> unsafe_value option" where
  "intersectionValue unsafeMembers =
     (if Some AnyValue \<in> set unsafeMembers then Some AnyValue
      else if unsafeMembers \<noteq> [] \<and> list_all (\<lambda>m. m \<noteq> None) unsafeMembers then hd unsafeMembers
      else None)"

fun unsafeDirectValue ::
  "nat \<Rightarrow> type_environment \<Rightarrow> ts_type \<Rightarrow> substitutions \<Rightarrow> string set \<Rightarrow> unsafe_value option option" where
  "unsafeDirectValue 0 env type substs resolvingAliases = None"
| "unsafeDirectValue (Suc n) env type substs resolvingAliases =
     (case unwrapTransparentType type of
        TSUnknownKeyword \<Rightarrow> Some (Some UnknownValue)
      | TSAnyKeyword \<Rightarrow> Some (Some AnyValue)
      | TSObjectKeyword \<Rightarrow> Some (Some ObjectValue)
      | TSTypeLiteral members \<Rightarrow> Some (if isEffectivelyEmptyTypeLiteral members then Some EmptyObjectValue else None)
      | TSUnionType types \<Rightarrow>
          Option.bind (someM (\<lambda>m. map_option (\<lambda>v. v \<noteq> None) (unsafeDirectValue n env m substs resolvingAliases)) types)
            (\<lambda>b. Some (if b then Some UnionValue else None))
      | TSIntersectionType types \<Rightarrow>
          Option.bind (mapM (\<lambda>m. unsafeDirectValue n env m substs resolvingAliases) types) (\<lambda>ms. Some (intersectionValue ms))
      | TSTypeReference (Some name) args \<Rightarrow>
          if isTransparent name env then
            (case first_argument args of
               None \<Rightarrow> Some None
             | Some wrapped \<Rightarrow> unsafeDirectValue n env wrapped substs resolvingAliases)
          else (case map_of substs name of
            Some substitution \<Rightarrow>
              if isUnappliedReferenceTo substitution name then Some None
              else unsafeDirectValue n env substitution substs resolvingAliases
          | None \<Rightarrow> (case map_of (te_interfaces env) name of
              Some ds \<Rightarrow> Some (if isEffectivelyEmptyInterface ds then Some EmptyObjectValue else None)
            | None \<Rightarrow> (case map_of (te_aliases env) name of
                None \<Rightarrow> Some None
              | Some d \<Rightarrow>
                  if name \<in> resolvingAliases then Some None
                  else (case aliasSubstitution d args substs of
                    None \<Rightarrow> Some None
                  | Some nextSubsts \<Rightarrow>
                      unsafeDirectValue n env (ad_typeAnnotation d) nextSubsts (insert name resolvingAliases)))))
      | _ \<Rightarrow> Some None)"

definition indexSignatureTypes :: "ts_member list \<Rightarrow> ts_type list" where
  "indexSignatureTypes members = List.map_filter (\<lambda>m. case m of TSIndexSignature ps t \<Rightarrow> Some t | _ \<Rightarrow> None) members"

fun dictionaryValueTypes ::
  "nat \<Rightarrow> type_environment \<Rightarrow> ts_type \<Rightarrow> substitutions \<Rightarrow> string set \<Rightarrow> (ts_type \<times> substitutions) list option" where
  "dictionaryValueTypes 0 env type substs resolvingAliases = None"
| "dictionaryValueTypes (Suc n) env type substs resolvingAliases =
     (case unwrapTransparentType type of
        TSTypeLiteral members \<Rightarrow> Some (map (\<lambda>t. (t, substs)) (indexSignatureTypes members))
      | TSMappedType key constraint nameType annotation \<Rightarrow>
          Some (case annotation of None \<Rightarrow> [] | Some t \<Rightarrow> [(t, substs)])
      | TSTypeReference (Some name) args \<Rightarrow>
          (case map_of substs name of
             Some substitution \<Rightarrow>
               if isUnappliedReferenceTo substitution name then Some []
               else dictionaryValueTypes n env substitution substs resolvingAliases
           | None \<Rightarrow>
               if isTransparent name env then
                 (case first_argument args of
                    None \<Rightarrow> Some []
                  | Some wrapped \<Rightarrow> dictionaryValueTypes n env wrapped substs resolvingAliases)
               else if name = ''Record'' \<and> isBuiltIn name env then
                 Some (if length args < 2 then [] else [(args ! 1, substs)])
               else if (name = ''Pick'' \<or> name = ''Omit'') \<and> isBuiltIn name env then
                 (case first_argument args of
                    None \<Rightarrow> Some []
                  | Some source \<Rightarrow> dictionaryValueTypes n env source substs resolvingAliases)
               else (case map_of (te_aliases env) name of
                 None \<Rightarrow> Some []
               | Some d \<Rightarrow>
                   if name \<in> resolvingAliases then Some []
                   else (case aliasSubstitution d args substs of
                     None \<Rightarrow> Some []
                   | Some nextSubsts \<Rightarrow>
                       dictionaryValueTypes n env (ad_typeAnnotation d) nextSubsts (insert name resolvingAliases))))
      | _ \<Rightarrow> Some [])"

definition classifyUnsafeDictionaryValue :: "nat \<Rightarrow> type_environment \<Rightarrow> ts_type \<Rightarrow> unsafe_value option option" where
  "classifyUnsafeDictionaryValue n env valueType = unsafeDirectValue n env valueType [] {}"

fun firstUnsafe :: "nat \<Rightarrow> type_environment \<Rightarrow> (ts_type \<times> substitutions) list \<Rightarrow> unsafe_value option option" where
  "firstUnsafe n env [] = Some None"
| "firstUnsafe n env ((type, substs) # rest) =
     Option.bind (unsafeDirectValue n env type substs {})
       (\<lambda>v. if v \<noteq> None then Some v else firstUnsafe n env rest)"

definition classifyUnsafeDictionary :: "nat \<Rightarrow> type_environment \<Rightarrow> ts_type \<Rightarrow> unsafe_value option option" where
  "classifyUnsafeDictionary n env type =
     Option.bind (dictionaryValueTypes n env type [] {}) (firstUnsafe n env)"

section \<open>Widening targets\<close>

datatype widening_target = AnonymousObject | GenericContainer | ObjectTarget | OpenDictionary | UnknownTarget

definition resolvesToDictionary :: "nat \<Rightarrow> type_environment \<Rightarrow> ts_type \<Rightarrow> substitutions \<Rightarrow> string set \<Rightarrow> bool option" where
  "resolvesToDictionary n env type substs resolvingAliases =
     map_option (\<lambda>ts. ts \<noteq> []) (dictionaryValueTypes n env type substs resolvingAliases)"

fun is_index_signature :: "ts_member \<Rightarrow> bool" where
  "is_index_signature (TSIndexSignature ps t) = True"
| "is_index_signature _ = False"

fun isBroadMappedKey :: "nat \<Rightarrow> type_environment \<Rightarrow> ts_type \<Rightarrow> substitutions \<Rightarrow> bool option" where
  "isBroadMappedKey 0 env type substs = None"
| "isBroadMappedKey (Suc n) env type substs =
     (case unwrapTransparentType type of
        TSStringKeyword \<Rightarrow> Some True
      | TSNumberKeyword \<Rightarrow> Some True
      | TSSymbolKeyword \<Rightarrow> Some True
      | TSUnionType types \<Rightarrow> everyM (\<lambda>m. isBroadMappedKey n env m substs) types
      | TSTypeReference (Some name) args \<Rightarrow>
          (case map_of substs name of
             Some substitution \<Rightarrow>
               if \<not> isUnappliedReferenceTo substitution name then isBroadMappedKey n env substitution substs
               else Some (name = ''PropertyKey'' \<and> isBuiltIn name env)
           | None \<Rightarrow> Some (name = ''PropertyKey'' \<and> isBuiltIn name env))
      | _ \<Rightarrow> Some False)"

fun classifyAliasBroadTarget ::
  "nat \<Rightarrow> type_environment \<Rightarrow> ts_type \<Rightarrow> substitutions \<Rightarrow> string set \<Rightarrow> widening_target option option" where
  "classifyAliasBroadTarget 0 env type substs resolvingAliases = None"
| "classifyAliasBroadTarget (Suc n) env type substs resolvingAliases =
     (case unwrapTransparentType type of
        TSUnknownKeyword \<Rightarrow> Some (Some UnknownTarget)
      | TSObjectKeyword \<Rightarrow> Some (Some ObjectTarget)
      | TSTypeLiteral members \<Rightarrow> Some (if list_ex is_index_signature members then Some OpenDictionary else None)
      | TSMappedType key constraint nameType annotation \<Rightarrow>
          map_option (\<lambda>b. if b then Some OpenDictionary else None) (isBroadMappedKey n env constraint substs)
      | TSTypeReference (Some name) args \<Rightarrow>
          (case map_of substs name of
             Some substitution \<Rightarrow>
               if isUnappliedReferenceTo substitution name then Some None
               else classifyAliasBroadTarget n env substitution substs resolvingAliases
           | None \<Rightarrow>
               if isTransparent name env then
                 (case first_argument args of
                    None \<Rightarrow> Some None
                  | Some wrapped \<Rightarrow> classifyAliasBroadTarget n env wrapped substs resolvingAliases)
               else if name = ''Record'' \<and> isBuiltIn name env then Some (Some OpenDictionary)
               else (case map_of (te_aliases env) name of
                 None \<Rightarrow> Some None
               | Some d \<Rightarrow>
                   if name \<in> resolvingAliases then Some None
                   else (case aliasSubstitution d args substs of
                     None \<Rightarrow> Some None
                   | Some nextSubsts \<Rightarrow>
                       classifyAliasBroadTarget n env (ad_typeAnnotation d) nextSubsts (insert name resolvingAliases))))
      | _ \<Rightarrow> Some None)"

fun classifyWideningTarget :: "nat \<Rightarrow> type_environment \<Rightarrow> ts_type \<Rightarrow> widening_target option option" where
  "classifyWideningTarget 0 env type = None"
| "classifyWideningTarget (Suc n) env type =
     (case unwrapTransparentType type of
        TSUnknownKeyword \<Rightarrow> Some (Some UnknownTarget)
      | TSObjectKeyword \<Rightarrow> Some (Some ObjectTarget)
      | TSTypeLiteral members \<Rightarrow>
          Some (if list_ex is_index_signature members then Some OpenDictionary
                else if members \<noteq> [] then Some AnonymousObject else None)
      | TSMappedType key constraint nameType annotation \<Rightarrow> Some (Some OpenDictionary)
      | TSTypeReference (Some name) args \<Rightarrow>
          if isTransparent name env then
            (case first_argument args of None \<Rightarrow> Some None | Some wrapped \<Rightarrow> classifyWideningTarget n env wrapped)
          else if name = ''Record'' \<and> isBuiltIn name env then Some (Some OpenDictionary)
          else (case map_of (te_aliases env) name of
            None \<Rightarrow> Some None
          | Some d \<Rightarrow>
              (case aliasSubstitution d args [] of
                 None \<Rightarrow> Some None
               | Some substs \<Rightarrow>
                   if ad_typeParameters d \<noteq> [] then
                     map_option (\<lambda>b. if b then Some GenericContainer else None)
                       (resolvesToDictionary n env (ad_typeAnnotation d) substs {name})
                   else classifyAliasBroadTarget n env (ad_typeAnnotation d) substs {name}))
      | _ \<Rightarrow> Some None)"

declare unsafeDirectValue.simps(2) [simp del] dictionaryValueTypes.simps(2) [simp del]
  isBroadMappedKey.simps(2) [simp del] classifyAliasBroadTarget.simps(2) [simp del]
  classifyWideningTarget.simps(2) [simp del]

end
