(* ===== verification/LintTypesProperties.thy ===== *)
theory LintTypesProperties
  imports LintTypes
begin

text \<open>
  The type analysis of the lint rules: which built-in names a module shadows, for which modules the analysis always
  ends, and a module for which it never does.
\<close>

section \<open>Built-in names\<close>

text \<open>The names a module declares or imports at its top level.\<close>

fun declared_names :: "module_item option \<Rightarrow> string set" where
  "declared_names (Some (ImportDeclaration source specifiers)) = local_name ` set specifiers"
| "declared_names (Some (TSTypeAliasDeclaration name d)) = {name}"
| "declared_names (Some (TSInterfaceDeclaration name d)) = {name}"
| "declared_names (Some (TSEnumDeclaration name)) = {name}"
| "declared_names (Some (ClassDeclaration (Some name))) = {name}"
| "declared_names (Some (FunctionDeclaration (Some name))) = {name}"
| "declared_names _ = {}"

lemma isBuiltIn_shadow: "isBuiltIn name (shadow x env) \<longleftrightarrow> isBuiltIn name env \<and> name \<noteq> x"
  by (auto simp: isBuiltIn_def shadow_def)

lemma isBuiltIn_fold_shadow:
  "isBuiltIn name (fold (shadow \<circ> local_name) ss env) \<longleftrightarrow> isBuiltIn name env \<and> name \<notin> local_name ` set ss"
  by (induction ss arbitrary: env) (auto simp: isBuiltIn_shadow)

lemma isBuiltIn_update [simp]:
  "isBuiltIn name (env\<lparr>te_aliases := as\<rparr>) = isBuiltIn name env"
  "isBuiltIn name (env\<lparr>te_interfaces := is\<rparr>) = isBuiltIn name env"
  "isBuiltIn name (env\<lparr>te_shadowedBuiltIns := insert x (te_shadowedBuiltIns env)\<rparr>) \<longleftrightarrow> isBuiltIn name env \<and> name \<noteq> x"
  by (auto simp: isBuiltIn_def)

lemma isBuiltIn_declareIn: "isBuiltIn name (declareIn d env) \<longleftrightarrow> isBuiltIn name env \<and> name \<notin> declared_names d"
  by (induction d env rule: declareIn.induct) (auto simp: isBuiltIn_shadow isBuiltIn_fold_shadow split: option.splits)

lemma isBuiltIn_fold_declareIn:
  "isBuiltIn name (fold (declareIn \<circ> declaredStatement) body env) \<longleftrightarrow>
     isBuiltIn name env \<and> (\<forall>s \<in> set body. name \<notin> declared_names (declaredStatement s))"
  by (induction body arbitrary: env) (auto simp: isBuiltIn_declareIn)

text \<open>
  A name like \<open>Record\<close> stands for TypeScript's own type exactly when no top-level statement of the module declares
  or imports it, whatever the order of the statements and whether they are exported or not.
\<close>

theorem built_in_unless_declared:
  "isBuiltIn name (createTypeEnvironment body) \<longleftrightarrow>
     name \<in> BUILT_INS \<and> name \<notin> (\<Union>s \<in> set body. declared_names (declaredStatement s))"
  by (auto simp: createTypeEnvironment_def isBuiltIn_fold_declareIn) (auto simp: isBuiltIn_def)

section \<open>Where the analysis ends\<close>

lemma size_unwrap: "size (unwrapTransparentType t) \<le> size t"
  by (induction t rule: unwrapTransparentType.induct) auto

lemma unwrapped_size: "unwrapTransparentType t = u \<Longrightarrow> size u \<le> size t"
  using size_unwrap by blast

lemma size_member: "x \<in> set xs \<Longrightarrow> size x < Suc (size_list size xs)"
  by (induction xs) auto

lemma first_argument_size: "first_argument args = Some a \<Longrightarrow> size a < Suc (size_list size args)"
  by (cases args) (auto simp: first_argument_def)

text \<open>A module none of whose type aliases has type parameters.\<close>

definition non_generic :: "type_environment \<Rightarrow> bool" where
  "non_generic env \<longleftrightarrow> (\<forall>(name, d) \<in> set (te_aliases env). ad_typeParameters d = [])"

text \<open>The sizes of the aliases that are not being resolved.\<close>

definition alias_size :: "type_environment \<Rightarrow> string set \<Rightarrow> nat" where
  "alias_size env V = sum_list (map (\<lambda>(name, d). size (ad_typeAnnotation d)) (filter (\<lambda>(name, d). name \<notin> V) (te_aliases env)))"

lemma alias_size_drop:
  fixes as :: "(string \<times> alias_declaration) list"
  assumes "map_of as name = Some d" "name \<notin> V"
  shows "size (ad_typeAnnotation d)
      + sum_list (map (\<lambda>(name, d). size (ad_typeAnnotation d)) (filter (\<lambda>(x, d). x \<notin> insert name V) as))
    \<le> sum_list (map (\<lambda>(name, d). size (ad_typeAnnotation d)) (filter (\<lambda>(x, d). x \<notin> V) as))"
proof -
  have le: "sum_list (map f (filter (\<lambda>(x, d). x \<notin> insert name V) xs)) \<le> sum_list (map f (filter (\<lambda>(x, d). x \<notin> V) xs))"
    for f :: "string \<times> alias_declaration \<Rightarrow> nat" and xs :: "(string \<times> alias_declaration) list"
    by (induction xs) auto
  show ?thesis
    using assms
  proof (induction as)
    case (Cons a as)
    show ?case
    proof (cases "fst a = name")
      case True
      with Cons.prems le [of "\<lambda>(name, d). size (ad_typeAnnotation d)" as] show ?thesis by (cases a) auto
    next
      case False
      with Cons show ?thesis by (cases a) auto
    qed
  qed simp
qed

lemma alias_size_insert:
  "map_of (te_aliases env) name = Some d \<Longrightarrow> name \<notin> V \<Longrightarrow>
     size (ad_typeAnnotation d) + alias_size env (insert name V) \<le> alias_size env V"
  unfolding alias_size_def by (rule alias_size_drop)

lemma non_generic_substitution:
  "non_generic env \<Longrightarrow> map_of (te_aliases env) name = Some d \<Longrightarrow> aliasSubstitution d args substs = Some substs"
  by (auto simp: non_generic_def aliasSubstitution_def dest!: map_of_SomeD)

lemma someM_defined: "\<forall>x \<in> set xs. f x \<noteq> None \<Longrightarrow> someM f xs \<noteq> None"
  by (induction xs) auto

lemma everyM_defined: "\<forall>x \<in> set xs. f x \<noteq> None \<Longrightarrow> everyM f xs \<noteq> None"
  by (induction xs) auto

lemma mapM_defined: "\<forall>x \<in> set xs. f x \<noteq> None \<Longrightarrow> mapM f xs \<noteq> None"
  by (induction xs) auto

lemma bind_defined: "x \<noteq> None \<Longrightarrow> (\<And>y. f y \<noteq> None) \<Longrightarrow> Option.bind x f \<noteq> None"
  by auto

lemma unsafeDirectValue_defined:
  "non_generic env \<Longrightarrow> size t + alias_size env V < n \<Longrightarrow> unsafeDirectValue n env t [] V \<noteq> None"
proof (induction n arbitrary: t V)
  case (Suc n)
  have rec: "unsafeDirectValue n env u [] V \<noteq> None" if "size u < size (unwrapTransparentType t)" for u
    using Suc that size_unwrap [of t] by auto
  have body_of: "unsafeDirectValue n env (ad_typeAnnotation d) [] (insert name V) \<noteq> None"
    if "map_of (te_aliases env) name = Some d" "name \<notin> V" "0 < size (unwrapTransparentType t)" for name d
    using Suc.IH [OF Suc.prems(1), of "ad_typeAnnotation d" "insert name V"] alias_size_insert [OF that(1,2)] that(3)
      Suc.prems(2) size_unwrap [of t] by linarith
  show ?case
  proof (cases "unwrapTransparentType t")
    case (TSUnionType ts)
    have "\<forall>x \<in> set ts. unsafeDirectValue n env x [] V \<noteq> None"
      using TSUnionType by (intro ballI rec) (simp add: size_member)
    then have "someM (\<lambda>m. map_option (\<lambda>v. v \<noteq> None) (unsafeDirectValue n env m [] V)) ts \<noteq> None"
      by (intro someM_defined) simp
    then show ?thesis using TSUnionType by (simp add: unsafeDirectValue.simps bind_defined del: not_None_eq)
  next
    case (TSIntersectionType ts)
    have "\<forall>x \<in> set ts. unsafeDirectValue n env x [] V \<noteq> None"
      using TSIntersectionType by (intro ballI rec) (simp add: size_member)
    then have "mapM (\<lambda>m. unsafeDirectValue n env m [] V) ts \<noteq> None"
      by (rule mapM_defined)
    then show ?thesis using TSIntersectionType by (simp add: unsafeDirectValue.simps bind_defined del: not_None_eq)
  next
    case (TSTypeReference x args)
    show ?thesis
    proof (cases x)
      case (Some name)
      with TSTypeReference have eq: "unwrapTransparentType t = TSTypeReference (Some name) args" by simp
      have arg: "unsafeDirectValue n env a [] V \<noteq> None" if "first_argument args = Some a" for a
        using rec [of a] first_argument_size [OF that] eq by simp
      have body: "unsafeDirectValue n env (ad_typeAnnotation d) [] (insert name V) \<noteq> None"
        if "map_of (te_aliases env) name = Some d" "name \<notin> V" for d
        using body_of [OF that] eq by simp
      show ?thesis
        using arg body non_generic_substitution [OF Suc.prems(1)]
        by (simp add: unsafeDirectValue.simps eq split: option.splits)
    qed (simp add: unsafeDirectValue.simps TSTypeReference)
  qed (simp_all add: unsafeDirectValue.simps)
qed simp

text \<open>The value types of a dictionary are parts of the type or of an alias.\<close>

lemma index_signature_size:
  assumes "u \<in> set (indexSignatureTypes members)"
  shows "size u < size (TSTypeLiteral members)"
proof -
  from assms obtain ps where "TSIndexSignature ps u \<in> set members"
    by (auto simp: indexSignatureTypes_def map_filter_def split: ts_member.splits)
  from size_member [OF this] show ?thesis by simp
qed

lemma nth_size: "i < length xs \<Longrightarrow> size (xs ! i) < Suc (size_list size xs)"
  by (rule size_member) simp

definition value_parts :: "type_environment \<Rightarrow> ts_type \<Rightarrow> string set \<Rightarrow> (ts_type \<times> substitutions) list option \<Rightarrow> bool" where
  "value_parts env t V r \<longleftrightarrow>
     (\<exists>us. r = Some us \<and> (\<forall>(u, substs) \<in> set us. substs = [] \<and> size u \<le> size t + alias_size env V))"

lemma value_parts_mono:
  "value_parts env u W r \<Longrightarrow> size u + alias_size env W \<le> size t + alias_size env V \<Longrightarrow> value_parts env t V r"
  unfolding value_parts_def by fastforce

lemma value_parts_simps [simp]:
  "value_parts env t V (Some [])"
  "value_parts env t V (Some ((u, substs) # us)) \<longleftrightarrow>
     substs = [] \<and> size u \<le> size t + alias_size env V \<and> value_parts env t V (Some us)"
  by (auto simp: value_parts_def)

lemma value_parts_map:
  "\<forall>u \<in> set us. size u \<le> size t + alias_size env V \<Longrightarrow> value_parts env t V (Some (map (\<lambda>u. (u, [])) us))"
  by (auto simp: value_parts_def)

lemma dictionaryValueTypes_parts:
  "non_generic env \<Longrightarrow> size t + alias_size env V < n \<Longrightarrow> value_parts env t V (dictionaryValueTypes n env t [] V)"
proof (induction n arbitrary: t V)
  case (Suc n)
  note unwrap = size_unwrap [of t]
  show ?case
  proof (cases "unwrapTransparentType t")
    case (TSTypeLiteral members)
    have "value_parts env t V (Some (map (\<lambda>u. (u, [])) (indexSignatureTypes members)))"
      using index_signature_size unwrap TSTypeLiteral by (intro value_parts_map) fastforce
    then show ?thesis by (simp add: dictionaryValueTypes.simps TSTypeLiteral)
  next
    case (TSMappedType key constraint nameType annotation)
    with unwrap show ?thesis by (cases annotation) (auto simp: dictionaryValueTypes.simps)
  next
    case (TSTypeReference x args)
    show ?thesis
    proof (cases x)
      case (Some name)
      with TSTypeReference have eq: "unwrapTransparentType t = TSTypeReference (Some name) args" by simp
      have arg: "value_parts env t V (dictionaryValueTypes n env a [] V)" if "first_argument args = Some a" for a
        using Suc.IH [OF Suc.prems(1), of a V] Suc.prems(2) first_argument_size [OF that] unwrap eq
        by (fastforce elim: value_parts_mono)
      have body: "value_parts env t V (dictionaryValueTypes n env (ad_typeAnnotation d) [] (insert name V))"
        if "map_of (te_aliases env) name = Some d" "name \<notin> V" for d
        using Suc.IH [OF Suc.prems(1), of "ad_typeAnnotation d" "insert name V"] Suc.prems(2)
          alias_size_insert [OF that] unwrap eq by (fastforce elim: value_parts_mono)
      have second: "size (args ! Suc 0) \<le> size t + alias_size env V" if "\<not> length args < 2"
        using nth_size [of 1 args] that unwrap eq by simp
      show ?thesis
        using arg body second non_generic_substitution [OF Suc.prems(1)]
        by (simp add: dictionaryValueTypes.simps eq split: option.splits)
    qed (simp add: dictionaryValueTypes.simps TSTypeReference)
  qed (simp_all add: dictionaryValueTypes.simps)
qed simp

lemma firstUnsafe_defined:
  "\<forall>(u, substs) \<in> set us. unsafeDirectValue n env u substs {} \<noteq> None \<Longrightarrow> firstUnsafe n env us \<noteq> None"
  by (induction us) auto

text \<open>
  In a module whose type aliases have no type parameters, cyclic ones included, the analysis of every type ends:
  a stack as deep as the size of the type and twice the sizes of the aliases suffices for it.
\<close>

theorem dictionary_analysis_ends:
  assumes "non_generic env" "size t + 2 * alias_size env {} < n"
  shows "classifyUnsafeDictionary n env t \<noteq> None"
proof -
  have "value_parts env t {} (dictionaryValueTypes n env t [] {})"
    using assms by (intro dictionaryValueTypes_parts) auto
  then obtain us where us: "dictionaryValueTypes n env t [] {} = Some us"
    and small: "\<forall>(u, substs) \<in> set us. substs = [] \<and> size u \<le> size t + alias_size env {}"
    by (auto simp: value_parts_def)
  have "\<forall>(u, substs) \<in> set us. unsafeDirectValue n env u substs {} \<noteq> None"
  proof (rule ballI)
    fix x assume x: "x \<in> set us"
    obtain u substs where p: "x = (u, substs)" by (cases x)
    with small x have "substs = []" "size u + alias_size env {} < n" using assms(2) by fastforce+
    with unsafeDirectValue_defined [OF assms(1), of u "{}" n] p
    show "case x of (u, substs) \<Rightarrow> unsafeDirectValue n env u substs {} \<noteq> None" by simp
  qed
  from firstUnsafe_defined [OF this] show ?thesis by (simp add: classifyUnsafeDictionary_def us)
qed

text \<open>Two aliases that refer to each other: \<open>type A = B\<close> and \<open>type B = A\<close>.\<close>

definition cyclic_module :: "statement list" where
  "cyclic_module =
     [Statement (TSTypeAliasDeclaration ''A'' \<lparr>ad_typeParameters = [], ad_typeAnnotation = TSTypeReference (Some ''B'') []\<rparr>),
      Statement (TSTypeAliasDeclaration ''B'' \<lparr>ad_typeParameters = [], ad_typeAnnotation = TSTypeReference (Some ''A'') []\<rparr>)]"

theorem dictionary_analysis_ends_witness:
  "classifyUnsafeDictionary 100 (createTypeEnvironment cyclic_module)
     (TSTypeReference (Some ''Record'') [TSStringKeyword, TSTypeReference (Some ''A'') []]) \<noteq> None"
  by (rule dictionary_analysis_ends)
    (simp_all add: createTypeEnvironment_def cyclic_module_def non_generic_def alias_size_def shadow_def BUILT_INS_def)

section \<open>Where it does not\<close>

text \<open>
  \<open>type Foo<A> = A\<close> and \<open>type Bar<A> = Foo<Readonly<A>>\<close>: while \<open>Bar\<close> is expanded, the parameter \<open>A\<close> of \<open>Foo\<close> is
  bound to a type in which \<open>A\<close> still means the parameter of \<open>Bar\<close>, but is looked up as the parameter of \<open>Foo\<close>.
\<close>

definition captured_module :: "statement list" where
  "captured_module =
     [Statement (TSTypeAliasDeclaration ''Foo''
        \<lparr>ad_typeParameters = [(''A'', None)], ad_typeAnnotation = TSTypeReference (Some ''A'') []\<rparr>),
      Statement (TSTypeAliasDeclaration ''Bar''
        \<lparr>ad_typeParameters = [(''A'', None)],
         ad_typeAnnotation = TSTypeReference (Some ''Foo'') [TSTypeReference (Some ''Readonly'') [TSTypeReference (Some ''A'') []]]\<rparr>)]"

definition captured_env :: type_environment where
  "captured_env = createTypeEnvironment captured_module"

lemma captured_transparent: "isTransparent ''Readonly'' captured_env" "\<not> isTransparent ''A'' captured_env"
  "\<not> isTransparent ''Foo'' captured_env" "\<not> isTransparent ''Bar'' captured_env"
  by code_simp+

lemma captured_aliases:
  "map_of (te_aliases captured_env) ''Foo'' = Some \<lparr>ad_typeParameters = [(''A'', None)], ad_typeAnnotation = TSTypeReference (Some ''A'') []\<rparr>"
  "map_of (te_aliases captured_env) ''Bar'' = Some \<lparr>ad_typeParameters = [(''A'', None)],
     ad_typeAnnotation = TSTypeReference (Some ''Foo'') [TSTypeReference (Some ''Readonly'') [TSTypeReference (Some ''A'') []]]\<rparr>"
  "te_interfaces captured_env = []"
  by code_simp+

abbreviation readonly_A :: ts_type where
  "readonly_A \<equiv> TSTypeReference (Some ''Readonly'') [TSTypeReference (Some ''A'') []]"

lemma captured_parameter_loops:
  "unsafeDirectValue n captured_env (TSTypeReference (Some ''A'') []) [(''A'', readonly_A)] V = None \<and>
   unsafeDirectValue n captured_env readonly_A [(''A'', readonly_A)] V = None"
  by (induction n)
    (simp_all add: unsafeDirectValue.simps captured_transparent first_argument_def isUnappliedReferenceTo_def)

lemma captured_bindings:
  "aliasSubstitution \<lparr>ad_typeParameters = [(''A'', None)], ad_typeAnnotation = t\<rparr> [TSStringKeyword] [] = Some [(''A'', TSStringKeyword)]"
  "aliasSubstitution \<lparr>ad_typeParameters = [(''A'', None)], ad_typeAnnotation = t\<rparr> [readonly_A] [(''A'', TSStringKeyword)]
     = Some [(''A'', readonly_A)]"
  by (simp_all add: aliasSubstitution_def resolvedSubstitutionArgument.simps)

lemma captured_Foo_loops:
  "unsafeDirectValue n captured_env (TSTypeReference (Some ''Foo'') [readonly_A]) [(''A'', TSStringKeyword)] {''Bar''} = None"
  by (cases n)
    (simp_all add: unsafeDirectValue.simps captured_transparent captured_aliases captured_bindings captured_parameter_loops)

lemma captured_Bar_loops:
  "unsafeDirectValue n captured_env (TSTypeReference (Some ''Bar'') [TSStringKeyword]) [] {} = None"
  by (cases n)
    (simp_all add: unsafeDirectValue.simps captured_transparent captured_aliases captured_bindings captured_Foo_loops)

text \<open>
  C38. For the valid module \<open>type Foo<A> = A; type Bar<A> = Foo<Readonly<A>>\<close> the analysis of \<open>Record<string, Bar<string>>\<close>
  does not end: no stack is deep enough, and the lint rule fails with a \<open>RangeError\<close> instead of reporting or accepting
  the type.
\<close>

theorem captured_parameter_exhausts_stack:
  "classifyUnsafeDictionary n (createTypeEnvironment captured_module)
     (TSTypeReference (Some ''Record'') [TSStringKeyword, TSTypeReference (Some ''Bar'') [TSStringKeyword]]) = None"
proof -
  have "\<not> isTransparent ''Record'' captured_env" "isBuiltIn ''Record'' captured_env" by code_simp+
  then show ?thesis
    unfolding classifyUnsafeDictionary_def captured_env_def [symmetric]
    by (cases n) (simp_all add: dictionaryValueTypes.simps captured_Bar_loops)
qed

end
