(* ===== verification/LintNodes.thy ===== *)
theory LintNodes
  imports LintTypes
begin

text \<open>
  The nodes of a module above and around a type: the chain of parents of a node, function-like nodes with their
  parameters, expressions; and the two helpers that several lint rules share, \<open>shared/lexical-type-parameters.ts\<close> and
  the search of an enclosing function.
\<close>

section \<open>Parents\<close>

text \<open>
  The parents of a node, the nearest first, up to the program. Each is described by what the rules read of it: its
  \<open>type\<close>, its identity, the names of its type parameters, the name of its \<open>id\<close> or \<open>key\<close> when that is an identifier,
  its return type, the type node it is, and as which of its children the node below it is reached.
\<close>

datatype slot = NameTypeSlot | TypeAnnotationSlot | TrueTypeSlot | ExpressionSlot | OtherSlot

record frame =
  fr_type :: string
  fr_node :: nat
  fr_typeParameters :: "string list"
  fr_id :: "string option"
  fr_key :: "string option"
  fr_returnType :: "ts_type option"
  fr_typeNode :: "ts_type option"
  fr_slot :: slot

section \<open>The types in a type\<close>

primrec member_types :: "ts_member \<Rightarrow> ts_type list" where
  "member_types (TSPropertySignature optional annotation) = (case annotation of None \<Rightarrow> [] | Some t \<Rightarrow> [t])"
| "member_types (TSIndexSignature parameters annotation) = parameters @ [annotation]"
| "member_types (TSCallSignatureDeclaration inputs returnType) = inputs @ (case returnType of None \<Rightarrow> [] | Some t \<Rightarrow> [t])"
| "member_types (TSConstructSignatureDeclaration inputs returnType) = inputs @ (case returnType of None \<Rightarrow> [] | Some t \<Rightarrow> [t])"
| "member_types (TSMethodSignature inputs returnType) = inputs @ (case returnType of None \<Rightarrow> [] | Some t \<Rightarrow> [t])"

fun child_types :: "ts_type \<Rightarrow> ts_type list" where
  "child_types (TSParenthesizedType t) = [t]"
| "child_types (TSTypeOperator op t) = [t]"
| "child_types (TSOptionalType t) = [t]"
| "child_types (TSRestType t) = [t]"
| "child_types (TSArrayType t) = [t]"
| "child_types (TSTypeReference name args) = args"
| "child_types (TSTypeLiteral members) = concat (map member_types members)"
| "child_types (TSMappedType key constraint nameType annotation) =
     constraint # (case nameType of None \<Rightarrow> [] | Some t \<Rightarrow> [t]) @ (case annotation of None \<Rightarrow> [] | Some t \<Rightarrow> [t])"
| "child_types (TSUnionType types) = types"
| "child_types (TSIntersectionType types) = types"
| "child_types (TSConditionalType c e t f) = [c, e, t, f]"
| "child_types (TSIndexedAccessType b i) = [b, i]"
| "child_types (TSTupleType types) = types"
| "child_types (TSNamedTupleMember t) = [t]"
| "child_types (TSFunctionType inputs t) = inputs @ [t]"
| "child_types (TSConstructorType inputs t) = inputs @ [t]"
| "child_types (TSImportType args) = args"
| "child_types (TSTypeQuery args) = args"
| "child_types (TSTemplateLiteralType types) = types"
| "child_types (TSTypePredicate annotation) = (case annotation of None \<Rightarrow> [] | Some t \<Rightarrow> [t])"
| "child_types (TSInferType name constraint dflt) =
     (case constraint of None \<Rightarrow> [] | Some t \<Rightarrow> [t]) @ (case dflt of None \<Rightarrow> [] | Some t \<Rightarrow> [t])"
| "child_types (TSOtherType kind types) = types"
| "child_types t = []"

lemma element_size: "x \<in> set xs \<Longrightarrow> size x < Suc (size_list size xs)"
  by (induction xs) auto

lemma member_types_smaller: "t \<in> set (member_types m) \<Longrightarrow> size t < size m"
  by (cases m) (auto dest: element_size split: option.splits)

lemma child_types_smaller: "u \<in> set (child_types t) \<Longrightarrow> size u < size t"
proof (cases t)
  case (TSTypeLiteral members)
  assume "u \<in> set (child_types t)"
  with TSTypeLiteral obtain m where "m \<in> set members" "u \<in> set (member_types m)" by auto
  with element_size [of m members] member_types_smaller [of u m] TSTypeLiteral show ?thesis by simp
qed (auto dest: element_size split: option.splits)

section \<open>Type parameters in scope\<close>

function collectInferTypeParameterNames :: "ts_type \<Rightarrow> string set" where
  "collectInferTypeParameterNames t =
     (case t of TSInferType name constraint dflt \<Rightarrow> {name} | _ \<Rightarrow> {}) \<union>
     (\<Union>u \<in> set (child_types t). collectInferTypeParameterNames u)"
  by pat_completeness auto

termination collectInferTypeParameterNames
  by (relation "measure size") (auto dest: child_types_smaller)

declare collectInferTypeParameterNames.simps [simp del]

definition frameNames :: "frame \<Rightarrow> string set" where
  "frameNames f = set (fr_typeParameters f) \<union>
     (case fr_typeNode f of
        Some (TSMappedType key constraint nameType annotation) \<Rightarrow>
          if fr_slot f = NameTypeSlot \<or> fr_slot f = TypeAnnotationSlot then {key} else {}
      | Some (TSConditionalType checkType extendsType trueType falseType) \<Rightarrow>
          if fr_slot f = TrueTypeSlot then collectInferTypeParameterNames extendsType else {}
      | _ \<Rightarrow> {})"

fun lexicalTypeParameterNames :: "string list \<Rightarrow> frame list \<Rightarrow> string set" where
  "lexicalTypeParameterNames own [] = set own"
| "lexicalTypeParameterNames own (f # fs) =
     (if fr_type f = ''Program'' then set own else frameNames f \<union> lexicalTypeParameterNames own fs)"

section \<open>Parameters and functions\<close>

datatype param =
    IdentifierParam string "ts_type option"
  | TSParameterProperty param
  | RestElement "ts_type option" param
  | AssignmentPattern "ts_type option" param
  | PatternParam nat "ts_type option"

primrec own_annotation :: "param \<Rightarrow> ts_type option" where
  "own_annotation (IdentifierParam name annotation) = annotation"
| "own_annotation (TSParameterProperty p) = None"
| "own_annotation (RestElement annotation p) = annotation"
| "own_annotation (AssignmentPattern annotation p) = annotation"
| "own_annotation (PatternParam node annotation) = annotation"

primrec parameterAnnotation :: "param \<Rightarrow> ts_type option" where
  "parameterAnnotation (IdentifierParam name annotation) = annotation"
| "parameterAnnotation (TSParameterProperty p) = parameterAnnotation p"
| "parameterAnnotation (RestElement annotation p) =
     (case annotation of None \<Rightarrow> parameterAnnotation p | Some t \<Rightarrow> Some t)"
| "parameterAnnotation (AssignmentPattern annotation p) =
     (case annotation of None \<Rightarrow> own_annotation p | Some t \<Rightarrow> Some t)"
| "parameterAnnotation (PatternParam node annotation) = annotation"

text \<open>A node with parameters and a return type: a function, a method or call signature, or a function type.\<close>

record parameter_owner =
  ow_id :: "string option"
  ow_typeParameters :: "string list"
  ow_params :: "param list"
  ow_returnType :: "ts_type option"
  ow_parents :: "frame list"

definition ownerScope :: "parameter_owner \<Rightarrow> string set" where
  "ownerScope node = lexicalTypeParameterNames (ow_typeParameters node) (ow_parents node)"

text \<open>The name a function has by itself or by the variable, method or property that it is the value of.\<close>

definition functionName :: "string option \<Rightarrow> frame list \<Rightarrow> string option" where
  "functionName own parents = (case own of
     Some name \<Rightarrow> Some name
   | None \<Rightarrow> (case parents of
       [] \<Rightarrow> None
     | parent # _ \<Rightarrow>
         if fr_type parent = ''VariableDeclarator'' \<and> fr_id parent \<noteq> None then fr_id parent
         else if fr_type parent = ''MethodDefinition'' \<or> fr_type parent = ''Property'' then fr_key parent
         else None))"

text \<open>\<open>text.replace(/\s*:\s*<word>\s*$/u, '')\<close>\<close>

definition typeSuffix :: "string \<Rightarrow> rx" where
  "typeSuffix word =
     RCat (RStar (RCls is_ws)) (RCat (rlit '':'') (RCat (RStar (RCls is_ws)) (RCat (rlit word) (RStar (RCls is_ws)))))"

fun removeSuffix :: "rx \<Rightarrow> string \<Rightarrow> string" where
  "removeSuffix r [] = []"
| "removeSuffix r (c # cs) = (if matches r (c # cs) then [] else c # removeSuffix r cs)"

end
