(* ===== verification/LintAliases.thy ===== *)
theory LintAliases
  imports LintNodes
begin

text \<open>
  The lint rules that follow module-level type aliases: \<open>no-unknown-type-aliases\<close>, \<open>no-unknown-returns\<close> and
  \<open>no-object-parameters\<close>. Each of them searches depth-first, with the set of the aliases that it is inside of; the
  locale \<open>alias_search\<close> shows once that such a search finds exactly what a declarative reading of the aliases gives.
\<close>

section \<open>Searching through aliases\<close>

text \<open>
  A type counts when it is a hit, when one of its alternatives counts, or when it refers to an alias whose body
  counts.
\<close>

inductive resolves_to ::
  "('t \<Rightarrow> bool) \<Rightarrow> ('t \<Rightarrow> 't list) \<Rightarrow> ('t \<Rightarrow> 'n option) \<Rightarrow> ('n \<Rightarrow> 't option) \<Rightarrow> 't \<Rightarrow> bool"
  for hit alts target body where
  direct: "hit t \<Longrightarrow> resolves_to hit alts target body t"
| alternative: "u \<in> set (alts t) \<Longrightarrow> resolves_to hit alts target body u \<Longrightarrow> resolves_to hit alts target body t"
| alias_body: "target t = Some n \<Longrightarrow> body n = Some u \<Longrightarrow> resolves_to hit alts target body u \<Longrightarrow>
    resolves_to hit alts target body t"

text \<open>The same with a derivation of at most a given height.\<close>

primrec resolves_in ::
  "('t \<Rightarrow> bool) \<Rightarrow> ('t \<Rightarrow> 't list) \<Rightarrow> ('t \<Rightarrow> 'n option) \<Rightarrow> ('n \<Rightarrow> 't option) \<Rightarrow> nat \<Rightarrow> 't \<Rightarrow> bool" where
  "resolves_in hit alts target body 0 t = False"
| "resolves_in hit alts target body (Suc h) t =
     (hit t \<or> (\<exists>u \<in> set (alts t). resolves_in hit alts target body h u) \<or>
      (\<exists>n u. target t = Some n \<and> body n = Some u \<and> resolves_in hit alts target body h u))"

lemma resolves_in_mono: "resolves_in hit alts target body h t \<Longrightarrow> h \<le> k \<Longrightarrow> resolves_in hit alts target body k t"
proof (induction h arbitrary: t k)
  case (Suc h)
  then obtain k' where "k = Suc k'" "h \<le> k'" by (cases k) auto
  with Suc show ?case by auto
qed simp

lemma resolves_to_iff_in: "resolves_to hit alts target body t \<longleftrightarrow> (\<exists>h. resolves_in hit alts target body h t)"
proof
  assume "resolves_to hit alts target body t"
  then show "\<exists>h. resolves_in hit alts target body h t"
  proof (induction rule: resolves_to.induct)
    case (direct t)
    then have "resolves_in hit alts target body 1 t" by simp
    then show ?case ..
  next
    case (alternative u t)
    then obtain h where "resolves_in hit alts target body h u" by blast
    with alternative(1) have "resolves_in hit alts target body (Suc h) t" by auto
    then show ?case ..
  next
    case (alias_body t n u)
    then obtain h where "resolves_in hit alts target body h u" by blast
    with alias_body(1,2) have "resolves_in hit alts target body (Suc h) t" by auto
    then show ?case ..
  qed
next
  assume "\<exists>h. resolves_in hit alts target body h t"
  then obtain h where "resolves_in hit alts target body h t" ..
  then show "resolves_to hit alts target body t"
    by (induction h arbitrary: t) (auto intro: resolves_to.intros)
qed

locale alias_search =
  fixes hit :: "'t \<Rightarrow> bool"
    and alts :: "'t \<Rightarrow> 't list"
    and target :: "'t \<Rightarrow> 'n option"
    and body :: "'n \<Rightarrow> 't option"
    and search :: "'t \<Rightarrow> 'n set \<Rightarrow> bool"
    and weight :: "'t \<Rightarrow> nat"
  assumes search_unfold: "search t V \<longleftrightarrow> hit t \<or> (\<exists>u \<in> set (alts t). search u V) \<or>
      (\<exists>n u. target t = Some n \<and> n \<notin> V \<and> body n = Some u \<and> search u (insert n V))"
    and alts_smaller: "u \<in> set (alts t) \<Longrightarrow> weight u < weight t"
    and finite_names: "finite (dom body)"
begin

text \<open>What the search finds is there.\<close>

lemma search_sound: "search t V \<Longrightarrow> resolves_to hit alts target body t"
proof (induction "(V, t)" arbitrary: V t
    rule: wf_induct_rule [OF wf_measures [of "[\<lambda>(V, t). card (dom body - V), \<lambda>(V, t). weight t]"]])
  case 1
  note found = 1(2) and ih = 1(1)
  from found consider "hit t" | u where "u \<in> set (alts t)" "search u V"
    | n u where "target t = Some n" "n \<notin> V" "body n = Some u" "search u (insert n V)"
    using search_unfold by blast
  then show ?case
  proof cases
    case 1
    then show ?thesis by (rule resolves_to.direct)
  next
    case 2
    have "resolves_to hit alts target body u"
      by (rule ih [OF _ 2(2)]) (simp add: alts_smaller [OF 2(1)])
    with 2(1) show ?thesis by (rule resolves_to.alternative)
  next
    case 3
    have "dom body - insert n V \<subset> dom body - V" using 3(2,3) by blast
    then have "card (dom body - insert n V) < card (dom body - V)"
      using finite_names by (intro psubset_card_mono) auto
    then have "resolves_to hit alts target body u" by (intro ih [OF _ 3(4)]) simp
    with 3(1,3) show ?thesis by (rule resolves_to.alias_body)
  qed
qed

text \<open>
  What is there is found: a derivation of least height does not pass through one of the aliases that the search is
  inside of.
\<close>

lemma search_complete:
  "resolves_in hit alts target body h t \<Longrightarrow>
   \<forall>n \<in> V. \<forall>u. body n = Some u \<longrightarrow> (\<forall>k < h. \<not> resolves_in hit alts target body k u) \<Longrightarrow> search t V"
proof (induction h arbitrary: t V rule: less_induct)
  case (less h)
  from less.prems(1) obtain k where h: "h = Suc k" by (cases h) auto
  with less.prems(1) consider "hit t" | u where "u \<in> set (alts t)" "resolves_in hit alts target body k u"
    | n u where "target t = Some n" "body n = Some u" "resolves_in hit alts target body k u"
    by auto
  then show ?case
  proof cases
    case 1
    then show ?thesis using search_unfold by blast
  next
    case 2
    have "search u V" using less.prems(2) h by (intro less.IH [OF _ 2(2)]) auto
    with 2(1) show ?thesis using search_unfold by blast
  next
    case 3
    define m where "m = (LEAST m. resolves_in hit alts target body m u)"
    have m: "resolves_in hit alts target body m u" and least: "\<forall>k < m. \<not> resolves_in hit alts target body k u"
      unfolding m_def using 3(3) by (auto intro: LeastI dest: not_less_Least)
    have "m \<le> k" unfolding m_def using 3(3) by (rule Least_le)
    have "n \<notin> V" using less.prems(2) 3(2,3) h by blast
    moreover have "search u (insert n V)"
      using less.prems(2) h \<open>m \<le> k\<close> least 3(2) by (intro less.IH [OF _ m]) auto
    ultimately show ?thesis using search_unfold 3(1,2) by blast
  qed
qed

lemma search_iff: "search t {} \<longleftrightarrow> resolves_to hit alts target body t"
  using search_sound [of t "{}"] search_complete [of _ t "{}"] by (auto simp: resolves_to_iff_in)

text \<open>The body of an alias may be searched from inside the alias.\<close>

lemma search_body_iff:
  assumes "\<And>v. body n = Some v \<Longrightarrow> v = u"
  shows "search u {n} \<longleftrightarrow> resolves_to hit alts target body u"
proof
  assume "resolves_to hit alts target body u"
  then have "\<exists>h. resolves_in hit alts target body h u" by (simp add: resolves_to_iff_in)
  then have "resolves_in hit alts target body (LEAST h. resolves_in hit alts target body h u) u" by (rule LeastI_ex)
  then show "search u {n}" by (rule search_complete) (auto dest!: assms not_less_Least)
qed (rule search_sound)

end

section \<open>The aliases of a module\<close>

primrec exportedStatement :: "statement \<Rightarrow> module_item option" where
  "exportedStatement (ExportNamedDeclaration d) = d"
| "exportedStatement (ExportDefaultDeclaration d) = None"
| "exportedStatement (Statement d) = Some d"

definition collectAlias :: "statement \<Rightarrow> (string \<times> alias_declaration) list \<Rightarrow> (string \<times> alias_declaration) list" where
  "collectAlias s as = (case exportedStatement s of
     Some (TSTypeAliasDeclaration name d) \<Rightarrow> AList.update name d as
   | _ \<Rightarrow> as)"

definition collectAliases :: "statement list \<Rightarrow> (string \<times> alias_declaration) list" where
  "collectAliases body = fold collectAlias body []"

lemma collectAliases_distinct: "distinct (map fst (collectAliases body))"
proof -
  have "distinct (map fst as) \<Longrightarrow> distinct (map fst (fold collectAlias body as))" for as
    by (induction body arbitrary: as)
      (auto simp: collectAlias_def distinct_update split: option.splits module_item.splits)
  from this [of "[]"] show ?thesis by (simp add: collectAliases_def)
qed

fun referencedAliasName :: "ts_type \<Rightarrow> string option" where
  "referencedAliasName (TSParenthesizedType t) = referencedAliasName t"
| "referencedAliasName (TSTypeReference name args) = (if args = [] then name else None)"
| "referencedAliasName _ = None"

text \<open>The body of an alias without type parameters.\<close>

definition plainAlias :: "(string \<times> alias_declaration) list \<Rightarrow> string \<Rightarrow> ts_type option" where
  "plainAlias as name = (case map_of as name of
     None \<Rightarrow> None
   | Some d \<Rightarrow> if ad_typeParameters d \<noteq> [] then None else Some (ad_typeAnnotation d))"

lemma plainAlias_finite: "finite (dom (plainAlias as))"
  by (rule finite_subset [OF _ finite_dom_map_of [of as]]) (auto simp: plainAlias_def dom_def split: option.splits)

lemma plainAlias_fewer:
  "plainAlias as name = Some u \<Longrightarrow> name \<notin> V \<Longrightarrow>
     card (set (map fst as) - insert name V) < card (set (map fst as) - V)"
  by (auto simp: plainAlias_def simp del: set_map split: option.splits intro: fewer_names)

section \<open>no-unknown-type-aliases\<close>

function resolvesToUnknown :: "(string \<times> alias_declaration) list \<Rightarrow> ts_type \<Rightarrow> string set \<Rightarrow> bool" where
  "resolvesToUnknown as type visited =
     (if type = TSUnknownKeyword then True
      else case type of
        TSParenthesizedType t \<Rightarrow> resolvesToUnknown as t visited
      | _ \<Rightarrow>
          (case referencedAliasName type of
             None \<Rightarrow> False
           | Some name \<Rightarrow>
               if name \<in> visited then False
               else (case plainAlias as name of
                       None \<Rightarrow> False
                     | Some t \<Rightarrow> resolvesToUnknown as t (insert name visited))))"
  by pat_completeness auto

termination resolvesToUnknown
  by (relation "measures [\<lambda>(as, type, visited). card (set (map fst as) - visited), \<lambda>(as, type, visited). size type]")
    (simp_all add: plainAlias_fewer del: set_map)

declare resolvesToUnknown.simps [simp del]

text \<open>The names of the aliases that the rule reports, in the order of the module.\<close>

definition noUnknownTypeAliases :: "statement list \<Rightarrow> string list" where
  "noUnknownTypeAliases body =
     (let aliases = collectAliases body
      in map fst (filter (\<lambda>(name, d). resolvesToUnknown aliases (ad_typeAnnotation d) {name}) aliases))"

section \<open>no-unknown-returns\<close>

function returnsUnknown :: "(string \<times> alias_declaration) list \<Rightarrow> string set \<Rightarrow> ts_type \<Rightarrow> string set \<Rightarrow> bool" where
  "returnsUnknown as shadowedAliases type visited =
     (case type of
        TSUnknownKeyword \<Rightarrow> True
      | TSParenthesizedType t \<Rightarrow> returnsUnknown as shadowedAliases t visited
      | TSUnionType types \<Rightarrow> list_ex (\<lambda>m. returnsUnknown as shadowedAliases m visited) types
      | TSTypeReference (Some name) args \<Rightarrow>
          if name = ''Promise'' \<or> name = ''PromiseLike'' then
            (case args of [] \<Rightarrow> False | value # _ \<Rightarrow> returnsUnknown as shadowedAliases value visited)
          else if args \<noteq> [] \<or> name \<in> visited \<or> name \<in> shadowedAliases then False
          else (case plainAlias as name of
                  None \<Rightarrow> False
                | Some t \<Rightarrow> returnsUnknown as shadowedAliases t (insert name visited))
      | _ \<Rightarrow> False)"
  by pat_completeness auto

termination returnsUnknown
  by (relation "measures [\<lambda>(as, shadowed, type, visited). card (set (map fst as) - visited),
        \<lambda>(as, shadowed, type, visited). size type]")
    (auto simp: plainAlias_fewer element_size simp del: set_map)

declare returnsUnknown.simps [simp del]

text \<open>Whether the rule reports the return type of a function-like node.\<close>

definition noUnknownReturns :: "statement list \<Rightarrow> parameter_owner \<Rightarrow> bool" where
  "noUnknownReturns body node = (case ow_returnType node of
     None \<Rightarrow> False
   | Some annotation \<Rightarrow> returnsUnknown (collectAliases body) (ownerScope node) annotation {})"

section \<open>no-object-parameters\<close>

definition collectPlainAlias :: "statement \<Rightarrow> (string \<times> ts_type) list \<Rightarrow> (string \<times> ts_type) list" where
  "collectPlainAlias s as = (case exportedStatement s of
     Some (TSTypeAliasDeclaration name d) \<Rightarrow>
       if ad_typeParameters d = [] then AList.update name (ad_typeAnnotation d) as else as
   | _ \<Rightarrow> as)"

definition collectPlainAliases :: "statement list \<Rightarrow> (string \<times> ts_type) list" where
  "collectPlainAliases body = fold collectPlainAlias body []"

function resolvesToObject :: "(string \<times> ts_type) list \<Rightarrow> string set \<Rightarrow> ts_type \<Rightarrow> string set \<Rightarrow> bool" where
  "resolvesToObject as shadowedAliases type visited =
     (case type of
        TSObjectKeyword \<Rightarrow> True
      | TSParenthesizedType t \<Rightarrow> resolvesToObject as shadowedAliases t visited
      | TSUnionType types \<Rightarrow> list_ex (\<lambda>m. resolvesToObject as shadowedAliases m visited) types
      | TSTypeReference (Some name) args \<Rightarrow>
          if args \<noteq> [] \<or> name \<in> visited \<or> name \<in> shadowedAliases then False
          else (case map_of as name of
                  None \<Rightarrow> False
                | Some t \<Rightarrow> resolvesToObject as shadowedAliases t (insert name visited))
      | _ \<Rightarrow> False)"
  by pat_completeness auto

termination resolvesToObject
  by (relation "measures [\<lambda>(as, shadowed, type, visited). card (set (map fst as) - visited),
        \<lambda>(as, shadowed, type, visited). size type]")
    (auto simp: fewer_names element_size simp del: set_map)

declare resolvesToObject.simps [simp del]

definition objectParameterName :: "(param \<Rightarrow> string) \<Rightarrow> param \<Rightarrow> string" where
  "objectParameterName getText p = (case p of
     IdentifierParam name annotation \<Rightarrow> name
   | _ \<Rightarrow> removeSuffix (typeSuffix ''object'') (getText p))"

text \<open>The names of the parameters that the rule reports at a function-like node.\<close>

definition noObjectParameters :: "(param \<Rightarrow> string) \<Rightarrow> statement list \<Rightarrow> parameter_owner \<Rightarrow> string list" where
  "noObjectParameters getText body node =
     map (objectParameterName getText)
       (filter (\<lambda>p. case parameterAnnotation p of
                     None \<Rightarrow> False
                   | Some t \<Rightarrow> resolvesToObject (collectPlainAliases body) (ownerScope node) t {}) (ow_params node))"

section \<open>What each of them looks for\<close>

fun parenthesised :: "ts_type \<Rightarrow> ts_type list" where
  "parenthesised (TSParenthesizedType t) = [t]"
| "parenthesised _ = []"

fun union_members :: "ts_type \<Rightarrow> ts_type list" where
  "union_members (TSParenthesizedType t) = [t]"
| "union_members (TSUnionType types) = types"
| "union_members _ = []"

fun awaited_members :: "ts_type \<Rightarrow> ts_type list" where
  "awaited_members (TSParenthesizedType t) = [t]"
| "awaited_members (TSUnionType types) = types"
| "awaited_members (TSTypeReference (Some name) (t # args)) = (if name = ''Promise'' \<or> name = ''PromiseLike'' then [t] else [])"
| "awaited_members _ = []"

fun plain_reference :: "string set \<Rightarrow> ts_type \<Rightarrow> string option" where
  "plain_reference shadowed (TSTypeReference (Some name) []) = (if name \<in> shadowed then None else Some name)"
| "plain_reference shadowed _ = None"

lemma union_members_smaller: "u \<in> set (union_members t) \<Longrightarrow> size u < size t"
  by (cases t rule: union_members.cases) (auto dest: element_size)

lemma awaited_members_smaller: "u \<in> set (awaited_members t) \<Longrightarrow> size u < size t"
  by (cases t rule: awaited_members.cases) (auto dest: element_size split: if_splits)

lemma parenthesised_smaller: "u \<in> set (parenthesised t) \<Longrightarrow> size u < size t"
  by (cases t rule: parenthesised.cases) auto

lemma plain_reference_iff:
  "plain_reference shadowed t = Some n \<longleftrightarrow> t = TSTypeReference (Some n) [] \<and> n \<notin> shadowed"
  by (cases "(shadowed, t)" rule: plain_reference.cases) auto

interpretation type_aliases: alias_search "\<lambda>t. t = TSUnknownKeyword" parenthesised "plain_reference {}" "plainAlias as"
    "resolvesToUnknown as" size for as
proof unfold_locales
  fix t V
  show "resolvesToUnknown as t V \<longleftrightarrow> t = TSUnknownKeyword \<or> (\<exists>u \<in> set (parenthesised t). resolvesToUnknown as u V) \<or>
    (\<exists>n u. plain_reference {} t = Some n \<and> n \<notin> V \<and> plainAlias as n = Some u \<and> resolvesToUnknown as u (insert n V))"
    by (subst resolvesToUnknown.simps, cases t)
      (auto simp: plain_reference_iff split: option.splits if_splits)
qed (simp_all add: parenthesised_smaller plainAlias_finite)

interpretation returned_types: alias_search "\<lambda>t. t = TSUnknownKeyword" awaited_members
    "plain_reference (insert ''Promise'' (insert ''PromiseLike'' shadowed))" "plainAlias as"
    "returnsUnknown as shadowed" size for as shadowed
proof unfold_locales
  fix t V
  let ?s = "insert ''Promise'' (insert ''PromiseLike'' shadowed)"
  show "returnsUnknown as shadowed t V \<longleftrightarrow> t = TSUnknownKeyword \<or> (\<exists>u \<in> set (awaited_members t). returnsUnknown as shadowed u V) \<or>
    (\<exists>n u. plain_reference ?s t = Some n \<and> n \<notin> V \<and> plainAlias as n = Some u \<and> returnsUnknown as shadowed u (insert n V))"
  proof (cases t)
    case (TSTypeReference x args)
    then show ?thesis
      by (subst returnsUnknown.simps, cases x; cases args)
        (auto simp: plain_reference_iff split: option.splits if_splits)
  qed (subst returnsUnknown.simps, simp add: plain_reference_iff list_ex_iff)+
qed (simp_all add: awaited_members_smaller plainAlias_finite)

interpretation parameter_types: alias_search "\<lambda>t. t = TSObjectKeyword" union_members
    "plain_reference shadowed" "map_of as" "resolvesToObject as shadowed" size for as shadowed
proof unfold_locales
  fix t V
  show "resolvesToObject as shadowed t V \<longleftrightarrow> t = TSObjectKeyword \<or> (\<exists>u \<in> set (union_members t). resolvesToObject as shadowed u V) \<or>
    (\<exists>n u. plain_reference shadowed t = Some n \<and> n \<notin> V \<and> map_of as n = Some u \<and> resolvesToObject as shadowed u (insert n V))"
  proof (cases t)
    case (TSTypeReference x args)
    then show ?thesis
      by (subst resolvesToObject.simps, cases x; cases args)
        (auto simp: plain_reference_iff split: option.splits if_splits)
  qed (subst resolvesToObject.simps, simp add: plain_reference_iff list_ex_iff)+
qed (simp_all add: union_members_smaller finite_dom_map_of)

end
