(* ===== verification/LintAliasProperties.thy ===== *)
theory LintAliasProperties
  imports LintAliases
begin

text \<open>
  What the alias-following lint rules report, told without their search: by the facts of the three interpretations of
  \<open>alias_search\<close>.
\<close>

text \<open>A type that is \<open>unknown\<close> through parentheses and aliases without type parameters.\<close>

definition hides_unknown :: "(string \<times> alias_declaration) list \<Rightarrow> ts_type \<Rightarrow> bool" where
  "hides_unknown as = resolves_to (\<lambda>t. t = TSUnknownKeyword) parenthesised (plain_reference {}) (plainAlias as)"

text \<open>
  A returned type that is \<open>unknown\<close> through parentheses, unions, promises and aliases that no type parameter in
  scope hides.
\<close>

definition exposes_unknown :: "(string \<times> alias_declaration) list \<Rightarrow> string set \<Rightarrow> ts_type \<Rightarrow> bool" where
  "exposes_unknown as scope = resolves_to (\<lambda>t. t = TSUnknownKeyword) awaited_members
     (plain_reference (insert ''Promise'' (insert ''PromiseLike'' scope))) (plainAlias as)"

definition accepts_object :: "(string \<times> ts_type) list \<Rightarrow> string set \<Rightarrow> ts_type \<Rightarrow> bool" where
  "accepts_object as scope = resolves_to (\<lambda>t. t = TSObjectKeyword) union_members (plain_reference scope) (map_of as)"

text \<open>
  C37. The rule against aliases of \<open>unknown\<close> reports exactly the aliases of a module whose type is \<open>unknown\<close> when aliases
  are followed, however long the chain and whether or not other aliases are cyclic: the bounded search with its set of
  visited names is equivalent to the declarative reading.
\<close>

theorem unknown_aliases_reported_exactly:
  "name \<in> set (noUnknownTypeAliases body) \<longleftrightarrow>
     (\<exists>d. map_of (collectAliases body) name = Some d \<and> hides_unknown (collectAliases body) (ad_typeAnnotation d))"
proof -
  let ?as = "collectAliases body"
  have lookup: "(name, d) \<in> set ?as \<longleftrightarrow> map_of ?as name = Some d" for d
    using collectAliases_distinct by simp
  have "resolvesToUnknown ?as (ad_typeAnnotation d) {name} \<longleftrightarrow> hides_unknown ?as (ad_typeAnnotation d)"
    if "map_of ?as name = Some d" for d
    unfolding hides_unknown_def
    using that by (intro type_aliases.search_body_iff) (auto simp: plainAlias_def split: if_splits)
  then show ?thesis unfolding noUnknownTypeAliases_def Let_def by (auto simp: lookup image_iff Bex_def simp del: map_of_eq_Some_iff)
qed

text \<open>
  The rule against unknown returns reports a function exactly when its annotated return type is \<open>unknown\<close>, a union
  with \<open>unknown\<close> or a promise of one, through any aliases of the module that no type parameter in scope at the
  function hides.
\<close>

theorem unknown_returns_reported_exactly:
  "noUnknownReturns body node \<longleftrightarrow>
     (\<exists>t. ow_returnType node = Some t \<and> exposes_unknown (collectAliases body) (ownerScope node) t)"
  unfolding noUnknownReturns_def exposes_unknown_def
  by (auto simp: returned_types.search_iff split: option.splits)

lemma object_parameters_reported_exactly:
  "noObjectParameters getText body node =
     map (objectParameterName getText)
       (filter (\<lambda>p. \<exists>t. parameterAnnotation p = Some t \<and> accepts_object (collectPlainAliases body) (ownerScope node) t)
         (ow_params node))"
proof -
  have "(case parameterAnnotation p of None \<Rightarrow> False
         | Some t \<Rightarrow> resolvesToObject (collectPlainAliases body) (ownerScope node) t {}) \<longleftrightarrow>
       (\<exists>t. parameterAnnotation p = Some t \<and> accepts_object (collectPlainAliases body) (ownerScope node) t)" for p
    unfolding accepts_object_def by (auto simp: parameter_types.search_iff split: option.splits)
  then show ?thesis by (simp add: noObjectParameters_def)
qed

text \<open>Neither the order in which aliases are declared nor a longer chain of them hides an \<open>unknown\<close>.\<close>

lemma alias_of_unknown_alias:
  assumes "map_of as name = Some d" "ad_typeParameters d = []" "hides_unknown as (ad_typeAnnotation d)"
  shows "hides_unknown as (TSTypeReference (Some name) [])"
proof -
  have "plain_reference {} (TSTypeReference (Some name) []) = Some name" "plainAlias as name = Some (ad_typeAnnotation d)"
    using assms(1,2) by (simp_all add: plainAlias_def)
  then show ?thesis using assms(3) unfolding hides_unknown_def by (rule resolves_to.alias_body)
qed

end
