(* ===== verification/LintRules.thy ===== *)
theory LintRules
  imports LintNodes
begin

text \<open>
  The lint rules that look at one node and its surroundings. A rule is the predicate, or the list of names, that its
  handler reports at a node; what \<open>SourceCode\<close> answers about the module (scopes, texts, comments) is a parameter.
\<close>

section \<open>no-unknown-parameters\<close>

text \<open>\<open>/^(?:parse|decode)[A-Z]/u.test(name)\<close>\<close>

definition isParserName :: "string \<Rightarrow> bool" where
  "isParserName name = matches (RCat (RAlt (rlit ''parse'') (rlit ''decode'')) (RCat (RCls is_upper) (RStar (RCls (\<lambda>_. True))))) name"

primrec unknownParameterName :: "param \<Rightarrow> string \<Rightarrow> string" where
  "unknownParameterName (IdentifierParam name annotation) sourceText = name"
| "unknownParameterName (TSParameterProperty p) sourceText = unknownParameterName p sourceText"
| "unknownParameterName (RestElement annotation p) sourceText = unknownParameterName p sourceText"
| "unknownParameterName (AssignmentPattern annotation p) sourceText = unknownParameterName p sourceText"
| "unknownParameterName (PatternParam node annotation) sourceText = removeSuffix (typeSuffix ''unknown'') sourceText"

definition acceptsUnknownAtParserBoundary :: "parameter_owner \<Rightarrow> bool" where
  "acceptsUnknownAtParserBoundary node =
     (case (ow_returnType node, functionName (ow_id node) (ow_parents node)) of
        (Some returnType, Some name) \<Rightarrow> returnType \<noteq> TSUnknownKeyword \<and> isParserName name
      | _ \<Rightarrow> False)"

definition isTypePredicateGuard :: "parameter_owner \<Rightarrow> bool" where
  "isTypePredicateGuard node = (case ow_returnType node of Some (TSTypePredicate t) \<Rightarrow> True | _ \<Rightarrow> False)"

definition noUnknownParameters :: "(param \<Rightarrow> string) \<Rightarrow> parameter_owner \<Rightarrow> string list" where
  "noUnknownParameters getText node =
     filter (\<lambda>name. \<not> (name = ''cause'' \<or> isTypePredicateGuard node \<or> acceptsUnknownAtParserBoundary node))
       (map (\<lambda>p. unknownParameterName p (getText p))
         (filter (\<lambda>p. parameterAnnotation p = Some TSUnknownKeyword) (ow_params node)))"

section \<open>no-runtime-typeof\<close>

fun containsUnknownType :: "ts_type \<Rightarrow> bool" and containsUnknownSignature :: "ts_member \<Rightarrow> bool" where
  "containsUnknownType (TSOptionalType t) = containsUnknownType t"
| "containsUnknownType (TSRestType t) = containsUnknownType t"
| "containsUnknownType TSUnknownKeyword = True"
| "containsUnknownType TSAnyKeyword = True"
| "containsUnknownType (TSArrayType t) = containsUnknownType t"
| "containsUnknownType (TSTypeReference name args) = list_ex containsUnknownType args"
| "containsUnknownType (TSTypeLiteral members) = list_ex containsUnknownSignature members"
| "containsUnknownType (TSMappedType key constraint nameType annotation) =
     (containsUnknownType constraint \<or>
      (case nameType of None \<Rightarrow> False | Some t \<Rightarrow> containsUnknownType t) \<or>
      (case annotation of None \<Rightarrow> False | Some t \<Rightarrow> containsUnknownType t))"
| "containsUnknownType (TSParenthesizedType t) = containsUnknownType t"
| "containsUnknownType (TSUnionType types) = list_ex containsUnknownType types"
| "containsUnknownType (TSIntersectionType types) = list_ex containsUnknownType types"
| "containsUnknownType (TSConditionalType c e t f) =
     (containsUnknownType c \<or> containsUnknownType e \<or> containsUnknownType t \<or> containsUnknownType f)"
| "containsUnknownType (TSIndexedAccessType b i) = (containsUnknownType b \<or> containsUnknownType i)"
| "containsUnknownType (TSTupleType types) = list_ex containsUnknownType types"
| "containsUnknownType (TSNamedTupleMember t) = containsUnknownType t"
| "containsUnknownType (TSTypeOperator op t) = containsUnknownType t"
| "containsUnknownType (TSFunctionType inputs t) = containsUnknownType t"
| "containsUnknownType (TSConstructorType inputs t) = containsUnknownType t"
| "containsUnknownType (TSImportType args) = list_ex containsUnknownType args"
| "containsUnknownType (TSTypeQuery args) = list_ex containsUnknownType args"
| "containsUnknownType (TSTemplateLiteralType types) = list_ex containsUnknownType types"
| "containsUnknownType (TSTypePredicate annotation) =
     (case annotation of None \<Rightarrow> False | Some t \<Rightarrow> containsUnknownType t)"
| "containsUnknownType (TSInferType name constraint dflt) =
     ((case constraint of None \<Rightarrow> False | Some t \<Rightarrow> containsUnknownType t) \<or>
      (case dflt of None \<Rightarrow> False | Some t \<Rightarrow> containsUnknownType t))"
| "containsUnknownType _ = False"
| "containsUnknownSignature (TSPropertySignature optional annotation) =
     (case annotation of None \<Rightarrow> False | Some t \<Rightarrow> containsUnknownType t)"
| "containsUnknownSignature (TSIndexSignature parameters annotation) = containsUnknownType annotation"
| "containsUnknownSignature (TSCallSignatureDeclaration inputs returnType) =
     (case returnType of None \<Rightarrow> False | Some t \<Rightarrow> containsUnknownType t)"
| "containsUnknownSignature (TSConstructSignatureDeclaration inputs returnType) =
     (case returnType of None \<Rightarrow> False | Some t \<Rightarrow> containsUnknownType t)"
| "containsUnknownSignature (TSMethodSignature inputs returnType) =
     (case returnType of None \<Rightarrow> False | Some t \<Rightarrow> containsUnknownType t)"

definition isRuntimeFunction :: "frame \<Rightarrow> bool" where
  "isRuntimeFunction f \<longleftrightarrow> fr_type f \<in> {''ArrowFunctionExpression'', ''FunctionDeclaration'', ''FunctionExpression''}"

text \<open>The nearest parent that satisfies a test, with the parents above it; the search ends at the program.\<close>

fun nearest :: "(frame \<Rightarrow> bool) \<Rightarrow> frame list \<Rightarrow> (frame \<times> frame list) option" where
  "nearest P [] = None"
| "nearest P (f # fs) = (if fr_type f = ''Program'' then None else if P f then Some (f, fs) else nearest P fs)"

definition isParserBoundary :: "frame \<times> frame list \<Rightarrow> bool" where
  "isParserBoundary node = (case node of (f, parents) \<Rightarrow>
     (case (fr_returnType f, functionName (fr_id f) parents) of
        (Some returnType, Some name) \<Rightarrow> \<not> containsUnknownType returnType \<and> isParserName name
      | _ \<Rightarrow> False))"

definition isInsideAllowedBoundary :: "frame list \<Rightarrow> bool" where
  "isInsideAllowedBoundary parents = (case nearest isRuntimeFunction parents of None \<Rightarrow> False | Some node \<Rightarrow> isParserBoundary node)"

definition isInsideTypeGuard :: "frame list \<Rightarrow> bool" where
  "isInsideTypeGuard parents = (case nearest isRuntimeFunction parents of
     None \<Rightarrow> False
   | Some (f, _) \<Rightarrow> (case fr_returnType f of Some (TSTypePredicate t) \<Rightarrow> True | _ \<Rightarrow> False))"

text \<open>\<open>/\.(?:js|mjs|cjs|jsx)$/u.test(filename)\<close>\<close>

definition isJavaScriptFile :: "string \<Rightarrow> bool" where
  "isJavaScriptFile filename \<longleftrightarrow> list_ex (endsWith filename) [''.js'', ''.mjs'', ''.cjs'', ''.jsx'']"

text \<open>Whether a unary expression with this operator and these parents is reported.\<close>

definition noRuntimeTypeof :: "string \<Rightarrow> bool \<Rightarrow> string \<Rightarrow> frame list \<Rightarrow> bool" where
  "noRuntimeTypeof filename allowInTypeGuards operator parents \<longleftrightarrow>
     \<not> isJavaScriptFile filename \<and> operator = ''typeof'' \<and>
     \<not> isInsideAllowedBoundary parents \<and> (\<not> allowInTypeGuards \<or> \<not> isInsideTypeGuard parents)"

section \<open>no-unsafe-dictionary-type\<close>

definition isInsideTypeAliasDeclaration :: "frame list \<Rightarrow> bool" where
  "isInsideTypeAliasDeclaration parents \<longleftrightarrow> nearest (\<lambda>f. fr_type f = ''TSTypeAliasDeclaration'') parents \<noteq> None"

definition isPlainAliasConsumerUse :: "type_environment \<Rightarrow> ts_type \<Rightarrow> frame list \<Rightarrow> bool" where
  "isPlainAliasConsumerUse env node parents = (case node of
     TSTypeReference (Some name) [] \<Rightarrow> map_of (te_aliases env) name \<noteq> None \<and> \<not> isInsideTypeAliasDeclaration parents
   | _ \<Rightarrow> False)"

text \<open>Of the type nodes, \<open>typeNodeKinds\<close> leaves out the optional and the rest elements of a tuple.\<close>

fun isTypeNode :: "ts_type \<Rightarrow> bool" where
  "isTypeNode (TSOptionalType t) = False"
| "isTypeNode (TSRestType t) = False"
| "isTypeNode t = True"

fun noUnsafeParent :: "nat \<Rightarrow> type_environment \<Rightarrow> frame list \<Rightarrow> bool option" where
  "noUnsafeParent n env [] = Some True"
| "noUnsafeParent n env (f # fs) =
     (if fr_type f = ''Program'' then Some True
      else case fr_typeNode f of
        Some t \<Rightarrow>
          if isTypeNode t then
            Option.bind (classifyUnsafeDictionary n env t)
              (\<lambda>v. if v \<noteq> None then Some False else noUnsafeParent n env fs)
          else noUnsafeParent n env fs
      | None \<Rightarrow> noUnsafeParent n env fs)"

definition shouldReportType :: "nat \<Rightarrow> type_environment \<Rightarrow> ts_type \<Rightarrow> frame list \<Rightarrow> bool option" where
  "shouldReportType n env node parents =
     (if isPlainAliasConsumerUse env node parents then Some False
      else Option.bind (classifyUnsafeDictionary n env node)
        (\<lambda>v. if v = None then Some False else noUnsafeParent n env parents))"

text \<open>The unsafe value that is reported at a type reference, a type literal or a mapped type.\<close>

definition noUnsafeDictionaryType :: "nat \<Rightarrow> statement list \<Rightarrow> ts_type \<Rightarrow> frame list \<Rightarrow> unsafe_value option option" where
  "noUnsafeDictionaryType n body node parents =
     (let env = createTypeEnvironment body
      in Option.bind (shouldReportType n env node parents)
           (\<lambda>report. if report then classifyUnsafeDictionary n env node else Some None))"

definition unsafeIndexSignature :: "nat \<Rightarrow> statement list \<Rightarrow> ts_type \<Rightarrow> frame list \<Rightarrow> unsafe_value option option" where
  "unsafeIndexSignature n body annotation parents = (case parents of
     f # _ \<Rightarrow>
       if fr_type f = ''TSTypeLiteral'' then Some None
       else classifyUnsafeDictionaryValue n (createTypeEnvironment body) annotation
   | [] \<Rightarrow> classifyUnsafeDictionaryValue n (createTypeEnvironment body) annotation)"

end
