(* ===== verification/LintExpressions.thy ===== *)
theory LintExpressions
  imports LintRules
begin

text \<open>
  The lint rules on expressions: assertion chains, conditional spreads, names, calls of \<open>Reflect\<close> and of the mocking
  functions of a test framework, imports of service constructors, and the comments that justify an assertion.
\<close>

section \<open>Expressions\<close>

text \<open>
  An identifier has its name and its position, an assertion the position of its start, an object literal the number of
  its properties and a literal its value when that is a string.
\<close>

datatype expr =
    Identifier string nat nat
  | Literal "string option"
  | TemplateLiteral
  | UnaryExpression string expr
  | ParenthesizedExpression expr
  | TSAsExpression nat expr ts_type
  | TSTypeAssertion nat expr ts_type
  | TSNonNullExpression expr
  | TSSatisfiesExpression expr
  | ObjectExpression nat
  | ArrayExpression
  | ArrowFunctionExpression
  | ClassExpression
  | FunctionExpression
  | NewExpression
  | ConditionalExpression expr expr expr
  | MemberExpression bool expr expr
  | OtherExpression string

fun unwrapParentheses :: "expr \<Rightarrow> expr" where
  "unwrapParentheses (ParenthesizedExpression e) = unwrapParentheses e"
| "unwrapParentheses e = e"

text \<open>The loops that go through parentheses and assertions, without and with \<open>satisfies\<close>.\<close>

fun unwrapAssertions :: "expr \<Rightarrow> expr" where
  "unwrapAssertions (ParenthesizedExpression e) = unwrapAssertions e"
| "unwrapAssertions (TSAsExpression start e t) = unwrapAssertions e"
| "unwrapAssertions (TSTypeAssertion start e t) = unwrapAssertions e"
| "unwrapAssertions (TSNonNullExpression e) = unwrapAssertions e"
| "unwrapAssertions e = e"

fun unwrapExpression :: "expr \<Rightarrow> expr" where
  "unwrapExpression (ParenthesizedExpression e) = unwrapExpression e"
| "unwrapExpression (TSAsExpression start e t) = unwrapExpression e"
| "unwrapExpression (TSSatisfiesExpression e) = unwrapExpression e"
| "unwrapExpression (TSTypeAssertion start e t) = unwrapExpression e"
| "unwrapExpression (TSNonNullExpression e) = unwrapExpression e"
| "unwrapExpression e = e"

definition isPopulatedObjectExpression :: "expr \<Rightarrow> bool" where
  "isPopulatedObjectExpression e = (case unwrapAssertions e of ObjectExpression n \<Rightarrow> 0 < n | _ \<Rightarrow> False)"

definition isKnownEvidenceExpression :: "expr \<Rightarrow> bool" where
  "isKnownEvidenceExpression e = (case unwrapExpression e of
     ObjectExpression n \<Rightarrow> True
   | ArrayExpression \<Rightarrow> True
   | ArrowFunctionExpression \<Rightarrow> True
   | ClassExpression \<Rightarrow> True
   | FunctionExpression \<Rightarrow> True
   | NewExpression \<Rightarrow> True
   | Literal v \<Rightarrow> True
   | TemplateLiteral \<Rightarrow> True
   | UnaryExpression op e' \<Rightarrow> True
   | _ \<Rightarrow> False)"

section \<open>no-chained-type-assertions\<close>

definition isConstAssertion :: "ts_type \<Rightarrow> bool" where
  "isConstAssertion typeAnnotation = (case typeAnnotation of TSTypeReference (Some name) args \<Rightarrow> name = ''const'' | _ \<Rightarrow> False)"

definition is_assertion_frame :: "frame \<Rightarrow> bool" where
  "is_assertion_frame f \<longleftrightarrow> fr_type f = ''TSAsExpression'' \<or> fr_type f = ''TSTypeAssertion''"

text \<open>The parents of an assertion decide whether it is the outermost of its chain.\<close>

fun isOutermostAssertionInChain :: "frame list \<Rightarrow> bool" where
  "isOutermostAssertionInChain [] = True"
| "isOutermostAssertionInChain (f # fs) =
     (if fr_type f = ''ParenthesizedExpression'' \<and> fr_slot f = ExpressionSlot then isOutermostAssertionInChain fs
      else \<not> is_assertion_frame f \<or> fr_slot f \<noteq> ExpressionSlot)"

text \<open>The types of the assertions of a chain, the outermost first.\<close>

function assertionChain :: "expr \<Rightarrow> ts_type list" where
  "assertionChain e = (case e of
     TSAsExpression start e' t \<Rightarrow> t # assertionChain (unwrapParentheses e')
   | TSTypeAssertion start e' t \<Rightarrow> t # assertionChain (unwrapParentheses e')
   | _ \<Rightarrow> [])"
  by pat_completeness auto

lemma size_unwrapParentheses: "size (unwrapParentheses e) \<le> size e"
  by (induction e rule: unwrapParentheses.induct) auto

termination assertionChain
  by (relation "measure size") (auto simp: le_imp_less_Suc size_unwrapParentheses)

declare assertionChain.simps [simp del]

definition isForbiddenAssertionChain :: "expr \<Rightarrow> bool" where
  "isForbiddenAssertionChain e \<longleftrightarrow> 1 < length (assertionChain e) \<and> \<not> list_all isConstAssertion (assertionChain e)"

definition noChainedTypeAssertions :: "expr \<Rightarrow> frame list \<Rightarrow> bool" where
  "noChainedTypeAssertions node parents \<longleftrightarrow> isOutermostAssertionInChain parents \<and> isForbiddenAssertionChain node"

section \<open>no-conditional-empty-object-spread\<close>

definition isConditionalEmptyObjectSpread :: "expr \<Rightarrow> bool" where
  "isConditionalEmptyObjectSpread e = (case unwrapParentheses e of
     ConditionalExpression test consequent alternate \<Rightarrow> consequent = ObjectExpression 0 \<or> alternate = ObjectExpression 0
   | _ \<Rightarrow> False)"

definition noConditionalEmptyObjectSpread :: "expr \<Rightarrow> frame list \<Rightarrow> bool" where
  "noConditionalEmptyObjectSpread argument parents = (case parents of
     f # _ \<Rightarrow> fr_type f = ''ObjectExpression'' \<and> isConditionalEmptyObjectSpread argument
   | [] \<Rightarrow> False)"

section \<open>no-shape-in-symbol-names\<close>

fun includesText :: "string \<Rightarrow> string \<Rightarrow> bool" where
  "includesText [] w = (w = [])"
| "includesText (c # cs) w = (startsWith (c # cs) w \<or> includesText cs w)"

definition containsForbiddenSymbolName :: "string \<Rightarrow> bool" where
  "containsForbiddenSymbolName name = includesText (toLowerCase name) ''shape''"

section \<open>Variables\<close>

record declarator =
  de_id :: "(string \<times> ts_type option) option"
  de_init :: "expr option"
  de_end :: nat
  de_kind :: "string option"
  de_parents :: "frame list"

text \<open>
  A definition of a variable: its \<open>type\<close>, the declarator that is its node, and for an import the module and the name
  imported when its node is an import specifier.
\<close>

record var_definition =
  vd_type :: string
  vd_declarator :: "declarator option"
  vd_import :: "(string \<times> string option) option"

record variable =
  va_identifiers :: "(ts_type option \<times> frame list) list"
  va_defs :: "var_definition list"
  va_references :: "(bool \<times> bool) list"

text \<open>
  What \<open>SourceCode\<close> and its scope manager know of a module: its variables by their identity, the scopes from the one of
  an identifier outwards, each with the variables declared in it, and in every scope the references by the position of
  their identifiers.
\<close>

type_synonym scope_chain = "(string \<times> nat) list list"

record source_code =
  sc_variables :: "(nat \<times> variable) list"
  sc_isGlobalReference :: "expr \<Rightarrow> bool"
  sc_getScope :: "expr \<Rightarrow> scope_chain"
  sc_scopes :: "((nat \<times> nat) \<times> nat option) list list"

fun resolveIn :: "scope_chain \<Rightarrow> string \<Rightarrow> nat option" where
  "resolveIn [] name = None"
| "resolveIn (scope # upper) name = (case map_of scope name of Some i \<Rightarrow> Some i | None \<Rightarrow> resolveIn upper name)"

definition lookupVariable :: "source_code \<Rightarrow> nat option \<Rightarrow> (nat \<times> variable) option" where
  "lookupVariable sc x =
     (case x of None \<Rightarrow> None | Some i \<Rightarrow> (case map_of (sc_variables sc) i of None \<Rightarrow> None | Some v \<Rightarrow> Some (i, v)))"

definition resolveVariable :: "source_code \<Rightarrow> expr \<Rightarrow> string \<Rightarrow> (nat \<times> variable) option" where
  "resolveVariable sc identifier name = lookupVariable sc (resolveIn (sc_getScope sc identifier) name)"

section \<open>no-reflect-apply and no-reflect-get\<close>

definition isGlobalReflect :: "source_code \<Rightarrow> expr \<Rightarrow> bool" where
  "isGlobalReflect sc e = (case e of
     Identifier name start stop \<Rightarrow>
       name = ''Reflect'' \<and>
       (sc_isGlobalReference sc e \<or>
        (case resolveVariable sc e name of None \<Rightarrow> True | Some (i, v) \<Rightarrow> va_defs v = []))
   | _ \<Rightarrow> False)"

definition isGlobalReflectMethodCall :: "source_code \<Rightarrow> expr \<Rightarrow> string \<Rightarrow> bool" where
  "isGlobalReflectMethodCall sc callee methodName = (case callee of
     MemberExpression computed obj property \<Rightarrow>
       isGlobalReflect sc obj \<and>
       (if computed then property = Literal (Some methodName)
        else (case property of Identifier name start stop \<Rightarrow> name = methodName | _ \<Rightarrow> False))
   | _ \<Rightarrow> False)"

definition noReflectApply :: "source_code \<Rightarrow> expr \<Rightarrow> bool" where
  "noReflectApply sc callee \<longleftrightarrow>
     callee \<noteq> OtherExpression ''Super'' \<and> callee \<noteq> OtherExpression ''V8IntrinsicExpression'' \<and>
     isGlobalReflectMethodCall sc callee ''apply''"

definition noReflectGet :: "source_code \<Rightarrow> expr \<Rightarrow> bool" where
  "noReflectGet sc callee \<longleftrightarrow>
     callee \<noteq> OtherExpression ''Super'' \<and> callee \<noteq> OtherExpression ''V8IntrinsicExpression'' \<and>
     isGlobalReflectMethodCall sc callee ''get''"

section \<open>no-module-mocking\<close>

definition moduleMockMethods :: "string set" where
  "moduleMockMethods = {''doMock'', ''mock'', ''unstable_mockModule''}"

definition importsTestFramework :: "var_definition \<Rightarrow> bool" where
  "importsTestFramework d \<longleftrightarrow> vd_type d = ''ImportBinding'' \<and>
     (vd_import d = Some (''vitest'', Some ''vi'') \<or> vd_import d = Some (''@jest/globals'', Some ''jest''))"

definition isTestFrameworkObject :: "source_code \<Rightarrow> expr \<Rightarrow> bool" where
  "isTestFrameworkObject sc e = (case e of
     Identifier name start stop \<Rightarrow>
       if (name = ''vi'' \<or> name = ''jest'') \<and> sc_isGlobalReference sc e then True
       else (case resolveVariable sc e name of
               None \<Rightarrow> name = ''vi'' \<or> name = ''jest''
             | Some (i, v) \<Rightarrow> if va_defs v = [] then name = ''vi'' \<or> name = ''jest'' else list_ex importsTestFramework (va_defs v))
   | _ \<Rightarrow> False)"

definition moduleMockCall :: "source_code \<Rightarrow> expr \<Rightarrow> bool" where
  "moduleMockCall sc callee = (case callee of
     MemberExpression computed obj property \<Rightarrow>
       isTestFrameworkObject sc obj \<and>
       (case (if computed
              then (case property of
                      Literal (Some v) \<Rightarrow> if v = ''doMock'' \<or> v = ''mock'' \<or> v = ''unstable_mockModule'' then Some v else None
                    | _ \<Rightarrow> None)
              else (case property of Identifier name start stop \<Rightarrow> Some name | _ \<Rightarrow> None)) of
          Some method \<Rightarrow> method \<in> moduleMockMethods
        | None \<Rightarrow> False)
   | _ \<Rightarrow> False)"

definition noModuleMocking :: "source_code \<Rightarrow> expr \<Rightarrow> bool" where
  "noModuleMocking sc callee \<longleftrightarrow>
     callee \<noteq> OtherExpression ''Super'' \<and> callee \<noteq> OtherExpression ''V8IntrinsicExpression'' \<and> moduleMockCall sc callee"

section \<open>no-service-constructor-imports\<close>

text \<open>\<open>/^make[A-Z]/u\<close> and \<open>/\.(?:test|spec)\.[cm]?[jt]sx?$/u\<close>\<close>

definition isServiceConstructorName :: "string \<Rightarrow> bool" where
  "isServiceConstructorName name = matches (RCat (rlit ''make'') (RCat (RCls is_upper) (RStar (RCls (\<lambda>_. True))))) name"

definition isTestFile :: "string \<Rightarrow> bool" where
  "isTestFile filename = matches
     (RCat (RStar (RCls (\<lambda>_. True)))
       (RCat (rlit ''.'') (RCat (RAlt (rlit ''test'') (rlit ''spec''))
         (RCat (rlit ''.'') (RCat (ropt (RCls (\<lambda>c. c = CHR ''c'' \<or> c = CHR ''m'')))
           (RCat (RCls (\<lambda>c. c = CHR ''j'' \<or> c = CHR ''t'')) (RCat (rlit ''s'') (ropt (rlit ''x''))))))))) filename"

definition isProjectLocalImport :: "string \<Rightarrow> bool" where
  "isProjectLocalImport source \<longleftrightarrow> startsWith source ''./'' \<or> startsWith source ''../''"

definition noServiceConstructorImports :: "string \<Rightarrow> string \<Rightarrow> import_specifier list \<Rightarrow> string list" where
  "noServiceConstructorImports filename source specifiers =
     (if isTestFile filename \<or> \<not> isProjectLocalImport source then []
      else filter isServiceConstructorName
        (List.map_filter (\<lambda>s. case s of ImportSpecifier localName imported \<Rightarrow> Some imported | _ \<Rightarrow> None) specifiers))"

section \<open>require-safety-comment-for-type-assertion\<close>

text \<open>A node as \<open>countAssertions\<close> sees it: its \<open>type\<close> and the nodes among its own properties except \<open>parent\<close>.\<close>

datatype tree = Node string "tree list"

fun countAssertions :: "tree \<Rightarrow> nat" where
  "countAssertions (Node kind children) =
     (if kind = ''TSAsExpression'' \<or> kind = ''TSTypeAssertion'' then 1 else 0) + sum_list (map countAssertions children)"

definition is_word_char :: "char \<Rightarrow> bool" where
  "is_word_char c \<longleftrightarrow> is_alnum c \<or> c = CHR ''_''"

text \<open>What follows \<open>SAFETY\s*:\<close> at the start of a text.\<close>

definition afterMarker :: "string \<Rightarrow> string option" where
  "afterMarker s =
     (if toLowerCase (take 6 s) = ''safety'' then
        (case dropWhile is_ws (drop 6 s) of c # cs \<Rightarrow> if c = CHR '':'' then Some cs else None | [] \<Rightarrow> None)
      else None)"

text \<open>
  \<open>text.replace(/\bSAFETY\s*:/iu, '')\<close>, undefined when the marker does not occur: the flag says whether the previous
  character is a word character.
\<close>

fun withoutMarker :: "bool \<Rightarrow> string \<Rightarrow> string option" where
  "withoutMarker inWord [] = None"
| "withoutMarker inWord (c # cs) =
     (case (if inWord then None else afterMarker (c # cs)) of
        Some rest \<Rightarrow> Some rest
      | None \<Rightarrow> map_option (\<lambda>s. c # s) (withoutMarker (is_word_char c) cs))"

definition hasSafetyMarker :: "string \<Rightarrow> bool" where
  "hasSafetyMarker s \<longleftrightarrow> withoutMarker False s \<noteq> None"

definition isSubstantive :: "string \<Rightarrow> bool" where
  "isSubstantive commentText =
     (let explanation = trim (case withoutMarker False commentText of Some s \<Rightarrow> s | None \<Rightarrow> commentText);
          tokens = filter (\<lambda>t. t \<noteq> []) (split_runs is_ws explanation)
      in explanation \<noteq> [] \<and> 4 \<le> length tokens \<and> 2 \<le> card (set (map toLowerCase tokens)))"

record comment_node =
  cm_value :: string
  cm_start :: nat
  cm_startLine :: nat
  cm_endLine :: nat

text \<open>The comments of the block that ends with the first of the list, which is in reverse order.\<close>

fun contiguous :: "comment_node \<Rightarrow> comment_node list \<Rightarrow> comment_node list" where
  "contiguous current [] = [current]"
| "contiguous current (previous # rest) =
     (if int (cm_endLine previous) \<noteq> int (cm_startLine current) - 1 then [current]
      else contiguous previous rest @ [current])"

fun joinSpace :: "string list \<Rightarrow> string" where
  "joinSpace [] = []"
| "joinSpace [s] = s"
| "joinSpace (s # ss) = s @ '' '' @ joinSpace ss"

text \<open>The comments before an anchor, the line of the anchor and its start.\<close>

definition leadingSafetyBlock :: "comment_node list \<Rightarrow> nat \<Rightarrow> nat \<Rightarrow> string option" where
  "leadingSafetyBlock comments anchorLine anchorStart = (case rev comments of
     [] \<Rightarrow> None
   | latest # before \<Rightarrow>
       if anchorStart < cm_start latest then None
       else if cm_endLine latest \<noteq> anchorLine \<and> int (cm_endLine latest) \<noteq> int anchorLine - 1 then None
       else (let block = joinSpace (map cm_value (contiguous latest before))
             in if hasSafetyMarker block then Some block else None))"

text \<open>What \<open>SourceCode\<close> knows of a node: its comments, its line, its start and its tree.\<close>

record node_source =
  ns_comments :: "comment_node list"
  ns_line :: nat
  ns_start :: nat
  ns_tree :: tree

definition ownerKinds :: "string set" where
  "ownerKinds = {''ExpressionStatement'', ''VariableDeclaration'', ''PropertyDefinition'', ''ReturnStatement'', ''ThrowStatement''}"

definition findOwner :: "frame list \<Rightarrow> frame option" where
  "findOwner parents = map_option fst (nearest (\<lambda>f. fr_type f \<in> ownerKinds) parents)"

definition justifies :: "node_source \<Rightarrow> bool" where
  "justifies anchor = (case leadingSafetyBlock (ns_comments anchor) (ns_line anchor) (ns_start anchor) of
     Some block \<Rightarrow> isSubstantive block
   | None \<Rightarrow> False)"

definition hasSafetyComment :: "(nat \<Rightarrow> node_source) \<Rightarrow> node_source \<Rightarrow> frame list \<Rightarrow> bool" where
  "hasSafetyComment sourceOf node parents = (case findOwner parents of
     None \<Rightarrow> False
   | Some owner \<Rightarrow>
       if countAssertions (ns_tree (sourceOf (fr_node owner))) \<noteq> 1 then False
       else justifies node \<or> justifies (sourceOf (fr_node owner)))"

definition requireSafetyComment :: "(nat \<Rightarrow> node_source) \<Rightarrow> ts_type \<Rightarrow> node_source \<Rightarrow> frame list \<Rightarrow> bool" where
  "requireSafetyComment sourceOf typeAnnotation node parents \<longleftrightarrow>
     \<not> (isConstAssertion typeAnnotation \<or> hasSafetyComment sourceOf node parents)"

end
