(* ===== verification/LintFlows.thy ===== *)
theory LintFlows
  imports LintExpressions
begin

text \<open>
  The two lint rules that follow a value through constants: \<open>no-known-value-widening\<close> and \<open>no-widen-then-assert\<close>. The
  names that their messages quote are left out.
\<close>

lemma variable_fewer:
  "lookupVariable sc x = Some (i, v) \<Longrightarrow> i \<notin> visited \<Longrightarrow>
     card (set (map fst (sc_variables sc)) - insert i visited) < card (set (map fst (sc_variables sc)) - visited)"
proof (rule psubset_card_mono)
  assume "lookupVariable sc x = Some (i, v)" "i \<notin> visited"
  then have "i \<in> set (map fst (sc_variables sc))" "i \<notin> visited"
    by (auto simp: lookupVariable_def dest!: map_of_SomeD split: option.splits intro: rev_image_eqI)
  then show "set (map fst (sc_variables sc)) - insert i visited \<subset> set (map fst (sc_variables sc)) - visited" by blast
qed simp

section \<open>no-known-value-widening\<close>

definition singleDeclarator :: "variable \<Rightarrow> declarator option" where
  "singleDeclarator v = (case va_defs v of [d] \<Rightarrow> if vd_type d = ''Variable'' then vd_declarator d else None | _ \<Rightarrow> None)"

text \<open>A reference says whether it writes and whether it is the initialisation.\<close>

definition isStableConstVariable :: "variable \<Rightarrow> declarator \<Rightarrow> bool" where
  "isStableConstVariable v d \<longleftrightarrow>
     de_kind d = Some ''const'' \<and> list_all (\<lambda>(isWrite, init). init \<or> \<not> isWrite) (va_references v)"

function hasKnownEvidence :: "source_code \<Rightarrow> expr \<Rightarrow> nat set \<Rightarrow> bool" where
  "hasKnownEvidence sc e visited =
     (if isKnownEvidenceExpression e then True
      else case unwrapExpression e of
        Identifier name start stop \<Rightarrow>
          (case resolveVariable sc (unwrapExpression e) name of
             None \<Rightarrow> False
           | Some (i, v) \<Rightarrow>
               if i \<in> visited then False
               else (case singleDeclarator v of
                       None \<Rightarrow> False
                     | Some d \<Rightarrow>
                         (case de_init d of
                            None \<Rightarrow> False
                          | Some init \<Rightarrow>
                              if isStableConstVariable v d then hasKnownEvidence sc init (insert i visited) else False)))
      | _ \<Rightarrow> False)"
  by pat_completeness auto

termination hasKnownEvidence
  by (relation "measure (\<lambda>(sc, e, visited). card (set (map fst (sc_variables sc)) - visited))")
    (auto simp: resolveVariable_def simp del: set_map intro: variable_fewer)

declare hasKnownEvidence.simps [simp del]

definition isEmptyObjectExpression :: "expr \<Rightarrow> bool" where
  "isEmptyObjectExpression e \<longleftrightarrow> unwrapExpression e = ObjectExpression 0"

definition isDictionaryAccumulatorTarget :: "widening_target \<Rightarrow> bool" where
  "isDictionaryAccumulatorTarget destination \<longleftrightarrow> destination = OpenDictionary \<or> destination = GenericContainer"

definition reportFlow :: "source_code \<Rightarrow> expr \<Rightarrow> widening_target option \<Rightarrow> widening_target option" where
  "reportFlow sc e destination = (case destination of
     None \<Rightarrow> None
   | Some d \<Rightarrow>
       if isDictionaryAccumulatorTarget d \<and> isEmptyObjectExpression e then None
       else if \<not> hasKnownEvidence sc e {} then None
       else Some d)"

definition annotationTarget :: "nat \<Rightarrow> type_environment \<Rightarrow> ts_type option \<Rightarrow> widening_target option option" where
  "annotationTarget n env annotation =
     (case annotation of None \<Rightarrow> Some None | Some t \<Rightarrow> classifyWideningTarget n env t)"

definition enclosingFunction :: "frame list \<Rightarrow> frame option" where
  "enclosingFunction parents = map_option fst (nearest isRuntimeFunction parents)"

text \<open>The nodes the rule has handlers for.\<close>

datatype flow_node =
    VariableDeclarator declarator
  | PropertyDefinition "expr option" "ts_type option"
  | AccessorProperty "expr option" "ts_type option"
  | AssignmentExpression string expr expr
  | ReturnStatement "expr option" "frame list"
  | ArrowFunction "expr option" "ts_type option"
  | TypeAssertion expr ts_type "frame list"

definition flowInto ::
  "nat \<Rightarrow> source_code \<Rightarrow> type_environment \<Rightarrow> expr option \<Rightarrow> ts_type option \<Rightarrow> widening_target option option" where
  "flowInto n sc env value annotation = (case value of
     None \<Rightarrow> Some None
   | Some e \<Rightarrow> map_option (reportFlow sc e) (annotationTarget n env annotation))"

fun noKnownValueWidening :: "nat \<Rightarrow> source_code \<Rightarrow> statement list \<Rightarrow> flow_node \<Rightarrow> widening_target option option" where
  "noKnownValueWidening n sc body (VariableDeclarator d) =
     (case de_id d of
        None \<Rightarrow> Some None
      | Some (name, annotation) \<Rightarrow> flowInto n sc (createTypeEnvironment body) (de_init d) annotation)"
| "noKnownValueWidening n sc body (PropertyDefinition value annotation) =
     flowInto n sc (createTypeEnvironment body) value annotation"
| "noKnownValueWidening n sc body (AccessorProperty value annotation) =
     flowInto n sc (createTypeEnvironment body) value annotation"
| "noKnownValueWidening n sc body (AssignmentExpression operator left right) =
     (case left of
        Identifier name start stop \<Rightarrow>
          if operator \<noteq> ''='' then Some None
          else (case resolveVariable sc left name of
                  None \<Rightarrow> Some None
                | Some (i, v) \<Rightarrow>
                    (case Option.bind (singleDeclarator v) de_id of
                       None \<Rightarrow> Some None
                     | Some (declared, annotation) \<Rightarrow> flowInto n sc (createTypeEnvironment body) (Some right) annotation))
      | _ \<Rightarrow> Some None)"
| "noKnownValueWidening n sc body (ReturnStatement argument parents) =
     flowInto n sc (createTypeEnvironment body) argument (Option.bind (enclosingFunction parents) fr_returnType)"
| "noKnownValueWidening n sc body (ArrowFunction expression returnType) =
     flowInto n sc (createTypeEnvironment body) expression returnType"
| "noKnownValueWidening n sc body (TypeAssertion e t parents) =
     (case parents of
        f # _ \<Rightarrow> if is_assertion_frame f then Some None else flowInto n sc (createTypeEnvironment body) (Some e) (Some t)
      | [] \<Rightarrow> flowInto n sc (createTypeEnvironment body) (Some e) (Some t))"

section \<open>no-widen-then-assert: types\<close>

datatype broad_type_kind = TopKind | ObjectKind | RecordKind

fun unwrapTypeParentheses :: "ts_type \<Rightarrow> ts_type" where
  "unwrapTypeParentheses (TSParenthesizedType t) = unwrapTypeParentheses t"
| "unwrapTypeParentheses t = t"

lemma unwrapTypeParentheses_size: "unwrapTypeParentheses t = u \<Longrightarrow> size u \<le> size t"
  by (induction t rule: unwrapTypeParentheses.induct) auto

definition isUnknownOrAnyType :: "ts_type \<Rightarrow> bool" where
  "isUnknownOrAnyType t \<longleftrightarrow> unwrapTypeParentheses t = TSUnknownKeyword \<or> unwrapTypeParentheses t = TSAnyKeyword"

function isBroadRecordKeyType :: "ts_type \<Rightarrow> bool" where
  "isBroadRecordKeyType type = (case unwrapTypeParentheses type of
     TSStringKeyword \<Rightarrow> True
   | TSNumberKeyword \<Rightarrow> True
   | TSSymbolKeyword \<Rightarrow> True
   | TSUnionType types \<Rightarrow> list_all isBroadRecordKeyType types
   | TSTypeReference name args \<Rightarrow> name = Some ''PropertyKey''
   | _ \<Rightarrow> False)"
  by pat_completeness auto

termination isBroadRecordKeyType
  by (relation "measure size") (auto dest!: unwrapTypeParentheses_size element_size)

declare isBroadRecordKeyType.simps [simp del]

fun isBroadIndexSignature :: "ts_member list \<Rightarrow> bool" where
  "isBroadIndexSignature [TSIndexSignature [parameter] annotation] =
     (isBroadRecordKeyType parameter \<and> isUnknownOrAnyType annotation)"
| "isBroadIndexSignature _ = False"

function isBroadRecordType :: "ts_type \<Rightarrow> bool" where
  "isBroadRecordType type = (case unwrapTypeParentheses type of
     TSTypeReference name args \<Rightarrow>
       if name = Some ''Readonly'' then (case args of inner # _ \<Rightarrow> isBroadRecordType inner | [] \<Rightarrow> False)
       else if name \<noteq> Some ''Record'' then False
       else (case args of [k, v] \<Rightarrow> isBroadRecordKeyType k \<and> isUnknownOrAnyType v | _ \<Rightarrow> False)
   | TSTypeLiteral members \<Rightarrow> isBroadIndexSignature members
   | _ \<Rightarrow> False)"
  by pat_completeness auto

termination isBroadRecordType
  by (relation "measure size") (auto dest!: unwrapTypeParentheses_size)

declare isBroadRecordType.simps [simp del]

definition broadTypeKind :: "ts_type \<Rightarrow> broad_type_kind option" where
  "broadTypeKind type = (case unwrapTypeParentheses type of
     TSUnknownKeyword \<Rightarrow> Some TopKind
   | TSAnyKeyword \<Rightarrow> Some TopKind
   | TSObjectKeyword \<Rightarrow> Some ObjectKind
   | t \<Rightarrow> if isBroadRecordType t then Some RecordKind else None)"

function isDefinitelyObjectType :: "ts_type \<Rightarrow> bool" where
  "isDefinitelyObjectType type = (case unwrapTypeParentheses type of
     TSArrayType t \<Rightarrow> True
   | TSConstructorType inputs t \<Rightarrow> True
   | TSFunctionType inputs t \<Rightarrow> True
   | TSMappedType key constraint nameType annotation \<Rightarrow> True
   | TSObjectKeyword \<Rightarrow> True
   | TSTupleType types \<Rightarrow> True
   | TSTypeLiteral members \<Rightarrow> members \<noteq> []
   | TSIntersectionType types \<Rightarrow> list_all isDefinitelyObjectType types
   | TSTypeOperator op t \<Rightarrow> op = ''readonly'' \<and> isDefinitelyObjectType t
   | _ \<Rightarrow> False)"
  by pat_completeness auto

termination isDefinitelyObjectType
  by (relation "measure size") (auto dest!: unwrapTypeParentheses_size element_size)

declare isDefinitelyObjectType.simps [simp del]

function isDefinitelyNarrowerRecordType :: "ts_type \<Rightarrow> bool" where
  "isDefinitelyNarrowerRecordType type = (case unwrapTypeParentheses type of
     TSTypeLiteral members \<Rightarrow> list_ex (\<lambda>m. \<not> is_index_signature m) members
   | TSTypeReference name args \<Rightarrow>
       if name = Some ''Readonly'' then (case args of inner # _ \<Rightarrow> isDefinitelyNarrowerRecordType inner | [] \<Rightarrow> False)
       else if name \<noteq> Some ''Record'' then False
       else (case args of [k, v] \<Rightarrow> \<not> isUnknownOrAnyType v | _ \<Rightarrow> False)
   | _ \<Rightarrow> False)"
  by pat_completeness auto

termination isDefinitelyNarrowerRecordType
  by (relation "measure size") (auto dest!: unwrapTypeParentheses_size)

declare isDefinitelyNarrowerRecordType.simps [simp del]

section \<open>no-widen-then-assert: values\<close>

definition functionBoundaryTypes :: "string set" where
  "functionBoundaryTypes = {''ArrowFunctionExpression'', ''FunctionDeclaration'', ''FunctionExpression'',
     ''TSDeclareFunction'', ''TSEmptyBodyFunctionExpression''}"

definition functionBoundary :: "frame list \<Rightarrow> nat option" where
  "functionBoundary parents = map_option (fr_node \<circ> fst) (nearest (\<lambda>f. fr_type f \<in> functionBoundaryTypes) parents)"

fun findReference :: "((nat \<times> nat) \<times> nat option) list list \<Rightarrow> nat \<times> nat \<Rightarrow> nat option" where
  "findReference [] position = None"
| "findReference (references # scopes) position =
     (case map_of references position of Some resolved \<Rightarrow> resolved | None \<Rightarrow> findReference scopes position)"

definition resolvedVariableForIdentifier :: "source_code \<Rightarrow> nat \<Rightarrow> nat \<Rightarrow> (nat \<times> variable) option" where
  "resolvedVariableForIdentifier sc start stop = lookupVariable sc (findReference (sc_scopes sc) (start, stop))"

fun firstDeclarator :: "var_definition list \<Rightarrow> declarator option" where
  "firstDeclarator [] = None"
| "firstDeclarator (d # ds) =
     (if vd_type d = ''Variable'' \<and> vd_declarator d \<noteq> None then vd_declarator d else firstDeclarator ds)"

definition hasLaterWrite :: "variable \<Rightarrow> bool" where
  "hasLaterWrite v \<longleftrightarrow> list_ex (\<lambda>(isWrite, init). isWrite \<and> \<not> init) (va_references v)"

definition annotatedIdentifier :: "variable \<Rightarrow> (ts_type \<times> frame list) option" where
  "annotatedIdentifier v = (case List.map_filter (\<lambda>(t, parents). map_option (\<lambda>t. (t, parents)) t) (va_identifiers v) of
     [] \<Rightarrow> None
   | x # _ \<Rightarrow> Some x)"

text \<open>The evidence for a value: \<open>None\<close> when there is none, otherwise the type that was asserted or declared, if any.\<close>

function knownValueEvidence :: "source_code \<Rightarrow> expr \<Rightarrow> nat option \<Rightarrow> nat set \<Rightarrow> ts_type option option" where
  "knownValueEvidence sc e boundary visited =
     (case unwrapParentheses e of
        TSAsExpression start e' t \<Rightarrow> if broadTypeKind t \<noteq> None then None else Some (Some t)
      | TSTypeAssertion start e' t \<Rightarrow> if broadTypeKind t \<noteq> None then None else Some (Some t)
      | Literal v \<Rightarrow> Some None
      | TemplateLiteral \<Rightarrow> Some None
      | ArrayExpression \<Rightarrow> Some None
      | ArrowFunctionExpression \<Rightarrow> Some None
      | ClassExpression \<Rightarrow> Some None
      | FunctionExpression \<Rightarrow> Some None
      | NewExpression \<Rightarrow> Some None
      | ObjectExpression k \<Rightarrow> Some None
      | Identifier name start stop \<Rightarrow>
          (case resolvedVariableForIdentifier sc start stop of
             None \<Rightarrow> None
           | Some (i, v) \<Rightarrow>
               if i \<in> visited then None
               else (case annotatedIdentifier v of
                       Some (t, parents) \<Rightarrow>
                         if functionBoundary parents \<noteq> boundary \<or> broadTypeKind t \<noteq> None then None else Some (Some t)
                     | None \<Rightarrow>
                         (case firstDeclarator (va_defs v) of
                            None \<Rightarrow> None
                          | Some d \<Rightarrow>
                              (case de_init d of
                                 None \<Rightarrow> None
                               | Some init \<Rightarrow>
                                   if de_kind d \<noteq> Some ''const'' \<or> hasLaterWrite v
                                     \<or> functionBoundary (de_parents d) \<noteq> boundary then None
                                   else knownValueEvidence sc init boundary (insert i visited)))))
      | _ \<Rightarrow> None)"
  by pat_completeness auto

termination knownValueEvidence
  by (relation "measure (\<lambda>(sc, e, boundary, visited). card (set (map fst (sc_variables sc)) - visited))")
    (auto simp: resolvedVariableForIdentifier_def simp del: set_map intro: variable_fewer)

declare knownValueEvidence.simps [simp del]

fun assertionFromExpression :: "expr \<Rightarrow> (expr \<times> ts_type) option" where
  "assertionFromExpression (ParenthesizedExpression e) = assertionFromExpression e"
| "assertionFromExpression (TSAsExpression start e t) = Some (e, t)"
| "assertionFromExpression (TSTypeAssertion start e t) = Some (e, t)"
| "assertionFromExpression _ = None"

record widened =
  wi_broadKind :: broad_type_kind
  wi_evidence :: "ts_type option"
  wi_declaredAt :: nat
  wi_boundary :: "nat option"

definition widenedBinding :: "source_code \<Rightarrow> nat \<Rightarrow> variable \<Rightarrow> widened option" where
  "widenedBinding sc i v = (case firstDeclarator (va_defs v) of
     None \<Rightarrow> None
   | Some d \<Rightarrow>
       (case (de_id d, de_init d) of
          (Some (name, declaredType), Some init) \<Rightarrow>
            if de_kind d \<noteq> Some ''const'' \<or> hasLaterWrite v then None
            else
              (let boundary = functionBoundary (de_parents d);
                   initializerAssertion = assertionFromExpression init;
                   initializerBroadKind = Option.bind initializerAssertion (broadTypeKind \<circ> snd);
                   declaredBroadKind = Option.bind declaredType broadTypeKind
               in case (case declaredBroadKind of Some k \<Rightarrow> Some k | None \<Rightarrow> initializerBroadKind) of
                    None \<Rightarrow> None
                  | Some broadKind \<Rightarrow>
                      (let originalExpression =
                         (case initializerAssertion of
                            Some (e, t) \<Rightarrow> if initializerBroadKind \<noteq> None then unwrapParentheses e else init
                          | None \<Rightarrow> init)
                       in map_option (\<lambda>evidence. \<lparr>wi_broadKind = broadKind, wi_evidence = evidence,
                            wi_declaredAt = de_end d, wi_boundary = boundary\<rparr>)
                            (knownValueEvidence sc originalExpression boundary {i})))
        | _ \<Rightarrow> None))"

text \<open>The texts of two types agree apart from white space; \<open>typeText\<close> gives the text of a type node.\<close>

definition normalizedTypeText :: "(ts_type \<Rightarrow> string) \<Rightarrow> ts_type \<Rightarrow> string" where
  "normalizedTypeText typeText t = filter (\<lambda>c. \<not> is_ws c) (typeText t)"

definition typesHaveSameSyntax :: "(ts_type \<Rightarrow> string) \<Rightarrow> ts_type option \<Rightarrow> ts_type \<Rightarrow> bool" where
  "typesHaveSameSyntax typeText left right = (case left of
     None \<Rightarrow> False
   | Some l \<Rightarrow> normalizedTypeText typeText (unwrapTypeParentheses l) = normalizedTypeText typeText (unwrapTypeParentheses right))"

definition assertionIsNarrower :: "(ts_type \<Rightarrow> string) \<Rightarrow> broad_type_kind \<Rightarrow> ts_type option \<Rightarrow> ts_type \<Rightarrow> bool" where
  "assertionIsNarrower typeText broadKind evidence assertedType =
     (if broadTypeKind assertedType \<noteq> None then False
      else if broadKind = TopKind then True
      else if typesHaveSameSyntax typeText evidence assertedType then True
      else if broadKind = ObjectKind then isDefinitelyObjectType assertedType
      else isDefinitelyNarrowerRecordType assertedType)"

text \<open>Whether the assertion of an expression, starting at a position, to a type is reported.\<close>

definition noWidenThenAssert :: "(ts_type \<Rightarrow> string) \<Rightarrow> source_code \<Rightarrow> nat \<Rightarrow> expr \<Rightarrow> ts_type \<Rightarrow> frame list \<Rightarrow> bool" where
  "noWidenThenAssert typeText sc start e assertedType parents = (case unwrapParentheses e of
     Identifier name s t \<Rightarrow>
       (case resolvedVariableForIdentifier sc s t of
          None \<Rightarrow> False
        | Some (i, v) \<Rightarrow>
            (case widenedBinding sc i v of
               None \<Rightarrow> False
             | Some w \<Rightarrow>
                 \<not> start \<le> wi_declaredAt w \<and> functionBoundary parents = wi_boundary w \<and>
                 assertionIsNarrower typeText (wi_broadKind w) (wi_evidence w) assertedType))
   | _ \<Rightarrow> False)"

end
