(* ===== verification/LintRuleProperties.thy ===== *)
theory LintRuleProperties
  imports LintAliasProperties LintFlows
begin

text \<open>
  What the lint rules on expressions report: values followed through constants, chains of assertions, and the comments
  that justify an assertion.
\<close>

section \<open>Known values\<close>

text \<open>The variable that an expression names, and the initialiser of a constant that is never written again.\<close>

definition named_variable :: "source_code \<Rightarrow> expr \<Rightarrow> nat option" where
  "named_variable sc e = (case unwrapExpression e of
     Identifier name start stop \<Rightarrow> map_option fst (resolveVariable sc (unwrapExpression e) name)
   | _ \<Rightarrow> None)"

definition constant_value :: "source_code \<Rightarrow> nat \<Rightarrow> expr option" where
  "constant_value sc i = Option.bind (map_of (sc_variables sc) i) (\<lambda>v. Option.bind (singleDeclarator v)
     (\<lambda>d. if isStableConstVariable v d then de_init d else None))"

lemma constant_value_finite: "finite (dom (constant_value sc))"
  by (rule finite_subset [OF _ finite_dom_map_of [of "sc_variables sc"]])
    (auto simp: constant_value_def dom_def split: bind_splits)

lemma resolveVariable_lookup: "resolveVariable sc e name = Some (i, v) \<Longrightarrow> map_of (sc_variables sc) i = Some v"
  by (auto simp: resolveVariable_def lookupVariable_def split: option.splits)

lemma constant_value_resolved:
  "resolveVariable sc e name = Some (i, v) \<Longrightarrow> constant_value sc i =
     Option.bind (singleDeclarator v) (\<lambda>d. if isStableConstVariable v d then de_init d else None)"
  by (simp add: constant_value_def resolveVariable_lookup)

interpretation constants: alias_search isKnownEvidenceExpression "\<lambda>_. []" "named_variable sc" "constant_value sc"
    "hasKnownEvidence sc" size for sc
proof unfold_locales
  fix e V
  show "hasKnownEvidence sc e V \<longleftrightarrow> isKnownEvidenceExpression e \<or> (\<exists>u \<in> set []. hasKnownEvidence sc u V) \<or>
    (\<exists>n u. named_variable sc e = Some n \<and> n \<notin> V \<and> constant_value sc n = Some u \<and> hasKnownEvidence sc u (insert n V))"
  proof (cases "unwrapExpression e")
    case (Identifier name start stop)
    then show ?thesis
      by (subst hasKnownEvidence.simps)
        (auto simp: named_variable_def constant_value_resolved split: option.splits prod.splits bind_splits if_splits)
  qed (subst hasKnownEvidence.simps, simp add: named_variable_def)+
qed (simp_all add: constant_value_finite)

text \<open>
  A value is known exactly when it, or what a chain of constants that are never written again leads to, is a literal,
  a function, a class, an object or an array, however the constants refer to each other.
\<close>

theorem known_value_through_constants:
  "hasKnownEvidence sc e {} \<longleftrightarrow>
     resolves_to isKnownEvidenceExpression (\<lambda>_. []) (named_variable sc) (constant_value sc) e"
  by (rule constants.search_iff)

section \<open>Assertion chains\<close>

text \<open>The parents between two assertions of a chain: the assertion and the parentheses around the inner one.\<close>

definition chain_link :: "frame list \<Rightarrow> bool" where
  "chain_link fs \<longleftrightarrow> (\<exists>ps a. fs = ps @ [a] \<and> is_assertion_frame a \<and> fr_slot a = ExpressionSlot \<and>
     (\<forall>p \<in> set ps. fr_type p = ''ParenthesizedExpression'' \<and> fr_slot p = ExpressionSlot))"

lemma inner_assertion_not_outermost: "chain_link fs \<Longrightarrow> \<not> isOutermostAssertionInChain (fs @ gs)"
proof -
  assume "chain_link fs"
  then obtain ps a where fs: "fs = ps @ [a]" and a: "is_assertion_frame a" "fr_slot a = ExpressionSlot"
    and ps: "\<forall>p \<in> set ps. fr_type p = ''ParenthesizedExpression'' \<and> fr_slot p = ExpressionSlot"
    by (auto simp: chain_link_def)
  have "\<not> isOutermostAssertionInChain (ps @ a # gs)"
    using ps a by (induction ps) (auto simp: is_assertion_frame_def)
  then show ?thesis by (simp add: fs)
qed

text \<open>
  An assertion inside a chain is never reported: a chain of assertions gives at most one report, at its outermost
  assertion, and gives it exactly when the chain has two assertions of which one is not a const assertion.
\<close>

theorem assertion_chain_reported_once:
  "(chain_link fs \<longrightarrow> \<not> noChainedTypeAssertions node (fs @ gs)) \<and>
   (isOutermostAssertionInChain gs \<longrightarrow>
      (noChainedTypeAssertions node gs \<longleftrightarrow> 2 \<le> length (assertionChain node) \<and> (\<exists>t \<in> set (assertionChain node). \<not> isConstAssertion t)))"
  by (auto simp: noChainedTypeAssertions_def inner_assertion_not_outermost isForbiddenAssertionChain_def list_all_iff)

section \<open>Safety comments\<close>

lemma contiguous_last: "contiguous c cs \<noteq> [] \<and> last (contiguous c cs) = c"
  by (cases cs) auto

text \<open>
  An assertion that is accepted is a const assertion, or the only assertion of the nearest statement around it, with a
  comment directly above one of the two that names \<open>SAFETY\<close> and explains in at least four words, two of them different.
\<close>

theorem accepted_assertion_is_justified:
  assumes "\<not> requireSafetyComment sourceOf t node parents" "\<not> isConstAssertion t"
  shows "\<exists>owner anchor block. findOwner parents = Some owner \<and> countAssertions (ns_tree (sourceOf (fr_node owner))) = 1 \<and>
    anchor \<in> {node, sourceOf (fr_node owner)} \<and>
    leadingSafetyBlock (ns_comments anchor) (ns_line anchor) (ns_start anchor) = Some block \<and>
    hasSafetyMarker block \<and> isSubstantive block"
proof -
  from assms obtain owner where owner: "findOwner parents = Some owner"
    and one: "countAssertions (ns_tree (sourceOf (fr_node owner))) = 1"
    and "justifies node \<or> justifies (sourceOf (fr_node owner))"
    by (auto simp: requireSafetyComment_def hasSafetyComment_def split: option.splits if_splits)
  then obtain anchor where anchor: "anchor \<in> {node, sourceOf (fr_node owner)}" "justifies anchor" by blast
  then obtain block where "leadingSafetyBlock (ns_comments anchor) (ns_line anchor) (ns_start anchor) = Some block"
    "isSubstantive block"
    by (auto simp: justifies_def split: option.splits)
  moreover from this have "hasSafetyMarker block"
    by (auto simp: leadingSafetyBlock_def Let_def split: list.splits if_splits)
  ultimately show ?thesis using owner one anchor(1) by blast
qed

text \<open>A const assertion in the same statement counts as well: the comment then justifies nothing.\<close>

lemma const_assertion_blocks_justification:
  assumes "findOwner parents = Some owner" "\<not> isConstAssertion t"
    and "ns_tree (sourceOf (fr_node owner)) = Node k [Node ''TSAsExpression'' [Node ''TSAsExpression'' [], Node ''TSTypeReference'' []]]"
  shows "requireSafetyComment sourceOf t node parents"
  using assms by (simp add: requireSafetyComment_def hasSafetyComment_def)

end
