(* ===== verification/RowTypes.thy ===== *)
theory RowTypes
  imports ApiProperties DtoProperties GoogleProperties
begin

text \<open>
  The types of the rows. The columns of the schema are plain text and integers, so the ranges of a server and
  the form of a user name are promised by the validation pipe alone. This theory shows that the
  promise reaches the tables: a relation between the state before and after an atomic step says that rows keep
  their types, every handler behind every end point satisfies it when its body has passed the pipe, and so the tables are
  well typed in every reachable state.
\<close>

section \<open>Well-typed tables\<close>

definition user_typed :: "user \<Rightarrow> bool" where
  "user_typed u \<longleftrightarrow> matches CANONICAL_USERNAME (u_username u)"

definition server_typed :: "server \<Rightarrow> bool" where
  "server_typed r \<longleftrightarrow> 1 \<le> length (sv_name r) \<and> length (sv_name r) \<le> 50 \<and> matches VERSION_PATTERN (sv_version r)
     \<and> 25565 \<le> sv_port r \<and> sv_port r \<le> 25665 \<and> 512 \<le> sv_memoryLimitMb r
     \<and> 1 \<le> sv_maxPlayers r \<and> sv_maxPlayers r \<le> 10000 \<and> 2 \<le> sv_viewDistance r \<and> sv_viewDistance r \<le> 32"

definition tables_typed :: "world \<Rightarrow> bool" where
  "tables_typed w \<longleftrightarrow> list_all user_typed (users w) \<and> list_all server_typed (servers w)"

definition types_kept :: "world \<Rightarrow> world \<Rightarrow> bool" where
  "types_kept w w' \<longleftrightarrow> (tables_typed w \<longrightarrow> tables_typed w')"

lemma kept_refl [simp]: "types_kept w w"
  by (simp add: types_kept_def)

lemma kept_trans: "types_kept w w' \<Longrightarrow> types_kept w' w'' \<Longrightarrow> types_kept w w''"
  by (simp add: types_kept_def)

lemma kept_same: "users w' = users w \<Longrightarrow> servers w' = servers w \<Longrightarrow> types_kept w w'"
  by (simp add: types_kept_def tables_typed_def)

lemma same_server_typed: "same_server r r' \<Longrightarrow> server_typed r' = server_typed r"
  by (cases r; cases r') (simp add: same_server_def server_typed_def)

section \<open>Statements on accounts\<close>

lemma kept_simple [simp]:
  "types_kept w (delete_tokens P w)"
  "types_kept w (delete_grants Q w)"
  "types_kept w (w\<lparr>twoFactorFailures := f\<rparr>)"
  "types_kept w (recordTwoFactorFailure x w)"
  "types_kept w (prune now w)"
  "types_kept w (recordFailure cr ctx w)"
  "types_kept w (recordSuccess ctx w)"
  "types_kept w (ensureSetupState w)"
  "types_kept w (getOrGenerateBootstrapToken rnd w)"
  "types_kept w (w\<lparr>setupState := st\<rparr>)"
  "types_kept w (w\<lparr>dockerLog := l\<rparr>)"
  "types_kept w (w\<lparr>modPermissions := ps\<rparr>)"
  by (rule kept_same; simp add: delete_tokens_def delete_grants_def recordTwoFactorFailure_def prune_def recordFailure_def
      recordSuccess_def Let_def ensureSetupState_def getOrGenerateBootstrapToken_def split: option.splits)+

text \<open>An update of accounts either leaves the names alone or writes canonical ones.\<close>

lemma kept_update_users:
  assumes "update_users P f w = Inr (rows, w')" and "\<And>u. P u \<Longrightarrow> user_typed u \<Longrightarrow> user_typed (f u)"
  shows "types_kept w w'"
proof -
  from assms(1) have w': "w' = w\<lparr>users := map (\<lambda>u. if P u then touch w (f u) else u) (users w)\<rparr>"
    by (auto simp: update_users_def Let_def update_where_def split: if_splits)
  have "user_typed (touch w u) = user_typed u" for u by (simp add: user_typed_def touch_def)
  with assms(2) show ?thesis by (auto simp: w' types_kept_def tables_typed_def list_all_iff)
qed

lemma kept_statements:
  "insert_user u w = Inr (x, w') \<Longrightarrow> user_typed u \<Longrightarrow> types_kept w w'"
  "insert_token t w = Inr (y, w') \<Longrightarrow> types_kept w w'"
  "insert_challenge c w = Inr (y, w') \<Longrightarrow> types_kept w w'"
  "consumeChallenge cr pv ch w = Inr (b, w') \<Longrightarrow> types_kept w w'"
  by (auto simp: insert_user_def insert_token_def insert_challenge_def consumeChallenge_def types_kept_def tables_typed_def
      split: if_splits)

lemma kept_tx:
  "consumeTx u h w = Inr (x, w') \<Longrightarrow> types_kept w w'"
  "consumeCodeTx i st r w = Inr (b, w') \<Longrightarrow> types_kept w w'"
  "forced_change i t nh w = Inr (y, w') \<Longrightarrow> types_kept w w'"
  "resetTx i t e w = Inr (z, w') \<Longrightarrow> types_kept w w'"
  unfolding consumeTx_def consumeCodeTx_def forced_change_def resetTx_def
  by (auto simp: seqE_Inr_iff split: option.splits intro!: kept_trans [OF _ kept_simple(1)] elim!: kept_update_users
      simp: user_typed_def)

lemma kept_status:
  assumes "updateStatusTx i us w = Inr (x, w')"
  shows "types_kept w w'"
proof -
  from assms obtain rows w1 where "update_users (\<lambda>u. u_id u = i) (\<lambda>u. u\<lparr>u_status := us\<rparr>) w = Inr (rows, w1)"
    and w': "w' = w1 \<or> w' = delete_tokens (\<lambda>t. rt_userId t = i) w1"
    by (auto simp: updateStatusTx_def seqE_Inr_iff split: option.splits if_splits)
  then have "types_kept w w1" by (auto elim!: kept_update_users simp: user_typed_def)
  then show ?thesis using w' kept_trans [OF _ kept_simple(1)] by auto
qed

lemma kept_role: "updateRoleTx i rl w = Inr (y, w') \<Longrightarrow> types_kept w w'"
  unfolding updateRoleTx_def
  by (auto simp: seqE_Inr_iff split: option.splits intro!: kept_trans [OF _ kept_simple(2)] elim!: kept_update_users
      simp: user_typed_def)

lemma kept_grant:
  assumes "grantTx n i dto seen w = Inr (z, w')"
  shows "types_kept w w'"
  using assms unfolding grantTx_def Let_def
  by (cases "find_user i w"; cases "grant_scope dto") (auto simp: seqE_Inr_iff split: if_splits)

lemmas kept_admin_tx = kept_status kept_role kept_grant

lemma kept_rotate: "rotateTx env d st w = Inr (x, w') \<Longrightarrow> types_kept w w'"
  unfolding rotateTx_def
  by (auto simp: seqE_Inr_iff split: option.splits if_splits
      intro!: kept_trans [OF kept_trans [OF kept_simple(1)] kept_simple(1)] elim!: kept_statements)

lemma kept_initAdmin:
  assumes "initAdminTx i dto ph w = Inr (x, w')" and "matches CANONICAL_USERNAME (rg_username dto)"
  shows "types_kept w w'"
proof -
  from assms(1) obtain y w2 st where ins: "insert_user (new_user i (rg_email dto) (rg_username dto) (Some ph) ACTIVE (Some ADMIN) (clock w))
      (ensureSetupState w) = Inr (y, w2)" and w': "w' = w2\<lparr>setupState := st\<rparr>"
    by (auto simp: initAdminTx_def Let_def seqE_Inr_iff split: if_splits)
  have "types_kept (ensureSetupState w) w2"
    by (rule kept_statements(1) [OF ins]) (simp add: user_typed_def new_user_def assms(2))
  from kept_trans [OF kept_simple(8) this] show ?thesis unfolding w' by (rule kept_trans) simp
qed

lemma kept_get [guar_simps]: "guar types_kept (get f)"
  by (simp add: guar_get)

lemmas kept_elims = kept_update_users kept_statements kept_tx kept_admin_tx kept_rotate kept_initAdmin

section \<open>The account services\<close>

lemma kept_helpers [guar_simps]:
  "guar types_kept (issueSession env u t)"
  "guar types_kept (consumeTempPassword u)"
  "guar types_kept (assertTwoFactorNotLocked x)"
  "guar types_kept (verifyAndConsumeBackupCode cr u tok)"
  "guar types_kept (assertAllowed cr c)"
  "guar types_kept (finishLogin ctx r)"
  "guar types_kept (failLogin cr ctx)"
  "guar types_kept (findById x)"
  "guar types_kept (findByIdentifier n)"
  "guar types_kept (loadUser x)"
  unfolding issueSession_def consumeTempPassword_def assertTwoFactorNotLocked_def verifyAndConsumeBackupCode_def
    assertAllowed_def finishLogin_def failLogin_def recordLoginSuccess_def recordLoginFailure_def sleep_def
    findById_def findByIdentifier_def loadUser_def
  by (auto intro!: guar_intros guar_atomicallyI elim!: kept_elims
      simp: guar_simps split: option.splits if_splits prod.splits)

lemma kept_login [guar_simps]:
  "guar types_kept (loginUser env dto ctx)"
  "guar types_kept (completeTwoFactorLogin env x tok tmp fp)"
proof -
  have "guar types_kept (loginAccount env ctx u p t)" for u p t
    unfolding loginAccount_def by (auto intro!: guar_intros simp: guar_simps)
  then show "guar types_kept (loginUser env dto ctx)" unfolding loginUser_def Let_def
    by (auto intro!: guar_intros simp: guar_simps split: option.splits)
  have "guar types_kept (acceptCode env u tok tmp)" for u
    unfolding acceptCode_def by (auto intro!: guar_intros simp: guar_simps)
  then show "guar types_kept (completeTwoFactorLogin env x tok tmp fp)" unfolding completeTwoFactorLogin_def
    by (auto intro!: guar_intros simp: guar_simps split: option.splits)
qed

lemma kept_updatePassword [guar_simps]: "guar types_kept (updatePassword cr x op np tid tmp)"
  unfolding updatePassword_def
  by (auto intro!: guar_intros guar_atomicallyI elim!: kept_elims simp: guar_simps user_typed_def split: option.splits)

lemma kept_auth [guar_simps]:
  "guar types_kept (issueProviderSession env u)"
  "guar types_kept (logoutUser cr x tok)"
  "guar types_kept (logoutAll x)"
  "guar types_kept (rotateRefreshToken env tok)"
  "guar types_kept (getSessions x)"
  "guar types_kept (deleteSingleSession x tid)"
  "guar types_kept (updateUserPassword env x op np tok tmp)"
  "guar types_kept (setup2FA gu env iv sec x)"
  "guar types_kept (confirm2FA env codes x tok)"
  "guar types_kept (disable2FA env x tok)"
  unfolding issueProviderSession_def logoutUser_def logoutAll_def rotateRefreshToken_def
    getSessions_def deleteSingleSession_def updateUserPassword_def setup2FA_def confirm2FA_def disable2FA_def
  by (auto intro!: guar_intros guar_atomicallyI elim!: kept_elims
      simp: guar_simps user_typed_def split: option.splits jwt_result.splits)

lemma kept_admin [guar_simps]:
  "guar types_kept (listUsers q)"
  "guar types_kept (listModPermissions x)"
  "guar types_kept (updateStatus x us)"
  "guar types_kept (updateRole x rl)"
  "guar types_kept (grantModPermission i x gdto)"
  "guar types_kept (revokeModPermission x pid)"
  "guar types_kept (resetPassword cr tp x)"
  "guar types_kept (removeTwoFactor x)"
  unfolding listUsers_def listModPermissions_def updateStatus_def updateRole_def grantModPermission_def
    revokeModPermission_def resetPassword_def removeTwoFactor_def
  by (auto intro!: guar_intros guar_atomicallyI elim!: kept_elims simp: guar_simps user_typed_def Let_def
      split: option.splits if_splits)

text \<open>The handlers that write a user name, given that the name is canonical.\<close>

lemma kept_named:
  "matches CANONICAL_USERNAME (rg_username dto) \<Longrightarrow> guar types_kept (registerUser cr cfg i dto)"
  "matches CANONICAL_USERNAME (rg_username dto) \<Longrightarrow> guar types_kept (initAdminRegister cr cfg i dto tok)"
  "(\<And>s. nm = Some s \<Longrightarrow> matches CANONICAL_USERNAME s) \<Longrightarrow> guar types_kept (updateProfile x nm)"
  unfolding registerUser_def createUser_def initAdminRegister_def expectedSetupToken_def updateProfile_def
  by (auto intro!: guar_intros guar_atomicallyI elim!: kept_elims
      simp: guar_simps user_typed_def new_user_def orElse_def split: option.splits)

lemma provider_name: "u_username (provider_user dr ident pid st nm n now) = candidateName dr n nm"
  by (simp add: provider_user_def with_provider_def new_user_def split: identity_provider.splits)

lemma kept_createProviderUser:
  assumes "matches CANONICAL_USERNAME nm" and "\<And>n. 1000 \<le> dr_suffix dr n \<and> dr_suffix dr n < 10000"
  shows "guar types_kept (createProviderUser dr ident pid st nm k)"
proof (induction k)
  case (Suc k)
  have "user_typed (provider_user dr ident pid st nm n now)" for n now
    using candidate_canonical assms by (simp add: user_typed_def provider_name)
  with Suc show ?case
    by (auto intro!: guar_intros guar_atomicallyI elim!: kept_elims
        simp: guar_simps findByProvider_def findByEmail_def split: sum.splits option.splits)
qed simp

lemma kept_google:
  "guar types_kept (createChallenge cr i ch pv)"
  "guar types_kept (verifyAndConsume cr pv ch)"
  "guar types_kept (verifyCredential V cfg cred)"
  "guar types_kept (linkGoogleIdentity uid pid)"
  "guar types_kept (findByProvider p y)"
  "guar types_kept (findByEmail y)"
  unfolding createChallenge_def verifyAndConsume_def verifyCredential_def linkGoogleIdentity_def Let_def
    findByProvider_def findByEmail_def
  by (auto intro!: guar_intros guar_atomicallyI elim!: kept_elims simp: guar_simps user_typed_def
      split: option.splits sum.splits list.splits)

lemma kept_googleLogin:
  assumes "\<And>n. 1000 \<le> dr_suffix dr n \<and> dr_suffix dr n < 10000"
  shows "guar types_kept (googleLogin V cfg dr env cred)"
proof -
  have "guar types_kept (resolveProviderIdentity cfg dr ident)" for ident
    unfolding resolveProviderIdentity_def Let_def
    by (auto intro!: guar_intros kept_createProviderUser assms simp: kept_google split: option.splits)
  then show ?thesis unfolding googleLogin_def
    by (auto intro!: guar_intros simp: guar_simps kept_google split: resolution.splits)
qed

lemma kept_setup [guar_simps]:
  "guar types_kept getSetupState"
  "guar types_kept (setup_onModuleInit cfg rnd)"
  "guar types_kept (linkAuthenticatedUser V cfg cr uid cred)"
  unfolding getSetupState_def setup_onModuleInit_def linkAuthenticatedUser_def
  by (auto intro!: guar_intros simp: guar_simps kept_google split: option.splits)

section \<open>Servers\<close>

lemma kept_update_servers:
  assumes "update_servers P f w = Inr (rows, w')" and "\<And>r. same_server r (f w r)"
  shows "types_kept w w'"
proof -
  from assms(1) have w': "w' = w\<lparr>servers := update_where P (f w) (servers w)\<rparr>"
    by (auto simp: update_servers_def Let_def split: if_splits)
  show ?thesis
    using same_server_typed [OF assms(2)] by (auto simp: w' types_kept_def tables_typed_def list_all_iff set_update_where)
qed

lemma kept_transitionInTx: "transitionInTx sid a b cid new w = Inr (x, w') \<Longrightarrow> types_kept w w'"
  by (auto simp: transitionInTx_def seqE_Inr_iff elim!: kept_update_servers)

lemma kept_delete_server_in: "guar types_kept (delete_server_in sid st)"
  by (auto simp: delete_server_in_def guar_simps types_kept_def tables_typed_def delete_servers_def Let_def list_all_iff)

lemma kept_cas [guar_simps]:
  "guar types_kept (transition sid a b cid new)"
  "guar types_kept (claimContainerId sid k)"
  "guar types_kept (atomically (startClaimTx sid a c m h ratio msg))"
  unfolding transition_def claimContainerId_def
  by (auto intro!: guar_atomicallyI elim!: kept_transitionInTx kept_update_servers simp: startClaimTx_def seqE_Inr_iff same_server_def)

lemma log_closed_kept [simp]: "log_closed types_kept"
  by (simp add: log_closed_def)

text \<open>The one statement that inserts a server copies the validated fields and fills in the defaults.\<close>

definition dto_typed :: "create_server_dto \<Rightarrow> bool" where
  "dto_typed dto \<longleftrightarrow> server_typed (new_server [] dto \<lparr>p_id = [], p_role = ADMIN\<rparr> 0)"

lemma new_server_typed: "server_typed (new_server sid dto pr now) = dto_typed dto"
  by (simp add: dto_typed_def server_typed_def new_server_def)

lemma kept_createTx:
  assumes "createTx sid dto pr h ratio w = Inr (x, w')" and "dto_typed dto"
  shows "types_kept w w'"
proof -
  from assms(1) have "w' = w\<lparr>servers := servers w @ [new_server sid dto pr (clock w)]\<rparr>"
    by (auto simp: createTx_def seqE_Inr_iff insert_server_def split: if_splits)
  with assms(2) show ?thesis by (simp add: types_kept_def tables_typed_def new_server_typed)
qed

lemma kept_phases [guar_simps]:
  "guar types_kept (startAndFinalize dk sid cid)"
  "guar types_kept (stopPhase dk cfg sid pr)"
  "guar types_kept (compensateCreateFailure dk sid)"
  unfolding startAndFinalize_def stopPhase_def settleStopFailure_def compensateCreateFailure_def
  by (auto intro!: guar_intros guar_atomicallyI kept_delete_server_in elim!: kept_update_servers simp: guar_simps
      split: option.splits exn.splits lookup_result.splits)

lemma kept_servers [guar_simps]:
  "guar types_kept (startServer dk cfg sid pr)"
  "guar types_kept (stopServer dk cfg sid pr)"
  "guar types_kept (restartServer dk cfg sid pr)"
  "guar types_kept (deleteServer dk sid pr)"
  unfolding startServer_def stopServer_def restartServer_def restartClaim_def deleteServer_def resolveDeleteRemoveFailure_def
  by (auto intro!: guar_intros kept_delete_server_in simp: guar_simps split: option.splits exn.splits)

lemma kept_createServer: "dto_typed dto \<Longrightarrow> guar types_kept (createServer dk cfg sid dto pr)"
  unfolding createServer_def
  by (auto intro!: guar_intros guar_atomicallyI elim!: kept_createTx simp: guar_simps split: option.splits)

lemma kept_onModuleInit: "guar types_kept (onModuleInit dk)"
proof -
  have "guar types_kept (reconcileRows dk rows)" for rows
    by (induction rows) (auto intro!: guar_intros simp: guar_simps)
  moreover have "guar types_kept (applyOutcome ro)" for ro
    by (cases ro) (auto simp: applyOutcome_def guar_simps intro!: guar_atomicallyI elim!: kept_update_servers
        split: reconciliation_outcome.splits)
  then have "guar types_kept (applyOutcomes ros)" for ros
    by (induction ros) (auto intro!: guar_intros simp: guar_simps)
  ultimately show ?thesis unfolding onModuleInit_def by (auto intro!: guar_intros simp: guar_simps)
qed

lemma kept_access: "guar access_guar p \<Longrightarrow> guar types_kept p"
proof (erule guar_mono)
  fix w w' assume "access_guar w w'"
  then obtain t where "w' = w\<lparr>serverAccess := t\<rparr>" by (auto simp: access_guar_def access_step_def)
  then show "types_kept w w'" by (simp add: kept_same)
qed

lemma kept_server_reads [guar_simps]:
  "guar types_kept (listServers q pr)" "guar types_kept (listRequestableServers q pr)"
  "guar types_kept (getServer i pr)" "guar types_kept (requestAccess ids i pr)"
  "guar types_kept (getMyAccessRequest i pr)" "guar types_kept (listAccessRequests i)"
  "guar types_kept (approveAccess ids i uid)" "guar types_kept (revokeAccess i uid)"
  unfolding listServers_def listRequestableServers_def getServer_def loadVisibleServer_def
  by (auto intro!: guar_intros kept_access simp: guar_simps split: option.splits)

section \<open>End points\<close>

text \<open>The bodies that carry a user name or a server have passed the pipe.\<close>

fun validated :: "validator \<Rightarrow> endpoint \<Rightarrow> bool" where
  "validated vl (Register dto) = (\<exists>body. parseCreateUserDto vl body = Inr dto)"
| "validated vl (SetupInit dto _) = (\<exists>body. parseCreateUserDto vl body = Inr dto)"
| "validated vl (EditUserProfile nm) = (\<exists>body. parseEditUserDto vl body = Inr nm)"
| "validated vl (ServersCreate dto) = (\<exists>tf body. parseCreateServerDto vl tf body = Inr dto)"
| "validated vl _ = True"

text \<open>\<open>crypto.randomInt(1000, 10000)\<close>\<close>

definition draws_in_range :: "identity_draws \<Rightarrow> bool" where
  "draws_in_range dr \<longleftrightarrow> (\<forall>n. 1000 \<le> dr_suffix dr n \<and> dr_suffix dr n < 10000)"

lemma accepted_dto_typed: "parseCreateServerDto vl tf body = Inr dto \<Longrightarrow> dto_typed dto"
  using server_dto_in_range [of vl tf body dto] by (simp add: dto_typed_def server_typed_def new_server_def)

lemma kept_public_routes [guar_simps]:
  "guar types_kept (loginRoute env rq dto)"
  "guar types_kept (refreshRoute env rq)"
  "guar types_kept (verify2FARoute env rq tok)"
  "guar types_kept (updatePasswordRoute env rq g old new)"
  "guar types_kept (logoutRoute env rq g)"
  unfolding loginRoute_def refreshRoute_def verify2FARoute_def updatePasswordRoute_def logoutRoute_def
  by (auto intro!: guar_intros simp: guar_simps split: login_response.splits prod.splits)

lemma kept_publicRoute:
  assumes "validated vl ep" and "draws_in_range (av_draws env)"
  shows "guar types_kept (publicRoute env rq ep)"
  using assms by (cases ep)
    (auto simp: guar_simps kept_google registerRoute_def loginWithGoogleRoute_def draws_in_range_def
      intro!: guar_intros kept_named kept_googleLogin split: google_outcome.splits dest: registered_name_canonical)

lemma kept_accountRoute: "validated vl ep \<Longrightarrow> guar types_kept (accountRoute env rq g ep)"
  by (cases ep) (auto simp: guar_simps intro!: guar_intros kept_named dest: edited_name_canonical)

lemma kept_adminRoute: "guar types_kept (adminRoute env ep)"
  by (cases ep) (simp_all add: guar_simps guar_bindI)

lemma kept_serversRoute: "validated vl ep \<Longrightarrow> guar types_kept (serversRoute env g ep)"
  by (cases ep) (auto simp: guar_simps intro!: guar_intros kept_createServer accepted_dto_typed split: prod.splits)

lemma kept_guards: "guar types_kept (guards env ep rq)"
proof -
  have "guar types_kept (jwt_canActivate cr up pub rq)" for cr up pub
    unfolding jwt_canActivate_def verifyAccess_def dbSelect_def
    by (auto intro!: guar_intros simp: guar_simps
        split: option.splits json.splits jwt_result.splits sum.splits user_status.splits)
  moreover have "guar types_kept (permissions_canActivate up perm rq user)" for up perm user
    unfolding permissions_canActivate_def dbSelect_def by (auto intro!: guar_intros simp: guar_simps split: option.splits)
  ultimately show ?thesis unfolding guards_def by (auto intro!: guar_intros simp: guar_simps)
qed

lemma kept_api:
  assumes "validated vl ep" and "draws_in_range (av_draws env)"
  shows "guar types_kept (api env ep rq)"
  unfolding api_def handlerOf_def
  using assms kept_publicRoute kept_accountRoute kept_adminRoute kept_serversRoute kept_guards
  by (auto intro!: guar_intros simp: guar_simps split: option.splits)

section \<open>Every reachable state\<close>

text \<open>The requests whose bodies the pipe has accepted, and what runs at the start of the process.\<close>

inductive api_client :: "validator \<Rightarrow> (world, unit) prog \<Rightarrow> bool" for vl :: validator where
  ac_request: "validated vl ep \<Longrightarrow> draws_in_range (av_draws env) \<Longrightarrow> api_client vl (void (api env ep rq))"
| ac_servers: "api_client vl (onModuleInit dk)"
| ac_setup: "api_client vl (setup_onModuleInit cfg rnd)"

lemma kept_client: "api_client vl p \<Longrightarrow> guar types_kept p"
  by (induction rule: api_client.induct) (simp_all add: guar_simps kept_api kept_onModuleInit)

interpretation typed: step_invariant "api_client vl" system_env types_kept tables_typed for vl
proof unfold_locales
  show "api_client vl p \<Longrightarrow> guar types_kept p" for p by (rule kept_client)
  show "types_kept s s' \<Longrightarrow> tables_typed s \<Longrightarrow> tables_typed s'" for s s' by (simp add: types_kept_def)
  show "system_env s s' \<Longrightarrow> tables_typed s \<Longrightarrow> tables_typed s'" for s s'
    by (auto simp: system_env_def tick_def boot_def tables_typed_def)
qed

text \<open>
  C5. The tables stay well typed. Starting from well-typed tables (an empty database is), and whatever requests with
  accepted bodies are interleaved, by whomever, with any answers of Docker and Google and any restarts of the process, every
  account has a canonical user name and every server a name of 1 to 50 characters, a version of the
  accepted form, a port between 25565 and 25665, at least 512 MiB, 1 to 10000 players and a view
  distance of 2 to 32, although no constraint of the database says so.
\<close>

theorem tables_well_typed:
  assumes "reachable (api_client vl) system_env w0 c" and "tables_typed w0"
  shows "(\<forall>u \<in> set (users (fst c)). matches CANONICAL_USERNAME (u_username u))
    \<and> (\<forall>r \<in> set (servers (fst c)). 1 \<le> length (sv_name r) \<and> length (sv_name r) \<le> 50
         \<and> matches VERSION_PATTERN (sv_version r) \<and> 25565 \<le> sv_port r \<and> sv_port r \<le> 25665
         \<and> 512 \<le> sv_memoryLimitMb r \<and> 1 \<le> sv_maxPlayers r \<and> sv_maxPlayers r \<le> 10000
         \<and> 2 \<le> sv_viewDistance r \<and> sv_viewDistance r \<le> 32)"
  using typed.reachable_inv [OF assms] by (simp add: tables_typed_def list_all_iff user_typed_def server_typed_def)

text \<open>The first administrator of an empty database signs up with a name in capitals, which the pipe makes canonical.\<close>

definition admin_body :: "(string \<times> json) list" where
  "admin_body = [(''email'', JStr ''Root@Example.org''), (''username'', JStr '' Root_1 ''), (''password'', JStr ''Correct1Horse!'')]"

definition admin_dto :: register_dto where
  "admin_dto = (case parseCreateUserDto any_validator admin_body of Inr dto \<Rightarrow> dto | Inl _ \<Rightarrow> undefined)"

lemma admin_accepted: "parseCreateUserDto any_validator admin_body = Inr admin_dto"
proof -
  have "case parseCreateUserDto any_validator admin_body of Inr dto \<Rightarrow> True | Inl _ \<Rightarrow> False" by code_simp
  then show ?thesis by (auto simp: admin_dto_def split: sum.splits)
qed

definition setup_request :: request where
  "setup_request = root_request\<lparr>rq_method := ''POST'', rq_path := ''/api/setup'', rq_access_token := None, rq_params_id := None\<rparr>"

definition setup_api :: api_env where
  "setup_api = sample_api\<lparr>av_cfg := setup_config\<rparr>"

definition first_account :: "world \<times> (world, unit) prog list" where
  "first_account = foldl (\<lambda>c i. advance i c)
     (empty_world, [void (api setup_api (SetupInit admin_dto (setup_config ''SETUP_TOKEN'')) setup_request)]) [0, 0, 0, 0, 0]"

theorem tables_well_typed_witness:
  "map u_username (users (fst first_account)) = [''root_1''] \<and> matches CANONICAL_USERNAME ''root_1''"
proof -
  have one: "map u_username (users (fst first_account)) = [''root_1'']" by code_simp
  have "validated any_validator (SetupInit admin_dto (setup_config ''SETUP_TOKEN''))" using admin_accepted by auto
  then have "reachable (api_client any_validator) system_env empty_world first_account"
    unfolding first_account_def
    by (intro reachable_schedule reachable_one ac_request) (simp_all add: draws_in_range_def setup_api_def sample_api_def)
  from tables_well_typed [OF this] have "\<forall>u \<in> set (users (fst first_account)). matches CANONICAL_USERNAME (u_username u)"
    by (simp add: tables_typed_def empty_world_def)
  then have "list_all (matches CANONICAL_USERNAME) (map u_username (users (fst first_account)))" by (simp add: list_all_iff)
  then show ?thesis unfolding one by simp
qed

end
