(* ===== verification/RconExec.thy ===== *)
theory RconExec
  imports Samples
begin

text \<open>
  The RCON command of \<open>docker.service.ts\<close> at the level of its events. \<open>DockerService.executeRconCommand\<close> takes the answer of
  the exec session as one value; here the session is the machine the code builds: the calls to the daemon it
  awaits, the listeners \<open>drainExecStream\<close> puts on the stream and on the abort signal, and the deadline timer, with the
  events in any order. The theorems are about cleaning up, about the deadline, and
  that this machine refines the one-value view the rest of the development uses.
\<close>

section \<open>The session\<close>

definition RCON_EXEC_TIMEOUT_MS :: nat where "RCON_EXEC_TIMEOUT_MS = 10000"

text \<open>\<open>deferred.ts\<close>: a promise that is settled from outside; only the first call of \<open>resolve\<close> or \<open>reject\<close> counts.\<close>

type_synonym 'a deferred = "(cause + 'a) option"

definition settle :: "cause + 'a \<Rightarrow> 'a deferred \<Rightarrow> 'a deferred" where
  "settle r d = (case d of None \<Rightarrow> Some r | Some _ \<Rightarrow> d)"

text \<open>What \<open>executeRconCommand\<close> awaits: the exec instance, its stream, the end of the stream, its exit.\<close>

datatype rcon_phase = Creating | Starting | Draining | Inspecting | Finished "exn + unit"

text \<open>
  The timer with the milliseconds left (none once it has fired or is cleared), the abort signal and whether \<open>onAbort\<close> is
  registered on it, the stream (whether it was opened, has the listeners of \<open>drainExecStream\<close>, is destroyed), and the
  promise of \<open>drainExecStream\<close>.
\<close>

record rcon_session =
  re_phase :: rcon_phase
  re_deadline :: "nat option"
  re_aborted :: bool
  re_onAbort :: bool
  re_opened :: bool
  re_handlers :: bool
  re_destroyed :: bool
  re_drained :: "unit deferred"

text \<open>
  What can happen: an answer of the daemon, an event of the stream, the passing of time, or that the event loop resumes the method after
  the promise of \<open>drainExecStream\<close> is settled.
\<close>

datatype rcon_event =
    ExecAnswer "cause + unit" | StartAnswer "cause + unit" | StreamData string | StreamEnd | StreamError cause
  | Resume | InspectAnswer "cause + bool option \<times> int option" | Elapse nat

definition startRcon :: rcon_session where
  "startRcon = \<lparr>re_phase = Creating, re_deadline = Some RCON_EXEC_TIMEOUT_MS, re_aborted = False, re_onAbort = False,
     re_opened = False, re_handlers = False, re_destroyed = False, re_drained = None\<rparr>"

text \<open>The \<open>catch\<close> and \<open>finally\<close> blocks of the method.\<close>

definition finishRcon :: "cause + unit \<Rightarrow> rcon_session \<Rightarrow> rcon_session" where
  "finishRcon r s = s\<lparr>re_phase := Finished (case r of Inl error \<Rightarrow> Inl (rconFailure error) | Inr _ \<Rightarrow> Inr ()), re_deadline := None\<rparr>"

definition rconTimeout :: cause where
  "rconTimeout = Thrown (PlainError ''RCON exec timeout'')"

definition onAbort :: "rcon_session \<Rightarrow> rcon_session" where
  "onAbort s = s\<lparr>re_destroyed := True, re_drained := settle (Inl rconTimeout) (re_drained s)\<rparr>"

text \<open>Up to where \<open>drainExecStream\<close> returns its promise.\<close>

definition drainExecStream :: "rcon_session \<Rightarrow> rcon_session" where
  "drainExecStream s =
     (if re_aborted s then onAbort s
      else s\<lparr>re_onAbort := True, re_handlers := True\<rparr>)"

text \<open>\<open>abortController.abort()\<close>: the signal is set and its listener, registered with \<open>once\<close>, is run and removed.\<close>

definition abortRcon :: "rcon_session \<Rightarrow> rcon_session" where
  "abortRcon s =
     (let s' = s\<lparr>re_aborted := True, re_onAbort := False\<rparr>
      in if re_onAbort s then onAbort s' else s')"

definition elapse :: "nat \<Rightarrow> rcon_session \<Rightarrow> rcon_session" where
  "elapse ms s = (case re_deadline s of
     None \<Rightarrow> s
   | Some left \<Rightarrow> if left \<le> ms then abortRcon (s\<lparr>re_deadline := None\<rparr>) else s\<lparr>re_deadline := Some (left - ms)\<rparr>)"

definition resumeRcon :: "rcon_session \<Rightarrow> rcon_session" where
  "resumeRcon s = (case re_drained s of
     None \<Rightarrow> s
   | Some r \<Rightarrow>
       let s' = s\<lparr>re_destroyed := True\<rparr>
       in case r of Inl error \<Rightarrow> finishRcon (Inl error) s' | Inr _ \<Rightarrow> s'\<lparr>re_phase := Inspecting\<rparr>)"

definition inspectResult :: "bool option \<times> int option \<Rightarrow> cause + unit" where
  "inspectResult result = (if fst result \<noteq> Some False \<or> snd result \<noteq> Some 0
     then Inl (Thrown (RconUnavailableError ''RCON unavailable'')) else Inr ())"

text \<open>The listeners \<open>drainExecStream\<close> puts on the closing events of the stream.\<close>

definition streamClosed :: "cause + unit \<Rightarrow> rcon_session \<Rightarrow> rcon_session" where
  "streamClosed r s = (if re_handlers s then s\<lparr>re_onAbort := False, re_drained := settle r (re_drained s)\<rparr> else s)"

text \<open>An answer counts in the phase that waits for it; the listeners of the stream stay on it for good.\<close>

fun rconStep :: "rcon_event \<Rightarrow> rcon_session \<Rightarrow> rcon_session" where
  "rconStep (ExecAnswer r) s =
     (if re_phase s \<noteq> Creating then s
      else case r of Inl error \<Rightarrow> finishRcon (Inl error) s | Inr _ \<Rightarrow> s\<lparr>re_phase := Starting\<rparr>)"
| "rconStep (StartAnswer r) s =
     (if re_phase s \<noteq> Starting then s
      else case r of
        Inl error \<Rightarrow> finishRcon (Inl error) s
      | Inr _ \<Rightarrow> drainExecStream (s\<lparr>re_phase := Draining, re_opened := True\<rparr>))"
| "rconStep (StreamData chunk) s = s"
| "rconStep StreamEnd s = streamClosed (Inr ()) s"
| "rconStep (StreamError error) s = streamClosed (Inl error) s"
| "rconStep Resume s = (if re_phase s = Draining then resumeRcon s else s)"
| "rconStep (InspectAnswer r) s =
     (if re_phase s \<noteq> Inspecting then s
      else case r of Inl error \<Rightarrow> finishRcon (Inl error) s | Inr result \<Rightarrow> finishRcon (inspectResult result) s)"
| "rconStep (Elapse ms) s = elapse ms s"

definition rconRun :: "rcon_event list \<Rightarrow> rcon_session" where
  "rconRun evs = fold rconStep evs startRcon"

lemma rconRun_simps [simp]: "rconRun [] = startRcon" "rconRun (evs @ [ev]) = rconStep ev (rconRun evs)"
  by (simp_all add: rconRun_def)

section \<open>The invariant\<close>

text \<open>
  What holds between two events: \<open>onAbort\<close> is registered exactly while the drain is pending; the timer runs until it fires or
  the method ends; a stream that was opened is destroyed when the method is past the drain.
\<close>

definition session_ok :: "rcon_session \<Rightarrow> bool" where
  "session_ok s \<longleftrightarrow>
     (re_onAbort s \<longleftrightarrow> re_phase s = Draining \<and> re_drained s = None)
   \<and> (re_aborted s \<longrightarrow> re_deadline s = None)
   \<and> (re_handlers s \<longrightarrow> re_opened s)
   \<and> (case re_phase s of
        Creating \<Rightarrow> \<not> re_opened s \<and> (re_deadline s = None \<longrightarrow> re_aborted s)
      | Starting \<Rightarrow> \<not> re_opened s \<and> (re_deadline s = None \<longrightarrow> re_aborted s)
      | Draining \<Rightarrow> re_opened s \<and> (re_deadline s = None \<longrightarrow> re_aborted s)
      | Inspecting \<Rightarrow> re_opened s \<and> re_destroyed s \<and> re_drained s = Some (Inr ()) \<and> (re_deadline s = None \<longrightarrow> re_aborted s)
      | Finished r \<Rightarrow> re_deadline s = None \<and> (re_opened s \<longrightarrow> re_destroyed s \<and> re_drained s \<noteq> None))
   \<and> (re_phase s = Draining \<and> re_drained s = None \<longrightarrow> \<not> re_aborted s \<and> re_handlers s)
   \<and> (\<not> re_opened s \<longrightarrow> re_drained s = None)"

lemmas session_defs = session_ok_def finishRcon_def onAbort_def drainExecStream_def abortRcon_def elapse_def resumeRcon_def
  settle_def streamClosed_def Let_def

lemma start_ok [simp]: "session_ok startRcon"
  by (simp add: session_ok_def startRcon_def)

lemma elapse_cases:
  obtains "elapse ms s = s" | left where "re_deadline s = Some left" "elapse ms s = s\<lparr>re_deadline := Some (left - ms)\<rparr>" "ms < left"
  | left where "re_deadline s = Some left" "elapse ms s = abortRcon (s\<lparr>re_deadline := None\<rparr>)"
  by (cases "re_deadline s"; cases "the (re_deadline s) \<le> ms") (auto simp: elapse_def)

lemma abort_ok: "session_ok s \<Longrightarrow> re_deadline s = Some left \<Longrightarrow> session_ok (abortRcon (s\<lparr>re_deadline := None\<rparr>))"
  by (cases "re_onAbort s"; cases "re_phase s") (auto simp: session_ok_def abortRcon_def onAbort_def settle_def Let_def)

lemma elapse_ok: "session_ok s \<Longrightarrow> session_ok (elapse ms s)"
  by (cases rule: elapse_cases [of ms s]; cases "re_phase s") (auto simp: abort_ok, auto simp: session_ok_def)

lemma resume_ok: "session_ok s \<Longrightarrow> re_phase s = Draining \<Longrightarrow> session_ok (resumeRcon s)"
  by (auto simp: session_defs split: option.splits sum.splits)

lemma stream_ok: "session_ok s \<Longrightarrow> session_ok (streamClosed r s)"
  by (cases "re_phase s"; cases "re_drained s"; cases "re_handlers s") (auto simp: session_ok_def streamClosed_def settle_def)

lemma step_ok: "session_ok s \<Longrightarrow> session_ok (rconStep ev s)"
proof (cases ev)
  case (ExecAnswer r)
  then show "session_ok s \<Longrightarrow> ?thesis" by (auto simp: session_defs split: sum.splits)
next
  case (StartAnswer r)
  then show "session_ok s \<Longrightarrow> ?thesis" by (auto simp: session_defs split: sum.splits option.splits)
next
  case (InspectAnswer r)
  then show "session_ok s \<Longrightarrow> ?thesis" by (auto simp: session_defs split: sum.splits)
qed (auto simp: resume_ok elapse_ok stream_ok)

lemma run_ok: "session_ok (rconRun evs)"
  by (induction evs rule: rev_induct) (auto intro: step_ok)

section \<open>Cleaning up\<close>

lemma finished_step: "session_ok s \<Longrightarrow> re_phase s = Finished r \<Longrightarrow> re_phase (rconStep ev s) = Finished r"
  by (cases ev) (auto simp: session_ok_def elapse_def streamClosed_def)

text \<open>
  C14. An RCON command leaves nothing behind. Whatever the daemon answers and in whatever order the stream, the timer and the
  daemon act, when the method ends its deadline timer is cleared, no listener is left on the abort signal, the stream, if one was
  opened, is destroyed, and no later event changes the outcome.
\<close>

theorem rcon_cleans_up:
  assumes "re_phase (rconRun evs) = Finished r"
  shows "re_deadline (rconRun evs) = None \<and> \<not> re_onAbort (rconRun evs)
    \<and> (re_opened (rconRun evs) \<longrightarrow> re_destroyed (rconRun evs)) \<and> re_phase (rconRun (evs @ later)) = Finished r"
proof -
  have "re_phase (rconRun (evs @ later)) = Finished r"
    by (induction later rule: rev_induct)
      (use assms finished_step [OF run_ok] in \<open>auto simp: append_assoc [symmetric] simp del: append_assoc\<close>)
  then show ?thesis using assms run_ok [of evs] by (simp add: session_ok_def)
qed

theorem rcon_cleans_up_witness:
  "re_phase (rconRun ([ExecAnswer (Inr ()), StartAnswer (Inr ()), Elapse 10000, Resume] @ [StreamEnd]))
     = Finished (Inl (RconUnavailableError ''RCON unavailable''))"
proof -
  have "re_phase (rconRun [ExecAnswer (Inr ()), StartAnswer (Inr ()), Elapse 10000, Resume])
      = Finished (Inl (RconUnavailableError ''RCON unavailable''))" by code_simp
  from rcon_cleans_up [OF this, of "[StreamEnd]"] show ?thesis by blast
qed

section \<open>The deadline\<close>

fun elapsed :: "rcon_event list \<Rightarrow> nat" where
  "elapsed [] = 0"
| "elapsed (Elapse ms # evs) = ms + elapsed evs"
| "elapsed (_ # evs) = elapsed evs"

lemma elapsed_append [simp]: "elapsed (evs @ evs2) = elapsed evs + elapsed evs2"
  by (induction evs rule: elapsed.induct) auto

definition is_finished :: "rcon_session \<Rightarrow> bool" where
  "is_finished s = (case re_phase s of Finished _ \<Rightarrow> True | _ \<Rightarrow> False)"

lemma deadline_left: "re_deadline (rconRun evs) = Some left \<Longrightarrow> left + elapsed evs = RCON_EXEC_TIMEOUT_MS \<and> 0 < left"
proof (induction evs arbitrary: left rule: rev_induct)
  case (snoc ev evs)
  then show ?case
    by (cases ev) (auto simp: session_defs split: if_splits sum.splits option.splits)
qed (simp add: startRcon_def RCON_EXEC_TIMEOUT_MS_def)

text \<open>
  C15. The deadline is hard: once ten seconds have passed, in whatever portions and between whatever other events, the method has
  ended or its abort signal is set, on which the calls to the daemon depend; and if it was
  still draining the output, the drain is settled, so that the next turn of the event loop takes the method out
  of it. A stream that never ends cannot hold it.
\<close>

theorem rcon_deadline:
  assumes "RCON_EXEC_TIMEOUT_MS \<le> elapsed evs"
  shows "(is_finished (rconRun evs) \<or> re_aborted (rconRun evs)) \<and> re_phase (rconRun (evs @ [Resume])) \<noteq> Draining"
proof -
  have none: "re_deadline (rconRun evs) = None" using deadline_left [of evs] assms by (cases "re_deadline (rconRun evs)") auto
  then have "is_finished (rconRun evs) \<or> re_aborted (rconRun evs)"
    using run_ok [of evs] by (auto simp: session_ok_def is_finished_def split: rcon_phase.splits)
  moreover have "re_drained (rconRun evs) \<noteq> None" if "re_phase (rconRun evs) = Draining"
    using run_ok [of evs] none that by (auto simp: session_ok_def)
  ultimately show ?thesis by (auto simp: resumeRcon_def finishRcon_def Let_def split: option.splits sum.splits)
qed

theorem rcon_deadline_witness:
  "re_phase (rconRun ([ExecAnswer (Inr ()), Elapse 4000, StartAnswer (Inr ()), StreamData ''x'', Elapse 6000] @ [Resume])) \<noteq> Draining"
proof -
  have "RCON_EXEC_TIMEOUT_MS \<le> elapsed [ExecAnswer (Inr ()), Elapse 4000, StartAnswer (Inr ()), StreamData ''x'', Elapse 6000]"
    by code_simp
  from rcon_deadline [OF this] show ?thesis by blast
qed

section \<open>Refinement\<close>

text \<open>The four answers of a session: to the creation and the start of the exec, the end of its stream, and its inspection.\<close>

record rcon_answers =
  ra_exec :: "cause + unit"
  ra_start :: "cause + unit"
  ra_drain :: "cause + unit"
  ra_inspect :: "cause + bool option \<times> int option"

definition answersOf :: "dockerode \<Rightarrow> string \<Rightarrow> string list \<Rightarrow> rcon_answers" where
  "answersOf dk cid cmd = (let args = ''rcon-cli'' # cmd in
     \<lparr>ra_exec = dk_exec dk cid args, ra_start = dk_execStart dk cid args, ra_drain = dk_drain dk cid args,
      ra_inspect = dk_execInspect dk cid args\<rparr>)"

fun andThen :: "cause + 'a \<Rightarrow> ('a \<Rightarrow> cause + 'b) \<Rightarrow> cause + 'b" where
  "andThen (Inl e) f = Inl e"
| "andThen (Inr x) f = f x"

definition overall :: "rcon_answers \<Rightarrow> cause + unit" where
  "overall a = andThen (ra_exec a) (\<lambda>_. andThen (ra_start a) (\<lambda>_. andThen (ra_drain a) (\<lambda>_. andThen (ra_inspect a) inspectResult)))"

lemma rconOutcome_overall: "rconOutcome dk cid cmd = overall (answersOf dk cid cmd)"
  by (auto simp: rconOutcome_def overall_def answersOf_def inspectResult_def Let_def split: sum.splits)

text \<open>The events of a session with these answers, in any order and with any timing.\<close>

fun answered :: "rcon_answers \<Rightarrow> rcon_event \<Rightarrow> bool" where
  "answered a (ExecAnswer r) = (r = ra_exec a)"
| "answered a (StartAnswer r) = (r = ra_start a)"
| "answered a StreamEnd = (ra_drain a = Inr ())"
| "answered a (StreamError e) = (ra_drain a = Inl e)"
| "answered a (InspectAnswer r) = (r = ra_inspect a)"
| "answered a _ = True"

text \<open>What the answers say in each phase.\<close>

definition timed_out :: "rcon_session \<Rightarrow> bool" where
  "timed_out s \<longleftrightarrow> re_aborted s \<and> re_drained s = Some (Inl rconTimeout)"

definition ending :: "cause + unit \<Rightarrow> exn + unit" where
  "ending r = (case r of Inl error \<Rightarrow> Inl (rconFailure error) | Inr _ \<Rightarrow> Inr ())"

definition agrees :: "rcon_answers \<Rightarrow> rcon_session \<Rightarrow> bool" where
  "agrees a s \<longleftrightarrow>
     (re_drained s = None \<or> re_drained s = Some (ra_drain a) \<or> timed_out s)
   \<and> (case re_phase s of
        Creating \<Rightarrow> True
      | Starting \<Rightarrow> ra_exec a = Inr ()
      | Draining \<Rightarrow> ra_exec a = Inr () \<and> ra_start a = Inr ()
      | Inspecting \<Rightarrow> ra_exec a = Inr () \<and> ra_start a = Inr () \<and> ra_drain a = Inr ()
      | Finished r \<Rightarrow> r = ending (overall a) \<or> timed_out s \<and> r = ending (Inl rconTimeout))"

lemma finish_phase: "finishRcon r s = s\<lparr>re_phase := Finished (ending r), re_deadline := None\<rparr>"
  by (simp add: finishRcon_def ending_def)

lemma agrees_abort:
  assumes "session_ok s" and "agrees a s"
  shows "agrees a (abortRcon (s\<lparr>re_deadline := None\<rparr>))"
proof (cases "re_onAbort s")
  case True
  then have "re_phase s = Draining" "re_drained s = None" using assms(1) by (auto simp: session_ok_def)
  with True assms(2) show ?thesis by (simp add: agrees_def timed_out_def abortRcon_def onAbort_def settle_def Let_def)
next
  case False
  with assms(2) show ?thesis by (cases "re_phase s") (auto simp: agrees_def timed_out_def abortRcon_def Let_def)
qed

lemma agrees_elapse: "session_ok s \<Longrightarrow> agrees a s \<Longrightarrow> agrees a (elapse ms s)"
  by (cases rule: elapse_cases [of ms s]; cases "re_phase s") (auto simp: agrees_abort, auto simp: agrees_def timed_out_def)

lemma agrees_resume:
  assumes "agrees a s" and "re_phase s = Draining"
  shows "agrees a (resumeRcon s)"
proof (cases "re_drained s")
  case (Some r)
  with assms consider "r = ra_drain a" | "timed_out s" "r = Inl rconTimeout" by (auto simp: agrees_def timed_out_def)
  then show ?thesis
    using assms Some
    by cases (auto simp: resumeRcon_def agrees_def finish_phase timed_out_def overall_def Let_def split: sum.splits)
qed (use assms in \<open>simp add: resumeRcon_def\<close>)

lemma agrees_stream:
  assumes "agrees a s" and "session_ok s" and "ra_drain a = r"
  shows "agrees a (streamClosed r s)"
proof (cases "re_drained s")
  case None
  then have "re_phase s = Draining \<or> \<not> re_handlers s" using assms(2) by (cases "re_phase s") (auto simp: session_ok_def)
  with None assms show ?thesis by (auto simp: agrees_def streamClosed_def settle_def)
next
  case (Some q)
  with assms(1) show ?thesis by (cases "re_phase s") (auto simp: agrees_def streamClosed_def settle_def timed_out_def)
qed

lemma agrees_step:
  assumes "agrees a s" and "answered a ev" and "session_ok s"
  shows "agrees a (rconStep ev s)"
proof (cases ev)
  case (ExecAnswer r)
  then show ?thesis using assms
    by (cases "re_phase s"; cases "ra_exec a") (auto simp: agrees_def finish_phase overall_def timed_out_def)
next
  case (StartAnswer r)
  with assms(2) have r: "r = ra_start a" by simp
  show ?thesis
  proof (cases "re_phase s = Starting")
    case True
    then have "re_drained s = None" "ra_exec a = Inr ()" using assms by (auto simp: session_ok_def agrees_def)
    then show ?thesis unfolding StartAnswer r using True
      by (cases "ra_start a") (simp_all add: agrees_def finish_phase overall_def timed_out_def drainExecStream_def onAbort_def settle_def)
  qed (simp add: StartAnswer assms(1))
next
  case (InspectAnswer r)
  then show ?thesis using assms
    by (cases "re_phase s"; cases "ra_inspect a") (auto simp: agrees_def finish_phase overall_def timed_out_def)
next
  case StreamEnd
  then show ?thesis using agrees_stream [OF assms(1,3)] assms(2) by simp
next
  case (StreamError e)
  then show ?thesis using agrees_stream [OF assms(1,3)] assms(2) by simp
qed (use assms in \<open>simp_all add: agrees_resume agrees_elapse\<close>)

lemma agrees_run: "\<forall>ev \<in> set evs. answered a ev \<Longrightarrow> agrees a (rconRun evs)"
proof (induction evs rule: rev_induct)
  case Nil
  show ?case by (simp add: agrees_def startRcon_def)
next
  case (snoc ev evs)
  then show ?case using agrees_step [OF _ _ run_ok] by simp
qed

text \<open>
  C13. The session refines the answer the rest of the service sees. If the calls are answered by a daemon \<open>dk\<close>, then whatever the order and
  timing of the events, the method ends, when it ends, with the result \<open>executeRconCommand\<close> has with \<open>dk\<close>
  as one value, unless the deadline cut the drain short, and then RCON is unavailable.
\<close>

theorem rcon_session_refines:
  assumes "validateRconCommand cmd = Inr ()" and "\<forall>ev \<in> set evs. answered (answersOf dk cid cmd) ev"
    and "re_phase (rconRun evs) = Finished r"
  shows "r = fst (run (executeRconCommand dk cid cmd) w)
    \<or> re_aborted (rconRun evs) \<and> r = Inl (RconUnavailableError ''RCON unavailable'')"
proof -
  have "fst (run (executeRconCommand dk cid cmd) w) = ending (overall (answersOf dk cid cmd))"
    by (simp add: executeRconCommand_def assms(1) dcall_def ending_def flip: rconOutcome_overall split: sum.splits)
  moreover have "ending (Inl rconTimeout) = Inl (RconUnavailableError ''RCON unavailable'')"
    by (simp add: ending_def rconFailure_def rconTimeout_def)
  ultimately show ?thesis using agrees_run [OF assms(2)] assms(3) by (auto simp: agrees_def timed_out_def)
qed

theorem rcon_session_refines_witness:
  "re_phase (rconRun [Elapse 20, ExecAnswer (Inr ()), StartAnswer (Inr ()), StreamData ''ok'', StreamEnd, Resume,
       InspectAnswer (Inr (Some False, Some 0))]) = Finished (Inr ())
   \<and> fst (run (executeRconCommand willing_dockerode ''c1'' [''save-all'']) sample_world) = Inr ()"
proof -
  let ?evs = "[Elapse 20, ExecAnswer (Inr ()), StartAnswer (Inr ()), StreamData ''ok'', StreamEnd, Resume,
       InspectAnswer (Inr (Some False, Some 0))]"
  have fin: "re_phase (rconRun ?evs) = Finished (Inr ())" by code_simp
  have "validateRconCommand [''save-all''] = Inr ()" by code_simp
  moreover have "\<forall>ev \<in> set ?evs. answered (answersOf willing_dockerode ''c1'' [''save-all'']) ev"
    by (simp add: willing_dockerode_def answersOf_def)
  ultimately have "Inr () = fst (run (executeRconCommand willing_dockerode ''c1'' [''save-all'']) sample_world)"
    using rcon_session_refines [OF _ _ fin] by blast
  with fin show ?thesis by simp
qed

end
