(* ===== verification/Spec2Isabelle.thy ===== *)
theory Spec2Isabelle
  imports Visibility GoogleProperties ConfigProperties ExceptionFilter ApiProperties MetricsDelivery DtoProperties
    AppModules Postbuild LintTypesProperties LintRuleProperties RowTypes RconExec LifecycleSmoke
begin

text \<open>
  \<^bold>\<open>The MinePanel backend.\<close>

  MinePanel is a panel for Minecraft servers that run as Docker containers. The backend is a NestJS process over one
  PostgreSQL database and one Docker daemon: accounts with passwords, two factors, Google sign-in and refresh tokens; servers
  with a life cycle, admission control and per-user access; an administration of accounts; a setup that creates
  the first administrator once; and a Socket.IO gateway that shows live metrics of the host to administrators. This
  library models its services, guards, controllers and gateway, and proves what they promise; it also models the
  start of the process with its migrations, the post-build step, the lifecycle smoke test, and the repository's own lint rules. File names
  below are relative to \<open>src/src/\<close> unless they begin with \<open>scripts/\<close> or \<open>tools/\<close>.

  \<^bold>\<open>How the code is modelled.\<close>

  \<^item> \<^emph>\<open>State.\<close> \<open>Schema\<close> has the tables of \<open>db/schema.ts\<close> as lists of records in one record \<open>world\<close>, together with the
    clock, the log of calls to the Docker daemon and the services' state in memory (failure counters, the bootstrap token).
    \<open>db_ok\<close> is the conjunction of the schema's unique, check and foreign-key constraints and of the lengths of its \<open>varchar\<close>
    columns; a statement that would violate one fails with the SQL state of PostgreSQL. The gateway's state is the record
    \<open>gateway\<close>, which contains the world.
  \<^item> \<^emph>\<open>Methods.\<close> An \<open>async\<close> method is a program of the type \<open>prog\<close> of \<open>Prelude\<close>: a tree of atomic steps that
    ends with a value or an exception. An atomic step is one SQL statement, one database transaction, one change
    of a service's memory, or one call of an outside system; everything between two steps of one method may be taken by steps
    of others. A transaction is one step because those of the source lock the rows or tables they decide on (\<open>FOR UPDATE\<close>,
    \<open>LOCK TABLE\<close>) or consist of one conditional statement; the one read of the grants that takes no lock, of the server of a scope, is a step of its
    own. A rejected transaction leaves the state as it was.
  \<^item> \<^emph>\<open>Two semantics.\<close> \<open>run\<close> executes one method alone; \<open>reachable\<close> interleaves any number of methods at
    their atomic steps, with an environment (the clock, restarts of the process, changes of the database) in between.
  \<^item> \<^emph>\<open>Errors\<close> are values of \<open>exn\<close>, one constructor for each exception class the source throws.
  \<^item> \<^emph>\<open>Numbers and strings.\<close> Where the source computes with JavaScript numbers, \<open>JsNumber\<close> models them as IEEE-754
    doubles (an exact rational or an infinity, NaN; rounding to nearest, ties to even); identifiers, ports and
    times are integers. A string is a list of characters below U+0100, one per UTF-16 unit. \<open>JsRegex\<close> matches the
    regular expressions of the source by derivatives, and is proved equal to the language they denote.
  \<^item> \<^emph>\<open>Parameters.\<close> Code outside the repository is an argument of the definitions that use it: bcrypt, SHA-256,
    AES-GCM, TOTP and the JWT library (\<open>crypto\<close>), the Docker daemon with \<open>statfs\<close> and \<open>freemem\<close> (\<open>dockerode\<close>), Google's
    token verifier, the URL parser, the throttler, the e-mail and UUID checks of \<open>class-validator\<close>, random identifiers, and
    the configuration. The controllers take the pipe's verdict as an argument; \<open>Dto\<close> defines it for each DTO class.

  \<^bold>\<open>Which theory models what, and what it shows.\<close>

  \<^item> \<open>Prelude\<close>: programs, their semantics, and the two ways to reason about them, \<open>guar\<close> (a relation that every
    atomic step satisfies) and \<open>rg\<close> (rely, guarantee and postcondition). The locale \<open>step_invariant\<close> is the contract
    between a service and the event loop: an invariant that the steps of the handlers and the environment keep holds in every
    reachable state. The locale \<open>single_use\<close> extends it to credentials that can be used once. \<open>JsRegex\<close>, \<open>JsString\<close>,
    \<open>JsNumber\<close>: the parts of the language. \<open>Samples\<close>: rows and daemons on which properties are instantiated.
  \<^item> \<open>Schema\<close> (\<open>db/schema.ts\<close>), \<open>DockerService\<close> (\<open>docker/docker.service.ts\<close>), \<open>ServersService\<close>
    (\<open>servers/servers.service.ts\<close>): create, list, get, start, stop, restart, delete and the reconciliation at start.
    \<open>Lifecycle\<close> shows that every step of every interleaving follows the edges of the life-cycle graph and that a failed server stays
    failed until a restart; \<open>Admission\<close> that claims never commit more memory than the admission limit and that the limit, computed
    in doubles, is below the host's memory; \<open>ServersOutcomes\<close> gives abstract specifications of start, stop, restart
    and delete and proves that the methods meet them on every branch, and it has the interleaving in which a delete is lost.
    \<open>Visibility\<close> compares the state with the one from which a server is missing: a server that is denied to a caller cannot be told from one
    that does not exist, except by the end points that show servers with access on request.
    \<open>RconExec\<close> looks into the one call that \<open>DockerService\<close> takes as a single answer, the exec session of an RCON command: its
    daemon answers, stream listeners, abort signal and deadline as a machine of events. It cleans up in every order of events, its deadline
    is hard, and it refines the single answer.
  \<^item> \<open>ServerAccessService\<close> (\<open>servers/server-access.service.ts\<close>): requests and approvals with their retry loops, which report
    only states the row really had, and end within a fixed number of statements whatever others do.
  \<^item> \<open>Crypto\<close>, \<open>UsersService\<close>, \<open>AdminService\<close>, \<open>LoginAbuse\<close>, \<open>AuthService\<close>: accounts (\<open>users/\<close>, \<open>admin/\<close>, \<open>auth/\<close>).
    The locale \<open>failure_counter\<close> of \<open>LoginAbuse\<close> is the contract of the three windowed counters of failures. \<open>AuthProperties\<close>
    shows that refresh tokens work once, and what a ban and a reset do; \<open>LoginProperties\<close> what a session requires,
    that wrong second factors lock the account, what a change of password leaves, and that a temporary password opens one session.
  \<^item> \<open>GoogleOAuth\<close> (\<open>auth/identity.service.ts\<close>, \<open>google-token.service.ts\<close>, \<open>google-oauth.service.ts\<close>,
    \<open>oauth-challenge.service.ts\<close>) and \<open>GoogleProperties\<close>: derived user names, whose account a sign-in opens, and the bound on the
    retries. \<open>SetupService\<close> (\<open>setup/setup.service.ts\<close>).
  \<^item> \<open>System\<close>: all services on one database. Which tables each leaves alone, one guarantee for every step of every
    handler, and from it the invariants of the whole: constraints, grants of moderators only, an active administrator from the
    setup on, one setup, challenges that are spent once.
  \<^item> \<open>Guards\<close> (\<open>auth/guards/\<close>, \<open>auth/access-token.service.ts\<close>, \<open>common/guards/\<close>, \<open>common/cors-origin.ts\<close>), \<open>Controllers\<close> (the
    controllers and the order of guards of \<open>app.module.ts\<close>) and \<open>ApiProperties\<close>: no request has an effect without the account, role
    and permission its route asks for.
  \<^item> \<open>Dto\<close> (\<open>auth/dto\<close>, \<open>admin/dto\<close>, \<open>servers/dto\<close> and the validation pipe of \<open>main.ts\<close>) and \<open>DtoProperties\<close>: a body the pipe accepts for
    a new server leads to a confined container, and user names arrive in canonical form. \<open>RowTypes\<close> carries this into the database: under
    every interleaving of requests with accepted bodies the rows of accounts and servers keep the ranges that only the pipe checks.
  \<^item> \<open>Config\<close>, \<open>ConfigProperties\<close> (\<open>auth/refresh-token-ttl.ts\<close>, \<open>auth/auth-cookies.ts\<close>, the preflight of \<open>main.ts\<close>):
    exact life times. \<open>ExceptionFilter\<close> (\<open>common/filters/db-exception.filter.ts\<close>): every error becomes a well-formed response
    that can be traced by its request id; its message is a fixed text or that of a thrown \<open>HttpException\<close>.
  \<^item> \<open>Gateway\<close> (\<open>gateway/\<close>), \<open>GatewayProperties\<close>, \<open>MetricsDelivery\<close>: pending connections are bounded, the count of administrators and
    the polling fit the sockets there are, and snapshots reach only administrators whose tokens are still good, all of them at the immediate poll after an
    authentication; the packets of periodic polls are volatile, and a parameter says whose transport is writable. The age of the cached
    snapshot is measured by a clock of its own (\<open>performance.now()\<close>), which advances independently of the wall clock.

  \<^item> \<open>Migrate\<close> (\<open>db/migrate.ts\<close> and the start of \<open>main.ts\<close>) and \<open>MigrateProperties\<close>: \<open>runProductionMigrations\<close> is a state
    machine that advances at its awaits; \<open>cluster_run\<close> interleaves any number of such processes on PostgreSQL's advisory lock, with
    lock connections that the client closes (its options exclude that) or that are lost. One process migrates at a time as long as the lock
    connections are kept, all of them finish, no accepted journal leads outside its folder, and a production process serves only
    after its own migration has succeeded and ended. \<open>AppModules\<close> adds the factories of the Docker client and of
    the database connection (\<open>docker/docker.module.ts\<close>, \<open>db/db.module.ts\<close>) and the settings that \<open>bootstrap\<close> makes on the application,
    which agree with the guards. \<open>Postbuild\<close> (\<open>scripts/postbuild.mjs\<close>): a build that succeeds ships no specifier of the source tree.
    \<open>LifecycleSmoke\<close> (\<open>scripts/docker-lifecycle-smoke.mjs\<close>): the release test as a program; the container the panel builds for it passes
    its checks when the image is tagged (an untagged one passes the script's guard and is refused by the panel), its waits are bounded, and it cleans up whatever fails.
  \<^item> The lint rules of \<open>tools/oxlint/anti-slop\<close>. \<open>LintTypes\<close> has the syntax of types and \<open>shared/dictionary-types.ts\<close>;
    \<open>LintTypesProperties\<close> shows for which modules that analysis ends and gives one for which it never does. \<open>LintNodes\<close> has the parents
    of a node and the type parameters in scope. \<open>LintAliases\<close> has the rules that follow aliases; its locale \<open>alias_search\<close> is the contract
    of a depth-first search with visited names, and its client lemmas say that such a search is exact. It is interpreted for the three
    rules and, in \<open>LintRuleProperties\<close>, for values followed through constants. \<open>LintRules\<close>, \<open>LintExpressions\<close> and \<open>LintFlows\<close> have the other
    rules, each as what its handler reports at a node; \<open>LintAliasProperties\<close> and \<open>LintRuleProperties\<close> say what they find.

  \<^bold>\<open>Loops.\<close> The retry loops of the source count their attempts, and the model recurses on the same
  counter with a termination measure; the loops over rows and map entries are structural, and the polling loop of the smoke test decreases the time to its deadline. Every program is a finite-depth tree, so
  \<open>run\<close> is total. \<open>ends_within\<close> bounds the number of steps where the source bounds its retries. Fuel occurs in one place: the
  analysis of \<open>shared/dictionary-types.ts\<close> can recurse without end, so its definitions take the depth of calls that the stack
  allows and give \<open>None\<close> when it is exceeded; \<open>dictionary_analysis_ends\<close> says which depth is enough for modules without
  generic aliases.

  \<^bold>\<open>Not modelled.\<close> What Nest, Express and Swagger do with the settings of \<open>main.ts\<close> and of the module classes; logging, except the error
  log line; the response fields that Swagger documents; the texts of lint messages and the linter's traversal of a module; and the
  remaining scripts of \<open>scripts/\<close> (\<open>check-deployment-contract.mjs\<close>, \<open>check-package-scripts.mjs\<close>, \<open>totp-smoke.mjs\<close>), which are lists of text searches
  in the repository's files and a call of the built TOTP module.
\<close>

end
